(* ===== verification/Linkmgr_Prelude.thy ===== *)
theory Linkmgr_Prelude
  imports Main "HOL-Library.Word" "HOL-Library.Monad_Syntax"
begin

text \<open>
  Prelude of the linkmgrd development: the integer types of the code, the retry counter
  test that every state class uses, the capped doubling of the backoff factors, a small
  calculus for the steps that may throw (values of type \<open>'a option\<close>, \<open>None\<close> for an
  exception), and the two interfaces that several components share:
  \<^item> \<open>retry_counter\<close>: an 8-bit counter of consecutive events, compared with a 32-bit threshold;
  \<^item> \<open>event_machine\<close>: a state machine that posts its new label whenever the label changes.
\<close>

section \<open>Integer types and collections\<close>

type_synonym u8 = "8 word"
type_synonym u16 = "16 word"
type_synonym u32 = "32 word"
type_synonym u64 = "64 word"

named_theorems lm_defs "definitions of the modelled operations, for symbolic evaluation"

section \<open>Retry counters\<close>

text \<open>
  Every state class keeps \<open>uint8_t\<close> event counters and tests
  \<open>++counter >= getRetryCount()\<close> where the retry count is a \<open>uint32_t\<close>. The increment wraps
  at 256; the comparison is made on the widened value.
\<close>

definition count_reached :: "u8 \<Rightarrow> u32 \<Rightarrow> bool" where
  "count_reached c n \<longleftrightarrow> n \<le> ucast c"

lemma unat_u8_less: "unat (c :: u8) < 256"
  using unsigned_less [of c] by simp

lemma unat_ucast_u8_u32: "unat (ucast (c :: u8) :: u32) = unat c"
  using unat_u8_less [of c] by (simp add: unsigned_ucast_eq take_bit_nat_eq_self)

lemma count_reached_unat: "count_reached c n \<longleftrightarrow> unat n \<le> unat c"
  by (simp add: count_reached_def word_le_nat_alt unat_ucast_u8_u32)

lemma count_reached_bound: "255 < unat n \<Longrightarrow> \<not> count_reached c n"
  using unat_u8_less [of c] by (simp add: count_reached_unat)

lemma unat_of_nat_u8: "k < 256 \<Longrightarrow> unat (of_nat k :: u8) = k"
  by (simp add: unat_of_nat)

section \<open>Capped doubling\<close>

text \<open>
  \<open>factor <<= 1; factor = factor > MAX_BACKOFF_FACTOR ? MAX_BACKOFF_FACTOR : factor\<close> on a
  \<open>uint32_t\<close>, used by every backoff factor.
\<close>

definition backoff_double :: "u32 \<Rightarrow> u32 \<Rightarrow> u32" where
  "backoff_double cap f = (let f' = push_bit 1 f in if cap < f' then cap else f')"

lemma unat_backoff_double:
  assumes "unat f < 2 ^ 31"
  shows "unat (backoff_double cap f) = min (unat cap) (2 * unat f)"
proof -
  have "unat (push_bit 1 f) = 2 * unat f"
    using assms by (simp add: push_bit_eq_mult unat_word_ariths)
  then show ?thesis
    by (simp add: backoff_double_def Let_def word_less_nat_alt min_def)
qed

lemma backoff_double_bounds:
  assumes "1 \<le> unat f" "unat f \<le> unat cap" "1 \<le> unat cap" "unat cap < 2 ^ 31"
  shows "1 \<le> unat (backoff_double cap f) \<and> unat (backoff_double cap f) \<le> unat cap"
  using assms by (simp add: unat_backoff_double)

definition factor_ok :: "u32 \<Rightarrow> u32 \<Rightarrow> bool" where
  "factor_ok cap f \<longleftrightarrow> 1 \<le> unat f \<and> unat f \<le> unat cap"

lemma factor_ok_one: "1 \<le> unat cap \<Longrightarrow> factor_ok cap 1"
  by (simp add: factor_ok_def)

lemma factor_ok_backoff_double:
  "factor_ok cap f \<Longrightarrow> unat cap < 2 ^ 31 \<Longrightarrow> factor_ok cap (backoff_double cap f)"
  unfolding factor_ok_def by (rule backoff_double_bounds) auto

section \<open>Steps that may throw\<close>

text \<open>
  A handler that may throw returns \<open>None\<close> in that case. \<open>ok b P m\<close> says that \<open>m\<close> returns
  normally if \<open>b\<close> holds, and that every normal return satisfies \<open>P\<close>; the rules push it
  through the sequencing of the \<open>do\<close> notation. With \<open>b = False\<close> it is partial correctness.
\<close>

definition ok :: "bool \<Rightarrow> ('a \<Rightarrow> bool) \<Rightarrow> 'a option \<Rightarrow> bool" where
  "ok b P m = (case m of None \<Rightarrow> \<not> b | Some x \<Rightarrow> P x)"

lemma ok_Some [simp]: "ok b P (Some x) = P x"
  by (simp add: ok_def)

lemma ok_None [simp]: "ok b P None = (\<not> b)"
  by (simp add: ok_def)

lemma ok_bind: "ok b Q (Option.bind m f) = ok b (\<lambda>x. ok b Q (f x)) m"
  by (cases m) simp_all

lemma ok_if: "ok b P (if c then m else m') = (if c then ok b P m else ok b P m')"
  by simp

lemma ok_mono: "ok b P m \<Longrightarrow> (\<And>x. P x \<Longrightarrow> Q x) \<Longrightarrow> ok b Q m"
  by (cases m) simp_all

lemma ok_bindI: "ok b P m \<Longrightarrow> (\<And>x. P x \<Longrightarrow> ok b Q (f x)) \<Longrightarrow> ok b Q (Option.bind m f)"
  by (cases m) simp_all

lemma ok_bind_pairI:
  "ok b (case_prod P) m \<Longrightarrow> (\<And>x y. P x y \<Longrightarrow> ok b Q (f (x, y))) \<Longrightarrow> ok b Q (Option.bind m f)"
  by (cases m) auto

lemma ok_ifI: "(c \<Longrightarrow> ok b P m) \<Longrightarrow> (\<not> c \<Longrightarrow> ok b P m') \<Longrightarrow> ok b P (if c then m else m')"
  by simp

lemma ok_SomeD: "ok b P m \<Longrightarrow> m = Some x \<Longrightarrow> P x"
  by simp

lemma ok_TrueD: "ok True P m \<Longrightarrow> \<exists>x. m = Some x \<and> P x"
  by (cases m) simp_all

lemmas ok_rules = ok_bind ok_if

section \<open>The retry counter interface\<close>

text \<open>
  \<open>handle\<close> is the handler of one kind of event in one state class, seen through the
  counter it increments. It stays until the incremented counter reaches the threshold.
\<close>

locale retry_counter =
  fixes handle :: "'st \<Rightarrow> 'st \<times> 'lbl"
    and count :: "'st \<Rightarrow> u8"
    and stay :: 'lbl
    and go :: 'lbl
    and threshold :: u32
  assumes count_step: "count (fst (handle s)) = count s + 1"
    and outcome: "snd (handle s) = (if count_reached (count s + 1) threshold then go else stay)"
    and stay_go: "stay \<noteq> go"
begin

lemma count_after: "count (((\<lambda>s. fst (handle s)) ^^ k) s) = count s + of_nat k"
proof (induction k)
  case (Suc k)
  then show ?case by (simp add: count_step)
qed simp

lemma fires_at_threshold:
  assumes "count s = 0" and "k < 255"
  shows "snd (handle (((\<lambda>s. fst (handle s)) ^^ k) s)) = (if unat threshold \<le> Suc k then go else stay)"
proof -
  have "count (((\<lambda>s. fst (handle s)) ^^ k) s) + 1 = of_nat (Suc k)"
    using assms(1) by (simp add: count_after)
  moreover have "unat (of_nat (Suc k) :: u8) = Suc k"
    using assms(2) by (intro unat_of_nat_u8) simp
  ultimately show ?thesis
    by (simp only: outcome count_reached_unat)
qed

lemma never_fires: "255 < unat threshold \<Longrightarrow> snd (handle s) = stay"
  by (simp add: outcome count_reached_bound)

end

section \<open>The event machine interface\<close>

text \<open>
  \<open>processEvent\<close> of the three sub-machines of a port (link prober, MUX, link): handle one
  event, and post the new label to the link manager exactly when it changed.
\<close>

fun run_events :: "('ev \<Rightarrow> 'sm \<Rightarrow> 'sm \<times> 'lbl list) \<Rightarrow> 'ev list \<Rightarrow> 'sm \<Rightarrow> 'sm \<times> 'lbl list" where
  "run_events p [] s = (s, [])"
| "run_events p (e # es) s =
     (case p e s of (s1, out) \<Rightarrow> (case run_events p es s1 of (s2, out') \<Rightarrow> (s2, out @ out')))"

locale event_machine =
  fixes process :: "'ev \<Rightarrow> 'sm \<Rightarrow> 'sm \<times> 'lbl list"
    and current :: "'sm \<Rightarrow> 'lbl"
  assumes posts: "snd (process e s) =
    (if current (fst (process e s)) = current s then [] else [current (fst (process e s))])"
begin

lemma last_posted: "last (current s # snd (run_events process es s)) = current (fst (run_events process es s))"
proof (induction es arbitrary: s)
  case (Cons e es)
  obtain s1 out where p: "process e s = (s1, out)" by force
  obtain s2 out' where r: "run_events process es s1 = (s2, out')" by force
  have "out = (if current s1 = current s then [] else [current s1])"
    using posts [of e s] by (simp only: p fst_conv snd_conv)
  moreover have "last (current s1 # out') = current s2"
    using Cons.IH [of s1] r by simp
  ultimately show ?case using p r by (auto split: if_splits)
qed simp

lemma posted_distinct_adj: "distinct_adj (current s # snd (run_events process es s))"
proof (induction es arbitrary: s)
  case (Cons e es)
  obtain s1 out where p: "process e s = (s1, out)" by force
  obtain s2 out' where r: "run_events process es s1 = (s2, out')" by force
  have "out = (if current s1 = current s then [] else [current s1])"
    using posts [of e s] by (simp only: p fst_conv snd_conv)
  moreover have "distinct_adj (current s1 # out')"
    using Cons.IH [of s1] r by simp
  ultimately show ?case using p r by (auto simp: distinct_adj_Cons)
qed simp

end

section \<open>The debounce interface\<close>

text \<open>
  A machine in state \<open>stay\<close> that leaves for \<open>go\<close> when the event \<open>ev\<close> has been seen
  \<open>threshold\<close> times in a row, counted in 8 bits.
\<close>

locale debounce =
  fixes process :: "'ev \<Rightarrow> 'sm \<Rightarrow> 'sm \<times> 'lbl list"
    and current :: "'sm \<Rightarrow> 'lbl"
    and count :: "'sm \<Rightarrow> u8"
    and ev :: 'ev
    and stay :: 'lbl
    and go :: 'lbl
    and threshold :: u32
  assumes step_stay: "current s = stay \<Longrightarrow> \<not> count_reached (count s + 1) threshold \<Longrightarrow>
      snd (process ev s) = [] \<and> current (fst (process ev s)) = stay \<and> count (fst (process ev s)) = count s + 1"
    and step_go: "current s = stay \<Longrightarrow> count_reached (count s + 1) threshold \<Longrightarrow>
      snd (process ev s) = [go] \<and> current (fst (process ev s)) = go"
begin

lemma counting:
  assumes "current s = stay" and "unat (count s) < max 1 (unat threshold)"
    and "max 1 (unat threshold) \<le> 255" and "unat (count s) + k \<le> max 1 (unat threshold)"
  shows "snd (run_events process (replicate k ev) s) =
    (if unat (count s) + k = max 1 (unat threshold) then [go] else [])"
  using assms
proof (induction k arbitrary: s)
  case (Suc k)
  obtain s1 out where p: "process ev s = (s1, out)" by force
  have c: "unat (count s + 1) = unat (count s) + 1"
    using Suc.prems(2,3) by (simp add: unat_word_ariths)
  show ?case
  proof (cases "count_reached (count s + 1) threshold")
    case True
    then have "k = 0" "unat (count s) + 1 = max 1 (unat threshold)"
      using Suc.prems(2,4) c by (auto simp: count_reached_unat)
    then show ?thesis using step_go [OF Suc.prems(1) True] p by simp
  next
    case False
    then have "unat (count s) + 1 < max 1 (unat threshold)"
      using c by (simp add: count_reached_unat)
    moreover have "out = [] \<and> current s1 = stay \<and> count s1 = count s + 1"
      using step_stay [OF Suc.prems(1) False] p by simp
    ultimately show ?thesis using Suc.IH [of s1] Suc.prems p c by (auto split: prod.splits)
  qed
qed simp

lemma exact:
  assumes "current s = stay" and "count s = 0" and "unat threshold \<le> 255" and "k \<le> max 1 (unat threshold)"
  shows "snd (run_events process (replicate k ev) s) = (if k = max 1 (unat threshold) then [go] else [])"
  using counting [of s k] assms by simp

lemma never:
  assumes "255 < unat threshold"
  shows "current s = stay \<Longrightarrow> snd (run_events process (replicate k ev) s) = []"
proof (induction k arbitrary: s)
  case (Suc k)
  obtain s1 out where p: "process ev s = (s1, out)" by force
  have "out = [] \<and> current s1 = stay"
    using step_stay [OF Suc.prems] count_reached_bound [OF assms] p by simp
  then show ?case using Suc.IH [of s1] p by (simp split: prod.splits)
qed simp

end

section \<open>Unfolding sequences step by step\<close>

lemma Let_elim: "(let x = e in f x) = y \<Longrightarrow> (\<And>x. x = e \<Longrightarrow> f x = y \<Longrightarrow> R) \<Longrightarrow> R"
  by (simp add: Let_def)

lemma bind_Some_elim: "Option.bind m f = Some y \<Longrightarrow> (\<And>x. m = Some x \<Longrightarrow> f x = Some y \<Longrightarrow> R) \<Longrightarrow> R"
  by (auto simp: bind_eq_Some_conv)

end
