(* ===== verification/Port_Types.thy ===== *)
theory Port_Types
  imports Linkmgr_Prelude
begin

text \<open>
  The vocabulary of one MUX port: the labels of the three sub-machines
  (\<open>link_prober/LinkProberState.h\<close>, \<open>mux_state/MuxState.h\<close>, \<open>link_state/LinkState.h\<close>), the
  enumerations of the link manager, the events of the sub-machines, the tasks that are
  posted to the port's strand and the calls a handler makes to the MUX port and to the
  link prober. The \<open>Count\<close> sentinels of the C++ enumerations are array bounds only and have
  no constructor.
\<close>

section \<open>Labels\<close>

datatype link_label = LinkUp | LinkDown

datatype mux_label = MuxActive | MuxStandby | MuxUnknown | MuxError | MuxWait

datatype prober_label =
    ProberActive | ProberStandby | ProberUnknown | ProberWait
  | ProberPeerWait | ProberPeerActive | ProberPeerUnknown

datatype wait_cause = CauseUnknown | SwssUpdate | DriverUpdate

datatype health = Uninitialized | Unhealthy | Healthy

datatype default_route = RouteWait | RouteNA | RouteOK

datatype mux_metrics = SwitchingStart | SwitchingEnd

datatype prober_metrics =
    LinkProberUnknownStart | LinkProberUnknownEnd | LinkProberWaitStart
  | LinkProberActiveStart | LinkProberStandbyStart

datatype switch_cause =
    PeerHeartbeatMissing | PeerLinkDown | TlvSwitchActiveCommand | CauseLinkDown
  | TransceiverDaemonTimeout | MatchingHardwareState | ConfigMuxMode
  | HarewareStateUnknown | TimedOscillation

datatype component = LinkProberComponent | MuxStateComponent | LinkStateComponent

datatype mux_notification_type =
    MuxNotificationNotReceived | MuxNotificationFromToggle | MuxNotificationFromProbe

section \<open>Modes and cable types\<close>

datatype mux_mode = ModeAuto | ModeManual | ModeActive | ModeStandby | ModeDetached

datatype cable_type = CableActiveStandby | CableActiveActive

datatype link_prober_type = ProberSoftware | ProberHardware

type_synonym ip_address = u32
type_synonym mac_address = "u8 list"

section \<open>Events of the sub-machines\<close>

datatype link_event = UpEvent | DownEvent

datatype mux_event = ActiveEvent | StandbyEvent | UnknownEvent | ErrorEvent

datatype icmp_event =
    IcmpSelfEvent | IcmpPeerEvent | IcmpUnknownEvent | IcmpWaitEvent
  | IcmpPeerActiveEvent | IcmpPeerUnknownEvent | IcmpPeerWaitEvent
  | IcmpHwSelfEvent | IcmpHwPeerEvent | IcmpHwUnknownEvent | IcmpHwWaitEvent
  | IcmpHwPeerActiveEvent | IcmpHwPeerUnknownEvent | IcmpHwPeerWaitEvent

datatype prober_event =
    IcmpEvent icmp_event
  | SuspendTimerExpiredEvent | SwitchActiveCommandCompleteEvent
  | SwitchActiveRequestEvent | MuxProbeRequestEvent

section \<open>Tasks on the strand\<close>

text \<open>
  Everything that runs for a port runs as a task on its strand: the notifications that
  \<open>MuxPort.cpp\<close> posts, the events posted to the sub-machines, the label changes the
  sub-machines post to the link manager, and the completion handlers of the timers, called
  with \<open>success\<close> on expiry and with \<open>operation_aborted\<close> when the wait was cancelled.
\<close>

datatype timer_id = DeadlineTimer | WaitTimer | OscillationTimer | PeerWaitTimer | ResyncTimer

datatype error_code = Success | OperationAborted

datatype task =
    TaskBladeIpv4 ip_address | TaskSoCIpv4 ip_address
  | TaskServerMac mac_address | TaskUseWellKnownMac | TaskSrcMacConfig
  | TaskGetMuxState mux_label | TaskProbeMuxState mux_label | TaskProbeMuxFailure
  | TaskMuxState mux_label | TaskPeerMuxState mux_label
  | TaskLinkState link_label | TaskPeerLinkState link_label
  | TaskMuxConfig mux_mode | TaskDefaultRoute default_route
  | TaskResetPckLoss | TaskResetSuspendTimer
  | TaskLinkFailureDetection string string
  | TaskProberEvent prober_event | TaskMuxEvent mux_event | TaskLinkEvent link_event
  | TaskProberChange prober_label | TaskPeerChange prober_label
  | TaskMuxChange mux_label | TaskLinkChange link_label
  | TaskSuspendTimerExpiry | TaskSwitchActiveCompletion | TaskSwitchActiveRequest
  | TaskMuxProbeRequest | TaskPckLossRatio u64 u64
  | TaskTimer timer_id error_code

section \<open>Calls out of the link manager\<close>

text \<open>
  The calls a link manager makes, in order: the first group to the MUX port
  (\<open>mMuxPortPtr\<close>), the second through the function pointers bound to the link prober.
\<close>

datatype call =
    SetMuxState mux_label | SetPeerMuxState mux_label | GetMuxState | ProbeMuxState
  | SetMuxLinkmgrState health | PostMetricsEvent mux_metrics mux_label
  | PostSwitchCause switch_cause | PostLinkProberMetricsEvent prober_metrics
  | PostPckLossRatio u64 u64 | WarmRestartReconciliation
  | InitializeProber | StartProbing | UpdateEthernetFrame | ProbePeerTor | DetectLink
  | SuspendTx u32 | ResumeTx | ShutdownTx | RestartTx | ResetIcmpPacketCounts
  | SendPeerSwitchCommand | SendPeerProbeCommand
  | DecreaseInterval u32 | RevertInterval
  | HandleStateDbStateUpdate string string

end
