(* ===== verification/Port_Config.thy ===== *)
theory Port_Config
  imports Port_Types
begin

text \<open>
  The configuration objects: \<open>common::MuxConfig\<close> (one per process, shared by all ports) and
  \<open>common::MuxPortConfig\<close> (one per port, holding a reference to the shared one). The shared
  object is a field of the port's record here: within one port's handlers it is read only.
  Addresses are IPv4 addresses in host order (\<open>to_v4().to_uint()\<close>).
\<close>

section \<open>MuxConfig\<close>

record mux_config =
  mNumberOfThreads :: u8
  mTimeoutIpv4_msec :: u32
  mTimeoutIpv6_msec :: u32
  mRxTimeoutIpv4_msec :: u32
  mPositiveStateChangeRetryCount :: u32
  mNegativeStateChangeRetryCount :: u32
  mLinkProberStatUpdateIntervalCount :: u32
  mSuspendTimeout_msec :: u32
  mMuxStateChangeRetryCount :: u32
  mLinkStateChangeRetryCount :: u32
  mEnableTimedOscillationWhenNoHeartbeat :: bool
  mOscillationTimeout_sec :: u32
  mEnableSwitchoverMeasurement :: bool
  mDecreasedTimeoutIpv4_msec :: u32
  mMuxReconciliationTimeout_sec :: u32
  mEnableDefaultRouteFeature :: bool
  mUseWellKnownMacActiveActive :: bool
  mEnableUseTorMac :: bool
  mTorMacAddress :: mac_address
  mVlanMacAddress :: mac_address
  mLoopbackIpv4Address :: ip_address
  mLoopback3Ipv4Address :: ip_address

text \<open>The default member initialisers; the two MAC arrays have none, so they are parameters.\<close>

definition MuxConfig_new :: "mac_address \<Rightarrow> mac_address \<Rightarrow> mux_config" where
  "MuxConfig_new tor vlan = \<lparr>
     mNumberOfThreads = 5, mTimeoutIpv4_msec = 100, mTimeoutIpv6_msec = 1000,
     mRxTimeoutIpv4_msec = 300, mPositiveStateChangeRetryCount = 1,
     mNegativeStateChangeRetryCount = 3, mLinkProberStatUpdateIntervalCount = 300,
     mSuspendTimeout_msec = 500, mMuxStateChangeRetryCount = 1, mLinkStateChangeRetryCount = 1,
     mEnableTimedOscillationWhenNoHeartbeat = True, mOscillationTimeout_sec = 300,
     mEnableSwitchoverMeasurement = False, mDecreasedTimeoutIpv4_msec = 10,
     mMuxReconciliationTimeout_sec = 10, mEnableDefaultRouteFeature = False,
     mUseWellKnownMacActiveActive = True, mEnableUseTorMac = False,
     mTorMacAddress = tor, mVlanMacAddress = vlan,
     mLoopbackIpv4Address = 0x0AD44000, mLoopback3Ipv4Address = 0x0AD44200\<rparr>"

text \<open>The plain setters.\<close>

definition setNumberOfThreads :: "u8 \<Rightarrow> mux_config \<Rightarrow> mux_config" where
  "setNumberOfThreads x c = c\<lparr>mNumberOfThreads := x\<rparr>"

definition setTimeoutIpv4_msec :: "u32 \<Rightarrow> mux_config \<Rightarrow> mux_config" where
  "setTimeoutIpv4_msec x c = c\<lparr>mTimeoutIpv4_msec := x\<rparr>"

definition setRxTimeoutIpv4_msec :: "u32 \<Rightarrow> mux_config \<Rightarrow> mux_config" where
  "setRxTimeoutIpv4_msec x c = c\<lparr>mRxTimeoutIpv4_msec := x\<rparr>"

definition setTimeoutIpv6_msec :: "u32 \<Rightarrow> mux_config \<Rightarrow> mux_config" where
  "setTimeoutIpv6_msec x c = c\<lparr>mTimeoutIpv6_msec := x\<rparr>"

definition setOscillationEnabled :: "bool \<Rightarrow> mux_config \<Rightarrow> mux_config" where
  "setOscillationEnabled x c = c\<lparr>mEnableTimedOscillationWhenNoHeartbeat := x\<rparr>"

definition setPositiveStateChangeRetryCount :: "u32 \<Rightarrow> mux_config \<Rightarrow> mux_config" where
  "setPositiveStateChangeRetryCount x c = c\<lparr>mPositiveStateChangeRetryCount := x\<rparr>"

definition setNegativeStateChangeRetryCount :: "u32 \<Rightarrow> mux_config \<Rightarrow> mux_config" where
  "setNegativeStateChangeRetryCount x c = c\<lparr>mNegativeStateChangeRetryCount := x\<rparr>"

definition setMuxStateChangeRetryCount :: "u32 \<Rightarrow> mux_config \<Rightarrow> mux_config" where
  "setMuxStateChangeRetryCount x c = c\<lparr>mMuxStateChangeRetryCount := x\<rparr>"

definition setLinkStateChangeRetryCount :: "u32 \<Rightarrow> mux_config \<Rightarrow> mux_config" where
  "setLinkStateChangeRetryCount x c = c\<lparr>mLinkStateChangeRetryCount := x\<rparr>"

definition setTorMacAddress :: "mac_address \<Rightarrow> mux_config \<Rightarrow> mux_config" where
  "setTorMacAddress x c = c\<lparr>mTorMacAddress := x\<rparr>"

definition setVlanMacAddress :: "mac_address \<Rightarrow> mux_config \<Rightarrow> mux_config" where
  "setVlanMacAddress x c = c\<lparr>mVlanMacAddress := x\<rparr>"

definition setIfUseTorMacAsSrcMac :: "bool \<Rightarrow> mux_config \<Rightarrow> mux_config" where
  "setIfUseTorMacAsSrcMac x c = c\<lparr>mEnableUseTorMac := x\<rparr>"

definition setLoopbackIpv4Address :: "ip_address \<Rightarrow> mux_config \<Rightarrow> mux_config" where
  "setLoopbackIpv4Address x c = c\<lparr>mLoopbackIpv4Address := x\<rparr>"

definition setLoopback3Ipv4Address :: "ip_address \<Rightarrow> mux_config \<Rightarrow> mux_config" where
  "setLoopback3Ipv4Address x c = c\<lparr>mLoopback3Ipv4Address := x\<rparr>"

definition enableSwitchoverMeasurement :: "bool \<Rightarrow> mux_config \<Rightarrow> mux_config" where
  "enableSwitchoverMeasurement x c = c\<lparr>mEnableSwitchoverMeasurement := x\<rparr>"

definition enableDefaultRouteFeature :: "bool \<Rightarrow> mux_config \<Rightarrow> mux_config" where
  "enableDefaultRouteFeature x c = c\<lparr>mEnableDefaultRouteFeature := x\<rparr>"

definition setUseWellKnownMacActiveActive :: "bool \<Rightarrow> mux_config \<Rightarrow> mux_config" where
  "setUseWellKnownMacActiveActive x c = c\<lparr>mUseWellKnownMacActiveActive := x\<rparr>"

lemmas config_setter_defs [simp] =
  setNumberOfThreads_def setTimeoutIpv4_msec_def setRxTimeoutIpv4_msec_def setTimeoutIpv6_msec_def
  setOscillationEnabled_def setPositiveStateChangeRetryCount_def setNegativeStateChangeRetryCount_def
  setMuxStateChangeRetryCount_def setLinkStateChangeRetryCount_def setTorMacAddress_def setVlanMacAddress_def
  setIfUseTorMacAsSrcMac_def setLoopbackIpv4Address_def setLoopback3Ipv4Address_def
  enableSwitchoverMeasurement_def enableDefaultRouteFeature_def setUseWellKnownMacActiveActive_def

definition setLinkProberStatUpdateIntervalCount :: "u32 \<Rightarrow> mux_config \<Rightarrow> mux_config" where
  "setLinkProberStatUpdateIntervalCount n c =
     c\<lparr>mLinkProberStatUpdateIntervalCount := (if 50 < n then n else 50)\<rparr>"

definition setSuspendTimeout_msec :: "u32 \<Rightarrow> mux_config \<Rightarrow> mux_config" where
  "setSuspendTimeout_msec n c = c\<lparr>mSuspendTimeout_msec := n\<rparr>"

text \<open>The getter does not read the stored field: it computes from two other fields, modulo \<open>2\<^sup>3\<^sup>2\<close>.\<close>

definition getSuspendTimeout_msec :: "mux_config \<Rightarrow> u32" where
  "getSuspendTimeout_msec c = (mNegativeStateChangeRetryCount c + 1) * mTimeoutIpv4_msec c"

definition setOscillationInterval_sec :: "u32 \<Rightarrow> bool \<Rightarrow> mux_config \<Rightarrow> mux_config" where
  "setOscillationInterval_sec n force c =
     (if force \<or> 300 < n then c\<lparr>mOscillationTimeout_sec := n\<rparr>
      else c\<lparr>mOscillationTimeout_sec := 300\<rparr>)"

section \<open>MuxPortConfig\<close>

record mux_port_config =
  mMuxConfig :: mux_config
  mPortName :: string
  mBladeIpv4Address :: ip_address
  mBladeMacAddress :: mac_address
  mWellKnownMacAddress :: mac_address
  mLastUpdatedMacAddress :: mac_address
  mServerId :: u16
  mMode :: mux_mode
  mPortCableType :: cable_type
  mLinkProberType :: link_prober_type
  mAdminForwardingStateSyncUpInterval_msec :: u32

text \<open>
  The constructor. \<open>mLinkProberType\<close> has no initialiser and the constructor does not set it,
  so its first value is indeterminate: it is the parameter \<open>indet\<close>. The default-constructed
  address is 0.0.0.0.
\<close>

definition MuxPortConfig_new ::
  "link_prober_type \<Rightarrow> mux_config \<Rightarrow> string \<Rightarrow> u16 \<Rightarrow> cable_type \<Rightarrow> mux_port_config" where
  "MuxPortConfig_new indet c name sid cable = \<lparr>
     mMuxConfig = c, mPortName = name, mBladeIpv4Address = 0,
     mBladeMacAddress = [0, 0, 0, 0, 0, 0], mWellKnownMacAddress = [0, 0, 0, 0, 0, 0],
     mLastUpdatedMacAddress = [0, 0, 0, 0, 0, 0], mServerId = sid, mMode = ModeManual,
     mPortCableType = cable, mLinkProberType = indet,
     mAdminForwardingStateSyncUpInterval_msec = 10000\<rparr>"

text \<open>The plain setters.\<close>

definition setBladeIpv4Address :: "ip_address \<Rightarrow> mux_port_config \<Rightarrow> mux_port_config" where
  "setBladeIpv4Address x c = c\<lparr>mBladeIpv4Address := x\<rparr>"

definition setBladeMacAddress :: "mac_address \<Rightarrow> mux_port_config \<Rightarrow> mux_port_config" where
  "setBladeMacAddress x c = c\<lparr>mBladeMacAddress := x\<rparr>"

definition setMode :: "mux_mode \<Rightarrow> mux_port_config \<Rightarrow> mux_port_config" where
  "setMode x c = c\<lparr>mMode := x\<rparr>"

definition setLinkProberType :: "link_prober_type \<Rightarrow> mux_port_config \<Rightarrow> mux_port_config" where
  "setLinkProberType x c = c\<lparr>mLinkProberType := x\<rparr>"

definition setPortCableType :: "cable_type \<Rightarrow> mux_port_config \<Rightarrow> mux_port_config" where
  "setPortCableType x c = c\<lparr>mPortCableType := x\<rparr>"

definition setWellKnownMacAddress :: "mac_address \<Rightarrow> mux_port_config \<Rightarrow> mux_port_config" where
  "setWellKnownMacAddress x c = c\<lparr>mWellKnownMacAddress := x\<rparr>"

definition setLastUpdatedMacAddress :: "mac_address \<Rightarrow> mux_port_config \<Rightarrow> mux_port_config" where
  "setLastUpdatedMacAddress x c = c\<lparr>mLastUpdatedMacAddress := x\<rparr>"

lemmas port_config_setter_defs [simp] =
  setBladeIpv4Address_def setBladeMacAddress_def setMode_def setLinkProberType_def setPortCableType_def
  setWellKnownMacAddress_def setLastUpdatedMacAddress_def

text \<open>The forwarding getters that the state machines use.\<close>

definition getTimeoutIpv4_msec :: "mux_port_config \<Rightarrow> u32" where
  "getTimeoutIpv4_msec c = mTimeoutIpv4_msec (mMuxConfig c)"

definition getPositiveStateChangeRetryCount :: "mux_port_config \<Rightarrow> u32" where
  "getPositiveStateChangeRetryCount c = mPositiveStateChangeRetryCount (mMuxConfig c)"

definition getNegativeStateChangeRetryCount :: "mux_port_config \<Rightarrow> u32" where
  "getNegativeStateChangeRetryCount c = mNegativeStateChangeRetryCount (mMuxConfig c)"

definition getMuxStateChangeRetryCount :: "mux_port_config \<Rightarrow> u32" where
  "getMuxStateChangeRetryCount c = mMuxStateChangeRetryCount (mMuxConfig c)"

definition getLinkStateChangeRetryCount :: "mux_port_config \<Rightarrow> u32" where
  "getLinkStateChangeRetryCount c = mLinkStateChangeRetryCount (mMuxConfig c)"

definition getLinkWaitTimeout_msec :: "mux_port_config \<Rightarrow> u32" where
  "getLinkWaitTimeout_msec c = getSuspendTimeout_msec (mMuxConfig c)"

definition getIfOscillationEnabled :: "mux_port_config \<Rightarrow> bool" where
  "getIfOscillationEnabled c = mEnableTimedOscillationWhenNoHeartbeat (mMuxConfig c)"

definition getOscillationInterval_sec :: "mux_port_config \<Rightarrow> u32" where
  "getOscillationInterval_sec c = mOscillationTimeout_sec (mMuxConfig c)"

definition ifEnableSwitchoverMeasurement :: "mux_port_config \<Rightarrow> bool" where
  "ifEnableSwitchoverMeasurement c = mEnableSwitchoverMeasurement (mMuxConfig c)"

definition ifEnableDefaultRouteFeature :: "mux_port_config \<Rightarrow> bool" where
  "ifEnableDefaultRouteFeature c = mEnableDefaultRouteFeature (mMuxConfig c)"

definition getIfUseWellKnownMacActiveActive :: "mux_port_config \<Rightarrow> bool" where
  "getIfUseWellKnownMacActiveActive c = mUseWellKnownMacActiveActive (mMuxConfig c)"

definition getLinkProberStatUpdateIntervalCount :: "mux_port_config \<Rightarrow> u32" where
  "getLinkProberStatUpdateIntervalCount c = mLinkProberStatUpdateIntervalCount (mMuxConfig c)"

definition getDecreasedTimeoutIpv4_msec :: "mux_port_config \<Rightarrow> u32" where
  "getDecreasedTimeoutIpv4_msec c = mDecreasedTimeoutIpv4_msec (mMuxConfig c)"

definition ifEnableUseTorMac :: "mux_port_config \<Rightarrow> bool" where
  "ifEnableUseTorMac c = mEnableUseTorMac (mMuxConfig c)"

lemmas config_getter_defs [lm_defs] =
  getLinkProberStatUpdateIntervalCount_def getDecreasedTimeoutIpv4_msec_def ifEnableUseTorMac_def
  getTimeoutIpv4_msec_def getPositiveStateChangeRetryCount_def getNegativeStateChangeRetryCount_def
  getMuxStateChangeRetryCount_def getLinkStateChangeRetryCount_def getLinkWaitTimeout_msec_def
  getIfOscillationEnabled_def getOscillationInterval_sec_def ifEnableSwitchoverMeasurement_def
  ifEnableDefaultRouteFeature_def getIfUseWellKnownMacActiveActive_def
  getSuspendTimeout_msec_def MuxConfig_new_def MuxPortConfig_new_def

end
