(* ===== verification/Link_State.thy ===== *)
theory Link_State
  imports Port_Config
begin

text \<open>
  The physical link state machine (\<open>link_state/\<close>): two state classes, each with one retry
  counter, and the machine that owns them. \<open>processEvent\<close> returns the machine and the labels
  it posts to the link manager (\<open>postLinkManagerEvent\<close>).
\<close>

record up_state =
  up_mDownEventCount :: u8

record down_state =
  down_mUpEventCount :: u8

record link_sm =
  link_current :: link_label
  link_mUpState :: up_state
  link_mDownState :: down_state

section \<open>State classes\<close>

definition UpState_resetState :: "up_state \<Rightarrow> up_state" where
  "UpState_resetState s = s\<lparr>up_mDownEventCount := 0\<rparr>"

fun UpState_handleEvent :: "mux_port_config \<Rightarrow> link_event \<Rightarrow> up_state \<Rightarrow> up_state \<times> link_label" where
  "UpState_handleEvent cfg UpEvent s = (UpState_resetState s, LinkUp)"
| "UpState_handleEvent cfg DownEvent s =
     (let n = up_mDownEventCount s + 1
      in (s\<lparr>up_mDownEventCount := n\<rparr>,
          if count_reached n (getLinkStateChangeRetryCount cfg) then LinkDown else LinkUp))"

definition DownState_resetState :: "down_state \<Rightarrow> down_state" where
  "DownState_resetState s = s\<lparr>down_mUpEventCount := 0\<rparr>"

fun DownState_handleEvent :: "mux_port_config \<Rightarrow> link_event \<Rightarrow> down_state \<Rightarrow> down_state \<times> link_label" where
  "DownState_handleEvent cfg UpEvent s =
     (let n = down_mUpEventCount s + 1
      in (s\<lparr>down_mUpEventCount := n\<rparr>,
          if count_reached n (getLinkStateChangeRetryCount cfg) then LinkUp else LinkDown))"
| "DownState_handleEvent cfg DownEvent s = (DownState_resetState s, LinkDown)"

section \<open>The machine\<close>

definition LinkStateMachine_setCurrentState :: "link_label \<Rightarrow> link_sm \<Rightarrow> link_sm" where
  "LinkStateMachine_setCurrentState l m =
     (if link_current m = l then m
      else case l of
        LinkUp \<Rightarrow> m\<lparr>link_current := l, link_mUpState := UpState_resetState (link_mUpState m)\<rparr>
      | LinkDown \<Rightarrow> m\<lparr>link_current := l, link_mDownState := DownState_resetState (link_mDownState m)\<rparr>)"

definition LinkStateMachine_enterState :: "link_label \<Rightarrow> link_sm \<Rightarrow> link_sm" where
  "LinkStateMachine_enterState l m = LinkStateMachine_setCurrentState l m"

definition LinkStateMachine_new :: "link_label \<Rightarrow> link_sm" where
  "LinkStateMachine_new l =
     \<lparr>link_current = l, link_mUpState = \<lparr>up_mDownEventCount = 0\<rparr>, link_mDownState = \<lparr>down_mUpEventCount = 0\<rparr>\<rparr>"

definition LinkState_handleEvent :: "mux_port_config \<Rightarrow> link_event \<Rightarrow> link_sm \<Rightarrow> link_sm \<times> link_label" where
  "LinkState_handleEvent cfg e m =
     (case link_current m of
        LinkUp \<Rightarrow> (case UpState_handleEvent cfg e (link_mUpState m) of
                    (s, l) \<Rightarrow> (m\<lparr>link_mUpState := s\<rparr>, l))
      | LinkDown \<Rightarrow> (case DownState_handleEvent cfg e (link_mDownState m) of
                    (s, l) \<Rightarrow> (m\<lparr>link_mDownState := s\<rparr>, l)))"

definition LinkStateMachine_processEvent ::
  "mux_port_config \<Rightarrow> link_event \<Rightarrow> link_sm \<Rightarrow> link_sm \<times> link_label list" where
  "LinkStateMachine_processEvent cfg e m =
     (case LinkState_handleEvent cfg e m of
        (m', l) \<Rightarrow> (LinkStateMachine_setCurrentState l m', if l \<noteq> link_current m then [l] else []))"

lemmas link_sm_defs [lm_defs] =
  UpState_resetState_def DownState_resetState_def LinkStateMachine_setCurrentState_def
  LinkStateMachine_enterState_def LinkStateMachine_new_def LinkState_handleEvent_def
  LinkStateMachine_processEvent_def

lemma link_current_enter [simp]: "link_current (LinkStateMachine_enterState l m) = l"
  by (simp add: link_sm_defs split: link_label.splits)

lemma link_current_setCurrentState [simp]: "link_current (LinkStateMachine_setCurrentState l m) = l"
  by (simp add: link_sm_defs split: link_label.splits)

lemma link_current_handleEvent [simp]:
  "link_current (fst (LinkState_handleEvent cfg e m)) = link_current m"
  by (simp add: LinkState_handleEvent_def split: link_label.splits prod.splits)

section \<open>The interfaces\<close>

interpretation up_down: retry_counter "UpState_handleEvent cfg DownEvent" up_mDownEventCount
    LinkUp LinkDown "getLinkStateChangeRetryCount cfg"
  for cfg
  by unfold_locales (simp_all add: Let_def)

interpretation down_up: retry_counter "DownState_handleEvent cfg UpEvent" down_mUpEventCount
    LinkDown LinkUp "getLinkStateChangeRetryCount cfg"
  for cfg
  by unfold_locales (simp_all add: Let_def)

lemma link_processEvent_current:
  assumes "LinkStateMachine_processEvent cfg e m = (m', out)"
  shows "out = (if link_current m' = link_current m then [] else [link_current m'])"
  using assms by (auto simp: LinkStateMachine_processEvent_def split: prod.splits)

interpretation link_machine: event_machine "LinkStateMachine_processEvent cfg" link_current
  for cfg
  by unfold_locales (metis link_processEvent_current prod.collapse)

end
