(* ===== verification/Mux_State.thy ===== *)
theory Mux_State
  imports Port_Config
begin

text \<open>
  The MUX state machine (\<open>mux_state/\<close>): five state classes with a retry counter for every
  event that can leave them, the machine that owns them, and the cause of the Wait state.
  Every class handles the four events in the same way: an event that asks for another state
  clears the other counters, increments its own and leaves the state when the counter reaches
  \<open>getMuxStateChangeRetryCount()\<close>; the event of the state itself resets the counters.
\<close>

section \<open>State classes\<close>

record mux_active_state =
  mac_mStandbyEventCount :: u8
  mac_mUnknownEventCount :: u8
  mac_mErrorEventCount :: u8

definition MuxActiveState_resetState :: "mux_active_state \<Rightarrow> mux_active_state" where
  "MuxActiveState_resetState s = s\<lparr>mac_mStandbyEventCount := 0, mac_mUnknownEventCount := 0, mac_mErrorEventCount := 0\<rparr>"

fun MuxActiveState_handleEvent :: "mux_port_config \<Rightarrow> mux_event \<Rightarrow> mux_active_state \<Rightarrow> mux_active_state \<times> mux_label" where
  "MuxActiveState_handleEvent cfg ActiveEvent s = (MuxActiveState_resetState s, MuxActive)"
| "MuxActiveState_handleEvent cfg StandbyEvent s =
     (let n = mac_mStandbyEventCount s + 1
      in (s\<lparr>mac_mUnknownEventCount := 0, mac_mErrorEventCount := 0, mac_mStandbyEventCount := n\<rparr>,
          if count_reached n (getMuxStateChangeRetryCount cfg) then MuxStandby else MuxActive))"
| "MuxActiveState_handleEvent cfg UnknownEvent s =
     (let n = mac_mUnknownEventCount s + 1
      in (s\<lparr>mac_mStandbyEventCount := 0, mac_mErrorEventCount := 0, mac_mUnknownEventCount := n\<rparr>,
          if count_reached n (getMuxStateChangeRetryCount cfg) then MuxUnknown else MuxActive))"
| "MuxActiveState_handleEvent cfg ErrorEvent s =
     (let n = mac_mErrorEventCount s + 1
      in (s\<lparr>mac_mStandbyEventCount := 0, mac_mUnknownEventCount := 0, mac_mErrorEventCount := n\<rparr>,
          if count_reached n (getMuxStateChangeRetryCount cfg) then MuxError else MuxActive))"

record mux_standby_state =
  msc_mActiveEventCount :: u8
  msc_mUnknownEventCount :: u8
  msc_mErrorEventCount :: u8

definition MuxStandbyState_resetState :: "mux_standby_state \<Rightarrow> mux_standby_state" where
  "MuxStandbyState_resetState s = s\<lparr>msc_mActiveEventCount := 0, msc_mUnknownEventCount := 0, msc_mErrorEventCount := 0\<rparr>"

fun MuxStandbyState_handleEvent :: "mux_port_config \<Rightarrow> mux_event \<Rightarrow> mux_standby_state \<Rightarrow> mux_standby_state \<times> mux_label" where
  "MuxStandbyState_handleEvent cfg ActiveEvent s =
     (let n = msc_mActiveEventCount s + 1
      in (s\<lparr>msc_mUnknownEventCount := 0, msc_mErrorEventCount := 0, msc_mActiveEventCount := n\<rparr>,
          if count_reached n (getMuxStateChangeRetryCount cfg) then MuxActive else MuxStandby))"
| "MuxStandbyState_handleEvent cfg StandbyEvent s = (MuxStandbyState_resetState s, MuxStandby)"
| "MuxStandbyState_handleEvent cfg UnknownEvent s =
     (let n = msc_mUnknownEventCount s + 1
      in (s\<lparr>msc_mActiveEventCount := 0, msc_mErrorEventCount := 0, msc_mUnknownEventCount := n\<rparr>,
          if count_reached n (getMuxStateChangeRetryCount cfg) then MuxUnknown else MuxStandby))"
| "MuxStandbyState_handleEvent cfg ErrorEvent s =
     (let n = msc_mErrorEventCount s + 1
      in (s\<lparr>msc_mActiveEventCount := 0, msc_mUnknownEventCount := 0, msc_mErrorEventCount := n\<rparr>,
          if count_reached n (getMuxStateChangeRetryCount cfg) then MuxError else MuxStandby))"

record mux_unknown_state =
  muc_mActiveEventCount :: u8
  muc_mStandbyEventCount :: u8
  muc_mErrorEventCount :: u8

definition MuxUnknownState_resetState :: "mux_unknown_state \<Rightarrow> mux_unknown_state" where
  "MuxUnknownState_resetState s = s\<lparr>muc_mActiveEventCount := 0, muc_mStandbyEventCount := 0, muc_mErrorEventCount := 0\<rparr>"

fun MuxUnknownState_handleEvent :: "mux_port_config \<Rightarrow> mux_event \<Rightarrow> mux_unknown_state \<Rightarrow> mux_unknown_state \<times> mux_label" where
  "MuxUnknownState_handleEvent cfg ActiveEvent s =
     (let n = muc_mActiveEventCount s + 1
      in (s\<lparr>muc_mStandbyEventCount := 0, muc_mErrorEventCount := 0, muc_mActiveEventCount := n\<rparr>,
          if count_reached n (getMuxStateChangeRetryCount cfg) then MuxActive else MuxUnknown))"
| "MuxUnknownState_handleEvent cfg StandbyEvent s =
     (let n = muc_mStandbyEventCount s + 1
      in (s\<lparr>muc_mActiveEventCount := 0, muc_mErrorEventCount := 0, muc_mStandbyEventCount := n\<rparr>,
          if count_reached n (getMuxStateChangeRetryCount cfg) then MuxStandby else MuxUnknown))"
| "MuxUnknownState_handleEvent cfg UnknownEvent s = (MuxUnknownState_resetState s, MuxUnknown)"
| "MuxUnknownState_handleEvent cfg ErrorEvent s =
     (let n = muc_mErrorEventCount s + 1
      in (s\<lparr>muc_mActiveEventCount := 0, muc_mStandbyEventCount := 0, muc_mErrorEventCount := n\<rparr>,
          if count_reached n (getMuxStateChangeRetryCount cfg) then MuxError else MuxUnknown))"

record mux_error_state =
  mec_mActiveEventCount :: u8
  mec_mStandbyEventCount :: u8
  mec_mUnknownEventCount :: u8

definition MuxErrorState_resetState :: "mux_error_state \<Rightarrow> mux_error_state" where
  "MuxErrorState_resetState s = s\<lparr>mec_mActiveEventCount := 0, mec_mStandbyEventCount := 0, mec_mUnknownEventCount := 0\<rparr>"

fun MuxErrorState_handleEvent :: "mux_port_config \<Rightarrow> mux_event \<Rightarrow> mux_error_state \<Rightarrow> mux_error_state \<times> mux_label" where
  "MuxErrorState_handleEvent cfg ActiveEvent s =
     (let n = mec_mActiveEventCount s + 1
      in (s\<lparr>mec_mStandbyEventCount := 0, mec_mUnknownEventCount := 0, mec_mActiveEventCount := n\<rparr>,
          if count_reached n (getMuxStateChangeRetryCount cfg) then MuxActive else MuxError))"
| "MuxErrorState_handleEvent cfg StandbyEvent s =
     (let n = mec_mStandbyEventCount s + 1
      in (s\<lparr>mec_mActiveEventCount := 0, mec_mUnknownEventCount := 0, mec_mStandbyEventCount := n\<rparr>,
          if count_reached n (getMuxStateChangeRetryCount cfg) then MuxStandby else MuxError))"
| "MuxErrorState_handleEvent cfg UnknownEvent s =
     (let n = mec_mUnknownEventCount s + 1
      in (s\<lparr>mec_mActiveEventCount := 0, mec_mStandbyEventCount := 0, mec_mUnknownEventCount := n\<rparr>,
          if count_reached n (getMuxStateChangeRetryCount cfg) then MuxUnknown else MuxError))"
| "MuxErrorState_handleEvent cfg ErrorEvent s = (MuxErrorState_resetState s, MuxError)"

record mux_wait_state =
  mwc_mActiveEventCount :: u8
  mwc_mStandbyEventCount :: u8
  mwc_mUnknownEventCount :: u8
  mwc_mErrorEventCount :: u8
  mwc_mLastWaitStateCause :: wait_cause
  mwc_mWaitStateCause :: "wait_cause \<Rightarrow> bool"

definition MuxWaitState_resetState :: "mux_wait_state \<Rightarrow> mux_wait_state" where
  "MuxWaitState_resetState s = s\<lparr>mwc_mActiveEventCount := 0, mwc_mStandbyEventCount := 0, mwc_mUnknownEventCount := 0, mwc_mErrorEventCount := 0\<rparr>"

fun MuxWaitState_handleEvent :: "mux_port_config \<Rightarrow> mux_event \<Rightarrow> mux_wait_state \<Rightarrow> mux_wait_state \<times> mux_label" where
  "MuxWaitState_handleEvent cfg ActiveEvent s =
     (let n = mwc_mActiveEventCount s + 1
      in (s\<lparr>mwc_mStandbyEventCount := 0, mwc_mUnknownEventCount := 0, mwc_mErrorEventCount := 0, mwc_mActiveEventCount := n\<rparr>,
          if count_reached n (getMuxStateChangeRetryCount cfg) then MuxActive else MuxWait))"
| "MuxWaitState_handleEvent cfg StandbyEvent s =
     (let n = mwc_mStandbyEventCount s + 1
      in (s\<lparr>mwc_mActiveEventCount := 0, mwc_mUnknownEventCount := 0, mwc_mErrorEventCount := 0, mwc_mStandbyEventCount := n\<rparr>,
          if count_reached n (getMuxStateChangeRetryCount cfg) then MuxStandby else MuxWait))"
| "MuxWaitState_handleEvent cfg UnknownEvent s =
     (let n = mwc_mUnknownEventCount s + 1
      in (s\<lparr>mwc_mActiveEventCount := 0, mwc_mStandbyEventCount := 0, mwc_mErrorEventCount := 0, mwc_mUnknownEventCount := n\<rparr>,
          if count_reached n (getMuxStateChangeRetryCount cfg) then MuxUnknown else MuxWait))"
| "MuxWaitState_handleEvent cfg ErrorEvent s =
     (let n = mwc_mErrorEventCount s + 1
      in (s\<lparr>mwc_mActiveEventCount := 0, mwc_mStandbyEventCount := 0, mwc_mUnknownEventCount := 0, mwc_mErrorEventCount := n\<rparr>,
          if count_reached n (getMuxStateChangeRetryCount cfg) then MuxError else MuxWait))"

text \<open>The cause of the Wait state: the last cause set, and the set of causes not yet reset.\<close>

definition MuxWaitState_setWaitStateCause :: "wait_cause \<Rightarrow> mux_wait_state \<Rightarrow> mux_wait_state" where
  "MuxWaitState_setWaitStateCause c s =
     s\<lparr>mwc_mLastWaitStateCause := c, mwc_mWaitStateCause := (mwc_mWaitStateCause s)(c := True)\<rparr>"

definition MuxWaitState_testWaitStateCause :: "wait_cause \<Rightarrow> mux_wait_state \<Rightarrow> bool" where
  "MuxWaitState_testWaitStateCause c s = mwc_mWaitStateCause s c"

definition MuxWaitState_resetWaitStateCause :: "wait_cause \<Rightarrow> mux_wait_state \<Rightarrow> mux_wait_state" where
  "MuxWaitState_resetWaitStateCause c s =
     s\<lparr>mwc_mWaitStateCause := (mwc_mWaitStateCause s)(c := False)\<rparr>"

section \<open>The machine\<close>

record mux_sm =
  mux_current :: mux_label
  mux_mActiveState :: mux_active_state
  mux_mStandbyState :: mux_standby_state
  mux_mUnknownState :: mux_unknown_state
  mux_mErrorState :: mux_error_state
  mux_mWaitState :: mux_wait_state

definition MuxStateMachine_setCurrentState :: "mux_label \<Rightarrow> mux_sm \<Rightarrow> mux_sm" where
  "MuxStateMachine_setCurrentState l m =
     (if mux_current m = l then m
      else case l of
        MuxActive \<Rightarrow> m\<lparr>mux_current := l, mux_mActiveState := MuxActiveState_resetState (mux_mActiveState m)\<rparr>
      | MuxStandby \<Rightarrow> m\<lparr>mux_current := l, mux_mStandbyState := MuxStandbyState_resetState (mux_mStandbyState m)\<rparr>
      | MuxUnknown \<Rightarrow> m\<lparr>mux_current := l, mux_mUnknownState := MuxUnknownState_resetState (mux_mUnknownState m)\<rparr>
      | MuxError \<Rightarrow> m\<lparr>mux_current := l, mux_mErrorState := MuxErrorState_resetState (mux_mErrorState m)\<rparr>
      | MuxWait \<Rightarrow> m\<lparr>mux_current := l, mux_mWaitState := MuxWaitState_resetState (mux_mWaitState m)\<rparr>)"

definition MuxStateMachine_enterState :: "mux_label \<Rightarrow> mux_sm \<Rightarrow> mux_sm" where
  "MuxStateMachine_enterState l m = MuxStateMachine_setCurrentState l m"

definition MuxStateMachine_new :: "mux_label \<Rightarrow> mux_sm" where
  "MuxStateMachine_new l = \<lparr>
     mux_current = l,
     mux_mActiveState = \<lparr>mac_mStandbyEventCount = 0, mac_mUnknownEventCount = 0, mac_mErrorEventCount = 0\<rparr>,
     mux_mStandbyState = \<lparr>msc_mActiveEventCount = 0, msc_mUnknownEventCount = 0, msc_mErrorEventCount = 0\<rparr>,
     mux_mUnknownState = \<lparr>muc_mActiveEventCount = 0, muc_mStandbyEventCount = 0, muc_mErrorEventCount = 0\<rparr>,
     mux_mErrorState = \<lparr>mec_mActiveEventCount = 0, mec_mStandbyEventCount = 0, mec_mUnknownEventCount = 0\<rparr>,
     mux_mWaitState = \<lparr>mwc_mActiveEventCount = 0, mwc_mStandbyEventCount = 0, mwc_mUnknownEventCount = 0,
       mwc_mErrorEventCount = 0, mwc_mLastWaitStateCause = CauseUnknown, mwc_mWaitStateCause = (\<lambda>_. False)\<rparr>\<rparr>"

definition MuxState_handleEvent :: "mux_port_config \<Rightarrow> mux_event \<Rightarrow> mux_sm \<Rightarrow> mux_sm \<times> mux_label" where
  "MuxState_handleEvent cfg e m =
     (case mux_current m of
        MuxActive \<Rightarrow> (case MuxActiveState_handleEvent cfg e (mux_mActiveState m) of
          (s, l) \<Rightarrow> (m\<lparr>mux_mActiveState := s\<rparr>, l))
      | MuxStandby \<Rightarrow> (case MuxStandbyState_handleEvent cfg e (mux_mStandbyState m) of
          (s, l) \<Rightarrow> (m\<lparr>mux_mStandbyState := s\<rparr>, l))
      | MuxUnknown \<Rightarrow> (case MuxUnknownState_handleEvent cfg e (mux_mUnknownState m) of
          (s, l) \<Rightarrow> (m\<lparr>mux_mUnknownState := s\<rparr>, l))
      | MuxError \<Rightarrow> (case MuxErrorState_handleEvent cfg e (mux_mErrorState m) of
          (s, l) \<Rightarrow> (m\<lparr>mux_mErrorState := s\<rparr>, l))
      | MuxWait \<Rightarrow> (case MuxWaitState_handleEvent cfg e (mux_mWaitState m) of
          (s, l) \<Rightarrow> (m\<lparr>mux_mWaitState := s\<rparr>, l)))"

definition MuxStateMachine_processEvent ::
  "mux_port_config \<Rightarrow> mux_event \<Rightarrow> mux_sm \<Rightarrow> mux_sm \<times> mux_label list" where
  "MuxStateMachine_processEvent cfg e m =
     (case MuxState_handleEvent cfg e m of
        (m', l) \<Rightarrow> (MuxStateMachine_setCurrentState l m', if l \<noteq> mux_current m then [l] else []))"

definition MuxStateMachine_setWaitStateCause :: "wait_cause \<Rightarrow> mux_sm \<Rightarrow> mux_sm" where
  "MuxStateMachine_setWaitStateCause c m =
     m\<lparr>mux_mWaitState := MuxWaitState_setWaitStateCause c (mux_mWaitState m)\<rparr>"

definition MuxStateMachine_testWaitStateCause :: "wait_cause \<Rightarrow> mux_sm \<Rightarrow> bool" where
  "MuxStateMachine_testWaitStateCause c m = MuxWaitState_testWaitStateCause c (mux_mWaitState m)"

definition MuxStateMachine_resetWaitStateCause :: "wait_cause \<Rightarrow> mux_sm \<Rightarrow> mux_sm" where
  "MuxStateMachine_resetWaitStateCause c m =
     m\<lparr>mux_mWaitState := MuxWaitState_resetWaitStateCause c (mux_mWaitState m)\<rparr>"

definition MuxStateMachine_getWaitStateCause :: "mux_sm \<Rightarrow> wait_cause" where
  "MuxStateMachine_getWaitStateCause m = mwc_mLastWaitStateCause (mux_mWaitState m)"

lemmas mux_sm_defs [lm_defs] =
  MuxActiveState_resetState_def MuxStandbyState_resetState_def MuxUnknownState_resetState_def
  MuxErrorState_resetState_def MuxWaitState_resetState_def
  MuxWaitState_setWaitStateCause_def MuxWaitState_testWaitStateCause_def
  MuxWaitState_resetWaitStateCause_def MuxStateMachine_setCurrentState_def
  MuxStateMachine_enterState_def MuxStateMachine_new_def MuxState_handleEvent_def
  MuxStateMachine_processEvent_def MuxStateMachine_setWaitStateCause_def
  MuxStateMachine_testWaitStateCause_def MuxStateMachine_resetWaitStateCause_def
  MuxStateMachine_getWaitStateCause_def

lemma mux_current_setCurrentState [simp]: "mux_current (MuxStateMachine_setCurrentState l m) = l"
  by (simp add: MuxStateMachine_setCurrentState_def split: mux_label.splits)

lemma mux_current_enter [simp]: "mux_current (MuxStateMachine_enterState l m) = l"
  by (simp add: MuxStateMachine_enterState_def)

lemma mux_current_cause [simp]:
  "mux_current (MuxStateMachine_setWaitStateCause c m) = mux_current m"
  "mux_current (MuxStateMachine_resetWaitStateCause c m) = mux_current m"
  by (simp_all add: MuxStateMachine_setWaitStateCause_def MuxStateMachine_resetWaitStateCause_def)

lemma mux_current_handleEvent [simp]:
  "mux_current (fst (MuxState_handleEvent cfg e m)) = mux_current m"
  by (simp add: MuxState_handleEvent_def split: mux_label.splits prod.splits)

text \<open>No event leads to the Wait state: only the link manager enters it.\<close>

lemma mux_handleEvent_not_wait:
  "snd (MuxState_handleEvent cfg e m) = MuxWait \<Longrightarrow> mux_current m = MuxWait"
  by (cases e; cases "mux_current m") (simp_all add: MuxState_handleEvent_def Let_def split: if_splits)

section \<open>The interfaces\<close>

interpretation mux_active_standby: retry_counter "MuxActiveState_handleEvent cfg StandbyEvent" mac_mStandbyEventCount
    MuxActive MuxStandby "getMuxStateChangeRetryCount cfg"
  for cfg
  by unfold_locales (simp_all add: Let_def)

interpretation mux_active_unknown: retry_counter "MuxActiveState_handleEvent cfg UnknownEvent" mac_mUnknownEventCount
    MuxActive MuxUnknown "getMuxStateChangeRetryCount cfg"
  for cfg
  by unfold_locales (simp_all add: Let_def)

interpretation mux_active_error: retry_counter "MuxActiveState_handleEvent cfg ErrorEvent" mac_mErrorEventCount
    MuxActive MuxError "getMuxStateChangeRetryCount cfg"
  for cfg
  by unfold_locales (simp_all add: Let_def)

interpretation mux_standby_active: retry_counter "MuxStandbyState_handleEvent cfg ActiveEvent" msc_mActiveEventCount
    MuxStandby MuxActive "getMuxStateChangeRetryCount cfg"
  for cfg
  by unfold_locales (simp_all add: Let_def)

interpretation mux_standby_unknown: retry_counter "MuxStandbyState_handleEvent cfg UnknownEvent" msc_mUnknownEventCount
    MuxStandby MuxUnknown "getMuxStateChangeRetryCount cfg"
  for cfg
  by unfold_locales (simp_all add: Let_def)

interpretation mux_standby_error: retry_counter "MuxStandbyState_handleEvent cfg ErrorEvent" msc_mErrorEventCount
    MuxStandby MuxError "getMuxStateChangeRetryCount cfg"
  for cfg
  by unfold_locales (simp_all add: Let_def)

interpretation mux_unknown_active: retry_counter "MuxUnknownState_handleEvent cfg ActiveEvent" muc_mActiveEventCount
    MuxUnknown MuxActive "getMuxStateChangeRetryCount cfg"
  for cfg
  by unfold_locales (simp_all add: Let_def)

interpretation mux_unknown_standby: retry_counter "MuxUnknownState_handleEvent cfg StandbyEvent" muc_mStandbyEventCount
    MuxUnknown MuxStandby "getMuxStateChangeRetryCount cfg"
  for cfg
  by unfold_locales (simp_all add: Let_def)

interpretation mux_unknown_error: retry_counter "MuxUnknownState_handleEvent cfg ErrorEvent" muc_mErrorEventCount
    MuxUnknown MuxError "getMuxStateChangeRetryCount cfg"
  for cfg
  by unfold_locales (simp_all add: Let_def)

interpretation mux_error_active: retry_counter "MuxErrorState_handleEvent cfg ActiveEvent" mec_mActiveEventCount
    MuxError MuxActive "getMuxStateChangeRetryCount cfg"
  for cfg
  by unfold_locales (simp_all add: Let_def)

interpretation mux_error_standby: retry_counter "MuxErrorState_handleEvent cfg StandbyEvent" mec_mStandbyEventCount
    MuxError MuxStandby "getMuxStateChangeRetryCount cfg"
  for cfg
  by unfold_locales (simp_all add: Let_def)

interpretation mux_error_unknown: retry_counter "MuxErrorState_handleEvent cfg UnknownEvent" mec_mUnknownEventCount
    MuxError MuxUnknown "getMuxStateChangeRetryCount cfg"
  for cfg
  by unfold_locales (simp_all add: Let_def)

interpretation mux_wait_active: retry_counter "MuxWaitState_handleEvent cfg ActiveEvent" mwc_mActiveEventCount
    MuxWait MuxActive "getMuxStateChangeRetryCount cfg"
  for cfg
  by unfold_locales (simp_all add: Let_def)

interpretation mux_wait_standby: retry_counter "MuxWaitState_handleEvent cfg StandbyEvent" mwc_mStandbyEventCount
    MuxWait MuxStandby "getMuxStateChangeRetryCount cfg"
  for cfg
  by unfold_locales (simp_all add: Let_def)

interpretation mux_wait_unknown: retry_counter "MuxWaitState_handleEvent cfg UnknownEvent" mwc_mUnknownEventCount
    MuxWait MuxUnknown "getMuxStateChangeRetryCount cfg"
  for cfg
  by unfold_locales (simp_all add: Let_def)

interpretation mux_wait_error: retry_counter "MuxWaitState_handleEvent cfg ErrorEvent" mwc_mErrorEventCount
    MuxWait MuxError "getMuxStateChangeRetryCount cfg"
  for cfg
  by unfold_locales (simp_all add: Let_def)

lemma mux_processEvent_current:
  assumes "MuxStateMachine_processEvent cfg e m = (m', out)"
  shows "out = (if mux_current m' = mux_current m then [] else [mux_current m'])"
  using assms by (auto simp: MuxStateMachine_processEvent_def split: prod.splits)

interpretation mux_machine: event_machine "MuxStateMachine_processEvent cfg" mux_current
  for cfg
  by unfold_locales (metis mux_processEvent_current prod.collapse)

end
