(* ===== verification/Link_Prober_State.thy ===== *)
theory Link_Prober_State
  imports Port_Config
begin

text \<open>
  The link prober state machine (\<open>link_prober/LinkProberState*.cpp\<close>, \<open>ActiveState.cpp\<close>,
  \<open>StandbyState.cpp\<close>, \<open>UnknownState.cpp\<close>, \<open>WaitState.cpp\<close>, \<open>Peer*State.cpp\<close>): seven state
  classes and two machines over them, for active-standby and active-active cables.
  A handler that a class does not override is the one of \<open>LinkProberState\<close>, which logs an
  error and returns the null pointer: the result \<open>None\<close>.
\<close>

section \<open>State classes of the port's own session\<close>

record prober_active_state =
  pac_mPeerEventCount :: u8
  pac_mUnknownEventCount :: u8

definition ProberActiveState_resetState :: "prober_active_state \<Rightarrow> prober_active_state" where
  "ProberActiveState_resetState s = s\<lparr>pac_mPeerEventCount := 0, pac_mUnknownEventCount := 0\<rparr>"

fun ProberActiveState_handleEvent ::
  "mux_port_config \<Rightarrow> icmp_event \<Rightarrow> prober_active_state \<Rightarrow> prober_active_state \<times> prober_label option" where
  "ProberActiveState_handleEvent cfg IcmpPeerEvent s =
     (let n = pac_mPeerEventCount s + 1
      in (s\<lparr>pac_mUnknownEventCount := 0, pac_mPeerEventCount := n\<rparr>,
          if count_reached n (getPositiveStateChangeRetryCount cfg)
          then Some ProberStandby else Some ProberActive))"
| "ProberActiveState_handleEvent cfg IcmpSelfEvent s = (ProberActiveState_resetState s, Some ProberActive)"
| "ProberActiveState_handleEvent cfg IcmpUnknownEvent s =
     (let n = pac_mUnknownEventCount s + 1
      in (s\<lparr>pac_mPeerEventCount := 0, pac_mUnknownEventCount := n\<rparr>,
          if count_reached n (getNegativeStateChangeRetryCount cfg)
          then Some ProberUnknown else Some ProberActive))"
| "ProberActiveState_handleEvent cfg IcmpWaitEvent s = (s, Some ProberWait)"
| "ProberActiveState_handleEvent cfg IcmpHwPeerEvent s =
     (s\<lparr>pac_mUnknownEventCount := 0\<rparr>, Some ProberStandby)"
| "ProberActiveState_handleEvent cfg IcmpHwSelfEvent s = (ProberActiveState_resetState s, Some ProberActive)"
| "ProberActiveState_handleEvent cfg IcmpHwUnknownEvent s =
     (s\<lparr>pac_mPeerEventCount := 0\<rparr>, Some ProberUnknown)"
| "ProberActiveState_handleEvent cfg IcmpHwWaitEvent s = (s, Some ProberWait)"
| "ProberActiveState_handleEvent cfg _ s = (s, None)"

record prober_standby_state =
  psc_mSelfEventCount :: u8
  psc_mUnknownEventCount :: u8

definition ProberStandbyState_resetState :: "prober_standby_state \<Rightarrow> prober_standby_state" where
  "ProberStandbyState_resetState s = s\<lparr>psc_mSelfEventCount := 0, psc_mUnknownEventCount := 0\<rparr>"

fun ProberStandbyState_handleEvent ::
  "mux_port_config \<Rightarrow> icmp_event \<Rightarrow> prober_standby_state \<Rightarrow> prober_standby_state \<times> prober_label option" where
  "ProberStandbyState_handleEvent cfg IcmpPeerEvent s = (ProberStandbyState_resetState s, Some ProberStandby)"
| "ProberStandbyState_handleEvent cfg IcmpSelfEvent s =
     (let n = psc_mSelfEventCount s + 1
      in (s\<lparr>psc_mUnknownEventCount := 0, psc_mSelfEventCount := n\<rparr>,
          if count_reached n (getPositiveStateChangeRetryCount cfg)
          then Some ProberActive else Some ProberStandby))"
| "ProberStandbyState_handleEvent cfg IcmpUnknownEvent s =
     (let n = psc_mUnknownEventCount s + 1
      in (s\<lparr>psc_mSelfEventCount := 0, psc_mUnknownEventCount := n\<rparr>,
          if count_reached n (getNegativeStateChangeRetryCount cfg)
          then Some ProberUnknown else Some ProberStandby))"
| "ProberStandbyState_handleEvent cfg IcmpHwPeerEvent s = (ProberStandbyState_resetState s, Some ProberStandby)"
| "ProberStandbyState_handleEvent cfg IcmpHwSelfEvent s =
     (s\<lparr>psc_mUnknownEventCount := 0\<rparr>, Some ProberActive)"
| "ProberStandbyState_handleEvent cfg IcmpHwUnknownEvent s =
     (s\<lparr>psc_mSelfEventCount := 0\<rparr>, Some ProberUnknown)"
| "ProberStandbyState_handleEvent cfg _ s = (s, None)"

record prober_unknown_state =
  puc_mSelfEventCount :: u8
  puc_mPeerEventCount :: u8

definition ProberUnknownState_resetState :: "prober_unknown_state \<Rightarrow> prober_unknown_state" where
  "ProberUnknownState_resetState s = s\<lparr>puc_mSelfEventCount := 0, puc_mPeerEventCount := 0\<rparr>"

fun ProberUnknownState_handleEvent ::
  "mux_port_config \<Rightarrow> icmp_event \<Rightarrow> prober_unknown_state \<Rightarrow> prober_unknown_state \<times> prober_label option" where
  "ProberUnknownState_handleEvent cfg IcmpPeerEvent s =
     (let n = puc_mPeerEventCount s + 1
      in (s\<lparr>puc_mSelfEventCount := 0, puc_mPeerEventCount := n\<rparr>,
          if count_reached n (getPositiveStateChangeRetryCount cfg)
          then Some ProberStandby else Some ProberUnknown))"
| "ProberUnknownState_handleEvent cfg IcmpSelfEvent s =
     (let n = puc_mSelfEventCount s + 1
      in (s\<lparr>puc_mPeerEventCount := 0, puc_mSelfEventCount := n\<rparr>,
          if count_reached n (getPositiveStateChangeRetryCount cfg)
          then Some ProberActive else Some ProberUnknown))"
| "ProberUnknownState_handleEvent cfg IcmpUnknownEvent s = (ProberUnknownState_resetState s, Some ProberUnknown)"
| "ProberUnknownState_handleEvent cfg IcmpWaitEvent s = (s, Some ProberWait)"
| "ProberUnknownState_handleEvent cfg IcmpHwPeerEvent s =
     (s\<lparr>puc_mSelfEventCount := 0\<rparr>, Some ProberStandby)"
| "ProberUnknownState_handleEvent cfg IcmpHwSelfEvent s =
     (s\<lparr>puc_mPeerEventCount := 0\<rparr>, Some ProberActive)"
| "ProberUnknownState_handleEvent cfg IcmpHwUnknownEvent s = (ProberUnknownState_resetState s, Some ProberUnknown)"
| "ProberUnknownState_handleEvent cfg IcmpHwWaitEvent s = (s, Some ProberWait)"
| "ProberUnknownState_handleEvent cfg _ s = (s, None)"

record prober_wait_state =
  pwc_mSelfEventCount :: u8
  pwc_mPeerEventCount :: u8
  pwc_mUnknownEventCount :: u8

definition ProberWaitState_resetState :: "prober_wait_state \<Rightarrow> prober_wait_state" where
  "ProberWaitState_resetState s =
     s\<lparr>pwc_mSelfEventCount := 0, pwc_mUnknownEventCount := 0, pwc_mPeerEventCount := 0\<rparr>"

text \<open>
  In the Wait state the unknown event depends on the cable and on the prober: with an
  active-active cable a hardware prober leaves at once and a software prober counts, with an
  active-standby cable the counters are reset. The test \<open>if (getLinkProberType())\<close> is true
  for every type but \<open>Software\<close>, whose value is 0.
\<close>

fun ProberWaitState_handleEvent ::
  "mux_port_config \<Rightarrow> icmp_event \<Rightarrow> prober_wait_state \<Rightarrow> prober_wait_state \<times> prober_label option" where
  "ProberWaitState_handleEvent cfg IcmpPeerEvent s =
     (let n = pwc_mPeerEventCount s + 1
      in (s\<lparr>pwc_mSelfEventCount := 0, pwc_mUnknownEventCount := 0, pwc_mPeerEventCount := n\<rparr>,
          if count_reached n (getPositiveStateChangeRetryCount cfg)
          then Some ProberStandby else Some ProberWait))"
| "ProberWaitState_handleEvent cfg IcmpSelfEvent s =
     (let n = pwc_mSelfEventCount s + 1
      in (s\<lparr>pwc_mPeerEventCount := 0, pwc_mUnknownEventCount := 0, pwc_mSelfEventCount := n\<rparr>,
          if count_reached n (getPositiveStateChangeRetryCount cfg)
          then Some ProberActive else Some ProberWait))"
| "ProberWaitState_handleEvent cfg IcmpUnknownEvent s =
     (case mPortCableType cfg of
        CableActiveActive \<Rightarrow>
          if mLinkProberType cfg \<noteq> ProberSoftware then (s, Some ProberUnknown)
          else (let n = pwc_mUnknownEventCount s + 1
                in (s\<lparr>pwc_mUnknownEventCount := n\<rparr>,
                    if count_reached n (getNegativeStateChangeRetryCount cfg)
                    then Some ProberUnknown else Some ProberWait))
      | CableActiveStandby \<Rightarrow> (ProberWaitState_resetState s, Some ProberWait))"
| "ProberWaitState_handleEvent cfg IcmpHwPeerEvent s =
     (s\<lparr>pwc_mSelfEventCount := 0, pwc_mUnknownEventCount := 0\<rparr>, Some ProberStandby)"
| "ProberWaitState_handleEvent cfg IcmpHwSelfEvent s =
     (s\<lparr>pwc_mPeerEventCount := 0, pwc_mUnknownEventCount := 0\<rparr>, Some ProberActive)"
| "ProberWaitState_handleEvent cfg IcmpHwUnknownEvent s =
     (case mPortCableType cfg of
        CableActiveActive \<Rightarrow> (s, Some ProberUnknown)
      | CableActiveStandby \<Rightarrow> (ProberWaitState_resetState s, Some ProberWait))"
| "ProberWaitState_handleEvent cfg _ s = (s, None)"

section \<open>State classes of the peer's session\<close>

record prober_peer_wait_state =
  ppw_mPeerActiveEvent :: u8
  ppw_mPeerUnknownEvent :: u8

definition PeerWaitState_resetState :: "prober_peer_wait_state \<Rightarrow> prober_peer_wait_state" where
  "PeerWaitState_resetState s = s\<lparr>ppw_mPeerActiveEvent := 0, ppw_mPeerUnknownEvent := 0\<rparr>"

fun PeerWaitState_handleEvent ::
  "mux_port_config \<Rightarrow> icmp_event \<Rightarrow> prober_peer_wait_state \<Rightarrow> prober_peer_wait_state \<times> prober_label option" where
  "PeerWaitState_handleEvent cfg IcmpPeerActiveEvent s =
     (let n = ppw_mPeerActiveEvent s + 1
      in (s\<lparr>ppw_mPeerUnknownEvent := 0, ppw_mPeerActiveEvent := n\<rparr>,
          if count_reached n (getPositiveStateChangeRetryCount cfg)
          then Some ProberPeerActive else Some ProberPeerWait))"
| "PeerWaitState_handleEvent cfg IcmpPeerUnknownEvent s =
     (let n = ppw_mPeerUnknownEvent s + 1
      in (s\<lparr>ppw_mPeerActiveEvent := 0, ppw_mPeerUnknownEvent := n\<rparr>,
          if count_reached n (getNegativeStateChangeRetryCount cfg)
          then Some ProberPeerUnknown else Some ProberPeerWait))"
| "PeerWaitState_handleEvent cfg IcmpHwPeerActiveEvent s =
     (s\<lparr>ppw_mPeerUnknownEvent := 0\<rparr>, Some ProberPeerActive)"
| "PeerWaitState_handleEvent cfg IcmpHwPeerUnknownEvent s =
     (s\<lparr>ppw_mPeerActiveEvent := 0\<rparr>, Some ProberPeerUnknown)"
| "PeerWaitState_handleEvent cfg _ s = (s, None)"

record prober_peer_active_state =
  ppa_mUnknownEventCount :: u8

definition PeerActiveState_resetState :: "prober_peer_active_state \<Rightarrow> prober_peer_active_state" where
  "PeerActiveState_resetState s = s\<lparr>ppa_mUnknownEventCount := 0\<rparr>"

fun PeerActiveState_handleEvent ::
  "mux_port_config \<Rightarrow> icmp_event \<Rightarrow> prober_peer_active_state \<Rightarrow> prober_peer_active_state \<times> prober_label option" where
  "PeerActiveState_handleEvent cfg IcmpPeerActiveEvent s = (PeerActiveState_resetState s, Some ProberPeerActive)"
| "PeerActiveState_handleEvent cfg IcmpPeerUnknownEvent s =
     (let n = ppa_mUnknownEventCount s + 1
      in (s\<lparr>ppa_mUnknownEventCount := n\<rparr>,
          if count_reached n (getNegativeStateChangeRetryCount cfg)
          then Some ProberPeerUnknown else Some ProberPeerActive))"
| "PeerActiveState_handleEvent cfg IcmpPeerWaitEvent s = (s, Some ProberPeerWait)"
| "PeerActiveState_handleEvent cfg IcmpHwPeerActiveEvent s = (PeerActiveState_resetState s, Some ProberPeerActive)"
| "PeerActiveState_handleEvent cfg IcmpHwPeerUnknownEvent s = (s, Some ProberPeerUnknown)"
| "PeerActiveState_handleEvent cfg IcmpHwPeerWaitEvent s = (s, Some ProberPeerWait)"
| "PeerActiveState_handleEvent cfg _ s = (s, None)"

record prober_peer_unknown_state =
  ppu_mPeerEventCount :: u8

definition PeerUnknownState_resetState :: "prober_peer_unknown_state \<Rightarrow> prober_peer_unknown_state" where
  "PeerUnknownState_resetState s = s\<lparr>ppu_mPeerEventCount := 0\<rparr>"

fun PeerUnknownState_handleEvent ::
  "mux_port_config \<Rightarrow> icmp_event \<Rightarrow> prober_peer_unknown_state \<Rightarrow> prober_peer_unknown_state \<times> prober_label option" where
  "PeerUnknownState_handleEvent cfg IcmpPeerActiveEvent s =
     (let n = ppu_mPeerEventCount s + 1
      in (s\<lparr>ppu_mPeerEventCount := n\<rparr>,
          if count_reached n (getPositiveStateChangeRetryCount cfg)
          then Some ProberPeerActive else Some ProberPeerUnknown))"
| "PeerUnknownState_handleEvent cfg IcmpPeerUnknownEvent s = (PeerUnknownState_resetState s, Some ProberPeerUnknown)"
| "PeerUnknownState_handleEvent cfg IcmpPeerWaitEvent s = (s, Some ProberPeerWait)"
| "PeerUnknownState_handleEvent cfg IcmpHwPeerActiveEvent s = (s, Some ProberPeerActive)"
| "PeerUnknownState_handleEvent cfg IcmpHwPeerUnknownEvent s = (PeerUnknownState_resetState s, Some ProberPeerUnknown)"
| "PeerUnknownState_handleEvent cfg IcmpHwPeerWaitEvent s = (s, Some ProberPeerWait)"
| "PeerUnknownState_handleEvent cfg _ s = (s, None)"

end
