(* ===== verification/Link_Prober_Machine.thy ===== *)
theory Link_Prober_Machine
  imports Link_Prober_State
begin

text \<open>
  The link prober state machines: \<open>LinkProberStateMachineBase\<close> and its two subclasses. A
  machine owns one object of each state class; \<open>psm_current\<close> is the state of the port's own
  session and \<open>psm_mCurrentPeerState\<close> the one of the peer's session. Only the active-active
  machine reads the latter; its constructor enters \<open>PeerWait\<close> before anything else runs.
  \<open>processEvent\<close> returns the machine and the tasks it posts to the link manager's strand.
\<close>

record prober_sm =
  psm_current :: prober_label
  psm_mCurrentPeerState :: prober_label
  psm_mActiveState :: prober_active_state
  psm_mStandbyState :: prober_standby_state
  psm_mUnknownState :: prober_unknown_state
  psm_mWaitState :: prober_wait_state
  psm_mPeerActiveState :: prober_peer_active_state
  psm_mPeerUnknownState :: prober_peer_unknown_state
  psm_mPeerWaitState :: prober_peer_wait_state

section \<open>Operations of the base class\<close>

text \<open>\<open>resetState()\<close> of the state object with the given label (virtual dispatch).\<close>

definition LinkProberState_resetState :: "prober_label \<Rightarrow> prober_sm \<Rightarrow> prober_sm" where
  "LinkProberState_resetState l m =
     (case l of
        ProberActive \<Rightarrow> m\<lparr>psm_mActiveState := ProberActiveState_resetState (psm_mActiveState m)\<rparr>
      | ProberStandby \<Rightarrow> m\<lparr>psm_mStandbyState := ProberStandbyState_resetState (psm_mStandbyState m)\<rparr>
      | ProberUnknown \<Rightarrow> m\<lparr>psm_mUnknownState := ProberUnknownState_resetState (psm_mUnknownState m)\<rparr>
      | ProberWait \<Rightarrow> m\<lparr>psm_mWaitState := ProberWaitState_resetState (psm_mWaitState m)\<rparr>
      | ProberPeerActive \<Rightarrow> m\<lparr>psm_mPeerActiveState := PeerActiveState_resetState (psm_mPeerActiveState m)\<rparr>
      | ProberPeerUnknown \<Rightarrow> m\<lparr>psm_mPeerUnknownState := PeerUnknownState_resetState (psm_mPeerUnknownState m)\<rparr>
      | ProberPeerWait \<Rightarrow> m\<lparr>psm_mPeerWaitState := PeerWaitState_resetState (psm_mPeerWaitState m)\<rparr>)"

definition LinkProberStateMachineBase_setCurrentState :: "prober_label \<Rightarrow> prober_sm \<Rightarrow> prober_sm" where
  "LinkProberStateMachineBase_setCurrentState l m =
     (if psm_current m = l then m else LinkProberState_resetState l (m\<lparr>psm_current := l\<rparr>))"

definition LinkProberStateMachineBase_resetCurrentState :: "prober_sm \<Rightarrow> prober_sm" where
  "LinkProberStateMachineBase_resetCurrentState m = LinkProberState_resetState (psm_current m) m"

text \<open>\<open>handleEvent\<close> of the state object with the given label (virtual dispatch).\<close>

definition LinkProberState_handleEvent ::
  "mux_port_config \<Rightarrow> icmp_event \<Rightarrow> prober_label \<Rightarrow> prober_sm \<Rightarrow> prober_sm \<times> prober_label option" where
  "LinkProberState_handleEvent cfg e l m =
     (case l of
        ProberActive \<Rightarrow> (case ProberActiveState_handleEvent cfg e (psm_mActiveState m) of
          (s, r) \<Rightarrow> (m\<lparr>psm_mActiveState := s\<rparr>, r))
      | ProberStandby \<Rightarrow> (case ProberStandbyState_handleEvent cfg e (psm_mStandbyState m) of
          (s, r) \<Rightarrow> (m\<lparr>psm_mStandbyState := s\<rparr>, r))
      | ProberUnknown \<Rightarrow> (case ProberUnknownState_handleEvent cfg e (psm_mUnknownState m) of
          (s, r) \<Rightarrow> (m\<lparr>psm_mUnknownState := s\<rparr>, r))
      | ProberWait \<Rightarrow> (case ProberWaitState_handleEvent cfg e (psm_mWaitState m) of
          (s, r) \<Rightarrow> (m\<lparr>psm_mWaitState := s\<rparr>, r))
      | ProberPeerActive \<Rightarrow> (case PeerActiveState_handleEvent cfg e (psm_mPeerActiveState m) of
          (s, r) \<Rightarrow> (m\<lparr>psm_mPeerActiveState := s\<rparr>, r))
      | ProberPeerUnknown \<Rightarrow> (case PeerUnknownState_handleEvent cfg e (psm_mPeerUnknownState m) of
          (s, r) \<Rightarrow> (m\<lparr>psm_mPeerUnknownState := s\<rparr>, r))
      | ProberPeerWait \<Rightarrow> (case PeerWaitState_handleEvent cfg e (psm_mPeerWaitState m) of
          (s, r) \<Rightarrow> (m\<lparr>psm_mPeerWaitState := s\<rparr>, r)))"

text \<open>
  The template \<open>processEvent(T &t)\<close>: a null next state is logged and changes nothing but the
  counters, a new state is posted to the link manager.
\<close>

definition LinkProberStateMachineBase_processEvent ::
  "mux_port_config \<Rightarrow> icmp_event \<Rightarrow> prober_sm \<Rightarrow> prober_sm \<times> prober_label list" where
  "LinkProberStateMachineBase_processEvent cfg e m =
     (case LinkProberState_handleEvent cfg e (psm_current m) m of
        (m', None) \<Rightarrow> (m', [])
      | (m', Some l) \<Rightarrow>
          (LinkProberStateMachineBase_setCurrentState l m', if l \<noteq> psm_current m then [l] else []))"

text \<open>
  The events that the base class handles by a virtual, non-template overload of
  \<open>processEvent\<close>, empty in the base class.
\<close>

fun peer_event :: "icmp_event \<Rightarrow> bool" where
  "peer_event IcmpPeerActiveEvent = True"
| "peer_event IcmpPeerUnknownEvent = True"
| "peer_event IcmpHwPeerActiveEvent = True"
| "peer_event IcmpHwPeerUnknownEvent = True"
| "peer_event _ = False"

definition prober_sm_objects :: "prober_label \<Rightarrow> prober_sm" where
  "prober_sm_objects l = \<lparr>
     psm_current = l, psm_mCurrentPeerState = ProberPeerWait,
     psm_mActiveState = \<lparr>pac_mPeerEventCount = 0, pac_mUnknownEventCount = 0\<rparr>,
     psm_mStandbyState = \<lparr>psc_mSelfEventCount = 0, psc_mUnknownEventCount = 0\<rparr>,
     psm_mUnknownState = \<lparr>puc_mSelfEventCount = 0, puc_mPeerEventCount = 0\<rparr>,
     psm_mWaitState = \<lparr>pwc_mSelfEventCount = 0, pwc_mPeerEventCount = 0, pwc_mUnknownEventCount = 0\<rparr>,
     psm_mPeerActiveState = \<lparr>ppa_mUnknownEventCount = 0\<rparr>,
     psm_mPeerUnknownState = \<lparr>ppu_mPeerEventCount = 0\<rparr>,
     psm_mPeerWaitState = \<lparr>ppw_mPeerActiveEvent = 0, ppw_mPeerUnknownEvent = 0\<rparr>\<rparr>"

section \<open>The active-standby machine\<close>

definition LinkProberStateMachineActiveStandby_enterState :: "prober_label \<Rightarrow> prober_sm \<Rightarrow> prober_sm" where
  "LinkProberStateMachineActiveStandby_enterState l m =
     (case l of
        ProberActive \<Rightarrow> LinkProberStateMachineBase_setCurrentState ProberActive m
      | ProberStandby \<Rightarrow> LinkProberStateMachineBase_setCurrentState ProberStandby m
      | ProberUnknown \<Rightarrow> LinkProberStateMachineBase_setCurrentState ProberUnknown m
      | ProberWait \<Rightarrow> LinkProberStateMachineBase_setCurrentState ProberWait m
      | _ \<Rightarrow> m)"

fun LinkProberStateMachineActiveStandby_processEvent ::
  "mux_port_config \<Rightarrow> prober_event \<Rightarrow> prober_sm \<Rightarrow> prober_sm \<times> task list" where
  "LinkProberStateMachineActiveStandby_processEvent cfg (IcmpEvent e) m =
     (if peer_event e then (m, [])
      else case LinkProberStateMachineBase_processEvent cfg e m of
        (m', out) \<Rightarrow> (m', map TaskProberChange out))"
| "LinkProberStateMachineActiveStandby_processEvent cfg SuspendTimerExpiredEvent m = (m, [TaskSuspendTimerExpiry])"
| "LinkProberStateMachineActiveStandby_processEvent cfg SwitchActiveCommandCompleteEvent m =
     (m, [TaskSwitchActiveCompletion])"
| "LinkProberStateMachineActiveStandby_processEvent cfg SwitchActiveRequestEvent m = (m, [TaskSwitchActiveRequest])"
| "LinkProberStateMachineActiveStandby_processEvent cfg MuxProbeRequestEvent m = (m, [])"

definition LinkProberStateMachineActiveStandby_handleMackAddressUpdate :: "mac_address \<Rightarrow> task list" where
  "LinkProberStateMachineActiveStandby_handleMackAddressUpdate a = [TaskServerMac a]"

definition LinkProberStateMachineActiveStandby_handlePckLossRatioUpdate :: "u64 \<Rightarrow> u64 \<Rightarrow> task list" where
  "LinkProberStateMachineActiveStandby_handlePckLossRatioUpdate n k = [TaskPckLossRatio n k]"

section \<open>The active-active machine\<close>

definition LinkProberStateMachineActiveActive_enterState :: "prober_label \<Rightarrow> prober_sm \<Rightarrow> prober_sm" where
  "LinkProberStateMachineActiveActive_enterState l m =
     (case l of
        ProberActive \<Rightarrow> LinkProberStateMachineBase_setCurrentState ProberActive m
      | ProberUnknown \<Rightarrow> LinkProberStateMachineBase_setCurrentState ProberUnknown m
      | ProberWait \<Rightarrow> LinkProberStateMachineBase_setCurrentState ProberWait m
      | _ \<Rightarrow> m)"

definition LinkProberStateMachineActiveActive_setCurrentPeerState ::
  "prober_label \<Rightarrow> prober_sm \<Rightarrow> prober_sm" where
  "LinkProberStateMachineActiveActive_setCurrentPeerState l m =
     (if psm_mCurrentPeerState m = l then m
      else LinkProberState_resetState l (m\<lparr>psm_mCurrentPeerState := l\<rparr>))"

definition LinkProberStateMachineActiveActive_enterPeerState ::
  "prober_label \<Rightarrow> prober_sm \<Rightarrow> prober_sm" where
  "LinkProberStateMachineActiveActive_enterPeerState l m =
     (case l of
        ProberPeerActive \<Rightarrow> LinkProberStateMachineActiveActive_setCurrentPeerState ProberPeerActive m
      | ProberPeerUnknown \<Rightarrow> LinkProberStateMachineActiveActive_setCurrentPeerState ProberPeerUnknown m
      | ProberPeerWait \<Rightarrow> LinkProberStateMachineActiveActive_setCurrentPeerState ProberPeerWait m
      | _ \<Rightarrow> m)"

text \<open>The four overloads for the peer events: the template's body over the peer state.\<close>

definition LinkProberStateMachineActiveActive_processPeerEvent ::
  "mux_port_config \<Rightarrow> icmp_event \<Rightarrow> prober_sm \<Rightarrow> prober_sm \<times> prober_label list" where
  "LinkProberStateMachineActiveActive_processPeerEvent cfg e m =
     (case LinkProberState_handleEvent cfg e (psm_mCurrentPeerState m) m of
        (m', None) \<Rightarrow> (m', [])
      | (m', Some l) \<Rightarrow>
          (LinkProberStateMachineActiveActive_setCurrentPeerState l m',
           if l \<noteq> psm_mCurrentPeerState m then [l] else []))"

fun LinkProberStateMachineActiveActive_processEvent ::
  "mux_port_config \<Rightarrow> prober_event \<Rightarrow> prober_sm \<Rightarrow> prober_sm \<times> task list" where
  "LinkProberStateMachineActiveActive_processEvent cfg (IcmpEvent e) m =
     (if peer_event e
      then case LinkProberStateMachineActiveActive_processPeerEvent cfg e m of
        (m', out) \<Rightarrow> (m', map TaskPeerChange out)
      else case LinkProberStateMachineBase_processEvent cfg e m of
        (m', out) \<Rightarrow> (m', map TaskProberChange out))"
| "LinkProberStateMachineActiveActive_processEvent cfg SuspendTimerExpiredEvent m = (m, [TaskSuspendTimerExpiry])"
| "LinkProberStateMachineActiveActive_processEvent cfg SwitchActiveCommandCompleteEvent m = (m, [])"
| "LinkProberStateMachineActiveActive_processEvent cfg SwitchActiveRequestEvent m = (m, [])"
| "LinkProberStateMachineActiveActive_processEvent cfg MuxProbeRequestEvent m = (m, [TaskMuxProbeRequest])"

definition LinkProberStateMachineActiveActive_handlePckLossRatioUpdate :: "u64 \<Rightarrow> u64 \<Rightarrow> task list" where
  "LinkProberStateMachineActiveActive_handlePckLossRatioUpdate n k = [TaskPckLossRatio n k]"

text \<open>The constructors: the objects with zero counters, then \<open>enterState\<close> with a valid label.\<close>

definition LinkProberStateMachineActiveStandby_new :: "prober_label \<Rightarrow> prober_sm" where
  "LinkProberStateMachineActiveStandby_new l =
     LinkProberStateMachineActiveStandby_enterState l (prober_sm_objects l)"

definition LinkProberStateMachineActiveActive_new :: "prober_label \<Rightarrow> prober_sm" where
  "LinkProberStateMachineActiveActive_new l =
     LinkProberStateMachineActiveActive_enterPeerState ProberPeerWait
       (LinkProberStateMachineActiveActive_enterState l (prober_sm_objects l))"

lemmas prober_sm_defs [lm_defs] =
  ProberActiveState_resetState_def ProberStandbyState_resetState_def ProberUnknownState_resetState_def
  ProberWaitState_resetState_def PeerWaitState_resetState_def PeerActiveState_resetState_def
  PeerUnknownState_resetState_def LinkProberState_resetState_def
  LinkProberStateMachineBase_setCurrentState_def LinkProberStateMachineBase_resetCurrentState_def
  LinkProberState_handleEvent_def LinkProberStateMachineBase_processEvent_def prober_sm_objects_def
  LinkProberStateMachineActiveStandby_enterState_def LinkProberStateMachineActiveActive_enterState_def
  LinkProberStateMachineActiveActive_setCurrentPeerState_def
  LinkProberStateMachineActiveActive_enterPeerState_def
  LinkProberStateMachineActiveActive_processPeerEvent_def
  LinkProberStateMachineActiveStandby_new_def LinkProberStateMachineActiveActive_new_def

section \<open>Current labels\<close>

lemma prober_resetState_current [simp]:
  "psm_current (LinkProberState_resetState l m) = psm_current m"
  "psm_mCurrentPeerState (LinkProberState_resetState l m) = psm_mCurrentPeerState m"
  by (simp_all add: LinkProberState_resetState_def split: prober_label.splits)

lemma prober_setCurrentState_current [simp]:
  "psm_current (LinkProberStateMachineBase_setCurrentState l m) = l"
  "psm_mCurrentPeerState (LinkProberStateMachineBase_setCurrentState l m) = psm_mCurrentPeerState m"
  by (simp_all add: LinkProberStateMachineBase_setCurrentState_def)

lemma prober_resetCurrentState_current [simp]:
  "psm_current (LinkProberStateMachineBase_resetCurrentState m) = psm_current m"
  by (simp add: LinkProberStateMachineBase_resetCurrentState_def)

lemma prober_setCurrentPeerState_current [simp]:
  "psm_current (LinkProberStateMachineActiveActive_setCurrentPeerState l m) = psm_current m"
  "psm_mCurrentPeerState (LinkProberStateMachineActiveActive_setCurrentPeerState l m) = l"
  by (simp_all add: LinkProberStateMachineActiveActive_setCurrentPeerState_def)

fun own_label :: "prober_label \<Rightarrow> bool" where
  "own_label ProberActive = True"
| "own_label ProberStandby = True"
| "own_label ProberUnknown = True"
| "own_label ProberWait = True"
| "own_label _ = False"

lemma AS_prober_enterState_current [simp]:
  "psm_current (LinkProberStateMachineActiveStandby_enterState l m) =
     (if own_label l then l else psm_current m)"
  by (simp add: LinkProberStateMachineActiveStandby_enterState_def split: prober_label.splits)

lemma AA_prober_enterState_current [simp]:
  "psm_current (LinkProberStateMachineActiveActive_enterState l m) =
     (if own_label l \<and> l \<noteq> ProberStandby then l else psm_current m)"
  "psm_mCurrentPeerState (LinkProberStateMachineActiveActive_enterState l m) = psm_mCurrentPeerState m"
  by (simp_all add: LinkProberStateMachineActiveActive_enterState_def split: prober_label.splits)

lemma AA_prober_enterPeerState_current [simp]:
  "psm_current (LinkProberStateMachineActiveActive_enterPeerState l m) = psm_current m"
  "psm_mCurrentPeerState (LinkProberStateMachineActiveActive_enterPeerState l m) =
     (if own_label l then psm_mCurrentPeerState m else l)"
  by (simp_all add: LinkProberStateMachineActiveActive_enterPeerState_def split: prober_label.splits)

lemma prober_handleEvent_current [simp]:
  "psm_current (fst (LinkProberState_handleEvent cfg e l m)) = psm_current m"
  "psm_mCurrentPeerState (fst (LinkProberState_handleEvent cfg e l m)) = psm_mCurrentPeerState m"
  by (simp_all add: LinkProberState_handleEvent_def split: prober_label.splits prod.splits)

lemma prober_handleEvent_currentD:
  "LinkProberState_handleEvent cfg e l m = (m', r) \<Longrightarrow>
     psm_current m' = psm_current m \<and> psm_mCurrentPeerState m' = psm_mCurrentPeerState m"
  by (metis fst_conv prober_handleEvent_current)

text \<open>Own states lead to own states and peer states to peer states.\<close>

lemma prober_handleEvent_kind:
  "snd (LinkProberState_handleEvent cfg e l m) = Some l' \<Longrightarrow> own_label l' = own_label l"
  by (cases l; cases e) (auto simp: LinkProberState_handleEvent_def Let_def split: if_splits cable_type.splits)

section \<open>The interfaces\<close>

lemma prober_processEvent_current:
  assumes "LinkProberStateMachineBase_processEvent cfg e m = (m', out)"
  shows "out = (if psm_current m' = psm_current m then [] else [psm_current m'])"
    and "psm_mCurrentPeerState m' = psm_mCurrentPeerState m"
  using assms
  by (auto simp: LinkProberStateMachineBase_processEvent_def
      dest!: prober_handleEvent_currentD split: prod.splits option.splits)

lemma prober_processPeerEvent_current:
  assumes "LinkProberStateMachineActiveActive_processPeerEvent cfg e m = (m', out)"
  shows "out = (if psm_mCurrentPeerState m' = psm_mCurrentPeerState m then []
                else [psm_mCurrentPeerState m'])"
    and "psm_current m' = psm_current m"
  using assms
  by (auto simp: LinkProberStateMachineActiveActive_processPeerEvent_def
      dest!: prober_handleEvent_currentD split: prod.splits option.splits)

interpretation prober_machine: event_machine "LinkProberStateMachineBase_processEvent cfg" psm_current
  for cfg
  by unfold_locales (metis prober_processEvent_current(1) prod.collapse)

interpretation peer_machine:
  event_machine "LinkProberStateMachineActiveActive_processPeerEvent cfg" psm_mCurrentPeerState
  for cfg
  by unfold_locales (metis prober_processPeerEvent_current(1) prod.collapse)

interpretation prober_active_peer: retry_counter "ProberActiveState_handleEvent cfg IcmpPeerEvent"
    pac_mPeerEventCount "Some ProberActive" "Some ProberStandby" "getPositiveStateChangeRetryCount cfg"
  for cfg by unfold_locales (simp_all add: Let_def)

interpretation prober_active_unknown: retry_counter "ProberActiveState_handleEvent cfg IcmpUnknownEvent"
    pac_mUnknownEventCount "Some ProberActive" "Some ProberUnknown" "getNegativeStateChangeRetryCount cfg"
  for cfg by unfold_locales (simp_all add: Let_def)

interpretation prober_standby_self: retry_counter "ProberStandbyState_handleEvent cfg IcmpSelfEvent"
    psc_mSelfEventCount "Some ProberStandby" "Some ProberActive" "getPositiveStateChangeRetryCount cfg"
  for cfg by unfold_locales (simp_all add: Let_def)

interpretation prober_standby_unknown: retry_counter "ProberStandbyState_handleEvent cfg IcmpUnknownEvent"
    psc_mUnknownEventCount "Some ProberStandby" "Some ProberUnknown" "getNegativeStateChangeRetryCount cfg"
  for cfg by unfold_locales (simp_all add: Let_def)

interpretation prober_unknown_self: retry_counter "ProberUnknownState_handleEvent cfg IcmpSelfEvent"
    puc_mSelfEventCount "Some ProberUnknown" "Some ProberActive" "getPositiveStateChangeRetryCount cfg"
  for cfg by unfold_locales (simp_all add: Let_def)

interpretation prober_peer_active_unknown: retry_counter "PeerActiveState_handleEvent cfg IcmpPeerUnknownEvent"
    ppa_mUnknownEventCount "Some ProberPeerActive" "Some ProberPeerUnknown" "getNegativeStateChangeRetryCount cfg"
  for cfg by unfold_locales (simp_all add: Let_def)

end
