(* ===== verification/Link_Manager_Base.thy ===== *)
theory Link_Manager_Base
  imports Link_State Mux_State Link_Prober_Machine
begin

text \<open>
  The base class of the link managers (\<open>link_manager/LinkManagerStateMachineBase\<close>): the
  composite state, the three sub-machines, the initialisation bits, the health label, and
  what a handler does to the outside: the tasks it posts to the strand, the timers it starts
  and cancels, and the calls it makes to the MUX port and to the link prober.

  The two managers are extensions of the record \<open>lm_base\<close>, as the two classes are subclasses;
  the operations here work on any extension. Their timers are kept in one map, indexed by
  the name of the member.
\<close>

section \<open>Composite state and timers\<close>

text \<open>\<open>std::tuple\<close> of the three labels; \<open>ps\<close>, \<open>ms\<close>, \<open>ls\<close> are the accessor macros of the code.\<close>

record composite =
  ps :: prober_label
  ms :: mux_label
  ls :: link_label

text \<open>
  A \<open>deadline_timer\<close>: the absolute expiry time, if it was ever set, and whether a wait is
  pending. Starting a timer cancels the pending wait first, so there is at most one.
\<close>

record timer =
  tm_expiry :: "nat option"
  tm_pending :: bool

section \<open>Events\<close>

text \<open>
  An \<open>AsyncEvent\<close> is a deadline timer that never expires; its waiting handlers run when the wait is cancelled.
  It is the list of the waiting handlers, in the order of registration; notifying gives the handlers to run
  and those that still wait.
\<close>

definition registerWaitHandler :: "'h \<Rightarrow> 'h list \<Rightarrow> 'h list" where
  "registerWaitHandler handler e = e @ [handler]"

definition AsyncEvent_notify :: "'h list \<Rightarrow> 'h list \<times> 'h list" where
  "AsyncEvent_notify e = (take 1 e, drop 1 e)"

definition AsyncEvent_notify_all :: "'h list \<Rightarrow> 'h list \<times> 'h list" where
  "AsyncEvent_notify_all e = (e, [])"

lemmas async_event_defs [simp] = registerWaitHandler_def AsyncEvent_notify_def AsyncEvent_notify_all_def

section \<open>The state of the base class\<close>

text \<open>
  \<open>mLinkProberPtr\<close> is also the state of the function pointers: they are bound when the prober
  is created, and calling one before that throws \<open>bad_function_call\<close>.
\<close>

record lm_base =
  mMuxPortConfig :: mux_port_config
  mCompositeState :: composite
  mLinkProberStateMachinePtr :: prober_sm
  mLinkProberPtr :: "link_prober_type option"
  mMuxStateMachine :: mux_sm
  mLinkStateMachine :: link_sm
  mLabel :: health
  mComponentInitState :: "component \<Rightarrow> bool"
  mDefaultRouteState :: default_route
  timers :: "timer_id \<Rightarrow> timer"
  now_ms :: nat
  tasks :: "task list"
  calls :: "call list"

definition post_tasks :: "task list \<Rightarrow> 'a lm_base_scheme \<Rightarrow> 'a lm_base_scheme" where
  "post_tasks ts s = s\<lparr>tasks := tasks s @ ts\<rparr>"

definition emit :: "call \<Rightarrow> 'a lm_base_scheme \<Rightarrow> 'a lm_base_scheme" where
  "emit c s = s\<lparr>calls := calls s @ [c]\<rparr>"

definition prober_call :: "call \<Rightarrow> 'a lm_base_scheme \<Rightarrow> 'a lm_base_scheme option" where
  "prober_call c s = (if mLinkProberPtr s = None then None else Some (emit c s))"

definition component_test :: "component \<Rightarrow> 'a lm_base_scheme \<Rightarrow> bool" where
  "component_test c s = mComponentInitState s c"

definition component_all :: "'a lm_base_scheme \<Rightarrow> bool" where
  "component_all s \<longleftrightarrow> mComponentInitState s LinkProberComponent \<and>
     mComponentInitState s MuxStateComponent \<and> mComponentInitState s LinkStateComponent"

definition setComponentInitState :: "component \<Rightarrow> 'a lm_base_scheme \<Rightarrow> 'a lm_base_scheme" where
  "setComponentInitState c s = s\<lparr>mComponentInitState := (mComponentInitState s)(c := True)\<rparr>"

definition cancel_timer :: "timer_id \<Rightarrow> 'a lm_base_scheme \<Rightarrow> 'a lm_base_scheme" where
  "cancel_timer i s =
     (if tm_pending (timers s i)
      then post_tasks [TaskTimer i OperationAborted]
             (s\<lparr>timers := (timers s)(i := (timers s i)\<lparr>tm_pending := False\<rparr>)\<rparr>)
      else s)"

text \<open>\<open>expires_from_now(d)\<close> followed by \<open>async_wait\<close>.\<close>

definition start_timer :: "timer_id \<Rightarrow> nat \<Rightarrow> 'a lm_base_scheme \<Rightarrow> 'a lm_base_scheme" where
  "start_timer i d s =
     (let s1 = cancel_timer i s
      in s1\<lparr>timers := (timers s1)(i := \<lparr>tm_expiry = Some (now_ms s1 + d), tm_pending = True\<rparr>)\<rparr>)"

text \<open>The environment: a timer whose time has come runs its handler with \<open>success\<close>.\<close>

definition timer_due :: "timer_id \<Rightarrow> 'a lm_base_scheme \<Rightarrow> bool" where
  "timer_due i s \<longleftrightarrow> tm_pending (timers s i) \<and>
     (case tm_expiry (timers s i) of None \<Rightarrow> False | Some t \<Rightarrow> t \<le> now_ms s)"

definition fire_timer :: "timer_id \<Rightarrow> 'a lm_base_scheme \<Rightarrow> 'a lm_base_scheme" where
  "fire_timer i s = post_tasks [TaskTimer i Success]
     (s\<lparr>timers := (timers s)(i := (timers s i)\<lparr>tm_pending := False\<rparr>)\<rparr>)"

text \<open>The wait of the probe and wait timers, computed in \<open>uint32_t\<close>.\<close>

definition mux_timeout_msec :: "u32 \<Rightarrow> mux_port_config \<Rightarrow> u32" where
  "mux_timeout_msec factor cfg =
     factor * getNegativeStateChangeRetryCount cfg * getTimeoutIpv4_msec cfg"

section \<open>Operations of the base class\<close>

definition LinkManagerStateMachineBase_postMuxStateEvent ::
  "mux_label \<Rightarrow> 'a lm_base_scheme \<Rightarrow> 'a lm_base_scheme" where
  "LinkManagerStateMachineBase_postMuxStateEvent l s =
     (case l of
        MuxActive \<Rightarrow> post_tasks [TaskMuxEvent ActiveEvent] s
      | MuxStandby \<Rightarrow> post_tasks [TaskMuxEvent StandbyEvent] s
      | MuxUnknown \<Rightarrow> post_tasks [TaskMuxEvent UnknownEvent] s
      | MuxError \<Rightarrow> post_tasks [TaskMuxEvent ErrorEvent] s
      | MuxWait \<Rightarrow> s)"

definition LinkManagerStateMachineBase_handleSrcMacConfigNotification ::
  "'a lm_base_scheme \<Rightarrow> 'a lm_base_scheme option" where
  "LinkManagerStateMachineBase_handleSrcMacConfigNotification s =
     (if mLinkProberPtr s \<noteq> None then prober_call UpdateEthernetFrame s else Some s)"

text \<open>The virtual handlers that a subclass does not override, and the empty transition function.\<close>

definition LinkManagerStateMachineBase_noop_handler :: "'a lm_base_scheme \<Rightarrow> 'a lm_base_scheme option" where
  "LinkManagerStateMachineBase_noop_handler s = Some s"

definition noopTransitionFunction ::
  "'a lm_base_scheme \<Rightarrow> composite \<Rightarrow> ('a lm_base_scheme \<times> composite) option" where
  "noopTransitionFunction s ns = Some (s, ns)"

text \<open>The event handlers of the sub-machines, run as tasks.\<close>

definition process_mux_event :: "mux_event \<Rightarrow> 'a lm_base_scheme \<Rightarrow> 'a lm_base_scheme" where
  "process_mux_event e s =
     (case MuxStateMachine_processEvent (mMuxPortConfig s) e (mMuxStateMachine s) of
        (m, out) \<Rightarrow> post_tasks (map TaskMuxChange out) (s\<lparr>mMuxStateMachine := m\<rparr>))"

definition process_link_event :: "link_event \<Rightarrow> 'a lm_base_scheme \<Rightarrow> 'a lm_base_scheme" where
  "process_link_event e s =
     (case LinkStateMachine_processEvent (mMuxPortConfig s) e (mLinkStateMachine s) of
        (m, out) \<Rightarrow> post_tasks (map TaskLinkChange out) (s\<lparr>mLinkStateMachine := m\<rparr>))"

lemmas lm_base_defs [lm_defs] =
  post_tasks_def emit_def prober_call_def component_test_def component_all_def
  setComponentInitState_def cancel_timer_def start_timer_def timer_due_def fire_timer_def
  mux_timeout_msec_def LinkManagerStateMachineBase_postMuxStateEvent_def
  LinkManagerStateMachineBase_handleSrcMacConfigNotification_def
  LinkManagerStateMachineBase_noop_handler_def noopTransitionFunction_def
  process_mux_event_def process_link_event_def

section \<open>The strand\<close>

text \<open>
  The notifications that other threads may post for a port at any time, through
  \<open>MuxPort.cpp\<close> and the link prober. The remaining tasks are posted by handlers only.
\<close>

fun external_task :: "task \<Rightarrow> bool" where
  "external_task (TaskMuxEvent _) = False"
| "external_task (TaskLinkEvent _) = False"
| "external_task (TaskProberChange _) = False"
| "external_task (TaskPeerChange _) = False"
| "external_task (TaskMuxChange _) = False"
| "external_task (TaskLinkChange _) = False"
| "external_task TaskSuspendTimerExpiry = False"
| "external_task TaskSwitchActiveCompletion = False"
| "external_task TaskSwitchActiveRequest = False"
| "external_task TaskMuxProbeRequest = False"
| "external_task (TaskTimer _ _) = False"
| "external_task (TaskGetMuxState l) = (l \<noteq> MuxWait)"
| "external_task (TaskProbeMuxState l) = (l \<noteq> MuxWait)"
| "external_task (TaskMuxState l) = (l \<noteq> MuxWait)"
| "external_task (TaskPeerMuxState l) = (l \<noteq> MuxWait)"
| "external_task _ = True"

definition take_task :: "nat \<Rightarrow> 'a lm_base_scheme \<Rightarrow> 'a lm_base_scheme" where
  "take_task i s = s\<lparr>tasks := take i (tasks s) @ drop (Suc i) (tasks s)\<rparr>"

text \<open>
  One step of a port. The io service has several threads, so no order between two posted
  tasks is assumed: any pending task may run next, a task runs to its end (the strand), time
  passes, due timers fire, other threads post notifications, and they change the shared
  configuration and the type of the prober.
\<close>

inductive port_step ::
  "(task \<Rightarrow> 'a lm_base_scheme \<Rightarrow> 'a lm_base_scheme option) \<Rightarrow> 'a lm_base_scheme \<Rightarrow> 'a lm_base_scheme \<Rightarrow> bool"
  for run where
  step_notify: "external_task t \<Longrightarrow> port_step run s (post_tasks [t] s)"
| step_run: "i < length (tasks s) \<Longrightarrow> run (tasks s ! i) (take_task i s) = Some s' \<Longrightarrow> port_step run s s'"
| step_timer: "timer_due i s \<Longrightarrow> port_step run s (fire_timer i s)"
| step_clock: "port_step run s (s\<lparr>now_ms := now_ms s + d\<rparr>)"
| step_config: "port_step run s (s\<lparr>mMuxPortConfig := (mMuxPortConfig s)\<lparr>mMuxConfig := c, mLinkProberType := ty\<rparr>\<rparr>)"

inductive port_reachable ::
  "(task \<Rightarrow> 'a lm_base_scheme \<Rightarrow> 'a lm_base_scheme option) \<Rightarrow> 'a lm_base_scheme \<Rightarrow> 'a lm_base_scheme \<Rightarrow> bool"
  for run s0 where
  reach_start: "port_reachable run s0 s0"
| reach_step: "port_reachable run s0 s \<Longrightarrow> port_step run s s' \<Longrightarrow> port_reachable run s0 s'"

inductive_cases port_stepE: "port_step run s s'"

text \<open>An executable driver for witnesses: run the first pending task, at most \<open>n\<close> times.\<close>

fun drain ::
  "(task \<Rightarrow> 'a lm_base_scheme \<Rightarrow> 'a lm_base_scheme option) \<Rightarrow> nat \<Rightarrow> 'a lm_base_scheme \<Rightarrow> 'a lm_base_scheme option" where
  "drain run 0 s = Some s"
| "drain run (Suc n) s =
     (case tasks s of
        [] \<Rightarrow> Some s
      | t # ts \<Rightarrow> Option.bind (run t (s\<lparr>tasks := ts\<rparr>)) (drain run n))"

lemma drain_reachable: "port_reachable run s0 s \<Longrightarrow> drain run n s = Some s' \<Longrightarrow> port_reachable run s0 s'"
proof (induction n arbitrary: s)
  case (Suc n)
  show ?case
  proof (cases "tasks s")
    case (Cons t ts)
    with Suc.prems(2) obtain s1 where s1: "run t (s\<lparr>tasks := ts\<rparr>) = Some s1" "drain run n s1 = Some s'"
      by (auto simp: bind_eq_Some_conv)
    have "port_step run s s1"
      using step_run [where i = 0 and s = s and run = run] s1(1) Cons by (simp add: take_task_def)
    with Suc.prems(1) have "port_reachable run s0 s1" by (rule reach_step)
    then show ?thesis using s1(2) by (rule Suc.IH)
  qed (use Suc.prems in simp)
qed simp

lemma post_tasks_append: "post_tasks (ts @ us) s = post_tasks us (post_tasks ts s)"
  by (simp add: post_tasks_def)

lemma posts_reachable:
  "port_reachable run s0 s \<Longrightarrow> list_all external_task ts \<Longrightarrow> port_reachable run s0 (post_tasks ts s)"
proof (induction ts rule: rev_induct)
  case Nil
  then show ?case by (simp add: post_tasks_def)
next
  case (snoc t ts)
  then have "port_reachable run s0 (post_tasks ts s)" and "external_task t" by simp_all
  then show ?case unfolding post_tasks_append by (blast intro: reach_step step_notify)
qed

text \<open>
  The contract of a link manager with its strand: an invariant that every kind of step keeps.
  The conclusion is that it holds in every reachable state, whatever the order of the tasks.
\<close>

locale strand_invariant =
  fixes run :: "task \<Rightarrow> 'a lm_base_scheme \<Rightarrow> 'a lm_base_scheme option"
    and inv :: "'a lm_base_scheme \<Rightarrow> bool"
  assumes inv_post: "inv s \<Longrightarrow> inv (post_tasks [t] s)"
    and inv_run: "inv s \<Longrightarrow> i < length (tasks s) \<Longrightarrow> run (tasks s ! i) (take_task i s) = Some s' \<Longrightarrow> inv s'"
    and inv_fire: "inv s \<Longrightarrow> inv (fire_timer j s)"
    and inv_clock: "inv s \<Longrightarrow> inv (s\<lparr>now_ms := now_ms s + d\<rparr>)"
    and inv_config: "inv s \<Longrightarrow> inv (s\<lparr>mMuxPortConfig := (mMuxPortConfig s)\<lparr>mMuxConfig := c, mLinkProberType := ty\<rparr>\<rparr>)"
begin

lemma inv_step: "port_step run s s' \<Longrightarrow> inv s \<Longrightarrow> inv s'"
  by (induction rule: port_step.induct) (auto intro: inv_post inv_run inv_fire inv_clock inv_config)

lemma inv_reachable: "port_reachable run s0 s \<Longrightarrow> inv s0 \<Longrightarrow> inv s"
  by (induction rule: port_reachable.induct) (auto intro: inv_step)

end

section \<open>Frame lemmas\<close>

lemma post_tasks_frame [simp]:
  "mCompositeState (post_tasks ts s) = mCompositeState s"
  "mMuxStateMachine (post_tasks ts s) = mMuxStateMachine s"
  "mLinkStateMachine (post_tasks ts s) = mLinkStateMachine s"
  "mLinkProberStateMachinePtr (post_tasks ts s) = mLinkProberStateMachinePtr s"
  "mMuxPortConfig (post_tasks ts s) = mMuxPortConfig s"
  "mLinkProberPtr (post_tasks ts s) = mLinkProberPtr s"
  "mComponentInitState (post_tasks ts s) = mComponentInitState s"
  "mDefaultRouteState (post_tasks ts s) = mDefaultRouteState s"
  "mLabel (post_tasks ts s) = mLabel s"
  "calls (post_tasks ts s) = calls s"
  "timers (post_tasks ts s) = timers s"
  "now_ms (post_tasks ts s) = now_ms s"
  "tasks (post_tasks ts s) = tasks s @ ts"
  "lm_base.more (post_tasks ts s) = lm_base.more s"
  by (simp_all add: post_tasks_def)

lemma emit_frame [simp]:
  "mCompositeState (emit c s) = mCompositeState s"
  "mMuxStateMachine (emit c s) = mMuxStateMachine s"
  "mLinkStateMachine (emit c s) = mLinkStateMachine s"
  "mLinkProberStateMachinePtr (emit c s) = mLinkProberStateMachinePtr s"
  "mMuxPortConfig (emit c s) = mMuxPortConfig s"
  "mLinkProberPtr (emit c s) = mLinkProberPtr s"
  "mComponentInitState (emit c s) = mComponentInitState s"
  "mDefaultRouteState (emit c s) = mDefaultRouteState s"
  "mLabel (emit c s) = mLabel s"
  "calls (emit c s) = calls s @ [c]"
  "timers (emit c s) = timers s"
  "now_ms (emit c s) = now_ms s"
  "tasks (emit c s) = tasks s"
  "lm_base.more (emit c s) = lm_base.more s"
  by (simp_all add: emit_def)

lemma cancel_timer_frame [simp]:
  "mCompositeState (cancel_timer i s) = mCompositeState s"
  "mMuxStateMachine (cancel_timer i s) = mMuxStateMachine s"
  "mLinkStateMachine (cancel_timer i s) = mLinkStateMachine s"
  "mLinkProberStateMachinePtr (cancel_timer i s) = mLinkProberStateMachinePtr s"
  "mMuxPortConfig (cancel_timer i s) = mMuxPortConfig s"
  "mLinkProberPtr (cancel_timer i s) = mLinkProberPtr s"
  "mComponentInitState (cancel_timer i s) = mComponentInitState s"
  "mDefaultRouteState (cancel_timer i s) = mDefaultRouteState s"
  "mLabel (cancel_timer i s) = mLabel s"
  "calls (cancel_timer i s) = calls s"
  "now_ms (cancel_timer i s) = now_ms s"
  "lm_base.more (cancel_timer i s) = lm_base.more s"
  "tasks (cancel_timer i s) =
     tasks s @ (if tm_pending (timers s i) then [TaskTimer i OperationAborted] else [])"
  by (simp_all add: cancel_timer_def)

lemma start_timer_frame [simp]:
  "mCompositeState (start_timer i d s) = mCompositeState s"
  "mMuxStateMachine (start_timer i d s) = mMuxStateMachine s"
  "mLinkStateMachine (start_timer i d s) = mLinkStateMachine s"
  "mLinkProberStateMachinePtr (start_timer i d s) = mLinkProberStateMachinePtr s"
  "mMuxPortConfig (start_timer i d s) = mMuxPortConfig s"
  "mLinkProberPtr (start_timer i d s) = mLinkProberPtr s"
  "mComponentInitState (start_timer i d s) = mComponentInitState s"
  "mDefaultRouteState (start_timer i d s) = mDefaultRouteState s"
  "mLabel (start_timer i d s) = mLabel s"
  "calls (start_timer i d s) = calls s"
  "now_ms (start_timer i d s) = now_ms s"
  "lm_base.more (start_timer i d s) = lm_base.more s"
  "tasks (start_timer i d s) =
     tasks s @ (if tm_pending (timers s i) then [TaskTimer i OperationAborted] else [])"
  by (simp_all add: start_timer_def Let_def)

lemma timers_cancel_timer [simp]:
  "timers (cancel_timer i s) = (timers s)(i := (timers s i)\<lparr>tm_pending := False\<rparr>)"
proof (cases "tm_pending (timers s i)")
  case False
  then have "(timers s i)\<lparr>tm_pending := False\<rparr> = timers s i" by (cases "timers s i") simp
  with False show ?thesis by (simp only: cancel_timer_def if_False fun_upd_triv)
qed (simp add: cancel_timer_def)

lemma timers_start_timer [simp]:
  "timers (start_timer i d s) = (timers s)(i := \<lparr>tm_expiry = Some (now_ms s + d), tm_pending = True\<rparr>)"
  by (simp add: start_timer_def Let_def)

lemma set_take_task:
  assumes "i < length (tasks s)"
  shows "set (tasks s) = insert (tasks s ! i) (set (tasks (take_task i s)))"
proof -
  have "set (tasks s) = set (take i (tasks s) @ tasks s ! i # drop (Suc i) (tasks s))"
    by (simp only: id_take_nth_drop [OF assms, symmetric])
  then show ?thesis by (simp add: take_task_def)
qed

lemma take_task_frame [simp]:
  "mCompositeState (take_task i s) = mCompositeState s"
  "mMuxStateMachine (take_task i s) = mMuxStateMachine s"
  "mLinkStateMachine (take_task i s) = mLinkStateMachine s"
  "mLinkProberStateMachinePtr (take_task i s) = mLinkProberStateMachinePtr s"
  "mMuxPortConfig (take_task i s) = mMuxPortConfig s"
  "mLinkProberPtr (take_task i s) = mLinkProberPtr s"
  "mComponentInitState (take_task i s) = mComponentInitState s"
  "calls (take_task i s) = calls s"
  "lm_base.more (take_task i s) = lm_base.more s"
  by (simp_all add: take_task_def)

end
