(* ===== verification/Active_Standby.thy ===== *)
theory Active_Standby
  imports Link_Manager_Base
begin

text \<open>
  The link manager of an active-standby cable
  (\<open>link_manager/LinkManagerStateMachineActiveStandby.cpp\<close>): its state, every handler,
  every transition function and the transition table. The handlers that take a
  \<open>CompositeState &nextState\<close> take and return it beside the state; where the code passes
  \<open>mCompositeState\<close> itself the result is written back. \<open>None\<close> is an exception
  (\<open>bad_function_call\<close>, the prober not being bound yet).
\<close>

section \<open>State\<close>

record as_state = lm_base +
  mPeerLinkState :: link_label
  mOscillationTimerAlive :: bool
  mWaitActiveUpCount :: u32
  mActiveUnknownUpCount :: u32
  mStandbyUnknownUpCount :: u32
  mMuxUnknownBackoffFactor :: u32
  mWaitStandbyUpBackoffFactor :: u32
  mUnknownActiveUpBackoffFactor :: u32
  mPendingMuxModeChange :: bool
  mTargetMuxMode :: mux_mode
  mLastSetMuxState :: mux_label
  as_mContinuousLinkProberUnknownEvent :: bool
  mSendSwitchActiveCommandCause :: switch_cause

definition AS_MAX_BACKOFF_FACTOR :: u32 where
  "AS_MAX_BACKOFF_FACTOR = 128"

text \<open>
  The constructor, for a port configuration and the indeterminate first value of
  \<open>mSendSwitchActiveCommandCause\<close>, which has no initialiser.
\<close>

definition ActiveStandbyStateMachine_new :: "switch_cause \<Rightarrow> mux_port_config \<Rightarrow> as_state" where
  "ActiveStandbyStateMachine_new indet cfg = \<lparr>
     mMuxPortConfig = cfg,
     mCompositeState = \<lparr>ps = ProberUnknown, ms = MuxWait, ls = LinkDown\<rparr>,
     mLinkProberStateMachinePtr = LinkProberStateMachineActiveStandby_new ProberUnknown,
     mLinkProberPtr = None,
     mMuxStateMachine = MuxStateMachine_setWaitStateCause SwssUpdate (MuxStateMachine_new MuxWait),
     mLinkStateMachine = LinkStateMachine_new LinkDown,
     mLabel = Uninitialized,
     mComponentInitState = (\<lambda>_. False),
     mDefaultRouteState = RouteWait,
     timers = (\<lambda>_. \<lparr>tm_expiry = None, tm_pending = False\<rparr>),
     now_ms = 0, tasks = [], calls = [SetMuxLinkmgrState Uninitialized],
     mPeerLinkState = LinkDown,
     mOscillationTimerAlive = False,
     mWaitActiveUpCount = 0, mActiveUnknownUpCount = 0, mStandbyUnknownUpCount = 0,
     mMuxUnknownBackoffFactor = 1, mWaitStandbyUpBackoffFactor = 1, mUnknownActiveUpBackoffFactor = 1,
     mPendingMuxModeChange = False, mTargetMuxMode = ModeAuto, mLastSetMuxState = MuxWait,
     as_mContinuousLinkProberUnknownEvent = False,
     mSendSwitchActiveCommandCause = indet\<rparr>"

section \<open>Timers\<close>

definition AS_startMuxProbeTimer :: "u32 \<Rightarrow> as_state \<Rightarrow> as_state" where
  "AS_startMuxProbeTimer factor s =
     start_timer DeadlineTimer (unat (mux_timeout_msec factor (mMuxPortConfig s))) s"

definition AS_startMuxWaitTimer :: "u32 \<Rightarrow> as_state \<Rightarrow> as_state" where
  "AS_startMuxWaitTimer factor s =
     start_timer WaitTimer (unat (mux_timeout_msec factor (mMuxPortConfig s))) s"

definition AS_startOscillationTimer :: "as_state \<Rightarrow> as_state" where
  "AS_startOscillationTimer s =
     start_timer OscillationTimer (1000 * unat (getOscillationInterval_sec (mMuxPortConfig s)))
       (s\<lparr>mOscillationTimerAlive := True\<rparr>)"

definition AS_tryCancelOscillationTimerIfAlive :: "as_state \<Rightarrow> as_state" where
  "AS_tryCancelOscillationTimerIfAlive s =
     (if mOscillationTimerAlive s
      then cancel_timer OscillationTimer (s\<lparr>mOscillationTimerAlive := False\<rparr>)
      else s)"

section \<open>Labels and sub-machine states\<close>

definition AS_setLabel :: "health \<Rightarrow> as_state \<Rightarrow> as_state" where
  "AS_setLabel l s =
     (if mLabel s \<noteq> l then emit (SetMuxLinkmgrState l) (s\<lparr>mLabel := l\<rparr>) else s)"

definition AS_updateMuxLinkmgrState :: "as_state \<Rightarrow> as_state option" where
  "AS_updateMuxLinkmgrState s =
     (let c = mCompositeState s in
      if ls c = LinkUp \<and>
         (ps c = ProberActive \<and> ms c = MuxActive \<or> ps c = ProberStandby \<and> ms c = MuxStandby) \<and>
         (\<not> ifEnableDefaultRouteFeature (mMuxPortConfig s) \<or> mDefaultRouteState s = RouteOK)
      then do {
        s \<leftarrow> prober_call RevertInterval s;
        Some (AS_setLabel Healthy s)
      }
      else Some (AS_setLabel Unhealthy s))"

definition AS_enterLinkProberState ::
  "prober_label \<Rightarrow> bool \<Rightarrow> as_state \<Rightarrow> composite \<Rightarrow> as_state \<times> composite" where
  "AS_enterLinkProberState l forceReset s ns =
     (let m = LinkProberStateMachineActiveStandby_enterState l (mLinkProberStateMachinePtr s);
          m = (if forceReset \<and> ps ns = l then LinkProberStateMachineBase_resetCurrentState m else m);
          s = s\<lparr>mLinkProberStateMachinePtr := m\<rparr>;
          s = (if l = ProberWait then emit (PostLinkProberMetricsEvent LinkProberWaitStart) s else s)
      in (s, ns\<lparr>ps := l\<rparr>))"

definition AS_enterMuxState :: "mux_label \<Rightarrow> as_state \<Rightarrow> composite \<Rightarrow> as_state \<times> composite" where
  "AS_enterMuxState l s ns =
     (s\<lparr>mMuxStateMachine := MuxStateMachine_enterState l (mMuxStateMachine s)\<rparr>, ns\<lparr>ms := l\<rparr>)"

definition AS_enterLinkState :: "link_label \<Rightarrow> as_state \<Rightarrow> composite \<Rightarrow> as_state \<times> composite" where
  "AS_enterLinkState l s ns =
     (s\<lparr>mLinkStateMachine := LinkStateMachine_enterState l (mLinkStateMachine s)\<rparr>, ns\<lparr>ls := l\<rparr>)"

definition AS_setWaitStateCause :: "wait_cause \<Rightarrow> as_state \<Rightarrow> as_state" where
  "AS_setWaitStateCause c s =
     s\<lparr>mMuxStateMachine := MuxStateMachine_setWaitStateCause c (mMuxStateMachine s)\<rparr>"

definition AS_enterMuxWaitState :: "as_state \<Rightarrow> composite \<Rightarrow> as_state \<times> composite" where
  "AS_enterMuxWaitState s ns =
     (case AS_enterMuxState MuxWait s ns of
        (s, ns) \<Rightarrow>
          (AS_startMuxWaitTimer AS_MAX_BACKOFF_FACTOR (emit ProbeMuxState (AS_setWaitStateCause DriverUpdate s)), ns))"

definition AS_switchMuxState ::
  "switch_cause \<Rightarrow> mux_label \<Rightarrow> bool \<Rightarrow> as_state \<Rightarrow> composite \<Rightarrow> (as_state \<times> composite) option" where
  "AS_switchMuxState cause l forceSwitch s ns =
     (if forceSwitch \<or> mMode (mMuxPortConfig s) = ModeAuto then do {
        let s = (if l = MuxActive then s\<lparr>mWaitActiveUpCount := 0\<rparr> else s);
        let s = s\<lparr>mLastSetMuxState := l\<rparr>;
        let (s, ns) = AS_enterMuxState MuxWait s ns;
        let s = AS_setWaitStateCause SwssUpdate s;
        let s = emit (PostMetricsEvent SwitchingStart l) s;
        let s = emit (PostSwitchCause cause) s;
        let s = emit (SetMuxState l) s;
        s \<leftarrow> (if ifEnableSwitchoverMeasurement (mMuxPortConfig s)
             then prober_call (DecreaseInterval (getLinkWaitTimeout_msec (mMuxPortConfig s))) s
             else Some s);
        let s = cancel_timer DeadlineTimer s;
        Some (AS_startMuxWaitTimer AS_MAX_BACKOFF_FACTOR s, ns)
      }
      else Some (AS_enterMuxWaitState s ns))"

definition AS_initLinkProberState :: "bool \<Rightarrow> as_state \<Rightarrow> composite \<Rightarrow> as_state \<times> composite" where
  "AS_initLinkProberState forceReset s ns =
     (case ms ns of
        MuxActive \<Rightarrow> AS_enterLinkProberState ProberActive forceReset s ns
      | MuxStandby \<Rightarrow> AS_enterLinkProberState ProberStandby forceReset s ns
      | MuxUnknown \<Rightarrow> AS_enterLinkProberState ProberUnknown forceReset s ns
      | MuxError \<Rightarrow> AS_enterLinkProberState ProberWait forceReset s ns
      | MuxWait \<Rightarrow> AS_enterLinkProberState ProberWait forceReset s ns)"

definition AS_shutdownOrRestartLinkProberOnDefaultRoute :: "as_state \<Rightarrow> as_state option" where
  "AS_shutdownOrRestartLinkProberOnDefaultRoute s =
     (if component_all s then
        (if (mMode (mMuxPortConfig s) = ModeAuto \<or> mMode (mMuxPortConfig s) = ModeStandby) \<and>
            mDefaultRouteState s = RouteNA
         then prober_call ShutdownTx s
         else prober_call RestartTx s)
      else Some s)"

text \<open>\<open>LOGWARNING_MUX_STATE_TRANSITION\<close> followed by the assignment of the composite state.\<close>

definition AS_commit :: "as_state \<times> composite \<Rightarrow> as_state" where
  "AS_commit r = (fst r)\<lparr>mCompositeState := snd r\<rparr>"

section \<open>Transition functions\<close>

definition AS_entering_by_prober :: "as_state \<Rightarrow> composite \<Rightarrow> bool" where
  "AS_entering_by_prober s ns \<longleftrightarrow>
     ps (mCompositeState s) \<noteq> ps ns \<and> (ps ns = ProberActive \<or> ps ns = ProberStandby)"

definition AS_LinkProberStandbyMuxActiveLinkUp :: "as_state \<Rightarrow> composite \<Rightarrow> (as_state \<times> composite) option" where
  "AS_LinkProberStandbyMuxActiveLinkUp s ns =
     (if AS_entering_by_prober s ns then Some (AS_enterMuxWaitState s ns)
      else Some (AS_startMuxProbeTimer 1 s, ns))"

definition AS_LinkProberUnknownMuxActiveLinkUp :: "as_state \<Rightarrow> composite \<Rightarrow> (as_state \<times> composite) option" where
  "AS_LinkProberUnknownMuxActiveLinkUp s ns = do {
     s \<leftarrow> prober_call (SuspendTx (getLinkWaitTimeout_msec (mMuxPortConfig s) * mUnknownActiveUpBackoffFactor s)) s;
     Some (s\<lparr>mUnknownActiveUpBackoffFactor := backoff_double AS_MAX_BACKOFF_FACTOR (mUnknownActiveUpBackoffFactor s),
             mWaitActiveUpCount := 0\<rparr>, ns)
   }"

definition AS_LinkProberActiveMuxStandbyLinkUp :: "as_state \<Rightarrow> composite \<Rightarrow> (as_state \<times> composite) option" where
  "AS_LinkProberActiveMuxStandbyLinkUp s ns =
     (if AS_entering_by_prober s ns then Some (AS_enterMuxWaitState s ns)
      else Some (AS_startMuxProbeTimer 1 s, ns))"

definition AS_LinkProberUnknownMuxStandbyLinkUp :: "as_state \<Rightarrow> composite \<Rightarrow> (as_state \<times> composite) option" where
  "AS_LinkProberUnknownMuxStandbyLinkUp s ns = do {
     let (s, ns) = AS_enterLinkProberState ProberWait False s ns;
     (s, ns) \<leftarrow> (if mDefaultRouteState s = RouteOK then do {
                  (s, ns) \<leftarrow> AS_switchMuxState PeerHeartbeatMissing MuxActive False s ns;
                  Some (cancel_timer DeadlineTimer s, ns)
                }
                else Some (AS_enterMuxWaitState s ns));
     Some (s\<lparr>mWaitActiveUpCount := 0\<rparr>, ns)
   }"

definition AS_LinkProberActiveMuxUnknownLinkUp :: "as_state \<Rightarrow> composite \<Rightarrow> (as_state \<times> composite) option" where
  "AS_LinkProberActiveMuxUnknownLinkUp s ns =
     (let s = s\<lparr>mActiveUnknownUpCount := mActiveUnknownUpCount s + 1\<rparr> in
      if mActiveUnknownUpCount s = getNegativeStateChangeRetryCount (mMuxPortConfig s)
      then AS_switchMuxState HarewareStateUnknown MuxActive False s ns
      else Some (AS_enterMuxWaitState s ns))"

definition AS_LinkProberStandbyMuxUnknownLinkUp :: "as_state \<Rightarrow> composite \<Rightarrow> (as_state \<times> composite) option" where
  "AS_LinkProberStandbyMuxUnknownLinkUp s ns =
     (let s = s\<lparr>mStandbyUnknownUpCount := mStandbyUnknownUpCount s + 1\<rparr> in
      if AS_entering_by_prober s ns then Some (AS_enterMuxWaitState s ns)
      else if mStandbyUnknownUpCount s = getNegativeStateChangeRetryCount (mMuxPortConfig s)
      then AS_switchMuxState HarewareStateUnknown MuxStandby False s ns
      else Some (AS_startMuxProbeTimer 1 s, ns))"

definition AS_LinkProberUnknownMuxUnknownLinkUp :: "as_state \<Rightarrow> composite \<Rightarrow> (as_state \<times> composite) option" where
  "AS_LinkProberUnknownMuxUnknownLinkUp s ns =
     (let s = AS_startMuxProbeTimer (mMuxUnknownBackoffFactor s) s in
      Some (s\<lparr>mMuxUnknownBackoffFactor := backoff_double AS_MAX_BACKOFF_FACTOR (mMuxUnknownBackoffFactor s)\<rparr>, ns))"

definition AS_LinkProberActiveMuxErrorLinkUp :: "as_state \<Rightarrow> composite \<Rightarrow> (as_state \<times> composite) option" where
  "AS_LinkProberActiveMuxErrorLinkUp s ns =
     (if AS_entering_by_prober s ns then Some (AS_enterMuxWaitState s ns) else Some (s, ns))"

definition AS_LinkProberStandbyMuxErrorLinkUp :: "as_state \<Rightarrow> composite \<Rightarrow> (as_state \<times> composite) option" where
  "AS_LinkProberStandbyMuxErrorLinkUp s ns =
     (if AS_entering_by_prober s ns then Some (AS_enterMuxWaitState s ns) else Some (s, ns))"

definition AS_LinkProberWaitMuxActiveLinkUp :: "as_state \<Rightarrow> composite \<Rightarrow> (as_state \<times> composite) option" where
  "AS_LinkProberWaitMuxActiveLinkUp s ns = do {
     let n = mWaitActiveUpCount s;
     let s = AS_startMuxProbeTimer (if 7 < n then AS_MAX_BACKOFF_FACTOR else push_bit (unat n) 1) s;
     let s = s\<lparr>mWaitActiveUpCount := n + 1\<rparr>;
     s \<leftarrow> (if bit n 0 then prober_call (SuspendTx (getLinkWaitTimeout_msec (mMuxPortConfig s))) s else Some s);
     Some (if mOscillationTimerAlive s then s else AS_startOscillationTimer s, ns)
   }"

definition AS_LinkProberWaitMuxStandbyLinkUp :: "as_state \<Rightarrow> composite \<Rightarrow> (as_state \<times> composite) option" where
  "AS_LinkProberWaitMuxStandbyLinkUp s ns =
     (let s = AS_startMuxProbeTimer (mWaitStandbyUpBackoffFactor s) s in
      Some (s\<lparr>mWaitStandbyUpBackoffFactor :=
               backoff_double AS_MAX_BACKOFF_FACTOR (mWaitStandbyUpBackoffFactor s)\<rparr>, ns))"

definition AS_LinkProberWaitMuxUnknownLinkUp :: "as_state \<Rightarrow> composite \<Rightarrow> (as_state \<times> composite) option" where
  "AS_LinkProberWaitMuxUnknownLinkUp s ns =
     (let s = AS_startMuxProbeTimer (mMuxUnknownBackoffFactor s) s in
      Some (s\<lparr>mMuxUnknownBackoffFactor := backoff_double AS_MAX_BACKOFF_FACTOR (mMuxUnknownBackoffFactor s)\<rparr>, ns))"

definition AS_LinkProberUnknownMuxActiveLinkDown :: "as_state \<Rightarrow> composite \<Rightarrow> (as_state \<times> composite) option" where
  "AS_LinkProberUnknownMuxActiveLinkDown s ns = Some (AS_startMuxProbeTimer 1 s, ns)"

definition AS_LinkProberUnknownMuxStandbyLinkDown :: "as_state \<Rightarrow> composite \<Rightarrow> (as_state \<times> composite) option" where
  "AS_LinkProberUnknownMuxStandbyLinkDown s ns = Some (AS_startMuxProbeTimer 1 s, ns)"

definition AS_LinkProberUnknownMuxUnknownLinkDown :: "as_state \<Rightarrow> composite \<Rightarrow> (as_state \<times> composite) option" where
  "AS_LinkProberUnknownMuxUnknownLinkDown s ns =
     (let s = AS_startMuxProbeTimer (mMuxUnknownBackoffFactor s) s in
      Some (s\<lparr>mMuxUnknownBackoffFactor := backoff_double AS_MAX_BACKOFF_FACTOR (mMuxUnknownBackoffFactor s)\<rparr>, ns))"

definition AS_LinkProberWaitMuxActiveLinkDown :: "as_state \<Rightarrow> composite \<Rightarrow> (as_state \<times> composite) option" where
  "AS_LinkProberWaitMuxActiveLinkDown s ns = Some (AS_startMuxProbeTimer 1 s, ns)"

definition AS_LinkProberWaitMuxStandbyLinkDown :: "as_state \<Rightarrow> composite \<Rightarrow> (as_state \<times> composite) option" where
  "AS_LinkProberWaitMuxStandbyLinkDown s ns = Some (AS_startMuxProbeTimer 1 s, ns)"

definition AS_LinkProberWaitMuxUnknownLinkDown :: "as_state \<Rightarrow> composite \<Rightarrow> (as_state \<times> composite) option" where
  "AS_LinkProberWaitMuxUnknownLinkDown s ns =
     (let s = AS_startMuxProbeTimer (mMuxUnknownBackoffFactor s) s in
      Some (s\<lparr>mMuxUnknownBackoffFactor := backoff_double AS_MAX_BACKOFF_FACTOR (mMuxUnknownBackoffFactor s)\<rparr>, ns))"

text \<open>The transition table; every entry that is not set holds the empty function.\<close>

fun AS_mStateTransitionHandler ::
  "prober_label \<Rightarrow> mux_label \<Rightarrow> link_label \<Rightarrow> as_state \<Rightarrow> composite \<Rightarrow> (as_state \<times> composite) option" where
  "AS_mStateTransitionHandler ProberStandby MuxActive LinkUp = AS_LinkProberStandbyMuxActiveLinkUp"
| "AS_mStateTransitionHandler ProberUnknown MuxActive LinkUp = AS_LinkProberUnknownMuxActiveLinkUp"
| "AS_mStateTransitionHandler ProberActive MuxStandby LinkUp = AS_LinkProberActiveMuxStandbyLinkUp"
| "AS_mStateTransitionHandler ProberUnknown MuxStandby LinkUp = AS_LinkProberUnknownMuxStandbyLinkUp"
| "AS_mStateTransitionHandler ProberActive MuxUnknown LinkUp = AS_LinkProberActiveMuxUnknownLinkUp"
| "AS_mStateTransitionHandler ProberStandby MuxUnknown LinkUp = AS_LinkProberStandbyMuxUnknownLinkUp"
| "AS_mStateTransitionHandler ProberUnknown MuxUnknown LinkUp = AS_LinkProberUnknownMuxUnknownLinkUp"
| "AS_mStateTransitionHandler ProberActive MuxError LinkUp = AS_LinkProberActiveMuxErrorLinkUp"
| "AS_mStateTransitionHandler ProberStandby MuxError LinkUp = AS_LinkProberStandbyMuxErrorLinkUp"
| "AS_mStateTransitionHandler ProberWait MuxActive LinkUp = AS_LinkProberWaitMuxActiveLinkUp"
| "AS_mStateTransitionHandler ProberWait MuxStandby LinkUp = AS_LinkProberWaitMuxStandbyLinkUp"
| "AS_mStateTransitionHandler ProberWait MuxUnknown LinkUp = AS_LinkProberWaitMuxUnknownLinkUp"
| "AS_mStateTransitionHandler ProberUnknown MuxActive LinkDown = AS_LinkProberUnknownMuxActiveLinkDown"
| "AS_mStateTransitionHandler ProberUnknown MuxStandby LinkDown = AS_LinkProberUnknownMuxStandbyLinkDown"
| "AS_mStateTransitionHandler ProberUnknown MuxUnknown LinkDown = AS_LinkProberUnknownMuxUnknownLinkDown"
| "AS_mStateTransitionHandler ProberWait MuxActive LinkDown = AS_LinkProberWaitMuxActiveLinkDown"
| "AS_mStateTransitionHandler ProberWait MuxStandby LinkDown = AS_LinkProberWaitMuxStandbyLinkDown"
| "AS_mStateTransitionHandler ProberWait MuxUnknown LinkDown = AS_LinkProberWaitMuxUnknownLinkDown"
| "AS_mStateTransitionHandler _ _ _ = noopTransitionFunction"

definition AS_transition :: "as_state \<Rightarrow> composite \<Rightarrow> (as_state \<times> composite) option" where
  "AS_transition s ns = AS_mStateTransitionHandler (ps ns) (ms ns) (ls ns) s ns"

end
