(* ===== verification/Active_Standby_Handlers.thy ===== *)
theory Active_Standby_Handlers
  imports Active_Standby
begin

text \<open>
  The handlers of the active-standby link manager: the notifications from the data bases,
  the state changes the sub-machines post, the prober's requests and the timers; and the
  dispatcher \<open>AS_run\<close>, which runs one task of the strand. A task whose handler this class
  does not override runs the empty handler of the base class.
\<close>

section \<open>Initialisation\<close>

definition AS_activateStateMachine :: "as_state \<Rightarrow> as_state option" where
  "AS_activateStateMachine s = do {
     s \<leftarrow> (if component_all s then do {
            let s = AS_commit (AS_initLinkProberState False s (mCompositeState s));
            s \<leftarrow> (if ifEnableDefaultRouteFeature (mMuxPortConfig s)
                 then AS_shutdownOrRestartLinkProberOnDefaultRoute s else Some s);
            s \<leftarrow> prober_call InitializeProber s;
            s \<leftarrow> prober_call StartProbing s;
            AS_updateMuxLinkmgrState s
          }
          else Some s);
     Some (if component_test LinkProberComponent s \<and> component_test MuxStateComponent s
           then emit WarmRestartReconciliation s else s)
   }"

definition AS_handleSwssBladeIpv4AddressUpdate :: "ip_address \<Rightarrow> as_state \<Rightarrow> as_state option" where
  "AS_handleSwssBladeIpv4AddressUpdate a s =
     (if \<not> component_test LinkProberComponent s
      then AS_activateStateMachine (setComponentInitState LinkProberComponent
             (s\<lparr>mMuxPortConfig := setBladeIpv4Address a (mMuxPortConfig s),
                mLinkProberPtr := Some ProberSoftware\<rparr>))
      else if a \<noteq> mBladeIpv4Address (mMuxPortConfig s)
      then prober_call UpdateEthernetFrame
             (s\<lparr>mMuxPortConfig := setBladeIpv4Address a (mMuxPortConfig s)\<rparr>)
      else Some s)"

section \<open>Configuration\<close>

definition AS_handleMuxConfigNotification :: "mux_mode \<Rightarrow> as_state \<Rightarrow> as_state option" where
  "AS_handleMuxConfigNotification mode s =
     (let c = mCompositeState s in
      if component_test MuxStateComponent s \<and> mode \<noteq> ModeAuto \<and> mode \<noteq> ModeManual \<and> ms c = MuxWait
      then Some (s\<lparr>mPendingMuxModeChange := True, mTargetMuxMode := mode\<rparr>)
      else do {
        s \<leftarrow> (if component_all s then do {
               s \<leftarrow> (if mode = ModeActive \<and> ms c \<noteq> MuxActive then do {
                      let (s, ns) = AS_enterLinkProberState ProberWait False s c;
                      r \<leftarrow> AS_switchMuxState ConfigMuxMode MuxActive False s ns;
                      Some (AS_commit r)
                    }
                    else if mode = ModeStandby \<and> ms c \<noteq> MuxStandby
                    then prober_call SendPeerSwitchCommand (s\<lparr>mSendSwitchActiveCommandCause := ConfigMuxMode\<rparr>)
                    else if ls c = LinkDown \<and> ms c \<noteq> MuxStandby then do {
                      r \<leftarrow> AS_switchMuxState CauseLinkDown MuxStandby True s c;
                      Some (AS_commit r)
                    }
                    else Some (AS_startMuxProbeTimer 1 s));
               AS_updateMuxLinkmgrState s
             }
             else Some s);
        AS_shutdownOrRestartLinkProberOnDefaultRoute
          (s\<lparr>mMuxPortConfig := setMode mode (mMuxPortConfig s)\<rparr>)
      })"

section \<open>State changes posted by the sub-machines\<close>

definition AS_handleStateChange_prober :: "prober_label \<Rightarrow> as_state \<Rightarrow> as_state option" where
  "AS_handleStateChange_prober l s = do {
     s \<leftarrow> (if psm_current (mLinkProberStateMachinePtr s) = l then do {
            let s = (if as_mContinuousLinkProberUnknownEvent s \<and> l \<noteq> ProberUnknown
                     then s\<lparr>as_mContinuousLinkProberUnknownEvent := False\<rparr> else s);
            let s = (if \<not> as_mContinuousLinkProberUnknownEvent s \<and> l = ProberUnknown
                     then emit (PostLinkProberMetricsEvent LinkProberUnknownStart)
                            (s\<lparr>as_mContinuousLinkProberUnknownEvent := True\<rparr>)
                     else s);
            let s = (if l = ProberActive
                     then AS_tryCancelOscillationTimerIfAlive
                            ((emit (PostLinkProberMetricsEvent LinkProberActiveStart) s)\<lparr>mStandbyUnknownUpCount := 0\<rparr>)
                     else s);
            let s = (if l = ProberStandby
                     then AS_tryCancelOscillationTimerIfAlive
                            ((emit (PostLinkProberMetricsEvent LinkProberStandbyStart) s)\<lparr>mActiveUnknownUpCount := 0\<rparr>)
                     else s);
            r \<leftarrow> AS_transition s ((mCompositeState s)\<lparr>ps := l\<rparr>);
            Some (AS_commit r)
          }
          else Some s);
     s \<leftarrow> (if ps (mCompositeState s) \<noteq> ProberUnknown then do {
            s \<leftarrow> prober_call ResumeTx s;
            Some (s\<lparr>mUnknownActiveUpBackoffFactor := 1\<rparr>)
          }
          else Some s);
     AS_updateMuxLinkmgrState s
   }"

definition AS_handleStateChange_mux :: "mux_label \<Rightarrow> as_state \<Rightarrow> as_state option" where
  "AS_handleStateChange_mux l s = do {
     s \<leftarrow> (if mux_current (mMuxStateMachine s) = l then do {
            r \<leftarrow> AS_transition s ((mCompositeState s)\<lparr>ms := l\<rparr>);
            Some (AS_commit r)
          }
          else Some s);
     s \<leftarrow> (if ms (mCompositeState s) \<noteq> MuxWait then do {
            let s = emit GetMuxState s;
            (if mPendingMuxModeChange s then do {
               s \<leftarrow> AS_handleMuxConfigNotification (mTargetMuxMode s) s;
               Some (s\<lparr>mPendingMuxModeChange := False\<rparr>)
             }
             else Some s)
          }
          else Some s);
     let s = (if l \<noteq> MuxUnknown
              then s\<lparr>mMuxUnknownBackoffFactor := 1, mActiveUnknownUpCount := 0, mStandbyUnknownUpCount := 0\<rparr>
              else s);
     let s = (if l = MuxStandby then AS_tryCancelOscillationTimerIfAlive s else s);
     AS_updateMuxLinkmgrState s
   }"

definition AS_handleStateChange_link :: "link_label \<Rightarrow> as_state \<Rightarrow> as_state option" where
  "AS_handleStateChange_link l s = do {
     s \<leftarrow> (if link_current (mLinkStateMachine s) = l then do {
            let c = mCompositeState s;
            let ns = c\<lparr>ls := l\<rparr>;
            (if ls c = LinkDown \<and> ls ns = LinkUp
             then (let r = AS_initLinkProberState True s ns
                   in Some (AS_commit ((fst r)\<lparr>mMuxUnknownBackoffFactor := 1\<rparr>, snd r)))
             else if ls c = LinkUp \<and> ls ns = LinkDown \<and> ms c \<noteq> MuxStandby then do {
               (s, ns) \<leftarrow> AS_switchMuxState CauseLinkDown MuxStandby False s ns;
               let s = s\<lparr>mActiveUnknownUpCount := 0, mStandbyUnknownUpCount := 0, mWaitActiveUpCount := 0,
                         mWaitStandbyUpBackoffFactor := 1, mUnknownActiveUpBackoffFactor := 1\<rparr>;
               Some (AS_commit (AS_tryCancelOscillationTimerIfAlive s, ns))
             }
             else do {
               r \<leftarrow> AS_transition s ns;
               Some (AS_commit r)
             })
          }
          else Some s);
     AS_updateMuxLinkmgrState s
   }"

section \<open>Notifications\<close>

definition AS_handleGetServerMacAddressNotification :: "mac_address \<Rightarrow> as_state \<Rightarrow> as_state option" where
  "AS_handleGetServerMacAddressNotification a s =
     (if a \<noteq> mBladeMacAddress (mMuxPortConfig s) then
        (let s = s\<lparr>mMuxPortConfig := setBladeMacAddress a (mMuxPortConfig s)\<rparr>
         in if mLinkProberPtr s \<noteq> None then prober_call UpdateEthernetFrame s else Some s)
      else Some s)"

definition AS_handleGetMuxStateNotification :: "mux_label \<Rightarrow> as_state \<Rightarrow> as_state option" where
  "AS_handleGetMuxStateNotification l s =
     (let c = mCompositeState s in
      if component_all s \<and> ms c \<noteq> MuxWait \<and> ms c \<noteq> MuxError \<and> ms c \<noteq> MuxUnknown \<and>
         (ms c \<noteq> l \<or> mLastSetMuxState s \<noteq> l)
      then do {
        r \<leftarrow> AS_switchMuxState MatchingHardwareState (ms c) True s c;
        Some (AS_commit r)
      }
      else Some s)"

definition AS_handleProbeMuxStateNotification :: "mux_label \<Rightarrow> as_state \<Rightarrow> as_state option" where
  "AS_handleProbeMuxStateNotification l s =
     (let s = cancel_timer WaitTimer s in
      if component_all s then Some (LinkManagerStateMachineBase_postMuxStateEvent l s)
      else if l \<noteq> MuxUnknown
      then (let s = AS_commit (AS_enterMuxState MuxWait s (mCompositeState s))
            in Some (emit (SetMuxState l) (AS_setWaitStateCause SwssUpdate s)))
      else AS_activateStateMachine (setComponentInitState MuxStateComponent
             (AS_commit (AS_enterMuxState l s (mCompositeState s)))))"

definition AS_handleMuxStateNotification :: "mux_label \<Rightarrow> as_state \<Rightarrow> as_state option" where
  "AS_handleMuxStateNotification l s =
     (let s = cancel_timer WaitTimer s in
      if component_all s then do {
        s \<leftarrow> prober_call ProbePeerTor s;
        let s = LinkManagerStateMachineBase_postMuxStateEvent l s;
        Some (if MuxStateMachine_testWaitStateCause SwssUpdate (mMuxStateMachine s)
              then (let s = emit (PostMetricsEvent SwitchingEnd l) s
                    in s\<lparr>mMuxStateMachine := MuxStateMachine_resetWaitStateCause SwssUpdate (mMuxStateMachine s)\<rparr>)
              else s)
      }
      else if l = MuxUnknown
      then Some (AS_commit (AS_enterMuxWaitState s (mCompositeState s)))
      else AS_activateStateMachine (setComponentInitState MuxStateComponent
             (AS_commit (AS_enterMuxState l s (mCompositeState s)))))"

definition AS_handleSwssLinkStateNotification :: "link_label \<Rightarrow> as_state \<Rightarrow> as_state option" where
  "AS_handleSwssLinkStateNotification l s =
     (if component_all s then
        (case l of LinkUp \<Rightarrow> Some (post_tasks [TaskLinkEvent UpEvent] s)
                 | LinkDown \<Rightarrow> Some (post_tasks [TaskLinkEvent DownEvent] s))
      else AS_activateStateMachine (setComponentInitState LinkStateComponent
             (AS_commit (AS_enterLinkState l s (mCompositeState s)))))"

definition AS_handlePeerLinkStateNotification :: "link_label \<Rightarrow> as_state \<Rightarrow> as_state option" where
  "AS_handlePeerLinkStateNotification l s =
     (let s = s\<lparr>mPeerLinkState := l\<rparr>; c = mCompositeState s in
      if l = LinkDown \<and> ls c = LinkUp \<and> ms c = MuxStandby then do {
        let (s, ns) = AS_enterLinkProberState ProberWait False s c;
        r \<leftarrow> (if mDefaultRouteState s = RouteOK
             then AS_switchMuxState PeerLinkDown MuxActive False s ns
             else Some (s, ns));
        Some (AS_commit r)
      }
      else Some s)"

definition AS_handleDefaultRouteStateNotification :: "default_route \<Rightarrow> as_state \<Rightarrow> as_state option" where
  "AS_handleDefaultRouteStateNotification r s = do {
     let s = (if mDefaultRouteState s = RouteNA \<and> r = RouteOK
              then AS_commit (AS_initLinkProberState False s (mCompositeState s)) else s);
     s \<leftarrow> AS_shutdownOrRestartLinkProberOnDefaultRoute (s\<lparr>mDefaultRouteState := r\<rparr>);
     AS_updateMuxLinkmgrState s
   }"

definition AS_handlePostPckLossRatioNotification :: "u64 \<Rightarrow> u64 \<Rightarrow> as_state \<Rightarrow> as_state option" where
  "AS_handlePostPckLossRatioNotification n k s = Some (emit (PostPckLossRatio n k) s)"

definition AS_handleResetLinkProberPckLossCount :: "as_state \<Rightarrow> as_state option" where
  "AS_handleResetLinkProberPckLossCount s = prober_call ResetIcmpPacketCounts s"

definition AS_handleResetSuspendTimer :: "as_state \<Rightarrow> as_state option" where
  "AS_handleResetSuspendTimer s =
     (if mCompositeState s = \<lparr>ps = ProberUnknown, ms = MuxActive, ls = LinkUp\<rparr>
      then prober_call ResumeTx (s\<lparr>mUnknownActiveUpBackoffFactor := 1\<rparr>)
      else Some s)"

section \<open>Requests of the link prober\<close>

definition AS_handleSuspendTimerExpiry :: "as_state \<Rightarrow> as_state option" where
  "AS_handleSuspendTimerExpiry s =
     (if mCompositeState s = \<lparr>ps = ProberUnknown, ms = MuxActive, ls = LinkUp\<rparr>
      then prober_call DetectLink (AS_commit (AS_enterMuxWaitState s (mCompositeState s)))
      else Some (s\<lparr>mUnknownActiveUpBackoffFactor := 1\<rparr>))"

definition AS_handleSwitchActiveCommandCompletion :: "as_state \<Rightarrow> as_state option" where
  "AS_handleSwitchActiveCommandCompletion s =
     (if ms (mCompositeState s) \<noteq> MuxStandby then do {
        let (s, ns) = AS_enterLinkProberState ProberWait False s (mCompositeState s);
        r \<leftarrow> AS_switchMuxState (mSendSwitchActiveCommandCause s) MuxStandby True s ns;
        Some (AS_commit r)
      }
      else Some s)"

definition AS_handleSwitchActiveRequestEvent :: "as_state \<Rightarrow> as_state option" where
  "AS_handleSwitchActiveRequestEvent s =
     (if ms (mCompositeState s) \<noteq> MuxActive \<and> ms (mCompositeState s) \<noteq> MuxWait then do {
        let (s, ns) = AS_enterLinkProberState ProberWait False s (mCompositeState s);
        r \<leftarrow> AS_switchMuxState TlvSwitchActiveCommand MuxActive False s ns;
        Some (AS_commit r)
      }
      else Some s)"

section \<open>Timers\<close>

definition AS_handleMuxProbeTimeout :: "error_code \<Rightarrow> as_state \<Rightarrow> as_state option" where
  "AS_handleMuxProbeTimeout ec s =
     (let c = mCompositeState s;
          s = (if \<not> (ps c = ProberWait \<and> ms c = MuxStandby \<and> ls c = LinkUp)
               then s\<lparr>mWaitStandbyUpBackoffFactor := 1\<rparr> else s)
      in if ec = Success \<and>
            (ps c = ProberWait \<or> ms c = MuxUnknown \<or> ls c = LinkDown \<or>
             (ps c = ProberStandby \<and> ms c = MuxActive) \<or> (ps c = ProberActive \<and> ms c = MuxStandby))
         then Some (AS_commit (AS_enterMuxWaitState s c))
         else Some s)"

definition AS_handleMuxWaitTimeout :: "error_code \<Rightarrow> as_state \<Rightarrow> as_state option" where
  "AS_handleMuxWaitTimeout ec s =
     (if ec = Success \<and> MuxStateMachine_getWaitStateCause (mMuxStateMachine s) = DriverUpdate
      then prober_call SendPeerSwitchCommand (s\<lparr>mSendSwitchActiveCommandCause := TransceiverDaemonTimeout\<rparr>)
      else Some s)"

definition AS_handleOscillationTimeout :: "error_code \<Rightarrow> as_state \<Rightarrow> as_state option" where
  "AS_handleOscillationTimeout ec s =
     (let s = s\<lparr>mOscillationTimerAlive := False\<rparr>; c = mCompositeState s in
      if getIfOscillationEnabled (mMuxPortConfig s) \<and> ec = Success \<and>
         ps c = ProberWait \<and> ms c = MuxActive \<and> ls c = LinkUp
      then do {
        r \<leftarrow> AS_switchMuxState TimedOscillation MuxStandby False s c;
        Some (AS_commit r)
      }
      else Some s)"

section \<open>The strand\<close>

definition AS_process_prober_event :: "prober_event \<Rightarrow> as_state \<Rightarrow> as_state" where
  "AS_process_prober_event e s =
     (case LinkProberStateMachineActiveStandby_processEvent (mMuxPortConfig s) e (mLinkProberStateMachinePtr s) of
        (m, ts) \<Rightarrow> post_tasks ts (s\<lparr>mLinkProberStateMachinePtr := m\<rparr>))"

fun AS_run :: "task \<Rightarrow> as_state \<Rightarrow> as_state option" where
  "AS_run (TaskBladeIpv4 a) s = AS_handleSwssBladeIpv4AddressUpdate a s"
| "AS_run (TaskServerMac a) s = AS_handleGetServerMacAddressNotification a s"
| "AS_run TaskSrcMacConfig s = LinkManagerStateMachineBase_handleSrcMacConfigNotification s"
| "AS_run (TaskGetMuxState l) s = AS_handleGetMuxStateNotification l s"
| "AS_run (TaskProbeMuxState l) s = AS_handleProbeMuxStateNotification l s"
| "AS_run (TaskMuxState l) s = AS_handleMuxStateNotification l s"
| "AS_run (TaskLinkState l) s = AS_handleSwssLinkStateNotification l s"
| "AS_run (TaskPeerLinkState l) s = AS_handlePeerLinkStateNotification l s"
| "AS_run (TaskMuxConfig m) s = AS_handleMuxConfigNotification m s"
| "AS_run (TaskDefaultRoute r) s = AS_handleDefaultRouteStateNotification r s"
| "AS_run TaskResetPckLoss s = AS_handleResetLinkProberPckLossCount s"
| "AS_run TaskResetSuspendTimer s = AS_handleResetSuspendTimer s"
| "AS_run (TaskProberEvent e) s = Some (AS_process_prober_event e s)"
| "AS_run (TaskMuxEvent e) s = Some (process_mux_event e s)"
| "AS_run (TaskLinkEvent e) s = Some (process_link_event e s)"
| "AS_run (TaskProberChange l) s = AS_handleStateChange_prober l s"
| "AS_run (TaskMuxChange l) s = AS_handleStateChange_mux l s"
| "AS_run (TaskLinkChange l) s = AS_handleStateChange_link l s"
| "AS_run TaskSuspendTimerExpiry s = AS_handleSuspendTimerExpiry s"
| "AS_run TaskSwitchActiveCompletion s = AS_handleSwitchActiveCommandCompletion s"
| "AS_run TaskSwitchActiveRequest s = AS_handleSwitchActiveRequestEvent s"
| "AS_run (TaskPckLossRatio n k) s = AS_handlePostPckLossRatioNotification n k s"
| "AS_run (TaskTimer DeadlineTimer ec) s = AS_handleMuxProbeTimeout ec s"
| "AS_run (TaskTimer WaitTimer ec) s = AS_handleMuxWaitTimeout ec s"
| "AS_run (TaskTimer OscillationTimer ec) s = AS_handleOscillationTimeout ec s"
| "AS_run _ s = LinkManagerStateMachineBase_noop_handler s"

end
