(* ===== verification/Port_Sync.thy ===== *)
theory Port_Sync
  imports Link_Manager_Base
begin

text \<open>
  The relation between the composite state of a link manager and its three sub-machines. A
  sub-machine changes first and posts its new label; the composite state follows when that
  task runs. So each component of the composite state is the label of its sub-machine, or
  the task that will bring that label is pending.
\<close>

definition synced :: "'a lm_base_scheme \<Rightarrow> composite \<Rightarrow> bool" where
  "synced s c \<longleftrightarrow>
     (ps c = psm_current (mLinkProberStateMachinePtr s) \<or>
        TaskProberChange (psm_current (mLinkProberStateMachinePtr s)) \<in> set (tasks s)) \<and>
     (ms c = mux_current (mMuxStateMachine s) \<or>
        TaskMuxChange (mux_current (mMuxStateMachine s)) \<in> set (tasks s)) \<and>
     (ls c = link_current (mLinkStateMachine s) \<or>
        TaskLinkChange (link_current (mLinkStateMachine s)) \<in> set (tasks s))"

definition machine_labels :: "'a lm_base_scheme \<Rightarrow> composite" where
  "machine_labels s = \<lparr>ps = psm_current (mLinkProberStateMachinePtr s),
     ms = mux_current (mMuxStateMachine s), ls = link_current (mLinkStateMachine s)\<rparr>"

text \<open>No label change is on its way to the link manager.\<close>

fun label_change :: "task \<Rightarrow> bool" where
  "label_change (TaskProberChange _) = True"
| "label_change (TaskMuxChange _) = True"
| "label_change (TaskLinkChange _) = True"
| "label_change _ = False"

definition quiescent :: "'a lm_base_scheme \<Rightarrow> bool" where
  "quiescent s \<longleftrightarrow> list_all (\<lambda>t. \<not> label_change t) (tasks s)"

lemma synced_quiescent:
  assumes "synced s c" and "quiescent s"
  shows "c = machine_labels s"
proof -
  have "TaskProberChange l \<notin> set (tasks s)" "TaskMuxChange l' \<notin> set (tasks s)"
    "TaskLinkChange l'' \<notin> set (tasks s)" for l l' l''
    using assms(2) by (auto simp: quiescent_def list_all_iff)
  with assms(1) show ?thesis
    by (cases c) (simp add: synced_def machine_labels_def)
qed

text \<open>The base operations keep the relation.\<close>

lemma synced_frame [simp]:
  "synced s c \<Longrightarrow> synced (post_tasks ts s) c"
  "synced s c \<Longrightarrow> synced (cancel_timer i s) c"
  "synced s c \<Longrightarrow> synced (start_timer i d s) c"
  "synced (emit x s) c = synced s c"
  by (auto simp: synced_def)

lemma synced_update [simp]:
  "synced (s\<lparr>mCompositeState := x1\<rparr>) c = synced s c"
  "synced (s\<lparr>mMuxPortConfig := x2\<rparr>) c = synced s c"
  "synced (s\<lparr>mLinkProberPtr := x3\<rparr>) c = synced s c"
  "synced (s\<lparr>mLabel := x4\<rparr>) c = synced s c"
  "synced (s\<lparr>mComponentInitState := x5\<rparr>) c = synced s c"
  "synced (s\<lparr>mDefaultRouteState := x6\<rparr>) c = synced s c"
  "synced (s\<lparr>timers := x7\<rparr>) c = synced s c"
  "synced (s\<lparr>now_ms := x8\<rparr>) c = synced s c"
  by (simp_all add: synced_def)

lemma synced_more [simp]: "synced (lm_base.more_update f s) c = synced s c"
  by (simp add: synced_def)

lemma synced_enter_mux [simp]:
  "synced s c \<Longrightarrow> synced (s\<lparr>mMuxStateMachine := MuxStateMachine_enterState l m\<rparr>) (c\<lparr>ms := l\<rparr>)"
  by (simp add: synced_def)

lemma synced_enter_link [simp]:
  "synced s c \<Longrightarrow> synced (s\<lparr>mLinkStateMachine := LinkStateMachine_enterState l m\<rparr>) (c\<lparr>ls := l\<rparr>)"
  by (simp add: synced_def)

lemma synced_cause [simp]:
  "synced s c \<Longrightarrow> synced (s\<lparr>mMuxStateMachine := MuxStateMachine_setWaitStateCause w (mMuxStateMachine s)\<rparr>) c"
  "synced s c \<Longrightarrow> synced (s\<lparr>mMuxStateMachine := MuxStateMachine_resetWaitStateCause w (mMuxStateMachine s)\<rparr>) c"
  by (simp_all add: synced_def)

lemma synced_process_mux_event: "synced s c \<Longrightarrow> synced (process_mux_event e s) c"
  by (auto simp: synced_def process_mux_event_def split: prod.splits if_splits dest!: mux_processEvent_current)

lemma synced_process_link_event: "synced s c \<Longrightarrow> synced (process_link_event e s) c"
  by (auto simp: synced_def process_link_event_def split: prod.splits if_splits dest!: link_processEvent_current)

text \<open>
  Taking a task \<open>t\<close> from the strand. The relation holds with \<open>t\<close> put back; so it holds as it is,
  unless \<open>t\<close> is a label change whose label is still current, and then it holds once the
  composite state has that label.
\<close>

lemma synced_take_task:
  "synced s c \<Longrightarrow> i < length (tasks s) \<Longrightarrow> synced (post_tasks [tasks s ! i] (take_task i s)) c"
  using set_take_task [of i s] by (auto simp: synced_def)

lemma synced_taken: "synced (post_tasks [t] s) c \<Longrightarrow> \<not> label_change t \<Longrightarrow> synced s c"
  by (cases t) (auto simp: synced_def)

lemma synced_taken_prober:
  "synced (post_tasks [TaskProberChange l] s) c \<Longrightarrow>
     synced s (if psm_current (mLinkProberStateMachinePtr s) = l then c\<lparr>ps := l\<rparr> else c)"
  by (auto simp: synced_def)

lemma synced_taken_mux:
  "synced (post_tasks [TaskMuxChange l] s) c \<Longrightarrow>
     synced s (if mux_current (mMuxStateMachine s) = l then c\<lparr>ms := l\<rparr> else c)"
  by (auto simp: synced_def)

lemma synced_taken_link:
  "synced (post_tasks [TaskLinkChange l] s) c \<Longrightarrow>
     synced s (if link_current (mLinkStateMachine s) = l then c\<lparr>ls := l\<rparr> else c)"
  by (auto simp: synced_def)

section \<open>The published health\<close>

fun health_call :: "call \<Rightarrow> bool" where
  "health_call (SetMuxLinkmgrState _) = True"
| "health_call _ = False"

text \<open>The health last written to the state data base is the label of the manager.\<close>

definition published :: "'a lm_base_scheme \<Rightarrow> bool" where
  "published s \<longleftrightarrow> filter health_call (calls s) \<noteq> [] \<and>
     last (filter health_call (calls s)) = SetMuxLinkmgrState (mLabel s)"

lemma published_frame [simp]:
  "published (post_tasks ts s) = published s"
  "published (cancel_timer i s) = published s"
  "published (start_timer i d s) = published s"
  "published (take_task j s) = published s"
  "published (fire_timer i s) = published s"
  "\<not> health_call x \<Longrightarrow> published (emit x s) = published s"
  "published (emit (SetMuxLinkmgrState l) (s\<lparr>mLabel := l\<rparr>))"
  by (simp_all add: published_def fire_timer_def take_task_def)

lemma published_update [simp]:
  "published (s\<lparr>mCompositeState := x1\<rparr>) = published s"
  "published (s\<lparr>mMuxPortConfig := x2\<rparr>) = published s"
  "published (s\<lparr>mLinkProberStateMachinePtr := x3\<rparr>) = published s"
  "published (s\<lparr>mLinkProberPtr := x4\<rparr>) = published s"
  "published (s\<lparr>mMuxStateMachine := x5\<rparr>) = published s"
  "published (s\<lparr>mLinkStateMachine := x6\<rparr>) = published s"
  "published (s\<lparr>mComponentInitState := x7\<rparr>) = published s"
  "published (s\<lparr>mDefaultRouteState := x8\<rparr>) = published s"
  "published (s\<lparr>now_ms := x9\<rparr>) = published s"
  "published (s\<lparr>tasks := x11\<rparr>) = published s"
  "published (s\<lparr>timers := x10\<rparr>) = published s"
  "published (lm_base.more_update f s) = published s"
  by (simp_all add: published_def)

text \<open>The calls a handler made, between the states before and after it.\<close>

definition new_calls :: "'a lm_base_scheme \<Rightarrow> 'a lm_base_scheme \<Rightarrow> call list" where
  "new_calls s s' = drop (length (calls s)) (calls s')"

end
