(* ===== verification/Active_Standby_Props.thy ===== *)
theory Active_Standby_Props
  imports Active_Standby_Handlers Port_Sync
begin

text \<open>
  The invariant of the active-standby link manager, kept by every operation and every
  handler: the composite state follows the sub-machines, the backoff factors stay within
  their cap, a postponed mode is one that was worth postponing, and the oscillation flag
  is only set while the timer is armed or its expiry is queued. The parameter \<open>b\<close> says
  whether the prober is known to be bound: with it, no operation throws.
\<close>

section \<open>Frame lemmas\<close>

lemma as_post_tasks_frame [simp]:
  "mPeerLinkState (post_tasks ts s) = mPeerLinkState s"
  "mOscillationTimerAlive (post_tasks ts s) = mOscillationTimerAlive s"
  "mWaitActiveUpCount (post_tasks ts s) = mWaitActiveUpCount s"
  "mActiveUnknownUpCount (post_tasks ts s) = mActiveUnknownUpCount s"
  "mStandbyUnknownUpCount (post_tasks ts s) = mStandbyUnknownUpCount s"
  "mMuxUnknownBackoffFactor (post_tasks ts s) = mMuxUnknownBackoffFactor s"
  "mWaitStandbyUpBackoffFactor (post_tasks ts s) = mWaitStandbyUpBackoffFactor s"
  "mUnknownActiveUpBackoffFactor (post_tasks ts s) = mUnknownActiveUpBackoffFactor s"
  "mPendingMuxModeChange (post_tasks ts s) = mPendingMuxModeChange s"
  "mTargetMuxMode (post_tasks ts s) = mTargetMuxMode s"
  "mLastSetMuxState (post_tasks ts s) = mLastSetMuxState s"
  "as_mContinuousLinkProberUnknownEvent (post_tasks ts s) = as_mContinuousLinkProberUnknownEvent s"
  "mSendSwitchActiveCommandCause (post_tasks ts s) = mSendSwitchActiveCommandCause s"
  by (simp_all add: post_tasks_def)

lemma as_emit_frame [simp]:
  "mPeerLinkState (emit x s) = mPeerLinkState s"
  "mOscillationTimerAlive (emit x s) = mOscillationTimerAlive s"
  "mWaitActiveUpCount (emit x s) = mWaitActiveUpCount s"
  "mActiveUnknownUpCount (emit x s) = mActiveUnknownUpCount s"
  "mStandbyUnknownUpCount (emit x s) = mStandbyUnknownUpCount s"
  "mMuxUnknownBackoffFactor (emit x s) = mMuxUnknownBackoffFactor s"
  "mWaitStandbyUpBackoffFactor (emit x s) = mWaitStandbyUpBackoffFactor s"
  "mUnknownActiveUpBackoffFactor (emit x s) = mUnknownActiveUpBackoffFactor s"
  "mPendingMuxModeChange (emit x s) = mPendingMuxModeChange s"
  "mTargetMuxMode (emit x s) = mTargetMuxMode s"
  "mLastSetMuxState (emit x s) = mLastSetMuxState s"
  "as_mContinuousLinkProberUnknownEvent (emit x s) = as_mContinuousLinkProberUnknownEvent s"
  "mSendSwitchActiveCommandCause (emit x s) = mSendSwitchActiveCommandCause s"
  by (simp_all add: emit_def)

lemma as_cancel_timer_frame [simp]:
  "mPeerLinkState (cancel_timer i s) = mPeerLinkState s"
  "mOscillationTimerAlive (cancel_timer i s) = mOscillationTimerAlive s"
  "mWaitActiveUpCount (cancel_timer i s) = mWaitActiveUpCount s"
  "mActiveUnknownUpCount (cancel_timer i s) = mActiveUnknownUpCount s"
  "mStandbyUnknownUpCount (cancel_timer i s) = mStandbyUnknownUpCount s"
  "mMuxUnknownBackoffFactor (cancel_timer i s) = mMuxUnknownBackoffFactor s"
  "mWaitStandbyUpBackoffFactor (cancel_timer i s) = mWaitStandbyUpBackoffFactor s"
  "mUnknownActiveUpBackoffFactor (cancel_timer i s) = mUnknownActiveUpBackoffFactor s"
  "mPendingMuxModeChange (cancel_timer i s) = mPendingMuxModeChange s"
  "mTargetMuxMode (cancel_timer i s) = mTargetMuxMode s"
  "mLastSetMuxState (cancel_timer i s) = mLastSetMuxState s"
  "as_mContinuousLinkProberUnknownEvent (cancel_timer i s) = as_mContinuousLinkProberUnknownEvent s"
  "mSendSwitchActiveCommandCause (cancel_timer i s) = mSendSwitchActiveCommandCause s"
  by (simp_all add: cancel_timer_def post_tasks_def)

lemma as_start_timer_frame [simp]:
  "mPeerLinkState (start_timer i d s) = mPeerLinkState s"
  "mOscillationTimerAlive (start_timer i d s) = mOscillationTimerAlive s"
  "mWaitActiveUpCount (start_timer i d s) = mWaitActiveUpCount s"
  "mActiveUnknownUpCount (start_timer i d s) = mActiveUnknownUpCount s"
  "mStandbyUnknownUpCount (start_timer i d s) = mStandbyUnknownUpCount s"
  "mMuxUnknownBackoffFactor (start_timer i d s) = mMuxUnknownBackoffFactor s"
  "mWaitStandbyUpBackoffFactor (start_timer i d s) = mWaitStandbyUpBackoffFactor s"
  "mUnknownActiveUpBackoffFactor (start_timer i d s) = mUnknownActiveUpBackoffFactor s"
  "mPendingMuxModeChange (start_timer i d s) = mPendingMuxModeChange s"
  "mTargetMuxMode (start_timer i d s) = mTargetMuxMode s"
  "mLastSetMuxState (start_timer i d s) = mLastSetMuxState s"
  "as_mContinuousLinkProberUnknownEvent (start_timer i d s) = as_mContinuousLinkProberUnknownEvent s"
  "mSendSwitchActiveCommandCause (start_timer i d s) = mSendSwitchActiveCommandCause s"
  by (simp_all add: start_timer_def cancel_timer_def post_tasks_def Let_def)

lemma as_take_task_frame [simp]:
  "mPeerLinkState (take_task i s) = mPeerLinkState s"
  "mOscillationTimerAlive (take_task i s) = mOscillationTimerAlive s"
  "mWaitActiveUpCount (take_task i s) = mWaitActiveUpCount s"
  "mActiveUnknownUpCount (take_task i s) = mActiveUnknownUpCount s"
  "mStandbyUnknownUpCount (take_task i s) = mStandbyUnknownUpCount s"
  "mMuxUnknownBackoffFactor (take_task i s) = mMuxUnknownBackoffFactor s"
  "mWaitStandbyUpBackoffFactor (take_task i s) = mWaitStandbyUpBackoffFactor s"
  "mUnknownActiveUpBackoffFactor (take_task i s) = mUnknownActiveUpBackoffFactor s"
  "mPendingMuxModeChange (take_task i s) = mPendingMuxModeChange s"
  "mTargetMuxMode (take_task i s) = mTargetMuxMode s"
  "mLastSetMuxState (take_task i s) = mLastSetMuxState s"
  "as_mContinuousLinkProberUnknownEvent (take_task i s) = as_mContinuousLinkProberUnknownEvent s"
  "mSendSwitchActiveCommandCause (take_task i s) = mSendSwitchActiveCommandCause s"
  by (simp_all add: take_task_def)

lemma as_published_update [simp]:
  "published (s\<lparr>mPeerLinkState := x1\<rparr>) = published s"
  "published (s\<lparr>mOscillationTimerAlive := x2\<rparr>) = published s"
  "published (s\<lparr>mWaitActiveUpCount := x3\<rparr>) = published s"
  "published (s\<lparr>mActiveUnknownUpCount := x4\<rparr>) = published s"
  "published (s\<lparr>mStandbyUnknownUpCount := x5\<rparr>) = published s"
  "published (s\<lparr>mMuxUnknownBackoffFactor := x6\<rparr>) = published s"
  "published (s\<lparr>mWaitStandbyUpBackoffFactor := x7\<rparr>) = published s"
  "published (s\<lparr>mUnknownActiveUpBackoffFactor := x8\<rparr>) = published s"
  "published (s\<lparr>mPendingMuxModeChange := x9\<rparr>) = published s"
  "published (s\<lparr>mTargetMuxMode := x10\<rparr>) = published s"
  "published (s\<lparr>mLastSetMuxState := x11\<rparr>) = published s"
  "published (s\<lparr>as_mContinuousLinkProberUnknownEvent := x12\<rparr>) = published s"
  "published (s\<lparr>mSendSwitchActiveCommandCause := x13\<rparr>) = published s"
  by (simp_all add: published_def)

section \<open>The invariant\<close>

lemma AS_factor_ok [simp]:
  "factor_ok AS_MAX_BACKOFF_FACTOR 1"
  "factor_ok AS_MAX_BACKOFF_FACTOR f \<Longrightarrow> factor_ok AS_MAX_BACKOFF_FACTOR (backoff_double AS_MAX_BACKOFF_FACTOR f)"
  by (auto intro: factor_ok_one factor_ok_backoff_double simp: AS_MAX_BACKOFF_FACTOR_def)

definition oscillation_ok :: "as_state \<Rightarrow> bool" where
  "oscillation_ok s \<longleftrightarrow> (mOscillationTimerAlive s \<longrightarrow>
     tm_pending (timers s OscillationTimer) \<or> TaskTimer OscillationTimer Success \<in> set (tasks s))"

definition AS_data_ok :: "bool \<Rightarrow> as_state \<Rightarrow> bool" where
  "AS_data_ok b s \<longleftrightarrow> (b \<longrightarrow> mLinkProberPtr s \<noteq> None) \<and>
     factor_ok AS_MAX_BACKOFF_FACTOR (mMuxUnknownBackoffFactor s) \<and>
     factor_ok AS_MAX_BACKOFF_FACTOR (mWaitStandbyUpBackoffFactor s) \<and>
     factor_ok AS_MAX_BACKOFF_FACTOR (mUnknownActiveUpBackoffFactor s) \<and>
     (mPendingMuxModeChange s \<longrightarrow> mTargetMuxMode s \<noteq> ModeAuto \<and> mTargetMuxMode s \<noteq> ModeManual) \<and>
     oscillation_ok s \<and> published s"

definition AS_inv :: "bool \<Rightarrow> as_state \<Rightarrow> composite \<Rightarrow> bool" where
  "AS_inv b s c \<longleftrightarrow> AS_data_ok b s \<and> synced s c"

definition AS_state_inv :: "bool \<Rightarrow> as_state \<Rightarrow> bool" where
  "AS_state_inv b s \<longleftrightarrow> AS_inv b s (mCompositeState s)"

lemmas AS_inv_defs = AS_inv_def AS_data_ok_def oscillation_ok_def

lemma AS_inv_bound [simp]: "AS_inv True s c \<Longrightarrow> mLinkProberPtr s \<noteq> None"
  by (auto simp: AS_inv_defs)

text \<open>Fields the invariant does not read, and the ones that are reset.\<close>

lemma AS_inv_update [simp]:
  "AS_inv b (s\<lparr>mCompositeState := x1\<rparr>) c = AS_inv b s c"
  "AS_inv b (s\<lparr>mMuxPortConfig := x2\<rparr>) c = AS_inv b s c"
  "AS_inv b (s\<lparr>mComponentInitState := x4\<rparr>) c = AS_inv b s c"
  "AS_inv b (s\<lparr>mDefaultRouteState := x5\<rparr>) c = AS_inv b s c"
  "AS_inv b (s\<lparr>now_ms := x6\<rparr>) c = AS_inv b s c"
  "AS_inv b (s\<lparr>mPeerLinkState := x7\<rparr>) c = AS_inv b s c"
  "AS_inv b (s\<lparr>mWaitActiveUpCount := x8\<rparr>) c = AS_inv b s c"
  "AS_inv b (s\<lparr>mActiveUnknownUpCount := x9\<rparr>) c = AS_inv b s c"
  "AS_inv b (s\<lparr>mStandbyUnknownUpCount := x10\<rparr>) c = AS_inv b s c"
  "AS_inv b (s\<lparr>mLastSetMuxState := x11\<rparr>) c = AS_inv b s c"
  "AS_inv b (s\<lparr>as_mContinuousLinkProberUnknownEvent := x12\<rparr>) c = AS_inv b s c"
  "AS_inv b (s\<lparr>mSendSwitchActiveCommandCause := x13\<rparr>) c = AS_inv b s c"
  "\<not> health_call x \<Longrightarrow> AS_inv b (emit x s) c = AS_inv b s c"
  by (simp_all add: AS_inv_defs synced_def)

lemma AS_inv_reset [simp]:
  "AS_inv b s c \<Longrightarrow> AS_inv b (s\<lparr>mMuxUnknownBackoffFactor := 1\<rparr>) c"
  "AS_inv b s c \<Longrightarrow> AS_inv b (s\<lparr>mWaitStandbyUpBackoffFactor := 1\<rparr>) c"
  "AS_inv b s c \<Longrightarrow> AS_inv b (s\<lparr>mUnknownActiveUpBackoffFactor := 1\<rparr>) c"
  "AS_inv b s c \<Longrightarrow> AS_inv b (s\<lparr>mPendingMuxModeChange := False\<rparr>) c"
  "AS_inv b s c \<Longrightarrow> AS_inv b (s\<lparr>mOscillationTimerAlive := False\<rparr>) c"
  "AS_inv b s c \<Longrightarrow> AS_inv b (s\<lparr>mLinkProberPtr := Some p\<rparr>) c"
  "AS_inv b s c \<Longrightarrow> AS_inv b (post_tasks ts s) c"
  "AS_inv b s c \<Longrightarrow> i \<noteq> OscillationTimer \<Longrightarrow> AS_inv b (cancel_timer i s) c"
  "AS_inv b s c \<Longrightarrow> AS_inv b (start_timer i d s) c"
  "AS_inv b s c \<Longrightarrow> AS_inv b (setComponentInitState k s) c"
  by (auto simp: AS_inv_defs synced_def setComponentInitState_def)

lemma AS_inv_double [simp]:
  "AS_inv b s c \<Longrightarrow> AS_inv b (s\<lparr>mMuxUnknownBackoffFactor :=
     backoff_double AS_MAX_BACKOFF_FACTOR (mMuxUnknownBackoffFactor s)\<rparr>) c"
  "AS_inv b s c \<Longrightarrow> AS_inv b (s\<lparr>mWaitStandbyUpBackoffFactor :=
     backoff_double AS_MAX_BACKOFF_FACTOR (mWaitStandbyUpBackoffFactor s)\<rparr>) c"
  "AS_inv b s c \<Longrightarrow> AS_inv b (s\<lparr>mUnknownActiveUpBackoffFactor :=
     backoff_double AS_MAX_BACKOFF_FACTOR (mUnknownActiveUpBackoffFactor s)\<rparr>) c"
  by (simp_all add: AS_inv_defs synced_def)

lemma AS_inv_pending [simp]:
  "AS_inv b s c \<Longrightarrow> m \<noteq> ModeAuto \<Longrightarrow> m \<noteq> ModeManual \<Longrightarrow>
     AS_inv b (s\<lparr>mPendingMuxModeChange := True, mTargetMuxMode := m\<rparr>) c"
  by (simp add: AS_inv_defs synced_def)

section \<open>Operations\<close>

lemmas AS_op_defs =
  prober_call_def Let_def
  AS_startMuxProbeTimer_def AS_startMuxWaitTimer_def AS_startOscillationTimer_def
  AS_tryCancelOscillationTimerIfAlive_def AS_setLabel_def AS_updateMuxLinkmgrState_def
  AS_enterLinkProberState_def AS_enterMuxState_def AS_enterLinkState_def AS_setWaitStateCause_def
  AS_enterMuxWaitState_def AS_switchMuxState_def AS_initLinkProberState_def
  AS_shutdownOrRestartLinkProberOnDefaultRoute_def AS_commit_def

lemmas AS_transition_defs =
  noopTransitionFunction_def
  AS_LinkProberStandbyMuxActiveLinkUp_def AS_LinkProberUnknownMuxActiveLinkUp_def
  AS_LinkProberActiveMuxStandbyLinkUp_def
  AS_LinkProberActiveMuxUnknownLinkUp_def AS_LinkProberStandbyMuxUnknownLinkUp_def
  AS_LinkProberUnknownMuxUnknownLinkUp_def AS_LinkProberActiveMuxErrorLinkUp_def
  AS_LinkProberStandbyMuxErrorLinkUp_def AS_LinkProberWaitMuxActiveLinkUp_def
  AS_LinkProberWaitMuxStandbyLinkUp_def AS_LinkProberWaitMuxUnknownLinkUp_def
  AS_LinkProberUnknownMuxActiveLinkDown_def AS_LinkProberUnknownMuxStandbyLinkDown_def
  AS_LinkProberUnknownMuxUnknownLinkDown_def AS_LinkProberWaitMuxActiveLinkDown_def
  AS_LinkProberWaitMuxStandbyLinkDown_def AS_LinkProberWaitMuxUnknownLinkDown_def

lemma AS_inv_prober_call: "AS_inv b s c \<Longrightarrow> \<not> health_call x \<Longrightarrow> ok b (\<lambda>s'. AS_inv b s' c) (prober_call x s)"
  by (cases b) (auto simp: prober_call_def)

lemma AS_inv_timers [simp]:
  assumes "AS_inv b s c"
  shows "AS_inv b (AS_startMuxProbeTimer f s) c" "AS_inv b (AS_startMuxWaitTimer f s) c"
    "AS_inv b (AS_tryCancelOscillationTimerIfAlive s) c" "AS_inv b (AS_startOscillationTimer s) c"
    "AS_inv b (AS_setWaitStateCause w s) c" "AS_inv b (AS_setLabel l s) c"
    "AS_inv b (s\<lparr>mMuxStateMachine := MuxStateMachine_resetWaitStateCause w (mMuxStateMachine s)\<rparr>) c"
  using assms by (auto simp: AS_inv_defs synced_def AS_op_defs)

lemma AS_inv_enterLinkProberState:
  "AS_inv b s c \<Longrightarrow> own_label l \<Longrightarrow> case_prod (AS_inv b) (AS_enterLinkProberState l f s c)"
  by (auto simp: AS_inv_defs synced_def AS_enterLinkProberState_def Let_def)

lemma AS_inv_initLinkProberState:
  "AS_inv b s c \<Longrightarrow> case_prod (AS_inv b) (AS_initLinkProberState f s c)"
  by (cases "ms c") (simp_all add: AS_initLinkProberState_def AS_inv_enterLinkProberState)

lemma AS_inv_enterMuxState: "AS_inv b s c \<Longrightarrow> case_prod (AS_inv b) (AS_enterMuxState l s c)"
  by (auto simp: AS_inv_defs synced_def AS_enterMuxState_def)

lemma AS_inv_enterLinkState: "AS_inv b s c \<Longrightarrow> case_prod (AS_inv b) (AS_enterLinkState l s c)"
  by (auto simp: AS_inv_defs synced_def AS_enterLinkState_def)

lemma AS_inv_enterMuxWaitState: "AS_inv b s c \<Longrightarrow> case_prod (AS_inv b) (AS_enterMuxWaitState s c)"
  using AS_inv_enterMuxState [of b s c MuxWait] by (auto simp: AS_enterMuxWaitState_def)

lemma AS_state_inv_commit: "AS_state_inv b (AS_commit r) = case_prod (AS_inv b) r"
  by (cases r) (simp add: AS_state_inv_def AS_commit_def)

lemma AS_inv_updateMuxLinkmgrState:
  "AS_inv b s c \<Longrightarrow> ok b (\<lambda>s'. AS_inv b s' c) (AS_updateMuxLinkmgrState s)"
  by (cases b) (auto simp: AS_updateMuxLinkmgrState_def Let_def prober_call_def ok_rules)

lemma AS_inv_shutdownOrRestart:
  "AS_inv b s c \<Longrightarrow> ok b (\<lambda>s'. AS_inv b s' c) (AS_shutdownOrRestartLinkProberOnDefaultRoute s)"
  by (cases b) (auto simp: AS_shutdownOrRestartLinkProberOnDefaultRoute_def prober_call_def)


lemma AS_inv_switchMuxState:
  assumes "AS_inv b s c"
  shows "ok b (case_prod (AS_inv b)) (AS_switchMuxState cause l f s c)"
proof (cases "f \<or> mMode (mMuxPortConfig s) = ModeAuto")
  case True
  let ?s = "if l = MuxActive then s\<lparr>mWaitActiveUpCount := 0\<rparr> else s"
  obtain s1 c1 where e: "AS_enterMuxState MuxWait (?s\<lparr>mLastSetMuxState := l\<rparr>) c = (s1, c1)" by force
  have "AS_inv b s1 c1"
    using AS_inv_enterMuxState [of b "?s\<lparr>mLastSetMuxState := l\<rparr>" c MuxWait] assms e by simp
  with True e show ?thesis
    by (auto simp: AS_switchMuxState_def Let_def ok_rules intro!: AS_inv_prober_call [where c = c1, THEN ok_mono])
next
  case False
  with assms show ?thesis by (simp add: AS_switchMuxState_def AS_inv_enterMuxWaitState)
qed

lemma AS_inv_unknown_standby_up:
  assumes "AS_inv b s c"
  shows "ok b (case_prod (AS_inv b)) (AS_LinkProberUnknownMuxStandbyLinkUp s c)"
proof -
  obtain s1 c1 where e: "AS_enterLinkProberState ProberWait False s c = (s1, c1)" by force
  then have "AS_inv b s1 c1"
    using AS_inv_enterLinkProberState [of b s c ProberWait False] assms by simp
  then show ?thesis
    using AS_inv_enterMuxWaitState [of b s1 c1]
    by (auto simp: AS_LinkProberUnknownMuxStandbyLinkUp_def e ok_rules
        intro!: AS_inv_switchMuxState [THEN ok_mono])
qed

lemma AS_inv_transition:
  assumes "AS_inv b s c"
  shows "ok b (case_prod (AS_inv b)) (AS_transition s c)"
  unfolding AS_transition_def
  by (cases "(ps c, ms c, ls c)" rule: AS_mStateTransitionHandler.cases)
    (use assms in \<open>auto simp: AS_transition_defs AS_inv_enterMuxWaitState AS_inv_switchMuxState
       AS_inv_unknown_standby_up Let_def ok_rules
       intro!: AS_inv_prober_call [where c = c, THEN ok_mono]\<close>)


section \<open>Handlers\<close>

text \<open>The same facts over the stored composite state.\<close>

lemma AS_state_inv_update [simp]:
  "AS_state_inv b (s\<lparr>mMuxPortConfig := x2\<rparr>) = AS_state_inv b s"
  "AS_state_inv b (s\<lparr>mComponentInitState := x4\<rparr>) = AS_state_inv b s"
  "AS_state_inv b (s\<lparr>mDefaultRouteState := x5\<rparr>) = AS_state_inv b s"
  "AS_state_inv b (s\<lparr>mPeerLinkState := x7\<rparr>) = AS_state_inv b s"
  "AS_state_inv b (s\<lparr>mWaitActiveUpCount := x8\<rparr>) = AS_state_inv b s"
  "AS_state_inv b (s\<lparr>mActiveUnknownUpCount := x9\<rparr>) = AS_state_inv b s"
  "AS_state_inv b (s\<lparr>mStandbyUnknownUpCount := x10\<rparr>) = AS_state_inv b s"
  "AS_state_inv b (s\<lparr>as_mContinuousLinkProberUnknownEvent := x12\<rparr>) = AS_state_inv b s"
  "AS_state_inv b (s\<lparr>mSendSwitchActiveCommandCause := x13\<rparr>) = AS_state_inv b s"
  "\<not> health_call x \<Longrightarrow> AS_state_inv b (emit x s) = AS_state_inv b s"
  by (simp_all add: AS_state_inv_def)

lemma AS_state_inv_reset [simp]:
  "AS_state_inv b s \<Longrightarrow> AS_state_inv b (s\<lparr>mMuxUnknownBackoffFactor := 1\<rparr>)"
  "AS_state_inv b s \<Longrightarrow> AS_state_inv b (s\<lparr>mWaitStandbyUpBackoffFactor := 1\<rparr>)"
  "AS_state_inv b s \<Longrightarrow> AS_state_inv b (s\<lparr>mUnknownActiveUpBackoffFactor := 1\<rparr>)"
  "AS_state_inv b s \<Longrightarrow> AS_state_inv b (s\<lparr>mPendingMuxModeChange := False\<rparr>)"
  "AS_state_inv b s \<Longrightarrow> AS_state_inv b (s\<lparr>mOscillationTimerAlive := False\<rparr>)"
  "AS_state_inv b s \<Longrightarrow> AS_state_inv b (s\<lparr>mLinkProberPtr := Some p\<rparr>)"
  "AS_state_inv b s \<Longrightarrow> AS_state_inv b (post_tasks ts s)"
  "AS_state_inv b s \<Longrightarrow> i \<noteq> OscillationTimer \<Longrightarrow> AS_state_inv b (cancel_timer i s)"
  "AS_state_inv b s \<Longrightarrow> AS_state_inv b (setComponentInitState k s)"
  "AS_state_inv b s \<Longrightarrow> m \<noteq> ModeAuto \<Longrightarrow> m \<noteq> ModeManual \<Longrightarrow>
     AS_state_inv b (s\<lparr>mPendingMuxModeChange := True, mTargetMuxMode := m\<rparr>)"
  by (simp_all add: AS_state_inv_def setComponentInitState_def)

lemma AS_op_composite [simp]:
  "mCompositeState (AS_startMuxProbeTimer f s) = mCompositeState s"
  "mCompositeState (AS_startMuxWaitTimer f s) = mCompositeState s"
  "mCompositeState (AS_tryCancelOscillationTimerIfAlive s) = mCompositeState s"
  "mCompositeState (AS_setWaitStateCause w s) = mCompositeState s"
  "mCompositeState (AS_setLabel l s) = mCompositeState s"
  by (simp_all add: AS_op_defs)

lemma AS_state_inv_op [simp]:
  "AS_state_inv b s \<Longrightarrow> AS_state_inv b (AS_startMuxProbeTimer f s)"
  "AS_state_inv b s \<Longrightarrow> AS_state_inv b (AS_tryCancelOscillationTimerIfAlive s)"
  "AS_state_inv b s \<Longrightarrow> AS_state_inv b (AS_setWaitStateCause w s)"
  "AS_state_inv b s \<Longrightarrow> m = mMuxStateMachine s \<Longrightarrow>
     AS_state_inv b (s\<lparr>mMuxStateMachine := MuxStateMachine_resetWaitStateCause w m\<rparr>)"
  by (simp_all add: AS_state_inv_def)

lemma AS_state_inv_prober_call: "AS_state_inv b s \<Longrightarrow> \<not> health_call x \<Longrightarrow> ok b (AS_state_inv b) (prober_call x s)"
  by (cases b) (auto simp: prober_call_def AS_state_inv_def)

lemma AS_state_inv_updateMuxLinkmgrState:
  "AS_state_inv b s \<Longrightarrow> ok b (AS_state_inv b) (AS_updateMuxLinkmgrState s)"
  by (cases b) (auto simp: AS_updateMuxLinkmgrState_def Let_def prober_call_def ok_rules AS_state_inv_def)

lemma AS_state_inv_shutdownOrRestart:
  "AS_state_inv b s \<Longrightarrow> ok b (AS_state_inv b) (AS_shutdownOrRestartLinkProberOnDefaultRoute s)"
  by (cases b) (auto simp: AS_shutdownOrRestartLinkProberOnDefaultRoute_def prober_call_def AS_state_inv_def)

text \<open>An operation that changes the stored composite state and is committed.\<close>

lemma AS_state_inv_init [simp]:
  assumes "AS_state_inv b s" and "mCompositeState s = c"
  shows "AS_state_inv b (AS_commit (AS_initLinkProberState f s c))"
    "AS_state_inv b (AS_commit (AS_enterMuxState l s c))"
    "AS_state_inv b (AS_commit (AS_enterLinkState k s c))"
    "AS_state_inv b (AS_commit (AS_enterMuxWaitState s c))"
  using assms by (simp_all add: AS_inv_initLinkProberState AS_inv_enterMuxState AS_inv_enterLinkState
      AS_inv_enterMuxWaitState AS_state_inv_commit AS_state_inv_def [of b s])

lemma AS_state_inv_switch:
  assumes "AS_state_inv b s" and "mCompositeState s = c"
  shows "ok b (\<lambda>r. AS_state_inv b (AS_commit r)) (AS_switchMuxState cause l f s c)"
  using AS_inv_switchMuxState assms by (simp add: AS_state_inv_commit AS_state_inv_def [of b s])

lemma AS_inv_wait:
  assumes "AS_enterLinkProberState ProberWait False s c = (s1, c1)" and "AS_state_inv b s" and "mCompositeState s = c"
  shows "AS_inv b s1 c1"
  using AS_inv_enterLinkProberState [of b s "mCompositeState s" ProberWait False] assms
  by (simp add: AS_state_inv_def)

lemma AS_state_inv_wait_commit:
  assumes "AS_enterLinkProberState ProberWait False s c = (s1, c1)" and "AS_state_inv b s" and "mCompositeState s = c"
  shows "AS_state_inv b (AS_commit (s1, c1))"
  using AS_inv_wait [OF assms] by (simp add: AS_state_inv_commit)

lemma AS_state_inv_wait_switch:
  assumes "AS_enterLinkProberState ProberWait False s c = (s1, c1)" and "AS_state_inv b s" and "mCompositeState s = c"
  shows "ok b (\<lambda>r. AS_state_inv b (AS_commit r)) (AS_switchMuxState cause l f s1 c1)"
  using AS_inv_wait [OF assms] AS_inv_switchMuxState by (simp add: AS_state_inv_commit)

lemmas AS_okI =
  AS_state_inv_prober_call [THEN ok_mono] AS_state_inv_updateMuxLinkmgrState [THEN ok_mono]
  AS_state_inv_shutdownOrRestart [THEN ok_mono]

lemmas AS_switchI = AS_state_inv_switch [OF _ refl, THEN ok_mono] AS_state_inv_wait_switch [THEN ok_mono]

lemma AS_state_inv_activate: "AS_state_inv b s \<Longrightarrow> ok b (AS_state_inv b) (AS_activateStateMachine s)"
  by (auto simp: AS_activateStateMachine_def Let_def ok_rules intro!: AS_okI)

lemma AS_state_inv_blade:
  "AS_state_inv b s \<Longrightarrow> ok b (AS_state_inv b) (AS_handleSwssBladeIpv4AddressUpdate a s)"
  by (auto simp: AS_handleSwssBladeIpv4AddressUpdate_def intro!: AS_okI AS_state_inv_activate)

lemma AS_state_inv_config:
  "AS_state_inv b s \<Longrightarrow> ok b (AS_state_inv b) (AS_handleMuxConfigNotification m s)"
  by (auto simp: AS_handleMuxConfigNotification_def Let_def ok_rules split: prod.splits intro!: AS_okI AS_switchI)


text \<open>The changes posted by the sub-machines; the premise has the task put back.\<close>

lemma AS_inv_taken:
  "AS_inv b (post_tasks [t] s) c \<Longrightarrow> \<not> label_change t \<Longrightarrow> t \<noteq> TaskTimer OscillationTimer Success \<Longrightarrow>
     AS_inv b s c"
  by (auto simp: AS_inv_defs dest: synced_taken)

lemma AS_inv_taken_label:
  "AS_inv b (post_tasks [TaskProberChange l] s) c \<Longrightarrow>
     AS_inv b s (if psm_current (mLinkProberStateMachinePtr s) = l then c\<lparr>ps := l\<rparr> else c)"
  "AS_inv b (post_tasks [TaskMuxChange l'] s) c \<Longrightarrow>
     AS_inv b s (if mux_current (mMuxStateMachine s) = l' then c\<lparr>ms := l'\<rparr> else c)"
  "AS_inv b (post_tasks [TaskLinkChange l''] s) c \<Longrightarrow>
     AS_inv b s (if link_current (mLinkStateMachine s) = l'' then c\<lparr>ls := l''\<rparr> else c)"
  using synced_taken_prober [of l s c] synced_taken_mux [of l' s c] synced_taken_link [of l'' s c]
  by (simp_all add: AS_inv_defs)

lemma AS_inv_taken_oscillation:
  "AS_inv b (post_tasks [TaskTimer OscillationTimer ec] s) c \<Longrightarrow> AS_inv b (s\<lparr>mOscillationTimerAlive := False\<rparr>) c"
  by (auto simp: AS_inv_defs synced_def)

lemma AS_state_inv_transition:
  "AS_inv b s c \<Longrightarrow> ok b (\<lambda>r. AS_state_inv b (AS_commit r)) (AS_transition s c)"
  using AS_inv_transition by (simp add: AS_state_inv_commit)

lemma AS_state_inv_prober_change:
  assumes "AS_state_inv b (post_tasks [TaskProberChange l] s)"
  shows "ok b (AS_state_inv b) (AS_handleStateChange_prober l s)"
proof -
  have "AS_inv b s (if psm_current (mLinkProberStateMachinePtr s) = l
          then (mCompositeState s)\<lparr>ps := l\<rparr> else mCompositeState s)"
    using assms by (auto simp: AS_state_inv_def dest: AS_inv_taken_label(1))
  then show ?thesis
    by (auto simp: AS_handleStateChange_prober_def Let_def ok_rules AS_state_inv_def [of b s]
        split: if_splits intro!: AS_okI AS_state_inv_transition [THEN ok_mono])
qed

lemma AS_state_inv_mux_change:
  assumes "AS_state_inv b (post_tasks [TaskMuxChange l] s)"
  shows "ok b (AS_state_inv b) (AS_handleStateChange_mux l s)"
proof -
  have "AS_inv b s (if mux_current (mMuxStateMachine s) = l
          then (mCompositeState s)\<lparr>ms := l\<rparr> else mCompositeState s)"
    using assms by (auto simp: AS_state_inv_def dest: AS_inv_taken_label(2))
  then have "ok b (AS_state_inv b) (if mux_current (mMuxStateMachine s) = l then do {
            r \<leftarrow> AS_transition s ((mCompositeState s)\<lparr>ms := l\<rparr>);
            Some (AS_commit r)
          }
          else Some s)"
    by (auto simp: ok_rules AS_state_inv_def [of b s] intro!: AS_state_inv_transition [THEN ok_mono])
  then show ?thesis
    unfolding AS_handleStateChange_mux_def Let_def
    by (elim ok_bindI)
      (auto simp: ok_rules intro!: AS_okI AS_state_inv_config [THEN ok_mono])
qed

lemma AS_state_inv_link_change:
  assumes "AS_state_inv b (post_tasks [TaskLinkChange l] s)"
  shows "ok b (AS_state_inv b) (AS_handleStateChange_link l s)"
proof -
  have inv: "AS_inv b s (if link_current (mLinkStateMachine s) = l
          then (mCompositeState s)\<lparr>ls := l\<rparr> else mCompositeState s)"
    using assms by (auto simp: AS_state_inv_def dest: AS_inv_taken_label(3))
  show ?thesis
  proof (cases "link_current (mLinkStateMachine s) = l")
    case True
    with inv have c: "AS_inv b s ((mCompositeState s)\<lparr>ls := l\<rparr>)" by simp
    then have "case_prod (AS_inv b) (AS_initLinkProberState True s ((mCompositeState s)\<lparr>ls := l\<rparr>))"
      by (rule AS_inv_initLinkProberState)
    with True c show ?thesis
      by (auto simp: AS_handleStateChange_link_def Let_def ok_rules AS_state_inv_commit split_def
          intro!: AS_okI AS_inv_switchMuxState [THEN ok_mono] AS_state_inv_transition [THEN ok_mono])
  next
    case False
    with inv show ?thesis
      by (auto simp: AS_handleStateChange_link_def AS_state_inv_def [of b s] intro!: AS_okI)
  qed
qed

lemma AS_state_inv_postMuxStateEvent [simp]:
  "AS_state_inv b s \<Longrightarrow> AS_state_inv b (LinkManagerStateMachineBase_postMuxStateEvent l s)"
  "mMuxStateMachine (LinkManagerStateMachineBase_postMuxStateEvent l s) = mMuxStateMachine s"
  by (simp_all add: LinkManagerStateMachineBase_postMuxStateEvent_def split: mux_label.splits)

lemma AS_state_inv_server_mac:
  "AS_state_inv b s \<Longrightarrow> ok b (AS_state_inv b) (AS_handleGetServerMacAddressNotification a s)"
  by (auto simp: AS_handleGetServerMacAddressNotification_def Let_def ok_rules split: prod.splits intro!: AS_okI)

lemma AS_state_inv_get_mux:
  "AS_state_inv b s \<Longrightarrow> ok b (AS_state_inv b) (AS_handleGetMuxStateNotification l s)"
  by (auto simp: AS_handleGetMuxStateNotification_def Let_def ok_rules split: prod.splits intro!: AS_okI AS_switchI)

lemma AS_state_inv_probe_mux:
  "AS_state_inv b s \<Longrightarrow> ok b (AS_state_inv b) (AS_handleProbeMuxStateNotification l s)"
  by (auto simp: AS_handleProbeMuxStateNotification_def Let_def ok_rules split: prod.splits intro!: AS_okI AS_state_inv_activate)

lemma AS_state_inv_mux_state:
  "AS_state_inv b s \<Longrightarrow> ok b (AS_state_inv b) (AS_handleMuxStateNotification l s)"
  by (auto simp: AS_handleMuxStateNotification_def Let_def ok_rules split: prod.splits intro!: AS_okI AS_state_inv_activate)

lemma AS_state_inv_link_state:
  "AS_state_inv b s \<Longrightarrow> ok b (AS_state_inv b) (AS_handleSwssLinkStateNotification k s)"
  by (auto simp: AS_handleSwssLinkStateNotification_def Let_def ok_rules split: prod.splits link_label.splits intro!: AS_okI AS_state_inv_activate)

lemma AS_state_inv_peer_link:
  "AS_state_inv b s \<Longrightarrow> ok b (AS_state_inv b) (AS_handlePeerLinkStateNotification k s)"
  by (auto simp: AS_handlePeerLinkStateNotification_def Let_def ok_rules split: prod.splits
      intro!: AS_okI AS_state_inv_wait_switch [THEN ok_mono] intro: AS_state_inv_wait_commit)

lemma AS_state_inv_default_route:
  "AS_state_inv b s \<Longrightarrow> ok b (AS_state_inv b) (AS_handleDefaultRouteStateNotification r s)"
  by (auto simp: AS_handleDefaultRouteStateNotification_def Let_def ok_rules split: prod.splits intro!: AS_okI)

lemma AS_state_inv_pck_loss:
  "AS_state_inv b s \<Longrightarrow> ok b (AS_state_inv b) (AS_handlePostPckLossRatioNotification n m s)"
  by (auto simp: AS_handlePostPckLossRatioNotification_def Let_def ok_rules split: prod.splits intro!: AS_okI)

lemma AS_state_inv_reset_pck_loss:
  "AS_state_inv b s \<Longrightarrow> ok b (AS_state_inv b) (AS_handleResetLinkProberPckLossCount s)"
  by (auto simp: AS_handleResetLinkProberPckLossCount_def Let_def ok_rules split: prod.splits intro!: AS_okI)

lemma AS_state_inv_reset_suspend:
  "AS_state_inv b s \<Longrightarrow> ok b (AS_state_inv b) (AS_handleResetSuspendTimer s)"
  by (auto simp: AS_handleResetSuspendTimer_def Let_def ok_rules split: prod.splits intro!: AS_okI)

lemma AS_state_inv_suspend_expiry:
  "AS_state_inv b s \<Longrightarrow> ok b (AS_state_inv b) (AS_handleSuspendTimerExpiry s)"
  by (auto simp: AS_handleSuspendTimerExpiry_def Let_def ok_rules split: prod.splits intro!: AS_okI)

lemma AS_state_inv_switch_completion:
  "AS_state_inv b s \<Longrightarrow> ok b (AS_state_inv b) (AS_handleSwitchActiveCommandCompletion s)"
  by (auto simp: AS_handleSwitchActiveCommandCompletion_def Let_def ok_rules split: prod.splits intro!: AS_okI AS_switchI)

lemma AS_state_inv_switch_request:
  "AS_state_inv b s \<Longrightarrow> ok b (AS_state_inv b) (AS_handleSwitchActiveRequestEvent s)"
  by (auto simp: AS_handleSwitchActiveRequestEvent_def Let_def ok_rules split: prod.splits intro!: AS_okI AS_switchI)

lemma AS_state_inv_probe_timeout:
  "AS_state_inv b s \<Longrightarrow> ok b (AS_state_inv b) (AS_handleMuxProbeTimeout ec s)"
  by (auto simp: AS_handleMuxProbeTimeout_def Let_def ok_rules split: prod.splits intro!: AS_okI)

lemma AS_state_inv_wait_timeout:
  "AS_state_inv b s \<Longrightarrow> ok b (AS_state_inv b) (AS_handleMuxWaitTimeout ec s)"
  by (auto simp: AS_handleMuxWaitTimeout_def Let_def ok_rules split: prod.splits intro!: AS_okI)

lemma AS_state_inv_oscillation:
  assumes "AS_state_inv b (post_tasks [TaskTimer OscillationTimer ec] s)"
  shows "ok b (AS_state_inv b) (AS_handleOscillationTimeout ec s)"
proof -
  have "AS_state_inv b (s\<lparr>mOscillationTimerAlive := False\<rparr>)"
    using assms AS_inv_taken_oscillation by (simp add: AS_state_inv_def)
  then show ?thesis
    using AS_state_inv_switch [where s = "s\<lparr>mOscillationTimerAlive := False\<rparr>" and b = b]
    by (auto simp: AS_handleOscillationTimeout_def Let_def ok_rules)
qed


lemma AS_prober_processEvent_current:
  assumes "LinkProberStateMachineActiveStandby_processEvent cfg e m = (m', ts)"
  shows "psm_current m' = psm_current m \<or> TaskProberChange (psm_current m') \<in> set ts"
  using assms by (cases e)
    (auto split: prod.splits if_splits dest: prober_processEvent_current(1))

lemma AS_state_inv_events:
  assumes "AS_state_inv b s"
  shows "AS_state_inv b (AS_process_prober_event e s)" "AS_state_inv b (process_mux_event e' s)"
    "AS_state_inv b (process_link_event e'' s)"
proof -
  show "AS_state_inv b (AS_process_prober_event e s)"
    using assms by (auto simp: AS_process_prober_event_def AS_state_inv_def AS_inv_defs synced_def
        split: prod.splits dest!: AS_prober_processEvent_current)
  show "AS_state_inv b (process_mux_event e' s)"
    using assms synced_process_mux_event [of s "mCompositeState s" e']
    by (auto simp: process_mux_event_def AS_state_inv_def AS_inv_defs split: prod.splits)
  show "AS_state_inv b (process_link_event e'' s)"
    using assms synced_process_link_event [of s "mCompositeState s" e'']
    by (auto simp: process_link_event_def AS_state_inv_def AS_inv_defs split: prod.splits)
qed

section \<open>The dispatcher\<close>

lemmas AS_state_inv_handlers =
  AS_state_inv_blade AS_state_inv_server_mac AS_state_inv_get_mux AS_state_inv_probe_mux
  AS_state_inv_mux_state AS_state_inv_link_state AS_state_inv_peer_link AS_state_inv_config
  AS_state_inv_default_route AS_state_inv_reset_pck_loss AS_state_inv_reset_suspend
  AS_state_inv_suspend_expiry AS_state_inv_switch_completion AS_state_inv_switch_request
  AS_state_inv_pck_loss AS_state_inv_probe_timeout AS_state_inv_wait_timeout AS_state_inv_events

lemma AS_state_inv_src_mac:
  "AS_state_inv b s \<Longrightarrow> ok b (AS_state_inv b) (LinkManagerStateMachineBase_handleSrcMacConfigNotification s)"
  by (auto simp: LinkManagerStateMachineBase_handleSrcMacConfigNotification_def intro!: AS_okI)

lemma AS_run_state_inv:
  assumes "AS_state_inv b (post_tasks [t] s)"
  shows "ok b (AS_state_inv b) (AS_run t s)"
proof (cases "label_change t \<or> (\<exists>ec. t = TaskTimer OscillationTimer ec)")
  case True
  with assms show ?thesis
    by (cases t) (auto intro: AS_state_inv_prober_change AS_state_inv_mux_change
        AS_state_inv_link_change AS_state_inv_oscillation)
next
  case False
  with assms have "AS_state_inv b s"
    by (auto simp: AS_state_inv_def dest: AS_inv_taken)
  with False show ?thesis
    by (cases "(t, s)" rule: AS_run.cases)
      (simp_all add: AS_state_inv_handlers AS_state_inv_src_mac LinkManagerStateMachineBase_noop_handler_def)
qed

lemma AS_state_inv_take_task:
  "AS_state_inv b s \<Longrightarrow> i < length (tasks s) \<Longrightarrow> AS_state_inv b (post_tasks [tasks s ! i] (take_task i s))"
  using set_take_task [of i s] synced_take_task [of s "mCompositeState s" i]
  by (auto simp: AS_state_inv_def AS_inv_defs take_task_def)

interpretation AS_strand: strand_invariant AS_run "AS_state_inv b" for b
proof
  show "AS_state_inv b s'" if "AS_state_inv b s" "i < length (tasks s)"
    "AS_run (tasks s ! i) (take_task i s) = Some s'" for s i s'
    using AS_run_state_inv [OF AS_state_inv_take_task] that by (auto dest: ok_SomeD)
  show "AS_state_inv b (fire_timer j s)" if "AS_state_inv b s" for s j
    using that by (auto simp: AS_state_inv_def AS_inv_defs synced_def fire_timer_def)
qed (simp_all add: AS_state_inv_def)

lemma AS_state_inv_new: "AS_state_inv False (ActiveStandbyStateMachine_new i cfg)"
  by (simp add: AS_state_inv_def AS_inv_defs synced_def ActiveStandbyStateMachine_new_def published_def
      LinkProberStateMachineActiveStandby_new_def MuxStateMachine_new_def LinkStateMachine_new_def)

end
