(* ===== verification/Sub_Machine_Properties.thy ===== *)
theory Sub_Machine_Properties
  imports Link_Manager_Base
begin

text \<open>
  The properties of the sub-machines of a port: how many consecutive events each of them
  needs before it changes state, what it posts, and what its 8-bit counters cannot count.
\<close>

section \<open>The debounce interface on the three machines\<close>

interpretation link_up_debounce: debounce "LinkStateMachine_processEvent cfg" link_current
    "\<lambda>m. up_mDownEventCount (link_mUpState m)" DownEvent LinkUp LinkDown "getLinkStateChangeRetryCount cfg"
  for cfg
  by unfold_locales (simp_all add: link_sm_defs Let_def)

interpretation link_down_debounce: debounce "LinkStateMachine_processEvent cfg" link_current
    "\<lambda>m. down_mUpEventCount (link_mDownState m)" UpEvent LinkDown LinkUp "getLinkStateChangeRetryCount cfg"
  for cfg
  by unfold_locales (simp_all add: link_sm_defs Let_def)

text \<open>For the MUX machine: the label an event reports, and the counter of an event in a state.\<close>

fun mux_event_label :: "mux_event \<Rightarrow> mux_label" where
  "mux_event_label ActiveEvent = MuxActive"
| "mux_event_label StandbyEvent = MuxStandby"
| "mux_event_label UnknownEvent = MuxUnknown"
| "mux_event_label ErrorEvent = MuxError"

fun mux_event_count :: "mux_label \<Rightarrow> mux_event \<Rightarrow> mux_sm \<Rightarrow> u8" where
  "mux_event_count MuxActive StandbyEvent m = mac_mStandbyEventCount (mux_mActiveState m)"
| "mux_event_count MuxActive UnknownEvent m = mac_mUnknownEventCount (mux_mActiveState m)"
| "mux_event_count MuxActive ErrorEvent m = mac_mErrorEventCount (mux_mActiveState m)"
| "mux_event_count MuxStandby ActiveEvent m = msc_mActiveEventCount (mux_mStandbyState m)"
| "mux_event_count MuxStandby UnknownEvent m = msc_mUnknownEventCount (mux_mStandbyState m)"
| "mux_event_count MuxStandby ErrorEvent m = msc_mErrorEventCount (mux_mStandbyState m)"
| "mux_event_count MuxUnknown ActiveEvent m = muc_mActiveEventCount (mux_mUnknownState m)"
| "mux_event_count MuxUnknown StandbyEvent m = muc_mStandbyEventCount (mux_mUnknownState m)"
| "mux_event_count MuxUnknown ErrorEvent m = muc_mErrorEventCount (mux_mUnknownState m)"
| "mux_event_count MuxError ActiveEvent m = mec_mActiveEventCount (mux_mErrorState m)"
| "mux_event_count MuxError StandbyEvent m = mec_mStandbyEventCount (mux_mErrorState m)"
| "mux_event_count MuxError UnknownEvent m = mec_mUnknownEventCount (mux_mErrorState m)"
| "mux_event_count MuxWait ActiveEvent m = mwc_mActiveEventCount (mux_mWaitState m)"
| "mux_event_count MuxWait StandbyEvent m = mwc_mStandbyEventCount (mux_mWaitState m)"
| "mux_event_count MuxWait UnknownEvent m = mwc_mUnknownEventCount (mux_mWaitState m)"
| "mux_event_count MuxWait ErrorEvent m = mwc_mErrorEventCount (mux_mWaitState m)"
| "mux_event_count _ _ m = 0"

lemma mux_debounce:
  assumes "mux_event_label ev \<noteq> st"
  shows "debounce (MuxStateMachine_processEvent cfg) mux_current (mux_event_count st ev) ev st
    (mux_event_label ev) (getMuxStateChangeRetryCount cfg)"
  using assms
  by (cases st; cases ev; unfold_locales)
    (simp_all add: MuxStateMachine_processEvent_def MuxState_handleEvent_def MuxStateMachine_setCurrentState_def Let_def)

lemma mux_count_cleared:
  assumes "mux_event_label ev0 = mux_current m" and "mux_event_label ev \<noteq> mux_current m"
    and "MuxStateMachine_processEvent cfg ev0 m = (m', out)"
  shows "out = [] \<and> mux_current m' = mux_current m \<and> mux_event_count (mux_current m) ev m' = 0"
  using assms
  by (cases ev0; cases ev)
    (auto simp: MuxStateMachine_processEvent_def MuxState_handleEvent_def MuxStateMachine_setCurrentState_def
      MuxActiveState_resetState_def MuxStandbyState_resetState_def MuxUnknownState_resetState_def
      MuxErrorState_resetState_def)

text \<open>For the link prober: the events it debounces in each own state, and where they lead.\<close>

fun prober_debounced :: "prober_label \<Rightarrow> icmp_event \<Rightarrow> prober_label option" where
  "prober_debounced ProberActive IcmpPeerEvent = Some ProberStandby"
| "prober_debounced ProberActive IcmpUnknownEvent = Some ProberUnknown"
| "prober_debounced ProberStandby IcmpSelfEvent = Some ProberActive"
| "prober_debounced ProberStandby IcmpUnknownEvent = Some ProberUnknown"
| "prober_debounced ProberUnknown IcmpSelfEvent = Some ProberActive"
| "prober_debounced ProberUnknown IcmpPeerEvent = Some ProberStandby"
| "prober_debounced ProberWait IcmpSelfEvent = Some ProberActive"
| "prober_debounced ProberWait IcmpPeerEvent = Some ProberStandby"
| "prober_debounced _ _ = None"

definition prober_threshold :: "mux_port_config \<Rightarrow> icmp_event \<Rightarrow> u32" where
  "prober_threshold cfg e =
     (if e = IcmpUnknownEvent then getNegativeStateChangeRetryCount cfg else getPositiveStateChangeRetryCount cfg)"

fun prober_event_count :: "prober_label \<Rightarrow> icmp_event \<Rightarrow> prober_sm \<Rightarrow> u8" where
  "prober_event_count ProberActive IcmpPeerEvent m = pac_mPeerEventCount (psm_mActiveState m)"
| "prober_event_count ProberActive IcmpUnknownEvent m = pac_mUnknownEventCount (psm_mActiveState m)"
| "prober_event_count ProberStandby IcmpSelfEvent m = psc_mSelfEventCount (psm_mStandbyState m)"
| "prober_event_count ProberStandby IcmpUnknownEvent m = psc_mUnknownEventCount (psm_mStandbyState m)"
| "prober_event_count ProberUnknown IcmpSelfEvent m = puc_mSelfEventCount (psm_mUnknownState m)"
| "prober_event_count ProberUnknown IcmpPeerEvent m = puc_mPeerEventCount (psm_mUnknownState m)"
| "prober_event_count ProberWait IcmpSelfEvent m = pwc_mSelfEventCount (psm_mWaitState m)"
| "prober_event_count ProberWait IcmpPeerEvent m = pwc_mPeerEventCount (psm_mWaitState m)"
| "prober_event_count _ _ m = 0"

lemma prober_debounce:
  assumes "prober_debounced st ev = Some go"
  shows "debounce (LinkProberStateMachineBase_processEvent cfg) psm_current (prober_event_count st ev) ev st
    go (prober_threshold cfg ev)"
  using assms
  by (cases "(st, ev)" rule: prober_debounced.cases; unfold_locales)
    (auto simp: LinkProberStateMachineBase_processEvent_def LinkProberState_handleEvent_def prober_threshold_def
      LinkProberStateMachineBase_setCurrentState_def Let_def)

text \<open>Entering an own state from another one clears all its counters.\<close>

lemma prober_count_entered:
  assumes "own_label l" and "psm_current m \<noteq> l"
  shows "prober_event_count l ev (LinkProberStateMachineActiveStandby_enterState l m) = 0"
  using assms
  by (cases "(l, ev, m)" rule: prober_event_count.cases)
    (simp_all add: LinkProberStateMachineActiveStandby_enterState_def LinkProberStateMachineBase_setCurrentState_def
      LinkProberState_resetState_def ProberActiveState_resetState_def ProberStandbyState_resetState_def
      ProberUnknownState_resetState_def ProberWaitState_resetState_def)

section \<open>Properties\<close>

text \<open>A configuration for the witnesses: three link, two MUX and three heartbeat events.\<close>

definition sample_config :: mux_config where
  "sample_config = (MuxConfig_new [0, 0, 0, 0, 0, 0] [0, 0, 0, 0, 0, 0])
     \<lparr>mLinkStateChangeRetryCount := 3, mMuxStateChangeRetryCount := 2\<rparr>"

definition sample_port_config :: "cable_type \<Rightarrow> mux_port_config" where
  "sample_port_config cable = MuxPortConfig_new ProberSoftware sample_config ''Ethernet0'' 1 cable"

lemmas sample_defs = sample_config_def sample_port_config_def

lemma run_result: "map_option f x = Some y \<Longrightarrow> \<exists>s. x = Some s \<and> f s = y"
  by (cases x) simp_all

text \<open>
  C20. The link machine is debounced exactly: in the Up state, after an Up event, the k-th Down
  event in a row posts Down to the link manager if and only if k is the configured retry count
  (a count of 0 acts as 1), and no earlier one posts anything; this holds for counts up to 255.
\<close>
theorem link_down_debounced:
  assumes "link_current m = LinkUp"
    and "unat (getLinkStateChangeRetryCount cfg) \<le> 255"
    and "k \<le> max 1 (unat (getLinkStateChangeRetryCount cfg))"
  shows "snd (run_events (LinkStateMachine_processEvent cfg) (UpEvent # replicate k DownEvent) m) =
    (if k = max 1 (unat (getLinkStateChangeRetryCount cfg)) then [LinkDown] else [])"
proof -
  obtain m1 where m1: "LinkStateMachine_processEvent cfg UpEvent m = (m1, [])" "link_current m1 = LinkUp"
    "up_mDownEventCount (link_mUpState m1) = 0"
    using assms(1) by (simp add: link_sm_defs)
  with link_up_debounce.exact [OF m1(2,3) assms(2,3)] show ?thesis
    by (simp split: prod.splits)
qed

lemma link_down_debounced_witness:
  "snd (run_events (LinkStateMachine_processEvent (sample_port_config CableActiveStandby))
     (UpEvent # replicate 3 DownEvent) (LinkStateMachine_new LinkUp)) = [LinkDown]"
  using link_down_debounced [of "LinkStateMachine_new LinkUp" "sample_port_config CableActiveStandby" 3]
  by (simp add: LinkStateMachine_new_def sample_defs config_getter_defs)

text \<open>
  C21. The MUX machine is debounced exactly, in every one of its reporting states and for every
  event that reports another state: after an event of its own kind, the k-th such event in a
  row posts the reported state if and only if k is the configured retry count.
\<close>
theorem mux_debounced:
  assumes "mux_event_label ev0 = mux_current m" and "mux_event_label ev \<noteq> mux_current m"
    and "unat (getMuxStateChangeRetryCount cfg) \<le> 255"
    and "k \<le> max 1 (unat (getMuxStateChangeRetryCount cfg))"
  shows "snd (run_events (MuxStateMachine_processEvent cfg) (ev0 # replicate k ev) m) =
    (if k = max 1 (unat (getMuxStateChangeRetryCount cfg)) then [mux_event_label ev] else [])"
proof -
  obtain m1 out where p: "MuxStateMachine_processEvent cfg ev0 m = (m1, out)" by force
  from mux_count_cleared [OF assms(1,2) p]
  have m1: "out = []" "mux_current m1 = mux_current m" "mux_event_count (mux_current m) ev m1 = 0" by simp_all
  with p debounce.exact [OF mux_debounce [OF assms(2)] m1(2,3) assms(3,4)] show ?thesis
    by (simp split: prod.splits)
qed

lemma mux_debounced_witness:
  "snd (run_events (MuxStateMachine_processEvent (sample_port_config CableActiveStandby))
     (ActiveEvent # replicate 2 StandbyEvent) (MuxStateMachine_new MuxActive)) = [MuxStandby]"
  using mux_debounced [of ActiveEvent "MuxStateMachine_new MuxActive" StandbyEvent
      "sample_port_config CableActiveStandby" 2]
  by (simp add: MuxStateMachine_new_def sample_defs config_getter_defs)



text \<open>
  A retry count above 255 disables the change for good: the counters are 8 bits wide and the
  configured count is 32 bits wide, so no number of lost heartbeats moves the prober out of the
  state, and the same holds for MUX and link events.
\<close>
lemma large_retry_count_never_fires:
  assumes "255 < unat n" and "getNegativeStateChangeRetryCount cfg = n" and "getMuxStateChangeRetryCount cfg = n"
    and "getLinkStateChangeRetryCount cfg = n"
  shows "(psm_current p \<in> {ProberActive, ProberStandby} \<longrightarrow>
      snd (run_events (LinkProberStateMachineBase_processEvent cfg) (replicate k IcmpUnknownEvent) p) = []) \<and>
    (mux_event_label ev \<noteq> mux_current m \<longrightarrow>
      snd (run_events (MuxStateMachine_processEvent cfg) (replicate k ev) m) = []) \<and>
    (link_current l = LinkUp \<longrightarrow>
      snd (run_events (LinkStateMachine_processEvent cfg) (replicate k DownEvent) l) = [])"
proof (intro conjI impI)
  assume "psm_current p \<in> {ProberActive, ProberStandby}"
  then have "prober_debounced (psm_current p) IcmpUnknownEvent = Some ProberUnknown" by auto
  from debounce.never [OF prober_debounce [OF this, of cfg], of p]
  show "snd (run_events (LinkProberStateMachineBase_processEvent cfg) (replicate k IcmpUnknownEvent) p) = []"
    using assms(1,2) by (simp add: prober_threshold_def)
next
  assume "mux_event_label ev \<noteq> mux_current m"
  then show "snd (run_events (MuxStateMachine_processEvent cfg) (replicate k ev) m) = []"
    using assms(1,3) debounce.never [OF mux_debounce] by blast
next
  assume "link_current l = LinkUp"
  then show "snd (run_events (LinkStateMachine_processEvent cfg) (replicate k DownEvent) l) = []"
    using assms(1,4) link_up_debounce.never by blast
qed

lemma large_retry_count_never_fires_witness:
  "snd (run_events (LinkProberStateMachineBase_processEvent
      ((sample_port_config CableActiveStandby)\<lparr>mMuxConfig := sample_config\<lparr>mNegativeStateChangeRetryCount := 256,
         mMuxStateChangeRetryCount := 256, mLinkStateChangeRetryCount := 256\<rparr>\<rparr>))
     (replicate 1000 IcmpUnknownEvent) (LinkProberStateMachineActiveStandby_new ProberActive)) = []"
proof -
  let ?cfg = "(sample_port_config CableActiveStandby)\<lparr>mMuxConfig := sample_config\<lparr>
    mNegativeStateChangeRetryCount := 256, mMuxStateChangeRetryCount := 256, mLinkStateChangeRetryCount := 256\<rparr>\<rparr>"
  have "psm_current (LinkProberStateMachineActiveStandby_new ProberActive) \<in> {ProberActive, ProberStandby}"
    by (simp add: LinkProberStateMachineActiveStandby_new_def)
  then show ?thesis
    by (rule large_retry_count_never_fires [of 256 ?cfg, THEN conjunct1, THEN mp, rotated -1])
      (simp_all add: config_getter_defs)
qed

text \<open>
  What the machines post is a faithful trace of their state: over any sequence of events the
  last label posted (or the starting label, if none) is the final state of the machine, and no
  two consecutive labels are equal.
\<close>
lemma posted_labels_trace:
  shows "last (mux_current m # snd (run_events (MuxStateMachine_processEvent cfg) es m)) =
      mux_current (fst (run_events (MuxStateMachine_processEvent cfg) es m)) \<and>
    distinct_adj (mux_current m # snd (run_events (MuxStateMachine_processEvent cfg) es m)) \<and>
    last (psm_current p # snd (run_events (LinkProberStateMachineBase_processEvent cfg) ics p)) =
      psm_current (fst (run_events (LinkProberStateMachineBase_processEvent cfg) ics p)) \<and>
    distinct_adj (psm_current p # snd (run_events (LinkProberStateMachineBase_processEvent cfg) ics p)) \<and>
    last (link_current l # snd (run_events (LinkStateMachine_processEvent cfg) lks l)) =
      link_current (fst (run_events (LinkStateMachine_processEvent cfg) lks l)) \<and>
    distinct_adj (link_current l # snd (run_events (LinkStateMachine_processEvent cfg) lks l))"
  by (intro conjI mux_machine.last_posted mux_machine.posted_distinct_adj prober_machine.last_posted
      prober_machine.posted_distinct_adj link_machine.last_posted link_machine.posted_distinct_adj)

end
