(* ===== verification/Active_Standby_Properties.thy ===== *)
theory Active_Standby_Properties
  imports Active_Standby_Props Sub_Machine_Properties "HOL-Library.Code_Target_Nat"
begin

text \<open>
  The properties of the active-standby link manager. The first ones hold in every reachable
  state, whatever the order in which notifications, timers and posted tasks run; they rest on
  the interpretation \<open>AS_strand\<close>. The others say what single handlers decide.
\<close>

abbreviation AS_reachable :: "switch_cause \<Rightarrow> mux_port_config \<Rightarrow> as_state \<Rightarrow> bool" where
  "AS_reachable indet cfg \<equiv> port_reachable AS_run (ActiveStandbyStateMachine_new indet cfg)"

lemma AS_reachable_inv: "AS_reachable indet cfg s \<Longrightarrow> AS_state_inv False s"
  using AS_strand.inv_reachable AS_state_inv_new by blast

lemma AS_reachable_inv_bound:
  "AS_reachable indet cfg s \<Longrightarrow> mLinkProberPtr s \<noteq> None \<Longrightarrow> AS_state_inv True s"
  using AS_reachable_inv by (simp add: AS_state_inv_def AS_inv_defs)

section \<open>A booted port, for the witnesses\<close>

definition AS_boot_tasks :: "mux_mode \<Rightarrow> mux_label \<Rightarrow> task list" where
  "AS_boot_tasks m l = [TaskMuxConfig m, TaskBladeIpv4 5, TaskLinkState LinkUp, TaskDefaultRoute RouteOK, TaskMuxState l]"

definition AS_boot :: "nat \<Rightarrow> mux_mode \<Rightarrow> mux_label \<Rightarrow> task list \<Rightarrow> as_state option" where
  "AS_boot n m l ts = drain AS_run n (post_tasks (AS_boot_tasks m l @ ts)
     (ActiveStandbyStateMachine_new ConfigMuxMode (sample_port_config CableActiveStandby)))"

lemma AS_boot_reachable:
  "AS_boot n m l ts = Some s \<Longrightarrow> l \<noteq> MuxWait \<Longrightarrow> (\<And>t. t \<in> set ts \<Longrightarrow> external_task t) \<Longrightarrow>
     AS_reachable ConfigMuxMode (sample_port_config CableActiveStandby) s"
  unfolding AS_boot_def
  by (rule drain_reachable [rotated], assumption, rule posts_reachable)
    (auto intro: reach_start simp: AS_boot_tasks_def list_all_iff)

section \<open>Invariants of the reachable states\<close>

text \<open>
  C1. In every reachable state in which no label change is on its way, the composite state the
  manager decides on is the triple of the current states of the link prober, MUX and link
  machines, whatever the order of the tasks.
\<close>
theorem AS_composite_follows_machines:
  assumes "AS_reachable indet cfg s" and "quiescent s"
  shows "mCompositeState s = machine_labels s"
  using AS_reachable_inv [OF assms(1)] assms(2)
  by (simp add: AS_state_inv_def AS_inv_def synced_quiescent)

lemma AS_composite_follows_machines_witness:
  "\<exists>s. AS_boot 20 ModeAuto MuxActive [TaskProberEvent (IcmpEvent IcmpPeerEvent)] = Some s \<and>
     machine_labels s = \<lparr>ps = ProberStandby, ms = MuxWait, ls = LinkUp\<rparr> \<and> mCompositeState s = machine_labels s"
proof -
  have "map_option (\<lambda>s. (quiescent s, machine_labels s))
      (AS_boot 20 ModeAuto MuxActive [TaskProberEvent (IcmpEvent IcmpPeerEvent)]) =
    Some (True, \<lparr>ps = ProberStandby, ms = MuxWait, ls = LinkUp\<rparr>)" by code_simp
  from run_result [OF this] obtain s
    where s: "AS_boot 20 ModeAuto MuxActive [TaskProberEvent (IcmpEvent IcmpPeerEvent)] = Some s"
    and "quiescent s" and "machine_labels s = \<lparr>ps = ProberStandby, ms = MuxWait, ls = LinkUp\<rparr>" by blast
  have "AS_reachable ConfigMuxMode (sample_port_config CableActiveStandby) s"
    using AS_boot_reachable [OF s(1)] by simp
  from AS_composite_follows_machines [OF this \<open>quiescent s\<close>] s
  show ?thesis using \<open>machine_labels s = _\<close> by metis
qed



text \<open>
  C7. In every reachable state of the active-standby manager the three backoff factors lie
  between 1 and 128, and the last health written to the state data base, the one that other processes read, is its label.
\<close>
theorem AS_backoff_and_published_health:
  assumes "AS_reachable indet cfg s"
  shows "published s \<and> unat (mMuxUnknownBackoffFactor s) \<in> {1..128} \<and> unat (mWaitStandbyUpBackoffFactor s) \<in> {1..128} \<and>
    unat (mUnknownActiveUpBackoffFactor s) \<in> {1..128}"
  using AS_reachable_inv [OF assms]
  by (simp add: AS_state_inv_def AS_inv_defs factor_ok_def AS_MAX_BACKOFF_FACTOR_def)

text \<open>A booted standby port that lost its peer's heartbeats and became active, without own heartbeats.\<close>

definition AS_takeover_tasks :: "task list" where
  "AS_takeover_tasks = replicate 3 (TaskProberEvent (IcmpEvent IcmpUnknownEvent)) @ replicate 2 (TaskMuxState MuxActive)"

lemma AS_takeover_reachable:
  "AS_boot n ModeAuto MuxStandby AS_takeover_tasks = Some s \<Longrightarrow>
     AS_reachable ConfigMuxMode (sample_port_config CableActiveStandby) s"
  by (erule AS_boot_reachable) (auto simp: AS_takeover_tasks_def)

lemma AS_backoff_and_published_health_witness:
  "\<exists>s. AS_boot 20 ModeAuto MuxStandby AS_takeover_tasks = Some s \<and> published s \<and> unat (mWaitStandbyUpBackoffFactor s) \<in> {1..128}"
proof -
  have "map_option (\<lambda>s. ()) (AS_boot 20 ModeAuto MuxStandby AS_takeover_tasks) = Some ()" by code_simp
  from run_result [OF this] obtain s where s: "AS_boot 20 ModeAuto MuxStandby AS_takeover_tasks = Some s" by blast
  from AS_backoff_and_published_health [OF AS_takeover_reachable [OF s]] s show ?thesis by blast
qed

text \<open>
  C8. The oscillation flag never outlives its timer: in every reachable state in which
  \<open>mOscillationTimerAlive\<close> is set, the oscillation timer is armed or its expiry is queued, so
  a port waiting for heartbeats is never left without the timed switch-over.
\<close>
theorem AS_oscillation_flag_backed:
  assumes "AS_reachable indet cfg s" and "mOscillationTimerAlive s"
  shows "tm_pending (timers s OscillationTimer) \<or> TaskTimer OscillationTimer Success \<in> set (tasks s)"
  using AS_reachable_inv [OF assms(1)] assms(2) by (simp add: AS_state_inv_def AS_inv_defs)


lemma AS_oscillation_flag_backed_witness:
  "\<exists>s. AS_boot 20 ModeAuto MuxStandby AS_takeover_tasks = Some s \<and>
     mCompositeState s = \<lparr>ps = ProberWait, ms = MuxActive, ls = LinkUp\<rparr> \<and> mOscillationTimerAlive s \<and>
     (tm_pending (timers s OscillationTimer) \<or> TaskTimer OscillationTimer Success \<in> set (tasks s))"
proof -
  have "map_option (\<lambda>s. (mCompositeState s, mOscillationTimerAlive s))
    (AS_boot 20 ModeAuto MuxStandby AS_takeover_tasks) =
    Some (\<lparr>ps = ProberWait, ms = MuxActive, ls = LinkUp\<rparr>, True)" by code_simp
  from run_result [OF this] obtain s where s: "AS_boot 20 ModeAuto MuxStandby AS_takeover_tasks = Some s"
      "mCompositeState s = \<lparr>ps = ProberWait, ms = MuxActive, ls = LinkUp\<rparr>" "mOscillationTimerAlive s"
    by blast
  from AS_oscillation_flag_backed [OF AS_takeover_reachable [OF s(1)] s(3)] s show ?thesis by blast
qed

section \<open>Decisions\<close>

lemmas AS_decision_defs =
  AS_op_defs AS_transition_def AS_transition_defs AS_LinkProberUnknownMuxStandbyLinkUp_def
  AS_entering_by_prober_def new_calls_def LinkProberStateMachineBase_resetCurrentState_def

lemma AS_updateMuxLinkmgrState_wait:
  "ms (mCompositeState s) = MuxWait \<Longrightarrow> AS_updateMuxLinkmgrState s = Some (AS_setLabel Unhealthy s)"
  by (simp add: AS_updateMuxLinkmgrState_def)

lemma AS_unknown_standby_up_switches:
  assumes "ms ns = MuxStandby" and "ls ns = LinkUp" and "ps ns = ProberUnknown" and "mLinkProberPtr s \<noteq> None"
    and "calls s = old @ cs" and "SetMuxState MuxActive \<notin> set cs"
  shows "\<exists>s' cs'. AS_transition s ns = Some (s', \<lparr>ps = ProberWait, ms = MuxWait, ls = LinkUp\<rparr>) \<and>
    calls s' = old @ cs' \<and> (SetMuxState MuxActive \<in> set cs' \<longleftrightarrow>
       mMode (mMuxPortConfig s) = ModeAuto \<and> mDefaultRouteState s = RouteOK) \<and>
    tm_pending (timers s' WaitTimer) \<and> mLinkProberPtr s' \<noteq> None"
proof -
  have ns: "ns = \<lparr>ps = ProberUnknown, ms = MuxStandby, ls = LinkUp\<rparr>" using assms(1-3) by (cases ns) simp
  show ?thesis
    unfolding ns
    by (cases "mMode (mMuxPortConfig s) = ModeAuto"; cases "mDefaultRouteState s = RouteOK";
        cases "ifEnableSwitchoverMeasurement (mMuxPortConfig s)")
      (use assms(4-) in \<open>auto simp: AS_transition_def AS_LinkProberUnknownMuxStandbyLinkUp_def AS_op_defs\<close>)
qed

text \<open>
  C3. Loss of the peer's heartbeats makes a standby ToR take over: when the prober reports
  Unknown on an up link with the MUX standby, the manager sets the MUX active if and only if
  the port is in auto mode and the default route is present; it then waits for the MUX, with the
  wait timer armed and the port unhealthy.
\<close>
theorem AS_heartbeat_loss_switches:
  assumes "psm_current (mLinkProberStateMachinePtr s) = ProberUnknown"
    and "ms (mCompositeState s) = MuxStandby" and "ls (mCompositeState s) = LinkUp"
    and "mLinkProberPtr s \<noteq> None"
  shows "\<exists>s'. AS_run (TaskProberChange ProberUnknown) s = Some s' \<and>
    mCompositeState s' = \<lparr>ps = ProberWait, ms = MuxWait, ls = LinkUp\<rparr> \<and>
    (SetMuxState MuxActive \<in> set (new_calls s s') \<longleftrightarrow>
       mMode (mMuxPortConfig s) = ModeAuto \<and> mDefaultRouteState s = RouteOK) \<and>
    tm_pending (timers s' WaitTimer) \<and> mLabel s' = Unhealthy"
proof -
  define s1 where "s1 = (if as_mContinuousLinkProberUnknownEvent s then s
    else emit (PostLinkProberMetricsEvent LinkProberUnknownStart) (s\<lparr>as_mContinuousLinkProberUnknownEvent := True\<rparr>))"
  define cs where "cs = (if as_mContinuousLinkProberUnknownEvent s then []
    else [PostLinkProberMetricsEvent LinkProberUnknownStart])"
  have cs: "SetMuxState MuxActive \<notin> set cs" by (simp add: cs_def)
  have s1: "calls s1 = calls s @ cs" "mLinkProberPtr s1 = mLinkProberPtr s" "mCompositeState s1 = mCompositeState s"
    "mMuxPortConfig s1 = mMuxPortConfig s" "mDefaultRouteState s1 = mDefaultRouteState s"
    by (simp_all add: s1_def cs_def)
  obtain s2 cs' where s2:
    "AS_transition s1 ((mCompositeState s)\<lparr>ps := ProberUnknown\<rparr>) = Some (s2, \<lparr>ps = ProberWait, ms = MuxWait, ls = LinkUp\<rparr>)"
    "calls s2 = calls s @ cs'" "mLinkProberPtr s2 \<noteq> None" "tm_pending (timers s2 WaitTimer)"
    "SetMuxState MuxActive \<in> set cs' \<longleftrightarrow> mMode (mMuxPortConfig s) = ModeAuto \<and> mDefaultRouteState s = RouteOK"
    using AS_unknown_standby_up_switches [of "(mCompositeState s)\<lparr>ps := ProberUnknown\<rparr>" s1 "calls s" cs] assms s1 cs
    by auto
  have "AS_run (TaskProberChange ProberUnknown) s = Some (AS_setLabel Unhealthy
      ((emit ResumeTx (AS_commit (s2, \<lparr>ps = ProberWait, ms = MuxWait, ls = LinkUp\<rparr>)))
        \<lparr>mUnknownActiveUpBackoffFactor := 1\<rparr>))"
    using assms(1) s1(3) s2(1,3)
    by (simp add: AS_handleStateChange_prober_def s1_def prober_call_def AS_commit_def AS_updateMuxLinkmgrState_wait
        split: if_splits)
  then show ?thesis using s2(2,4,5) by (simp add: new_calls_def AS_setLabel_def AS_commit_def)
qed

lemma AS_heartbeat_loss_switches_witness:
  "\<exists>s s'. AS_boot 8 ModeAuto MuxStandby (replicate 3 (TaskProberEvent (IcmpEvent IcmpUnknownEvent))) = Some s \<and>
     tasks s = [TaskProberChange ProberUnknown] \<and> AS_run (TaskProberChange ProberUnknown) s = Some s' \<and>
     SetMuxState MuxActive \<in> set (new_calls s s')"
proof -
  have "map_option (\<lambda>s. (psm_current (mLinkProberStateMachinePtr s), mCompositeState s, mLinkProberPtr s,
      mMode (mMuxPortConfig s), mDefaultRouteState s, tasks s))
    (AS_boot 8 ModeAuto MuxStandby (replicate 3 (TaskProberEvent (IcmpEvent IcmpUnknownEvent)))) =
    Some (ProberUnknown, \<lparr>ps = ProberStandby, ms = MuxStandby, ls = LinkUp\<rparr>, Some ProberSoftware,
      ModeAuto, RouteOK, [TaskProberChange ProberUnknown])" by code_simp
  from run_result [OF this] obtain s
    where s: "AS_boot 8 ModeAuto MuxStandby (replicate 3 (TaskProberEvent (IcmpEvent IcmpUnknownEvent))) = Some s"
    and "(psm_current (mLinkProberStateMachinePtr s), mCompositeState s, mLinkProberPtr s,
      mMode (mMuxPortConfig s), mDefaultRouteState s, tasks s) =
     (ProberUnknown, \<lparr>ps = ProberStandby, ms = MuxStandby, ls = LinkUp\<rparr>, Some ProberSoftware,
      ModeAuto, RouteOK, [TaskProberChange ProberUnknown])" by blast
  then show ?thesis using AS_heartbeat_loss_switches [of s] by auto
qed




section \<open>Switches that are not forced\<close>

text \<open>
  The state of a port outside the auto mode, none of whose calls from the \<open>n\<close>-th on sets the MUX; with \<open>p\<close>,
  no mode change is postponed either.
\<close>

fun set_mux_call :: "call \<Rightarrow> bool" where
  "set_mux_call (SetMuxState _) = True"
| "set_mux_call _ = False"

definition AS_quiet :: "bool \<Rightarrow> nat \<Rightarrow> as_state \<Rightarrow> bool" where
  "AS_quiet p n s \<longleftrightarrow> (p \<longrightarrow> \<not> mPendingMuxModeChange s) \<and> mMode (mMuxPortConfig s) \<noteq> ModeAuto \<and> n \<le> length (calls s) \<and>
     list_all (\<lambda>c. \<not> set_mux_call c) (drop n (calls s))"

lemma AS_quiet_emit [simp]: "AS_quiet p n s \<Longrightarrow> \<not> set_mux_call x \<Longrightarrow> AS_quiet p n (emit x s)"
  by (simp add: AS_quiet_def)

lemma AS_quiet_frame [simp]:
  "AS_quiet p n (post_tasks ts s) = AS_quiet p n s"
  "AS_quiet p n (cancel_timer i s) = AS_quiet p n s"
  "AS_quiet p n (start_timer i d s) = AS_quiet p n s"
  "AS_quiet p n (s\<lparr>mCompositeState := x1\<rparr>) = AS_quiet p n s"
  "mMode cfg = mMode (mMuxPortConfig s) \<Longrightarrow> AS_quiet p n (s\<lparr>mMuxPortConfig := cfg\<rparr>) = AS_quiet p n s"
  "AS_quiet p n (s\<lparr>mLinkProberStateMachinePtr := x3\<rparr>) = AS_quiet p n s"
  "AS_quiet p n (s\<lparr>mLinkProberPtr := x4\<rparr>) = AS_quiet p n s"
  "AS_quiet p n (s\<lparr>mMuxStateMachine := x5\<rparr>) = AS_quiet p n s"
  "AS_quiet p n (s\<lparr>mLinkStateMachine := x6\<rparr>) = AS_quiet p n s"
  "AS_quiet p n (s\<lparr>mLabel := x7\<rparr>) = AS_quiet p n s"
  "AS_quiet p n (s\<lparr>mComponentInitState := x8\<rparr>) = AS_quiet p n s"
  "AS_quiet p n (s\<lparr>mDefaultRouteState := x9\<rparr>) = AS_quiet p n s"
  by (simp_all add: AS_quiet_def)

lemma AS_quiet_update [simp]:
  "AS_quiet p n (s\<lparr>mPeerLinkState := x1\<rparr>) = AS_quiet p n s"
  "AS_quiet p n (s\<lparr>mOscillationTimerAlive := x2\<rparr>) = AS_quiet p n s"
  "AS_quiet p n (s\<lparr>mWaitActiveUpCount := x3\<rparr>) = AS_quiet p n s"
  "AS_quiet p n (s\<lparr>mActiveUnknownUpCount := x4\<rparr>) = AS_quiet p n s"
  "AS_quiet p n (s\<lparr>mStandbyUnknownUpCount := x5\<rparr>) = AS_quiet p n s"
  "AS_quiet p n (s\<lparr>mMuxUnknownBackoffFactor := x6\<rparr>) = AS_quiet p n s"
  "AS_quiet p n (s\<lparr>mWaitStandbyUpBackoffFactor := x7\<rparr>) = AS_quiet p n s"
  "AS_quiet p n (s\<lparr>mUnknownActiveUpBackoffFactor := x8\<rparr>) = AS_quiet p n s"
  "AS_quiet p n (s\<lparr>mTargetMuxMode := x10\<rparr>) = AS_quiet p n s"
  "AS_quiet p n (s\<lparr>mLastSetMuxState := x11\<rparr>) = AS_quiet p n s"
  "AS_quiet p n (s\<lparr>as_mContinuousLinkProberUnknownEvent := x12\<rparr>) = AS_quiet p n s"
  "AS_quiet p n (s\<lparr>mSendSwitchActiveCommandCause := x13\<rparr>) = AS_quiet p n s"
  by (simp_all add: AS_quiet_def)


lemma AS_quiet_ops [simp]:
  assumes "AS_quiet p n s"
  shows "AS_quiet p n (AS_startMuxProbeTimer f s)" "AS_quiet p n (AS_startMuxWaitTimer f s)"
    "AS_quiet p n (AS_startOscillationTimer s)" "AS_quiet p n (AS_tryCancelOscillationTimerIfAlive s)"
    "AS_quiet p n (AS_setWaitStateCause w s)" "AS_quiet p n (AS_setLabel h s)"
    "AS_quiet p n (fst (AS_enterLinkProberState l r s c))" "AS_quiet p n (fst (AS_enterMuxState k s c))"
    "AS_quiet p n (fst (AS_enterLinkState j s c))"
    "AS_quiet p n (LinkManagerStateMachineBase_postMuxStateEvent k s)"
    "AS_quiet p n (setComponentInitState q s)"
  using assms by (simp_all add: AS_op_defs LinkManagerStateMachineBase_postMuxStateEvent_def
      setComponentInitState_def split: mux_label.splits)

lemma AS_quiet_waits [simp]:
  assumes "AS_quiet p n s"
  shows "AS_quiet p n (fst (AS_enterMuxWaitState s c))" "AS_quiet p n (fst (AS_initLinkProberState r s c))"
  using assms by (simp_all add: AS_enterMuxWaitState_def AS_initLinkProberState_def split_def split: mux_label.splits)

lemma AS_quiet_commit [simp]: "AS_quiet p n (AS_commit r) = AS_quiet p n (fst r)"
  by (simp add: AS_commit_def)

lemma AS_quiet_pending [simp]: "AS_quiet True n s \<Longrightarrow> \<not> mPendingMuxModeChange s"
  by (simp add: AS_quiet_def)

lemma AS_commit_pending [simp]: "mPendingMuxModeChange (AS_commit r) = mPendingMuxModeChange (fst r)"
  by (simp add: AS_commit_def)

lemma AS_quiet_prober_call: "AS_quiet p n s \<Longrightarrow> \<not> set_mux_call x \<Longrightarrow> ok False (AS_quiet p n) (prober_call x s)"
  by (simp add: prober_call_def)

lemma AS_quiet_update_label: "AS_quiet p n s \<Longrightarrow> ok False (AS_quiet p n) (AS_updateMuxLinkmgrState s)"
  by (auto simp: AS_updateMuxLinkmgrState_def Let_def ok_rules intro!: AS_quiet_prober_call [where p = p and n = n, THEN ok_mono])

lemma AS_quiet_shutdown: "AS_quiet p n s \<Longrightarrow> ok False (AS_quiet p n) (AS_shutdownOrRestartLinkProberOnDefaultRoute s)"
  by (auto simp: AS_shutdownOrRestartLinkProberOnDefaultRoute_def intro!: AS_quiet_prober_call)

lemma AS_quiet_switch:
  "AS_quiet p n s \<Longrightarrow> ok False (\<lambda>r. AS_quiet p n (fst r)) (AS_switchMuxState cause l False s c)"
  by (simp add: AS_switchMuxState_def AS_quiet_def [of _ _ s])

lemma AS_quiet_transition:
  assumes "AS_quiet p n s"
  shows "ok False (\<lambda>r. AS_quiet p n (fst r)) (AS_transition s c)"
  unfolding AS_transition_def
  by (cases "(ps c, ms c, ls c)" rule: AS_mStateTransitionHandler.cases)
    (use assms in \<open>auto simp: AS_transition_defs AS_LinkProberUnknownMuxStandbyLinkUp_def
       Let_def ok_rules split_def
       intro!: AS_quiet_prober_call [where p = p and n = n, THEN ok_mono] AS_quiet_switch [where p = p and n = n, THEN ok_mono]\<close>)


lemmas AS_quiet_okI =
  AS_quiet_prober_call [THEN ok_mono] AS_quiet_update_label [THEN ok_mono] AS_quiet_shutdown [THEN ok_mono]
  AS_quiet_switch [THEN ok_mono] AS_quiet_transition [THEN ok_mono]

lemma AS_quiet_activate: "AS_quiet p n s \<Longrightarrow> ok False (AS_quiet p n) (AS_activateStateMachine s)"
  by (auto simp: AS_activateStateMachine_def Let_def ok_rules intro!: AS_quiet_okI [where p = p and n = n])

text \<open>The handlers that are asked to switch whatever the mode, or to change the mode.\<close>

fun AS_may_force :: "task \<Rightarrow> as_state \<Rightarrow> bool" where
  "AS_may_force (TaskGetMuxState _) s = True"
| "AS_may_force (TaskProbeMuxState _) s = True"
| "AS_may_force (TaskMuxConfig _) s = True"
| "AS_may_force TaskSwitchActiveCompletion s = True"
| "AS_may_force (TaskMuxChange _) s = mPendingMuxModeChange s"
| "AS_may_force _ s = False"

lemma AS_quiet_changes:
  assumes "AS_quiet p n s"
  shows "ok False (AS_quiet p n) (AS_handleStateChange_prober l s)"
    "ok False (AS_quiet p n) (AS_handleStateChange_link k s)"
  using assms
  by (auto simp: AS_handleStateChange_prober_def AS_handleStateChange_link_def Let_def ok_rules split_def
      intro!: AS_quiet_okI [where p = p and n = n])


lemma AS_quiet_mux_change:
  assumes "AS_quiet True n s"
  shows "ok False (AS_quiet True n) (AS_handleStateChange_mux l s)"
  using assms
  by (auto simp: AS_handleStateChange_mux_def Let_def ok_rules
      intro!: AS_quiet_okI [where p = True and n = n])


lemma AS_quiet_notifications:
  assumes "AS_quiet p n s"
  shows "ok False (AS_quiet p n) (AS_handleSwssBladeIpv4AddressUpdate a s)"
    "ok False (AS_quiet p n) (AS_handleGetServerMacAddressNotification m s)"
    "ok False (AS_quiet p n) (LinkManagerStateMachineBase_handleSrcMacConfigNotification s)"
    "ok False (AS_quiet p n) (AS_handleMuxStateNotification l s)"
    "ok False (AS_quiet p n) (AS_handleSwssLinkStateNotification k s)"
    "ok False (AS_quiet p n) (AS_handlePeerLinkStateNotification k s)"
    "ok False (AS_quiet p n) (AS_handleDefaultRouteStateNotification r s)"
  using assms
  by (auto simp: AS_handleSwssBladeIpv4AddressUpdate_def AS_handleGetServerMacAddressNotification_def
      LinkManagerStateMachineBase_handleSrcMacConfigNotification_def AS_handleMuxStateNotification_def
      AS_handleSwssLinkStateNotification_def AS_handlePeerLinkStateNotification_def
      AS_handleDefaultRouteStateNotification_def Let_def ok_rules split_def
      intro!: AS_quiet_okI [where p = p and n = n] AS_quiet_activate split: link_label.splits)

lemma AS_quiet_requests:
  assumes "AS_quiet p n s"
  shows "ok False (AS_quiet p n) (AS_handlePostPckLossRatioNotification x y s)"
    "ok False (AS_quiet p n) (AS_handleResetLinkProberPckLossCount s)"
    "ok False (AS_quiet p n) (AS_handleResetSuspendTimer s)"
    "ok False (AS_quiet p n) (AS_handleSuspendTimerExpiry s)"
    "ok False (AS_quiet p n) (AS_handleSwitchActiveRequestEvent s)"
    "ok False (AS_quiet p n) (AS_handleMuxProbeTimeout ec s)"
    "ok False (AS_quiet p n) (AS_handleMuxWaitTimeout ec s)"
    "ok False (AS_quiet p n) (AS_handleOscillationTimeout ec s)"
    "AS_quiet p n (AS_process_prober_event e s)" "AS_quiet p n (process_mux_event e' s)"
    "AS_quiet p n (process_link_event e'' s)"
  using assms
  by (auto simp: AS_handlePostPckLossRatioNotification_def AS_handleResetLinkProberPckLossCount_def
      AS_handleResetSuspendTimer_def AS_handleSuspendTimerExpiry_def AS_handleSwitchActiveRequestEvent_def
      AS_handleMuxProbeTimeout_def AS_handleMuxWaitTimeout_def AS_handleOscillationTimeout_def
      AS_process_prober_event_def process_mux_event_def process_link_event_def Let_def ok_rules split_def
      intro!: AS_quiet_okI [where p = p and n = n])

lemma AS_quiet_run:
  assumes "AS_quiet (\<not> mPendingMuxModeChange s) n s" and "\<not> AS_may_force t s"
  shows "ok False (AS_quiet (\<not> mPendingMuxModeChange s) n) (AS_run t s)"
  using assms
  by (cases "(t, s)" rule: AS_run.cases)
    (simp_all add: AS_quiet_changes AS_quiet_mux_change AS_quiet_notifications AS_quiet_requests
      LinkManagerStateMachineBase_noop_handler_def)

text \<open>
  C5. Outside the auto mode no event switches the MUX: heartbeat, link, peer link, default route
  and timer events, MUX state reports and the peer's requests never make the manager set the MUX
  state. Only an explicit configuration, the answers to a MUX query and the completion of a
  commanded switch can.
\<close>
theorem AS_no_switch_outside_auto:
  assumes "mMode (mMuxPortConfig s) \<noteq> ModeAuto" and "\<not> AS_may_force t s" and "AS_run t s = Some s'"
  shows "SetMuxState l \<notin> set (new_calls s s')"
proof -
  have "AS_quiet (\<not> mPendingMuxModeChange s) (length (calls s)) s"
    using assms(1) by (simp add: AS_quiet_def)
  from ok_SomeD [OF AS_quiet_run [OF this assms(2)] assms(3)] show ?thesis
    by (auto simp: AS_quiet_def new_calls_def list_all_iff)
qed

lemma AS_no_switch_outside_auto_witness:
  "\<exists>s s'. AS_boot 8 ModeManual MuxStandby (replicate 3 (TaskProberEvent (IcmpEvent IcmpUnknownEvent))) = Some s \<and>
     tasks s = [TaskProberChange ProberUnknown] \<and> AS_run (TaskProberChange ProberUnknown) s = Some s' \<and>
     (\<forall>l. SetMuxState l \<notin> set (new_calls s s'))"
proof -
  have "map_option (\<lambda>s. (mMode (mMuxPortConfig s), tasks s, AS_run (TaskProberChange ProberUnknown) s \<noteq> None))
    (AS_boot 8 ModeManual MuxStandby (replicate 3 (TaskProberEvent (IcmpEvent IcmpUnknownEvent)))) =
    Some (ModeManual, [TaskProberChange ProberUnknown], True)" by code_simp
  from run_result [OF this] obtain s s'
    where s: "AS_boot 8 ModeManual MuxStandby (replicate 3 (TaskProberEvent (IcmpEvent IcmpUnknownEvent))) = Some s"
      "mMode (mMuxPortConfig s) \<noteq> ModeAuto" "tasks s = [TaskProberChange ProberUnknown]"
      "AS_run (TaskProberChange ProberUnknown) s = Some s'" by auto
  have "SetMuxState l \<notin> set (new_calls s s')" for l
    by (rule AS_no_switch_outside_auto [OF s(2) _ s(4)]) simp
  with s show ?thesis by blast
qed

definition AS_healthy :: "as_state \<Rightarrow> bool" where
  "AS_healthy s \<longleftrightarrow> ls (mCompositeState s) = LinkUp \<and>
     (ps (mCompositeState s), ms (mCompositeState s)) \<in> {(ProberActive, MuxActive), (ProberStandby, MuxStandby)} \<and>
     (ifEnableDefaultRouteFeature (mMuxPortConfig s) \<longrightarrow> mDefaultRouteState s = RouteOK)"

lemma AS_updateMuxLinkmgrState_label:
  "AS_updateMuxLinkmgrState s = Some s' \<Longrightarrow> mLabel s' = (if AS_healthy s' then Healthy else Unhealthy)"
  by (auto simp: AS_updateMuxLinkmgrState_def AS_healthy_def AS_setLabel_def prober_call_def Let_def
      split: if_splits)

text \<open>
  C6. The health label is recomputed by every change of state: after a link prober, MUX, link or
  default route change the label is Healthy exactly when the link is up, prober and MUX agree on
  active or standby and, if the default route feature is on, the default route is present.
\<close>
theorem AS_label_matches_health:
  assumes "AS_run t s = Some s'" and "label_change t \<or> (\<exists>r. t = TaskDefaultRoute r)"
  shows "mLabel s' = (if AS_healthy s' then Healthy else Unhealthy)"
  using assms
  by (cases t)
    (auto simp: AS_handleStateChange_prober_def AS_handleStateChange_mux_def AS_handleStateChange_link_def
      AS_handleDefaultRouteStateNotification_def Let_def bind_eq_Some_conv
      dest!: AS_updateMuxLinkmgrState_label simp del: AS_updateMuxLinkmgrState_wait)

lemma AS_label_matches_health_witness:
  "\<exists>s s'. AS_boot 8 ModeAuto MuxActive (replicate 3 (TaskProberEvent (IcmpEvent IcmpUnknownEvent))) = Some s \<and>
     AS_run (TaskProberChange ProberUnknown) s = Some s' \<and> mLabel s = Healthy \<and>
     mLabel s' = (if AS_healthy s' then Healthy else Unhealthy) \<and> \<not> AS_healthy s'"
proof -
  have "map_option (\<lambda>s. (mLabel s, map_option AS_healthy (AS_run (TaskProberChange ProberUnknown) s)))
    (AS_boot 8 ModeAuto MuxActive (replicate 3 (TaskProberEvent (IcmpEvent IcmpUnknownEvent)))) =
    Some (Healthy, Some False)" by code_simp
  from run_result [OF this] obtain s s'
    where s: "AS_boot 8 ModeAuto MuxActive (replicate 3 (TaskProberEvent (IcmpEvent IcmpUnknownEvent))) = Some s"
      "mLabel s = Healthy" "AS_run (TaskProberChange ProberUnknown) s = Some s'" "\<not> AS_healthy s'"
    by auto
  from AS_label_matches_health [OF s(3)] s show ?thesis by auto
qed

end
