(* ===== verification/Active_Active.thy ===== *)
theory Active_Active
  imports Link_Manager_Base
begin

text \<open>
  The link manager of an active-active cable
  (\<open>link_manager/LinkManagerStateMachineActiveActive.cpp\<close>): its state, operations, transition
  functions and transition table, in the style of \<open>Active_Standby\<close>. Beside its own composite
  state it keeps the peer's forwarding and prober state, and the last notifications received.
\<close>

section \<open>State\<close>

datatype last_mux_notification_type =
    MuxNotificationNotReceived | MuxNotificationFromToggle | MuxNotificationFromProbe

text \<open>
  \<open>mWaitStateMachineInit\<close> is an \<open>AsyncEvent\<close>: the modes whose notification waits for the
  activation, in the order they were registered.
\<close>

record aa_state = lm_base +
  mPeerLinkProberState :: prober_label
  mPeerMuxState :: mux_label
  mLastSetPeerMuxState :: mux_label
  mLastMuxStateNotification :: mux_label
  mLastMuxProbeNotification :: mux_label
  mLastMuxNotificationType :: last_mux_notification_type
  mMuxProbeBackoffFactor :: u32
  mWaitMux :: bool
  mWaitStateMachineInit :: "mux_mode list"
  aa_mContinuousLinkProberUnknownEvent :: bool

definition AA_MAX_BACKOFF_FACTOR :: u32 where
  "AA_MAX_BACKOFF_FACTOR = 32"

definition ActiveActiveStateMachine_new :: "mux_port_config \<Rightarrow> aa_state" where
  "ActiveActiveStateMachine_new cfg = \<lparr>
     mMuxPortConfig = cfg,
     mCompositeState = \<lparr>ps = ProberWait, ms = MuxWait, ls = LinkDown\<rparr>,
     mLinkProberStateMachinePtr = LinkProberStateMachineActiveActive_new ProberWait,
     mLinkProberPtr = None,
     mMuxStateMachine = MuxStateMachine_new MuxWait,
     mLinkStateMachine = LinkStateMachine_new LinkDown,
     mLabel = Uninitialized,
     mComponentInitState = (\<lambda>_. False),
     mDefaultRouteState = RouteWait,
     timers = (\<lambda>_. \<lparr>tm_expiry = None, tm_pending = False\<rparr>),
     now_ms = 0, tasks = [], calls = [SetMuxLinkmgrState Uninitialized],
     mPeerLinkProberState = ProberPeerWait,
     mPeerMuxState = MuxWait,
     mLastSetPeerMuxState = MuxWait,
     mLastMuxStateNotification = MuxUnknown,
     mLastMuxProbeNotification = MuxUnknown,
     mLastMuxNotificationType = MuxNotificationNotReceived,
     mMuxProbeBackoffFactor = 1,
     mWaitMux = False,
     mWaitStateMachineInit = [],
     aa_mContinuousLinkProberUnknownEvent = False\<rparr>"

section \<open>Timers\<close>

definition AA_startWaitMux :: "aa_state \<Rightarrow> aa_state" where
  "AA_startWaitMux s = s\<lparr>mWaitMux := True\<rparr>"

definition AA_stopWaitMux :: "aa_state \<Rightarrow> aa_state" where
  "AA_stopWaitMux s = s\<lparr>mWaitMux := False\<rparr>"

definition AA_startMuxWaitTimer :: "u32 \<Rightarrow> aa_state \<Rightarrow> aa_state" where
  "AA_startMuxWaitTimer factor s =
     AA_startWaitMux (start_timer WaitTimer (unat (mux_timeout_msec factor (mMuxPortConfig s))) s)"

definition AA_setWaitStateCause :: "wait_cause \<Rightarrow> aa_state \<Rightarrow> aa_state" where
  "AA_setWaitStateCause c s =
     s\<lparr>mMuxStateMachine := MuxStateMachine_setWaitStateCause c (mMuxStateMachine s)\<rparr>"

definition AA_probeMuxState :: "aa_state \<Rightarrow> aa_state" where
  "AA_probeMuxState s = AA_startMuxWaitTimer 1 (emit ProbeMuxState (AA_setWaitStateCause DriverUpdate s))"

definition AA_startMuxProbeTimer :: "aa_state \<Rightarrow> aa_state" where
  "AA_startMuxProbeTimer s =
     (let s = AA_probeMuxState s in
      AA_startWaitMux (start_timer DeadlineTimer
        (unat (mux_timeout_msec (mMuxProbeBackoffFactor s) (mMuxPortConfig s))) s))"

definition AA_startPeerMuxWaitTimer :: "u32 \<Rightarrow> aa_state \<Rightarrow> aa_state" where
  "AA_startPeerMuxWaitTimer factor s =
     start_timer PeerWaitTimer (unat (mux_timeout_msec factor (mMuxPortConfig s))) s"

definition AA_startAdminForwardingStateSyncUpTimer :: "aa_state \<Rightarrow> aa_state" where
  "AA_startAdminForwardingStateSyncUpTimer s =
     start_timer ResyncTimer (unat (mAdminForwardingStateSyncUpInterval_msec (mMuxPortConfig s))) s"

section \<open>Labels and sub-machine states\<close>

definition AA_setLabel :: "health \<Rightarrow> aa_state \<Rightarrow> aa_state" where
  "AA_setLabel l s =
     (if mLabel s \<noteq> l then emit (SetMuxLinkmgrState l) (s\<lparr>mLabel := l\<rparr>) else s)"

definition AA_updateMuxLinkmgrState :: "aa_state \<Rightarrow> aa_state" where
  "AA_updateMuxLinkmgrState s =
     (let c = mCompositeState s;
          label = (if ls c = LinkUp \<and> ps c = ProberActive \<and>
                      (ms c = mLastMuxStateNotification s \<or>
                       mLastMuxStateNotification s = MuxUnknown \<or>
                       (mLastMuxNotificationType s = MuxNotificationFromProbe \<and>
                        mLastMuxProbeNotification s = MuxUnknown)) \<and>
                      (\<not> ifEnableDefaultRouteFeature (mMuxPortConfig s) \<or> mDefaultRouteState s = RouteOK)
                   then Healthy else Unhealthy)
      in AA_setLabel label s)"

definition AA_enterLinkProberState :: "prober_label \<Rightarrow> aa_state \<Rightarrow> composite \<Rightarrow> aa_state \<times> composite" where
  "AA_enterLinkProberState l s ns =
     (s\<lparr>mLinkProberStateMachinePtr :=
         LinkProberStateMachineActiveActive_enterState l (mLinkProberStateMachinePtr s)\<rparr>, ns\<lparr>ps := l\<rparr>)"

definition AA_enterMuxState :: "mux_label \<Rightarrow> aa_state \<Rightarrow> composite \<Rightarrow> aa_state \<times> composite" where
  "AA_enterMuxState l s ns =
     (s\<lparr>mMuxStateMachine := MuxStateMachine_enterState l (mMuxStateMachine s)\<rparr>, ns\<lparr>ms := l\<rparr>)"

definition AA_enterLinkState :: "link_label \<Rightarrow> aa_state \<Rightarrow> composite \<Rightarrow> aa_state \<times> composite" where
  "AA_enterLinkState l s ns =
     (s\<lparr>mLinkStateMachine := LinkStateMachine_enterState l (mLinkStateMachine s)\<rparr>, ns\<lparr>ls := l\<rparr>)"

definition AA_enterPeerMuxState :: "mux_label \<Rightarrow> aa_state \<Rightarrow> aa_state" where
  "AA_enterPeerMuxState l s = s\<lparr>mPeerMuxState := l\<rparr>"

definition AA_enterPeerLinkProberState :: "prober_label \<Rightarrow> aa_state \<Rightarrow> aa_state" where
  "AA_enterPeerLinkProberState l s =
     s\<lparr>mLinkProberStateMachinePtr :=
         LinkProberStateMachineActiveActive_enterPeerState l (mLinkProberStateMachinePtr s),
       mPeerLinkProberState := l\<rparr>"

text \<open>The modes in which a switch to a label that is not forced is carried out.\<close>

definition AA_mode_allows :: "mux_mode \<Rightarrow> mux_label \<Rightarrow> bool" where
  "AA_mode_allows m l \<longleftrightarrow> m = ModeAuto \<or> m = ModeDetached \<or>
     (m = ModeActive \<and> l = MuxActive) \<or> (m = ModeStandby \<and> l = MuxStandby)"

definition AA_switchMuxState ::
  "mux_label \<Rightarrow> bool \<Rightarrow> aa_state \<Rightarrow> composite \<Rightarrow> (aa_state \<times> composite) option" where
  "AA_switchMuxState l forceSwitch s ns =
     (if forceSwitch \<or> AA_mode_allows (mMode (mMuxPortConfig s)) l then do {
        s \<leftarrow> (if l = MuxStandby
             then prober_call (SuspendTx (getLinkWaitTimeout_msec (mMuxPortConfig s))) s
             else Some s);
        let (s, ns) = AA_enterMuxState l s ns;
        let s = AA_setWaitStateCause SwssUpdate s;
        let s = emit (PostMetricsEvent SwitchingStart l) s;
        let s = emit (SetMuxState l) s;
        let s = cancel_timer DeadlineTimer s;
        Some (AA_startMuxWaitTimer 1 s, ns)
      }
      else Some (AA_probeMuxState s, ns))"

definition AA_switchPeerMuxState :: "mux_label \<Rightarrow> aa_state \<Rightarrow> aa_state" where
  "AA_switchPeerMuxState l s =
     (if mMode (mMuxPortConfig s) = ModeAuto
      then AA_startPeerMuxWaitTimer 1
             ((emit (SetPeerMuxState l) (AA_enterPeerMuxState l s))\<lparr>mLastSetPeerMuxState := l\<rparr>)
      else s)"

definition AA_initLinkProberState :: "aa_state \<Rightarrow> composite \<Rightarrow> aa_state \<times> composite" where
  "AA_initLinkProberState s ns =
     (case ms ns of
        MuxActive \<Rightarrow> AA_enterLinkProberState ProberActive s ns
      | MuxStandby \<Rightarrow> AA_enterLinkProberState ProberUnknown s ns
      | MuxUnknown \<Rightarrow> AA_enterLinkProberState ProberWait s ns
      | MuxError \<Rightarrow> AA_enterLinkProberState ProberWait s ns
      | MuxWait \<Rightarrow> AA_enterLinkProberState ProberWait s ns)"

definition AA_initPeerLinkProberState :: "aa_state \<Rightarrow> aa_state" where
  "AA_initPeerLinkProberState s =
     (case mPeerMuxState s of
        MuxActive \<Rightarrow> AA_enterPeerLinkProberState ProberPeerActive s
      | MuxStandby \<Rightarrow> AA_enterPeerLinkProberState ProberPeerUnknown s
      | MuxUnknown \<Rightarrow> AA_enterPeerLinkProberState ProberPeerWait s
      | MuxError \<Rightarrow> AA_enterPeerLinkProberState ProberPeerWait s
      | MuxWait \<Rightarrow> AA_enterPeerLinkProberState ProberPeerWait s)"

definition AA_shutdownOrRestartLinkProberOnDefaultRoute :: "aa_state \<Rightarrow> aa_state option" where
  "AA_shutdownOrRestartLinkProberOnDefaultRoute s =
     (if component_all s then
        (if (mMode (mMuxPortConfig s) = ModeAuto \<or> mMode (mMuxPortConfig s) = ModeDetached \<or>
             mMode (mMuxPortConfig s) = ModeStandby) \<and> mDefaultRouteState s \<noteq> RouteOK
         then prober_call ShutdownTx s
         else prober_call RestartTx s)
      else Some s)"

definition AA_commit :: "aa_state \<times> composite \<Rightarrow> aa_state" where
  "AA_commit r = (fst r)\<lparr>mCompositeState := snd r\<rparr>"

section \<open>Transition functions\<close>

definition AA_LinkProberActiveMuxActiveLinkUp :: "aa_state \<Rightarrow> composite \<Rightarrow> (aa_state \<times> composite) option" where
  "AA_LinkProberActiveMuxActiveLinkUp s ns =
     (if mMode (mMuxPortConfig s) = ModeStandby then
        (if mLastMuxStateNotification s \<noteq> MuxStandby then AA_switchMuxState MuxStandby True s ns
         else if mLastMuxNotificationType s = MuxNotificationFromProbe \<and>
                 mLastMuxProbeNotification s \<noteq> MuxStandby
         then AA_switchMuxState MuxStandby True s ns
         else Some (s, ns))
      else if mLastMuxStateNotification s = MuxUnknown then AA_switchMuxState MuxActive False s ns
      else Some (s, ns))"

definition AA_LinkProberActiveMuxStandbyLinkUp :: "aa_state \<Rightarrow> composite \<Rightarrow> (aa_state \<times> composite) option" where
  "AA_LinkProberActiveMuxStandbyLinkUp s ns =
     (if mMode (mMuxPortConfig s) = ModeStandby then
        (if mLastMuxStateNotification s \<noteq> MuxStandby then AA_switchMuxState MuxStandby True s ns
         else if mLastMuxNotificationType s = MuxNotificationFromProbe \<and>
                 mLastMuxProbeNotification s \<noteq> MuxStandby
         then AA_switchMuxState MuxStandby True s ns
         else Some (s, ns))
      else if mDefaultRouteState s \<noteq> RouteNA then AA_switchMuxState MuxActive False s ns
      else Some (s, ns))"

definition AA_LinkProberUnknownMuxActiveLinkUp :: "aa_state \<Rightarrow> composite \<Rightarrow> (aa_state \<times> composite) option" where
  "AA_LinkProberUnknownMuxActiveLinkUp s ns =
     (if mMode (mMuxPortConfig s) = ModeActive then
        (if mLastMuxStateNotification s \<noteq> MuxActive then AA_switchMuxState MuxActive True s ns
         else if mLastMuxNotificationType s = MuxNotificationFromProbe \<and>
                 mLastMuxProbeNotification s \<noteq> MuxActive
         then AA_switchMuxState MuxActive True s ns
         else Some (s, ns))
      else AA_switchMuxState MuxStandby False s ns)"

definition AA_LinkProberUnknownMuxStandbyLinkUp :: "aa_state \<Rightarrow> composite \<Rightarrow> (aa_state \<times> composite) option" where
  "AA_LinkProberUnknownMuxStandbyLinkUp s ns =
     (if mMode (mMuxPortConfig s) = ModeActive then
        (if mLastMuxStateNotification s \<noteq> MuxActive then AA_switchMuxState MuxActive True s ns
         else if mLastMuxNotificationType s = MuxNotificationFromProbe \<and>
                 mLastMuxProbeNotification s \<noteq> MuxActive
         then AA_switchMuxState MuxActive True s ns
         else Some (s, ns))
      else if mLastMuxStateNotification s = MuxUnknown then AA_switchMuxState MuxStandby False s ns
      else Some (s, ns))"

definition AA_LinkProberActiveMuxUnknownLinkUp :: "aa_state \<Rightarrow> composite \<Rightarrow> (aa_state \<times> composite) option" where
  "AA_LinkProberActiveMuxUnknownLinkUp s ns =
     (if ps (mCompositeState s) \<noteq> ProberActive then AA_switchMuxState MuxActive False s ns
      else Some (AA_startMuxProbeTimer s, ns))"

definition AA_LinkProberUnknownMuxUnknownLinkUp :: "aa_state \<Rightarrow> composite \<Rightarrow> (aa_state \<times> composite) option" where
  "AA_LinkProberUnknownMuxUnknownLinkUp s ns =
     (if ps (mCompositeState s) \<noteq> ProberUnknown then AA_switchMuxState MuxStandby False s ns
      else Some (AA_startMuxProbeTimer s, ns))"

definition AA_LinkProberActiveMuxErrorLinkUp :: "aa_state \<Rightarrow> composite \<Rightarrow> (aa_state \<times> composite) option" where
  "AA_LinkProberActiveMuxErrorLinkUp s ns = Some (AA_startMuxProbeTimer s, ns)"

definition AA_LinkProberActiveMuxWaitLinkUp :: "aa_state \<Rightarrow> composite \<Rightarrow> (aa_state \<times> composite) option" where
  "AA_LinkProberActiveMuxWaitLinkUp s ns = AA_switchMuxState MuxActive False s ns"

definition AA_LinkProberUnknownMuxWaitLinkUp :: "aa_state \<Rightarrow> composite \<Rightarrow> (aa_state \<times> composite) option" where
  "AA_LinkProberUnknownMuxWaitLinkUp s ns = AA_switchMuxState MuxStandby False s ns"

definition AA_LinkProberUnknownMuxWaitLinkDown :: "aa_state \<Rightarrow> composite \<Rightarrow> (aa_state \<times> composite) option" where
  "AA_LinkProberUnknownMuxWaitLinkDown s ns =
     (if ps (mCompositeState s) \<noteq> ProberUnknown then AA_switchMuxState MuxStandby False s ns
      else Some (AA_startMuxProbeTimer s, ns))"

definition AA_LinkProberUnknownMuxUnknownLinkDown :: "aa_state \<Rightarrow> composite \<Rightarrow> (aa_state \<times> composite) option" where
  "AA_LinkProberUnknownMuxUnknownLinkDown s ns =
     (if ps (mCompositeState s) \<noteq> ProberUnknown then AA_switchMuxState MuxStandby False s ns
      else Some (AA_startMuxProbeTimer s, ns))"

definition AA_LinkProberUnknownMuxActiveLinkDown :: "aa_state \<Rightarrow> composite \<Rightarrow> (aa_state \<times> composite) option" where
  "AA_LinkProberUnknownMuxActiveLinkDown s ns = AA_switchMuxState MuxStandby False s ns"

fun AA_mStateTransitionHandler ::
  "prober_label \<Rightarrow> mux_label \<Rightarrow> link_label \<Rightarrow> aa_state \<Rightarrow> composite \<Rightarrow> (aa_state \<times> composite) option" where
  "AA_mStateTransitionHandler ProberActive MuxActive LinkUp = AA_LinkProberActiveMuxActiveLinkUp"
| "AA_mStateTransitionHandler ProberActive MuxStandby LinkUp = AA_LinkProberActiveMuxStandbyLinkUp"
| "AA_mStateTransitionHandler ProberActive MuxUnknown LinkUp = AA_LinkProberActiveMuxUnknownLinkUp"
| "AA_mStateTransitionHandler ProberUnknown MuxActive LinkUp = AA_LinkProberUnknownMuxActiveLinkUp"
| "AA_mStateTransitionHandler ProberUnknown MuxStandby LinkUp = AA_LinkProberUnknownMuxStandbyLinkUp"
| "AA_mStateTransitionHandler ProberUnknown MuxUnknown LinkUp = AA_LinkProberUnknownMuxUnknownLinkUp"
| "AA_mStateTransitionHandler ProberActive MuxError LinkUp = AA_LinkProberActiveMuxErrorLinkUp"
| "AA_mStateTransitionHandler ProberActive MuxWait LinkUp = AA_LinkProberActiveMuxWaitLinkUp"
| "AA_mStateTransitionHandler ProberUnknown MuxWait LinkUp = AA_LinkProberUnknownMuxWaitLinkUp"
| "AA_mStateTransitionHandler ProberUnknown MuxWait LinkDown = AA_LinkProberUnknownMuxWaitLinkDown"
| "AA_mStateTransitionHandler ProberUnknown MuxUnknown LinkDown = AA_LinkProberUnknownMuxUnknownLinkDown"
| "AA_mStateTransitionHandler ProberUnknown MuxActive LinkDown = AA_LinkProberUnknownMuxActiveLinkDown"
| "AA_mStateTransitionHandler _ _ _ = noopTransitionFunction"

definition AA_transition :: "aa_state \<Rightarrow> composite \<Rightarrow> (aa_state \<times> composite) option" where
  "AA_transition s ns = AA_mStateTransitionHandler (ps ns) (ms ns) (ls ns) s ns"

end
