(* ===== verification/Active_Active_Handlers.thy ===== *)
theory Active_Active_Handlers
  imports Active_Active
begin

text \<open>
  The handlers of the active-active link manager and its dispatcher \<open>AA_run\<close>, in the order of
  \<open>LinkManagerStateMachineActiveActive.cpp\<close>.
\<close>

section \<open>Initialisation\<close>

text \<open>
  \<open>notify_all\<close> on the \<open>AsyncEvent\<close> cancels its timer: every registered handler is posted to
  the strand, in the order of registration.
\<close>

definition AA_notify_all :: "aa_state \<Rightarrow> aa_state" where
  "AA_notify_all s =
     (let (ready, waiting) = AsyncEvent_notify_all (mWaitStateMachineInit s)
      in post_tasks (map TaskMuxConfig ready) (s\<lparr>mWaitStateMachineInit := waiting\<rparr>))"

definition AA_activateStateMachine :: "aa_state \<Rightarrow> aa_state option" where
  "AA_activateStateMachine s =
     (if component_all s then do {
        let s = AA_commit (AA_initLinkProberState s (mCompositeState s));
        s \<leftarrow> (if ifEnableDefaultRouteFeature (mMuxPortConfig s)
             then AA_shutdownOrRestartLinkProberOnDefaultRoute s else Some s);
        s \<leftarrow> prober_call InitializeProber s;
        s \<leftarrow> prober_call StartProbing s;
        let s = AA_updateMuxLinkmgrState s;
        Some (AA_notify_all (AA_startAdminForwardingStateSyncUpTimer s))
      }
      else Some s)"

definition AA_handleSwssSoCIpv4AddressUpdate :: "ip_address \<Rightarrow> aa_state \<Rightarrow> aa_state option" where
  "AA_handleSwssSoCIpv4AddressUpdate a s =
     (if \<not> component_test LinkProberComponent s
      then AA_activateStateMachine (setComponentInitState LinkProberComponent
             (s\<lparr>mMuxPortConfig := setBladeIpv4Address a (mMuxPortConfig s),
                mLinkProberPtr := Some (mLinkProberType (mMuxPortConfig s))\<rparr>))
      else if a \<noteq> mBladeIpv4Address (mMuxPortConfig s)
      then prober_call UpdateEthernetFrame
             (s\<lparr>mMuxPortConfig := setBladeIpv4Address a (mMuxPortConfig s)\<rparr>)
      else Some s)"

section \<open>Notifications\<close>

text \<open>The common tail of the two MUX notifications while a component is not initialised.\<close>

definition AA_init_mux_component :: "mux_label \<Rightarrow> aa_state \<Rightarrow> aa_state option" where
  "AA_init_mux_component l s =
     (let s = (if l = MuxUnknown
               then (let s = AA_probeMuxState s in AA_commit (AA_enterMuxState MuxWait s (mCompositeState s)))
               else AA_commit (AA_enterMuxState l s (mCompositeState s)))
      in AA_activateStateMachine (setComponentInitState MuxStateComponent s))"

definition AA_handleMuxStateNotification :: "mux_label \<Rightarrow> aa_state \<Rightarrow> aa_state option" where
  "AA_handleMuxStateNotification l s =
     (let s = (cancel_timer WaitTimer s)
                \<lparr>mLastMuxNotificationType := MuxNotificationFromToggle, mLastMuxStateNotification := l\<rparr> in
      if component_all s then do {
        s \<leftarrow> prober_call ProbePeerTor s;
        s \<leftarrow> prober_call ResumeTx s;
        let s = LinkManagerStateMachineBase_postMuxStateEvent l s;
        Some (AA_updateMuxLinkmgrState (emit (PostMetricsEvent SwitchingEnd l) s))
      }
      else AA_init_mux_component l s)"

definition AA_handleProbeMuxStateNotification :: "mux_label \<Rightarrow> aa_state \<Rightarrow> aa_state option" where
  "AA_handleProbeMuxStateNotification l s =
     (let s = cancel_timer WaitTimer
                (s\<lparr>mLastMuxNotificationType := MuxNotificationFromProbe, mLastMuxProbeNotification := l\<rparr>);
          s = (if l = MuxActive \<or> l = MuxStandby
               then cancel_timer DeadlineTimer (s\<lparr>mMuxProbeBackoffFactor := 1\<rparr>) else s) in
      if component_all s then Some (LinkManagerStateMachineBase_postMuxStateEvent l s)
      else AA_init_mux_component l s)"

definition AA_handleSwssLinkStateNotification :: "link_label \<Rightarrow> aa_state \<Rightarrow> aa_state option" where
  "AA_handleSwssLinkStateNotification l s =
     (if component_all s then
        (case l of LinkUp \<Rightarrow> Some (post_tasks [TaskLinkEvent UpEvent] s)
                 | LinkDown \<Rightarrow> Some (post_tasks [TaskLinkEvent DownEvent] s))
      else AA_activateStateMachine (setComponentInitState LinkStateComponent
             (AA_commit (AA_enterLinkState l s (mCompositeState s)))))"

definition AA_handleMuxConfigNotification :: "mux_mode \<Rightarrow> aa_state \<Rightarrow> aa_state option" where
  "AA_handleMuxConfigNotification mode s = do {
     let s = s\<lparr>mMuxPortConfig := setMode mode (mMuxPortConfig s)\<rparr>;
     s \<leftarrow> (if component_all s then do {
            let c = mCompositeState s;
            r \<leftarrow> (if mode = ModeActive \<and> ms c \<noteq> MuxActive then AA_switchMuxState MuxActive True s c
                 else if mode = ModeStandby \<and> ms c \<noteq> MuxStandby then AA_switchMuxState MuxStandby True s c
                 else if mode = ModeAuto \<and> ms c = MuxUnknown then Some (AA_initLinkProberState s c)
                 else AA_transition s c);
            Some (AA_updateMuxLinkmgrState (AA_commit r))
          }
          else Some (s\<lparr>mWaitStateMachineInit := registerWaitHandler mode (mWaitStateMachineInit s)\<rparr>));
     AA_shutdownOrRestartLinkProberOnDefaultRoute s
   }"

text \<open>An expiry time that was never set is \<open>not_a_date_time\<close>.\<close>

definition AA_handleProbeMuxFailure :: "aa_state \<Rightarrow> aa_state option" where
  "AA_handleProbeMuxFailure s =
     (if (case tm_expiry (timers s WaitTimer) of None \<Rightarrow> True | Some t \<Rightarrow> t < now_ms s)
      then Some (AA_probeMuxState s) else Some s)"

definition AA_handlePeerMuxStateNotification :: "mux_label \<Rightarrow> aa_state \<Rightarrow> aa_state option" where
  "AA_handlePeerMuxStateNotification l s = Some (AA_enterPeerMuxState l (cancel_timer PeerWaitTimer s))"

definition AA_handleGetServerMacAddressNotification :: "mac_address \<Rightarrow> aa_state \<Rightarrow> aa_state option" where
  "AA_handleGetServerMacAddressNotification a s =
     (let s = s\<lparr>mMuxPortConfig := setLastUpdatedMacAddress a (mMuxPortConfig s)\<rparr> in
      if \<not> getIfUseWellKnownMacActiveActive (mMuxPortConfig s) \<and> a \<noteq> mBladeMacAddress (mMuxPortConfig s)
      then (let s = s\<lparr>mMuxPortConfig := setBladeMacAddress a (mMuxPortConfig s)\<rparr>
            in if mLinkProberPtr s \<noteq> None then prober_call UpdateEthernetFrame s else Some s)
      else Some s)"

definition AA_handleUseWellKnownMacAddressNotification :: "aa_state \<Rightarrow> aa_state option" where
  "AA_handleUseWellKnownMacAddressNotification s =
     (let cfg = mMuxPortConfig s;
          a = (if getIfUseWellKnownMacActiveActive cfg then mWellKnownMacAddress cfg
               else mLastUpdatedMacAddress cfg);
          s = s\<lparr>mMuxPortConfig := setBladeMacAddress a cfg\<rparr>
      in if mLinkProberPtr s \<noteq> None then prober_call UpdateEthernetFrame s else Some s)"

definition AA_handleDefaultRouteStateNotification :: "default_route \<Rightarrow> aa_state \<Rightarrow> aa_state option" where
  "AA_handleDefaultRouteStateNotification r s = do {
     let old = mDefaultRouteState s;
     s \<leftarrow> AA_shutdownOrRestartLinkProberOnDefaultRoute (s\<lparr>mDefaultRouteState := r\<rparr>);
     s \<leftarrow> (if component_all s \<and> mMode (mMuxPortConfig s) \<noteq> ModeActive \<and> mDefaultRouteState s = RouteNA
          then do {
            x \<leftarrow> AA_switchMuxState MuxStandby False s (mCompositeState s);
            Some (AA_commit x)
          }
          else Some s);
     let s = (if component_all s \<and> old = RouteNA \<and> mDefaultRouteState s = RouteOK \<and>
                 ps (mCompositeState s) = ProberActive \<and> mMode (mMuxPortConfig s) = ModeAuto
              then AA_commit (AA_initLinkProberState s (mCompositeState s)) else s);
     Some (AA_updateMuxLinkmgrState s)
   }"

definition AA_handlePostPckLossRatioNotification :: "u64 \<Rightarrow> u64 \<Rightarrow> aa_state \<Rightarrow> aa_state option" where
  "AA_handlePostPckLossRatioNotification n k s = Some (emit (PostPckLossRatio n k) s)"

definition AA_handleResetLinkProberPckLossCount :: "aa_state \<Rightarrow> aa_state option" where
  "AA_handleResetLinkProberPckLossCount s = prober_call ResetIcmpPacketCounts s"

definition AA_updateLinkFailureDetectionState :: "string \<Rightarrow> string \<Rightarrow> aa_state \<Rightarrow> aa_state option" where
  "AA_updateLinkFailureDetectionState st ty s = prober_call (HandleStateDbStateUpdate st ty) s"

section \<open>Requests of the link prober and the periodic probe\<close>

definition AA_handleAdminForwardingStateSyncUp :: "error_code \<Rightarrow> aa_state \<Rightarrow> aa_state option" where
  "AA_handleAdminForwardingStateSyncUp ec s =
     (let s = (if \<not> mWaitMux s then AA_probeMuxState s else s)
      in Some (AA_startAdminForwardingStateSyncUpTimer s))"

definition AA_handleSuspendTimerExpiry :: "aa_state \<Rightarrow> aa_state option" where
  "AA_handleSuspendTimerExpiry s = prober_call ResumeTx s"

definition AA_handleMuxProbeRequestEvent :: "aa_state \<Rightarrow> aa_state option" where
  "AA_handleMuxProbeRequestEvent s = Some (if \<not> mWaitMux s then AA_probeMuxState s else s)"

section \<open>State changes posted by the sub-machines\<close>

definition AA_handleStateChange_prober :: "prober_label \<Rightarrow> aa_state \<Rightarrow> aa_state option" where
  "AA_handleStateChange_prober l s = do {
     s \<leftarrow> (if psm_current (mLinkProberStateMachinePtr s) = l then do {
            let s = (if aa_mContinuousLinkProberUnknownEvent s \<and> l \<noteq> ProberUnknown
                     then emit (PostLinkProberMetricsEvent LinkProberActiveStart)
                            (s\<lparr>aa_mContinuousLinkProberUnknownEvent := False\<rparr>)
                     else s);
            let s = (if \<not> aa_mContinuousLinkProberUnknownEvent s \<and> l = ProberUnknown
                     then emit (PostLinkProberMetricsEvent LinkProberUnknownStart)
                            (s\<lparr>aa_mContinuousLinkProberUnknownEvent := True\<rparr>)
                     else s);
            r \<leftarrow> AA_transition s ((mCompositeState s)\<lparr>ps := l\<rparr>);
            Some (AA_commit r)
          }
          else Some s);
     Some (AA_updateMuxLinkmgrState s)
   }"

definition AA_handleStateChange_mux :: "mux_label \<Rightarrow> aa_state \<Rightarrow> aa_state option" where
  "AA_handleStateChange_mux l s = do {
     s \<leftarrow> (if mux_current (mMuxStateMachine s) = l then do {
            r \<leftarrow> AA_transition s ((mCompositeState s)\<lparr>ms := l\<rparr>);
            Some (AA_commit r)
          }
          else Some s);
     Some (AA_updateMuxLinkmgrState s)
   }"

definition AA_handleStateChange_link :: "link_label \<Rightarrow> aa_state \<Rightarrow> aa_state option" where
  "AA_handleStateChange_link l s = do {
     s \<leftarrow> (if link_current (mLinkStateMachine s) = l then do {
            let c = mCompositeState s;
            let ns = c\<lparr>ls := l\<rparr>;
            r \<leftarrow> (if ls c = LinkDown \<and> ls ns = LinkUp then
                   (if ps c = ProberActive then AA_transition (AA_initPeerLinkProberState s) ns
                    else (let (s, ns) = AA_initLinkProberState s ns
                          in Some (AA_initPeerLinkProberState s, ns)))
                 else if ls c = LinkUp \<and> ls ns = LinkDown \<and> ms c \<noteq> MuxStandby
                 then AA_switchMuxState MuxStandby False s ns
                 else AA_transition s ns);
            Some (AA_commit r)
          }
          else Some s);
     Some (AA_updateMuxLinkmgrState s)
   }"

definition AA_handlePeerStateChange :: "prober_label \<Rightarrow> aa_state \<Rightarrow> aa_state option" where
  "AA_handlePeerStateChange l s =
     (if psm_mCurrentPeerState (mLinkProberStateMachinePtr s) = l then
        (let s = AA_enterPeerLinkProberState l s in
         case l of
           ProberPeerActive \<Rightarrow> Some (AA_enterPeerMuxState MuxActive s)
         | ProberPeerUnknown \<Rightarrow> Some (if mLabel s = Healthy then AA_switchPeerMuxState MuxStandby s else s)
         | _ \<Rightarrow> Some s)
      else Some s)"

section \<open>Timers\<close>

definition AA_handleMuxProbeTimeout :: "error_code \<Rightarrow> aa_state \<Rightarrow> aa_state option" where
  "AA_handleMuxProbeTimeout ec s =
     (let s = AA_stopWaitMux s; c = mCompositeState s in
      if ec = Success then
        (if ms c = MuxUnknown \<or> ms c = MuxError \<or> ms c = MuxWait
         then Some (AA_startMuxProbeTimer (s\<lparr>mMuxProbeBackoffFactor :=
                backoff_double AA_MAX_BACKOFF_FACTOR (mMuxProbeBackoffFactor s)\<rparr>))
         else Some (s\<lparr>mMuxProbeBackoffFactor := 1\<rparr>))
      else Some s)"

definition AA_handleMuxWaitTimeout :: "error_code \<Rightarrow> aa_state \<Rightarrow> aa_state option" where
  "AA_handleMuxWaitTimeout ec s = Some (AA_stopWaitMux s)"

definition AA_handlePeerMuxWaitTimeout :: "error_code \<Rightarrow> aa_state \<Rightarrow> aa_state option" where
  "AA_handlePeerMuxWaitTimeout ec s =
     (if mLastSetPeerMuxState s = MuxStandby then prober_call SendPeerProbeCommand s else Some s)"

section \<open>The strand\<close>

definition AA_process_prober_event :: "prober_event \<Rightarrow> aa_state \<Rightarrow> aa_state" where
  "AA_process_prober_event e s =
     (case LinkProberStateMachineActiveActive_processEvent (mMuxPortConfig s) e (mLinkProberStateMachinePtr s) of
        (m, ts) \<Rightarrow> post_tasks ts (s\<lparr>mLinkProberStateMachinePtr := m\<rparr>))"

fun AA_run :: "task \<Rightarrow> aa_state \<Rightarrow> aa_state option" where
  "AA_run (TaskSoCIpv4 a) s = AA_handleSwssSoCIpv4AddressUpdate a s"
| "AA_run (TaskServerMac a) s = AA_handleGetServerMacAddressNotification a s"
| "AA_run TaskUseWellKnownMac s = AA_handleUseWellKnownMacAddressNotification s"
| "AA_run TaskSrcMacConfig s = LinkManagerStateMachineBase_handleSrcMacConfigNotification s"
| "AA_run (TaskProbeMuxState l) s = AA_handleProbeMuxStateNotification l s"
| "AA_run TaskProbeMuxFailure s = AA_handleProbeMuxFailure s"
| "AA_run (TaskMuxState l) s = AA_handleMuxStateNotification l s"
| "AA_run (TaskPeerMuxState l) s = AA_handlePeerMuxStateNotification l s"
| "AA_run (TaskLinkState l) s = AA_handleSwssLinkStateNotification l s"
| "AA_run (TaskMuxConfig m) s = AA_handleMuxConfigNotification m s"
| "AA_run (TaskDefaultRoute r) s = AA_handleDefaultRouteStateNotification r s"
| "AA_run TaskResetPckLoss s = AA_handleResetLinkProberPckLossCount s"
| "AA_run (TaskLinkFailureDetection st ty) s = AA_updateLinkFailureDetectionState st ty s"
| "AA_run (TaskProberEvent e) s = Some (AA_process_prober_event e s)"
| "AA_run (TaskMuxEvent e) s = Some (process_mux_event e s)"
| "AA_run (TaskLinkEvent e) s = Some (process_link_event e s)"
| "AA_run (TaskProberChange l) s = AA_handleStateChange_prober l s"
| "AA_run (TaskPeerChange l) s = AA_handlePeerStateChange l s"
| "AA_run (TaskMuxChange l) s = AA_handleStateChange_mux l s"
| "AA_run (TaskLinkChange l) s = AA_handleStateChange_link l s"
| "AA_run TaskSuspendTimerExpiry s = AA_handleSuspendTimerExpiry s"
| "AA_run TaskMuxProbeRequest s = AA_handleMuxProbeRequestEvent s"
| "AA_run (TaskPckLossRatio n k) s = AA_handlePostPckLossRatioNotification n k s"
| "AA_run (TaskTimer DeadlineTimer ec) s = AA_handleMuxProbeTimeout ec s"
| "AA_run (TaskTimer WaitTimer ec) s = AA_handleMuxWaitTimeout ec s"
| "AA_run (TaskTimer PeerWaitTimer ec) s = AA_handlePeerMuxWaitTimeout ec s"
| "AA_run (TaskTimer ResyncTimer ec) s = AA_handleAdminForwardingStateSyncUp ec s"
| "AA_run _ s = LinkManagerStateMachineBase_noop_handler s"

end
