(* ===== verification/Active_Active_Props.thy ===== *)
theory Active_Active_Props
  imports Active_Active_Handlers Port_Sync
begin

text \<open>
  The invariant of the active-active link manager: the composite state and the peer state
  follow the sub-machines, the backoff factor stays within its cap, the flag \<open>mWaitMux\<close> is
  only set while a timer that will clear it is armed, the periodic re-synchronisation never
  stops once the port is activated, and every forwarding state that is set is one that the
  configured mode allows. The parameter \<open>b\<close> says that the prober is bound; \<open>a\<close> that the
  activation is not under way; \<open>n\<close> is the number of calls made before the handler started.
\<close>

section \<open>Frame lemmas\<close>

lemma aa_post_tasks_frame [simp]:
  "mPeerLinkProberState (post_tasks ts s) = mPeerLinkProberState s"
  "mPeerMuxState (post_tasks ts s) = mPeerMuxState s"
  "mLastSetPeerMuxState (post_tasks ts s) = mLastSetPeerMuxState s"
  "mLastMuxStateNotification (post_tasks ts s) = mLastMuxStateNotification s"
  "mLastMuxProbeNotification (post_tasks ts s) = mLastMuxProbeNotification s"
  "mLastMuxNotificationType (post_tasks ts s) = mLastMuxNotificationType s"
  "mMuxProbeBackoffFactor (post_tasks ts s) = mMuxProbeBackoffFactor s"
  "mWaitMux (post_tasks ts s) = mWaitMux s"
  "mWaitStateMachineInit (post_tasks ts s) = mWaitStateMachineInit s"
  "aa_mContinuousLinkProberUnknownEvent (post_tasks ts s) = aa_mContinuousLinkProberUnknownEvent s"
  by (simp_all add: post_tasks_def)

lemma aa_emit_frame [simp]:
  "mPeerLinkProberState (emit x s) = mPeerLinkProberState s"
  "mPeerMuxState (emit x s) = mPeerMuxState s"
  "mLastSetPeerMuxState (emit x s) = mLastSetPeerMuxState s"
  "mLastMuxStateNotification (emit x s) = mLastMuxStateNotification s"
  "mLastMuxProbeNotification (emit x s) = mLastMuxProbeNotification s"
  "mLastMuxNotificationType (emit x s) = mLastMuxNotificationType s"
  "mMuxProbeBackoffFactor (emit x s) = mMuxProbeBackoffFactor s"
  "mWaitMux (emit x s) = mWaitMux s"
  "mWaitStateMachineInit (emit x s) = mWaitStateMachineInit s"
  "aa_mContinuousLinkProberUnknownEvent (emit x s) = aa_mContinuousLinkProberUnknownEvent s"
  by (simp_all add: emit_def)

lemma aa_cancel_timer_frame [simp]:
  "mPeerLinkProberState (cancel_timer i s) = mPeerLinkProberState s"
  "mPeerMuxState (cancel_timer i s) = mPeerMuxState s"
  "mLastSetPeerMuxState (cancel_timer i s) = mLastSetPeerMuxState s"
  "mLastMuxStateNotification (cancel_timer i s) = mLastMuxStateNotification s"
  "mLastMuxProbeNotification (cancel_timer i s) = mLastMuxProbeNotification s"
  "mLastMuxNotificationType (cancel_timer i s) = mLastMuxNotificationType s"
  "mMuxProbeBackoffFactor (cancel_timer i s) = mMuxProbeBackoffFactor s"
  "mWaitMux (cancel_timer i s) = mWaitMux s"
  "mWaitStateMachineInit (cancel_timer i s) = mWaitStateMachineInit s"
  "aa_mContinuousLinkProberUnknownEvent (cancel_timer i s) = aa_mContinuousLinkProberUnknownEvent s"
  by (simp_all add: cancel_timer_def post_tasks_def)

lemma aa_start_timer_frame [simp]:
  "mPeerLinkProberState (start_timer i d s) = mPeerLinkProberState s"
  "mPeerMuxState (start_timer i d s) = mPeerMuxState s"
  "mLastSetPeerMuxState (start_timer i d s) = mLastSetPeerMuxState s"
  "mLastMuxStateNotification (start_timer i d s) = mLastMuxStateNotification s"
  "mLastMuxProbeNotification (start_timer i d s) = mLastMuxProbeNotification s"
  "mLastMuxNotificationType (start_timer i d s) = mLastMuxNotificationType s"
  "mMuxProbeBackoffFactor (start_timer i d s) = mMuxProbeBackoffFactor s"
  "mWaitMux (start_timer i d s) = mWaitMux s"
  "mWaitStateMachineInit (start_timer i d s) = mWaitStateMachineInit s"
  "aa_mContinuousLinkProberUnknownEvent (start_timer i d s) = aa_mContinuousLinkProberUnknownEvent s"
  by (simp_all add: start_timer_def cancel_timer_def post_tasks_def Let_def)

lemma aa_take_task_frame [simp]:
  "mPeerLinkProberState (take_task i s) = mPeerLinkProberState s"
  "mPeerMuxState (take_task i s) = mPeerMuxState s"
  "mLastSetPeerMuxState (take_task i s) = mLastSetPeerMuxState s"
  "mLastMuxStateNotification (take_task i s) = mLastMuxStateNotification s"
  "mLastMuxProbeNotification (take_task i s) = mLastMuxProbeNotification s"
  "mLastMuxNotificationType (take_task i s) = mLastMuxNotificationType s"
  "mMuxProbeBackoffFactor (take_task i s) = mMuxProbeBackoffFactor s"
  "mWaitMux (take_task i s) = mWaitMux s"
  "mWaitStateMachineInit (take_task i s) = mWaitStateMachineInit s"
  "aa_mContinuousLinkProberUnknownEvent (take_task i s) = aa_mContinuousLinkProberUnknownEvent s"
  by (simp_all add: take_task_def)

lemma aa_published_update [simp]:
  "published (s\<lparr>mPeerLinkProberState := x1\<rparr>) = published s"
  "published (s\<lparr>mPeerMuxState := x2\<rparr>) = published s"
  "published (s\<lparr>mLastSetPeerMuxState := x3\<rparr>) = published s"
  "published (s\<lparr>mLastMuxStateNotification := x4\<rparr>) = published s"
  "published (s\<lparr>mLastMuxProbeNotification := x5\<rparr>) = published s"
  "published (s\<lparr>mLastMuxNotificationType := x6\<rparr>) = published s"
  "published (s\<lparr>mMuxProbeBackoffFactor := x7\<rparr>) = published s"
  "published (s\<lparr>mWaitMux := x8\<rparr>) = published s"
  "published (s\<lparr>mWaitStateMachineInit := x9\<rparr>) = published s"
  "published (s\<lparr>aa_mContinuousLinkProberUnknownEvent := x10\<rparr>) = published s"
  by (simp_all add: published_def)

section \<open>The invariant\<close>

lemma AA_factor_ok [simp]:
  "factor_ok AA_MAX_BACKOFF_FACTOR 1"
  "factor_ok AA_MAX_BACKOFF_FACTOR f \<Longrightarrow> factor_ok AA_MAX_BACKOFF_FACTOR (backoff_double AA_MAX_BACKOFF_FACTOR f)"
  by (auto intro: factor_ok_one factor_ok_backoff_double simp: AA_MAX_BACKOFF_FACTOR_def)

text \<open>A timer will still run its handler: it is armed, or its task is queued.\<close>

definition timer_alive :: "timer_id \<Rightarrow> aa_state \<Rightarrow> bool" where
  "timer_alive i s \<longleftrightarrow> tm_pending (timers s i) \<or>
     TaskTimer i Success \<in> set (tasks s) \<or> TaskTimer i OperationAborted \<in> set (tasks s)"

definition peer_synced :: "aa_state \<Rightarrow> bool" where
  "peer_synced s \<longleftrightarrow> mPeerLinkProberState s = psm_mCurrentPeerState (mLinkProberStateMachinePtr s) \<or>
     TaskPeerChange (psm_mCurrentPeerState (mLinkProberStateMachinePtr s)) \<in> set (tasks s)"

definition AA_activated :: "aa_state \<Rightarrow> bool" where
  "AA_activated s \<longleftrightarrow> (component_all s \<longrightarrow> mWaitStateMachineInit s = [] \<and> timer_alive ResyncTimer s)"

fun AA_call_allowed :: "mux_mode \<Rightarrow> call \<Rightarrow> bool" where
  "AA_call_allowed m (SetMuxState l) = AA_mode_allows m l"
| "AA_call_allowed m (SetPeerMuxState l) = (m = ModeAuto)"
| "AA_call_allowed m _ = True"

definition AA_calls_ok :: "nat \<Rightarrow> aa_state \<Rightarrow> bool" where
  "AA_calls_ok n s \<longleftrightarrow> n \<le> length (calls s) \<and>
     list_all (AA_call_allowed (mMode (mMuxPortConfig s))) (drop n (calls s))"

definition AA_data_ok :: "bool \<Rightarrow> aa_state \<Rightarrow> bool" where
  "AA_data_ok b s \<longleftrightarrow> (b \<longrightarrow> mLinkProberPtr s \<noteq> None) \<and>
     factor_ok AA_MAX_BACKOFF_FACTOR (mMuxProbeBackoffFactor s) \<and> peer_synced s \<and>
     (mWaitMux s \<longrightarrow> timer_alive DeadlineTimer s \<or> timer_alive WaitTimer s) \<and> published s"

definition AA_inv :: "bool \<Rightarrow> bool \<Rightarrow> nat \<Rightarrow> aa_state \<Rightarrow> composite \<Rightarrow> bool" where
  "AA_inv b a n s c \<longleftrightarrow> AA_data_ok b s \<and> AA_calls_ok n s \<and> (a \<longrightarrow> AA_activated s) \<and> synced s c"

definition AA_state_inv :: "bool \<Rightarrow> bool \<Rightarrow> nat \<Rightarrow> aa_state \<Rightarrow> bool" where
  "AA_state_inv b a n s \<longleftrightarrow> AA_inv b a n s (mCompositeState s)"

lemmas AA_inv_defs = AA_inv_def AA_data_ok_def peer_synced_def AA_activated_def AA_calls_ok_def

lemma component_all_frame [simp]:
  "component_all (post_tasks ts s) = component_all s"
  "component_all (emit x s) = component_all s"
  "component_all (cancel_timer i s) = component_all s"
  "component_all (start_timer i d s) = component_all s"
  "component_all (take_task j s) = component_all s"
  "component_all (s\<lparr>mCompositeState := x1\<rparr>) = component_all s"
  "component_all (s\<lparr>mMuxPortConfig := x2\<rparr>) = component_all s"
  "component_all (s\<lparr>mLinkProberPtr := x3\<rparr>) = component_all s"
  "component_all (s\<lparr>mLinkProberStateMachinePtr := x4\<rparr>) = component_all s"
  "component_all (s\<lparr>mMuxStateMachine := x5\<rparr>) = component_all s"
  "component_all (s\<lparr>mLinkStateMachine := x6\<rparr>) = component_all s"
  "component_all (s\<lparr>mLabel := x7\<rparr>) = component_all s"
  "component_all (s\<lparr>mDefaultRouteState := x8\<rparr>) = component_all s"
  "component_all (s\<lparr>now_ms := x9\<rparr>) = component_all s"
  "component_all (lm_base.more_update f s) = component_all s"
  by (simp_all add: component_all_def)

lemma timer_alive_frame [simp]:
  "timer_alive i s \<Longrightarrow> timer_alive i (post_tasks ts s)"
  "timer_alive i s \<Longrightarrow> timer_alive i (cancel_timer j s)"
  "timer_alive i s \<Longrightarrow> timer_alive i (start_timer j d s)"
  "timer_alive i s \<Longrightarrow> timer_alive i (fire_timer j s)"
  "timer_alive i (start_timer i d s)"
  "timer_alive i (emit x s) = timer_alive i s"
  "timer_alive i (lm_base.more_update f s) = timer_alive i s"
  by (auto simp: timer_alive_def fire_timer_def)

lemma AA_inv_bound [simp]: "AA_inv True a n s c \<Longrightarrow> mLinkProberPtr s \<noteq> None"
  by (auto simp: AA_inv_defs)

lemma AA_inv_update [simp]:
  "AA_inv b a n (s\<lparr>mCompositeState := x1\<rparr>) c = AA_inv b a n s c"
  "mMode x2 = mMode (mMuxPortConfig s) \<Longrightarrow> AA_inv b a n (s\<lparr>mMuxPortConfig := x2\<rparr>) c = AA_inv b a n s c"
  "AA_inv b a n (s\<lparr>mDefaultRouteState := x5\<rparr>) c = AA_inv b a n s c"
  "AA_inv b a n (s\<lparr>now_ms := x6\<rparr>) c = AA_inv b a n s c"
  "AA_inv b a n (s\<lparr>mPeerMuxState := x7\<rparr>) c = AA_inv b a n s c"
  "AA_inv b a n (s\<lparr>mLastSetPeerMuxState := x8\<rparr>) c = AA_inv b a n s c"
  "AA_inv b a n (s\<lparr>mLastMuxStateNotification := x9\<rparr>) c = AA_inv b a n s c"
  "AA_inv b a n (s\<lparr>mLastMuxProbeNotification := x10\<rparr>) c = AA_inv b a n s c"
  "AA_inv b a n (s\<lparr>mLastMuxNotificationType := x11\<rparr>) c = AA_inv b a n s c"
  "AA_inv b a n (s\<lparr>aa_mContinuousLinkProberUnknownEvent := x12\<rparr>) c = AA_inv b a n s c"
  by (simp_all add: AA_inv_defs synced_def timer_alive_def component_all_def)

lemma AA_inv_reset [simp]:
  assumes "AA_inv b a n s c"
  shows "AA_inv b a n (s\<lparr>mMuxProbeBackoffFactor := 1\<rparr>) c"
    "AA_inv b a n (s\<lparr>mMuxProbeBackoffFactor := backoff_double AA_MAX_BACKOFF_FACTOR (mMuxProbeBackoffFactor s)\<rparr>) c"
    "AA_inv b a n (s\<lparr>mWaitMux := False\<rparr>) c"
    "AA_inv b a n (s\<lparr>mLinkProberPtr := Some p\<rparr>) c"
    "AA_inv b a n (post_tasks ts s) c"
    "AA_inv b a n (cancel_timer i s) c"
    "AA_inv b a n (start_timer i d s) c"
    "AA_call_allowed (mMode (mMuxPortConfig s)) x \<Longrightarrow> \<not> health_call x \<Longrightarrow> AA_inv b a n (emit x s) c"
  using assms by (auto simp: AA_inv_defs synced_def timer_alive_def component_all_def)

lemma AA_inv_component [simp]:
  "AA_inv b a n s c \<Longrightarrow> AA_inv b False n (setComponentInitState k s) c"
  "AA_inv b a n s c \<Longrightarrow> \<not> component_all s \<Longrightarrow>
     AA_inv b a n (s\<lparr>mWaitStateMachineInit := mWaitStateMachineInit s @ [m]\<rparr>) c"
  by (auto simp: AA_inv_defs synced_def setComponentInitState_def timer_alive_def component_all_def)


lemma AA_inv_weaken: "AA_inv b True n s c \<Longrightarrow> AA_inv b a n s c"
  by (simp add: AA_inv_def)

section \<open>Operations\<close>

lemma AA_inv_prober_call:
  "AA_inv b a n s c \<Longrightarrow> AA_call_allowed (mMode (mMuxPortConfig s)) x \<Longrightarrow> \<not> health_call x \<Longrightarrow>
     ok b (\<lambda>s'. AA_inv b a n s' c \<and> mMode (mMuxPortConfig s') = mMode (mMuxPortConfig s)) (prober_call x s)"
  by (cases b) (auto simp: prober_call_def)

lemma AA_op_mode [simp]:
  "mMuxPortConfig (AA_startMuxWaitTimer f s) = mMuxPortConfig s"
  "mMuxPortConfig (AA_setWaitStateCause w s) = mMuxPortConfig s"
  "mMuxPortConfig (AA_enterPeerMuxState m s) = mMuxPortConfig s"
  "mMuxPortConfig (AA_probeMuxState s) = mMuxPortConfig s"
  "mMuxPortConfig (AA_initPeerLinkProberState s) = mMuxPortConfig s"
  by (simp_all add: AA_startMuxWaitTimer_def AA_startWaitMux_def AA_setWaitStateCause_def
      AA_enterPeerMuxState_def AA_probeMuxState_def AA_initPeerLinkProberState_def
      AA_enterPeerLinkProberState_def split: mux_label.splits)

lemma AA_inv_ops [simp]:
  assumes "AA_inv b a n s c"
  shows "AA_inv b a n (AA_startMuxWaitTimer f s) c" "AA_inv b a n (AA_stopWaitMux s) c"
    "AA_inv b a n (AA_setWaitStateCause w s) c"
    "AA_inv b a n (AA_startPeerMuxWaitTimer f s) c" "AA_inv b a n (AA_setLabel h s) c"
    "AA_inv b a n (AA_startAdminForwardingStateSyncUpTimer s) c"
    "AA_inv b a n (AA_enterPeerMuxState m s) c"
  using assms
  by (auto simp: AA_inv_defs synced_def timer_alive_def component_all_def AA_startMuxWaitTimer_def
      AA_startWaitMux_def AA_stopWaitMux_def AA_setWaitStateCause_def AA_startPeerMuxWaitTimer_def
      AA_setLabel_def AA_enterPeerMuxState_def AA_startAdminForwardingStateSyncUpTimer_def)

lemma AA_inv_probeMuxState [simp]: "AA_inv b a n s c \<Longrightarrow> AA_inv b a n (AA_probeMuxState s) c"
  by (simp add: AA_probeMuxState_def)

lemma AA_inv_startMuxProbeTimer [simp]:
  assumes "AA_inv b a n s c" shows "AA_inv b a n (AA_startMuxProbeTimer s) c"
proof -
  have "AA_inv b a n (AA_probeMuxState s) c" using assms by simp
  then show ?thesis
    by (auto simp: AA_startMuxProbeTimer_def Let_def AA_startWaitMux_def AA_inv_defs synced_def
        timer_alive_def component_all_def)
qed

lemma AA_inv_updateMuxLinkmgrState [simp]:
  "AA_inv b a n s c \<Longrightarrow> AA_inv b a n (AA_updateMuxLinkmgrState s) c"
  by (simp add: AA_updateMuxLinkmgrState_def Let_def)

lemma AA_inv_switchPeerMuxState [simp]:
  "AA_inv b a n s c \<Longrightarrow> AA_inv b a n (AA_switchPeerMuxState l s) c"
  by (simp add: AA_switchPeerMuxState_def)

lemma AA_inv_enterPeer [simp]:
  assumes "AA_inv b a n s c" and "\<not> own_label l \<or> psm_mCurrentPeerState (mLinkProberStateMachinePtr s) = l"
  shows "AA_inv b a n (AA_enterPeerLinkProberState l s) c"
  using assms by (auto simp: AA_enterPeerLinkProberState_def AA_inv_defs synced_def timer_alive_def component_all_def)

lemma AA_inv_initPeerLinkProberState [simp]:
  "AA_inv b a n s c \<Longrightarrow> AA_inv b a n (AA_initPeerLinkProberState s) c"
  by (simp add: AA_initPeerLinkProberState_def split: mux_label.splits)

lemma AA_inv_enterLinkProberState:
  "AA_inv b a n s c \<Longrightarrow> own_label l \<Longrightarrow> l \<noteq> ProberStandby \<Longrightarrow>
     case_prod (AA_inv b a n) (AA_enterLinkProberState l s c)"
  by (auto simp: AA_enterLinkProberState_def AA_inv_defs synced_def timer_alive_def component_all_def)

lemma AA_inv_initLinkProberState:
  "AA_inv b a n s c \<Longrightarrow> case_prod (AA_inv b a n) (AA_initLinkProberState s c)"
  by (cases "ms c") (simp_all add: AA_initLinkProberState_def AA_inv_enterLinkProberState)

lemma AA_inv_enterMuxState: "AA_inv b a n s c \<Longrightarrow> case_prod (AA_inv b a n) (AA_enterMuxState l s c)"
  by (auto simp: AA_enterMuxState_def AA_inv_defs synced_def timer_alive_def component_all_def)

lemma AA_inv_enterLinkState: "AA_inv b a n s c \<Longrightarrow> case_prod (AA_inv b a n) (AA_enterLinkState l s c)"
  by (auto simp: AA_enterLinkState_def AA_inv_defs synced_def timer_alive_def component_all_def)

lemma AA_inv_enterMuxState_fst:
  "AA_inv b a n s c \<Longrightarrow> AA_inv b a n (fst (AA_enterMuxState l s c)) (snd (AA_enterMuxState l s c))"
  "mMuxPortConfig (fst (AA_enterMuxState l s c)) = mMuxPortConfig s"
  using AA_inv_enterMuxState by (auto simp: split_def) (simp add: AA_enterMuxState_def)

lemma AA_state_inv_commit: "AA_state_inv b a n (AA_commit r) = case_prod (AA_inv b a n) r"
  by (cases r) (simp add: AA_state_inv_def AA_commit_def)

lemma AA_inv_switchMuxState:
  assumes "AA_inv b a n s c" and "f \<Longrightarrow> AA_mode_allows (mMode (mMuxPortConfig s)) l"
  shows "ok b (case_prod (AA_inv b a n)) (AA_switchMuxState l f s c)"
proof (cases "f \<or> AA_mode_allows (mMode (mMuxPortConfig s)) l")
  case True
  with assms(2) have "AA_mode_allows (mMode (mMuxPortConfig s)) l" by blast
  with True assms(1) show ?thesis
    by (auto simp: AA_switchMuxState_def Let_def ok_rules split_def AA_inv_enterMuxState_fst
        intro!: AA_inv_prober_call [where c = c and a = a and n = n, THEN ok_mono])
next
  case False
  with assms show ?thesis by (simp add: AA_switchMuxState_def)
qed

lemmas AA_transition_defs =
  noopTransitionFunction_def
  AA_LinkProberActiveMuxActiveLinkUp_def AA_LinkProberActiveMuxStandbyLinkUp_def
  AA_LinkProberUnknownMuxActiveLinkUp_def AA_LinkProberUnknownMuxStandbyLinkUp_def
  AA_LinkProberActiveMuxUnknownLinkUp_def AA_LinkProberUnknownMuxUnknownLinkUp_def
  AA_LinkProberActiveMuxErrorLinkUp_def AA_LinkProberActiveMuxWaitLinkUp_def
  AA_LinkProberUnknownMuxWaitLinkUp_def AA_LinkProberUnknownMuxWaitLinkDown_def
  AA_LinkProberUnknownMuxUnknownLinkDown_def AA_LinkProberUnknownMuxActiveLinkDown_def

lemma AA_inv_transition:
  assumes "AA_inv b a n s c"
  shows "ok b (case_prod (AA_inv b a n)) (AA_transition s c)"
  unfolding AA_transition_def
  by (cases "(ps c, ms c, ls c)" rule: AA_mStateTransitionHandler.cases)
    (use assms in \<open>auto simp: AA_transition_defs AA_mode_allows_def intro!: AA_inv_switchMuxState\<close>)


section \<open>Handlers\<close>

lemma AA_state_inv_update [simp]:
  "mMode x2 = mMode (mMuxPortConfig s) \<Longrightarrow> AA_state_inv b a n (s\<lparr>mMuxPortConfig := x2\<rparr>) = AA_state_inv b a n s"
  "AA_state_inv b a n (s\<lparr>mDefaultRouteState := x5\<rparr>) = AA_state_inv b a n s"
  "AA_state_inv b a n (s\<lparr>mLastMuxStateNotification := x9\<rparr>) = AA_state_inv b a n s"
  "AA_state_inv b a n (s\<lparr>mLastMuxProbeNotification := x10\<rparr>) = AA_state_inv b a n s"
  "AA_state_inv b a n (s\<lparr>mLastMuxNotificationType := x11\<rparr>) = AA_state_inv b a n s"
  by (simp_all add: AA_state_inv_def)

lemma AA_op_composite [simp]:
  "mCompositeState (AA_startMuxWaitTimer f s) = mCompositeState s"
  "mCompositeState (AA_setWaitStateCause w s) = mCompositeState s"
  "mCompositeState (AA_probeMuxState s) = mCompositeState s"
  "mCompositeState (AA_startMuxProbeTimer s) = mCompositeState s"
  "mCompositeState (AA_setLabel l s) = mCompositeState s"
  "mCompositeState (AA_updateMuxLinkmgrState s) = mCompositeState s"
  "mCompositeState (AA_enterPeerMuxState m s) = mCompositeState s"
  "mCompositeState (AA_enterPeerLinkProberState pl s) = mCompositeState s"
  "mCompositeState (AA_switchPeerMuxState m s) = mCompositeState s"
  "mCompositeState (AA_startAdminForwardingStateSyncUpTimer s) = mCompositeState s"
  "mCompositeState (AA_stopWaitMux s) = mCompositeState s"
  by (simp_all add: AA_startMuxWaitTimer_def AA_startWaitMux_def AA_setWaitStateCause_def AA_probeMuxState_def
      AA_startMuxProbeTimer_def Let_def AA_setLabel_def AA_updateMuxLinkmgrState_def AA_enterPeerMuxState_def
      AA_enterPeerLinkProberState_def AA_switchPeerMuxState_def AA_startPeerMuxWaitTimer_def
      AA_startAdminForwardingStateSyncUpTimer_def AA_stopWaitMux_def)

lemma AA_state_inv_op [simp]:
  assumes "AA_state_inv b a n s"
  shows "AA_state_inv b a n (s\<lparr>mMuxProbeBackoffFactor := 1\<rparr>)"
    "AA_state_inv b a n (s\<lparr>mMuxProbeBackoffFactor :=
       backoff_double AA_MAX_BACKOFF_FACTOR (mMuxProbeBackoffFactor s)\<rparr>)"
    "AA_state_inv b a n (s\<lparr>mLinkProberPtr := Some p\<rparr>)"
    "AA_state_inv b a n (post_tasks ts s)" "AA_state_inv b a n (cancel_timer i s)"
    "AA_state_inv b a n (AA_stopWaitMux s)" "AA_state_inv b a n (AA_probeMuxState s)"
    "AA_state_inv b a n (AA_startMuxProbeTimer s)" "AA_state_inv b a n (AA_updateMuxLinkmgrState s)"
    "AA_state_inv b a n (AA_enterPeerMuxState m s)" "AA_state_inv b a n (AA_switchPeerMuxState m s)"
    "AA_state_inv b a n (AA_startAdminForwardingStateSyncUpTimer s)"
    "AA_call_allowed (mMode (mMuxPortConfig s)) x \<Longrightarrow> \<not> health_call x \<Longrightarrow> AA_state_inv b a n (emit x s)"
    "AA_state_inv b a n (LinkManagerStateMachineBase_postMuxStateEvent m s)"
    "\<not> component_all s \<Longrightarrow> AA_state_inv b a n (s\<lparr>mWaitStateMachineInit := mWaitStateMachineInit s @ [mm]\<rparr>)"
  using assms by (simp_all add: AA_state_inv_def setComponentInitState_def
      LinkManagerStateMachineBase_postMuxStateEvent_def AA_inv_component [unfolded setComponentInitState_def]
      split: mux_label.splits)

lemma AA_state_inv_component [simp]:
  "AA_state_inv b True n s \<Longrightarrow> AA_state_inv b False n (setComponentInitState k s)"
  using AA_inv_component(1) [of b True n s] by (simp add: AA_state_inv_def setComponentInitState_def)

lemma AA_state_inv_prober_call:
  "AA_state_inv b a n s \<Longrightarrow> AA_call_allowed (mMode (mMuxPortConfig s)) x \<Longrightarrow> \<not> health_call x \<Longrightarrow>
     ok b (\<lambda>s'. AA_state_inv b a n s' \<and> component_all s' = component_all s \<and>
               mMode (mMuxPortConfig s') = mMode (mMuxPortConfig s)) (prober_call x s)"
  by (cases b) (auto simp: prober_call_def AA_state_inv_def)

lemma AA_state_inv_shutdownOrRestart:
  "AA_state_inv b a n s \<Longrightarrow>
     ok b (\<lambda>s'. AA_state_inv b a n s' \<and> component_all s' = component_all s)
       (AA_shutdownOrRestartLinkProberOnDefaultRoute s)"
  by (auto simp: AA_shutdownOrRestartLinkProberOnDefaultRoute_def
      intro!: AA_state_inv_prober_call [where a = a and n = n, THEN ok_mono])

lemma AA_state_inv_init [simp]:
  assumes "AA_state_inv b a n s" and "mCompositeState s = c"
  shows "AA_state_inv b a n (AA_commit (AA_initLinkProberState s c))"
    "AA_state_inv b a n (AA_commit (AA_enterMuxState l s c))"
    "AA_state_inv b a n (AA_commit (AA_enterLinkState k s c))"
  using assms by (simp_all add: AA_inv_initLinkProberState AA_inv_enterMuxState AA_inv_enterLinkState
      AA_state_inv_commit AA_state_inv_def [of b a n s])

lemma AA_state_inv_switch:
  assumes "AA_state_inv b a n s" and "f \<Longrightarrow> AA_mode_allows (mMode (mMuxPortConfig s)) l"
  shows "ok b (\<lambda>r. AA_state_inv b a n (AA_commit r)) (AA_switchMuxState l f s (mCompositeState s))"
  using AA_inv_switchMuxState [of b a n s] assms by (simp add: AA_state_inv_commit AA_state_inv_def [of b a n s])

lemma AA_state_inv_transition:
  "AA_inv b a n s c \<Longrightarrow> ok b (\<lambda>r. AA_state_inv b a n (AA_commit r)) (AA_transition s c)"
  using AA_inv_transition by (simp add: AA_state_inv_commit)

lemmas AA_okI =
  AA_state_inv_prober_call [THEN ok_mono] AA_state_inv_shutdownOrRestart [THEN ok_mono]
  AA_state_inv_switch [THEN ok_mono]

text \<open>Activation leaves no registered handler behind and starts the periodic timer.\<close>

lemma AA_state_inv_notify_all:
  "AA_state_inv b False n s \<Longrightarrow>
     AA_state_inv b True n (AA_notify_all (AA_startAdminForwardingStateSyncUpTimer s))"
  by (auto simp: AA_notify_all_def AA_startAdminForwardingStateSyncUpTimer_def AA_state_inv_def AA_inv_defs
      synced_def timer_alive_def component_all_def)

lemma AA_state_inv_activate:
  assumes "AA_state_inv b False n s"
  shows "ok b (AA_state_inv b True n) (AA_activateStateMachine s)"
proof (cases "component_all s")
  case True
  with assms show ?thesis
    by (auto simp: AA_activateStateMachine_def Let_def ok_rules intro!: AA_okI [where a = False and n = n] AA_state_inv_notify_all)
next
  case False
  with assms show ?thesis
    by (simp add: AA_activateStateMachine_def AA_state_inv_def AA_inv_def AA_activated_def)
qed

lemma AA_state_inv_weaken: "AA_state_inv b True n s \<Longrightarrow> AA_state_inv b a n s"
  by (simp add: AA_state_inv_def AA_inv_weaken)

lemma AA_state_inv_soc:
  assumes "AA_state_inv b True n s"
  shows "ok b (AA_state_inv b True n) (AA_handleSwssSoCIpv4AddressUpdate x s)"
  using assms
  by (auto simp: AA_handleSwssSoCIpv4AddressUpdate_def intro!: AA_state_inv_activate AA_okI [where a = True and n = n])

lemma AA_state_inv_init_mux:
  "AA_state_inv b True n s \<Longrightarrow> ok b (AA_state_inv b True n) (AA_init_mux_component l s)"
  by (auto simp: AA_init_mux_component_def Let_def intro!: AA_state_inv_activate)

lemma AA_state_inv_mux_state:
  "AA_state_inv b True n s \<Longrightarrow> ok b (AA_state_inv b True n) (AA_handleMuxStateNotification l s)"
  by (auto simp: AA_handleMuxStateNotification_def Let_def ok_rules intro!: AA_state_inv_init_mux AA_okI [where a = True and n = n])

lemma AA_state_inv_probe_mux:
  "AA_state_inv b True n s \<Longrightarrow> ok b (AA_state_inv b True n) (AA_handleProbeMuxStateNotification l s)"
  by (auto simp: AA_handleProbeMuxStateNotification_def Let_def intro!: AA_state_inv_init_mux)

lemma AA_state_inv_link_state:
  "AA_state_inv b True n s \<Longrightarrow> ok b (AA_state_inv b True n) (AA_handleSwssLinkStateNotification k s)"
  by (auto simp: AA_handleSwssLinkStateNotification_def intro!: AA_state_inv_activate split: link_label.splits)


lemma AA_state_inv_mode_decision:
  assumes "AA_state_inv b a n s" and "mMode (mMuxPortConfig s) = m" and "c = mCompositeState s"
  shows "ok b (\<lambda>r. AA_state_inv b a n (AA_commit r))
    (if m = ModeActive \<and> ms c \<noteq> MuxActive then AA_switchMuxState MuxActive True s c
     else if m = ModeStandby \<and> ms c \<noteq> MuxStandby then AA_switchMuxState MuxStandby True s c
     else if m = ModeAuto \<and> ms c = MuxUnknown then Some (AA_initLinkProberState s c)
     else AA_transition s c)"
proof -
  have "AA_inv b a n s c" using assms by (simp add: AA_state_inv_def)
  then have "ok b (\<lambda>r. AA_state_inv b a n (AA_commit r)) (AA_transition s c)"
    by (rule AA_state_inv_transition)
  then show ?thesis
    using assms AA_state_inv_switch [of b a n s] by (simp add: AA_mode_allows_def)
qed

lemma AA_state_inv_config:
  assumes "AA_state_inv b a (length (calls s)) s"
  shows "ok b (AA_state_inv b a (length (calls s))) (AA_handleMuxConfigNotification m s)"
proof -
  define s1 where "s1 = s\<lparr>mMuxPortConfig := setMode m (mMuxPortConfig s)\<rparr>"
  have s1: "AA_state_inv b a (length (calls s)) s1" "mMode (mMuxPortConfig s1) = m"
    using assms by (simp_all add: s1_def AA_state_inv_def AA_inv_defs synced_def timer_alive_def component_all_def)
  show ?thesis
    unfolding AA_handleMuxConfigNotification_def Let_def s1_def [symmetric]
    using s1(1) by (intro ok_bindI [OF ok_ifI] ok_bindI [OF AA_state_inv_mode_decision [OF s1 refl]])
      (auto intro!: AA_state_inv_shutdownOrRestart [where a = a, THEN ok_mono])
qed

lemma AA_state_inv_probe_failure:
  "AA_state_inv b a n s \<Longrightarrow> ok b (AA_state_inv b a n) (AA_handleProbeMuxFailure s)"
  by (simp add: AA_handleProbeMuxFailure_def)

lemma AA_state_inv_peer_mux:
  "AA_state_inv b a n s \<Longrightarrow> ok b (AA_state_inv b a n) (AA_handlePeerMuxStateNotification l s)"
  by (simp add: AA_handlePeerMuxStateNotification_def)

lemma AA_state_inv_server_mac:
  "AA_state_inv b a n s \<Longrightarrow> ok b (AA_state_inv b a n) (AA_handleGetServerMacAddressNotification m s)"
  by (auto simp: AA_handleGetServerMacAddressNotification_def Let_def intro!: AA_okI [where a = a and n = n])

lemma AA_state_inv_well_known_mac:
  "AA_state_inv b a n s \<Longrightarrow> ok b (AA_state_inv b a n) (AA_handleUseWellKnownMacAddressNotification s)"
  by (auto simp: AA_handleUseWellKnownMacAddressNotification_def Let_def intro!: AA_okI [where a = a and n = n])

lemma AA_state_inv_src_mac:
  "AA_state_inv b a n s \<Longrightarrow>
     ok b (AA_state_inv b a n) (LinkManagerStateMachineBase_handleSrcMacConfigNotification s)"
  by (auto simp: LinkManagerStateMachineBase_handleSrcMacConfigNotification_def intro!: AA_okI [where a = a and n = n])

lemma AA_state_inv_default_route:
  "AA_state_inv b a n s \<Longrightarrow> ok b (AA_state_inv b a n) (AA_handleDefaultRouteStateNotification r s)"
  by (auto simp: AA_handleDefaultRouteStateNotification_def Let_def ok_rules intro!: AA_okI [where a = a and n = n])

lemma AA_state_inv_prober_requests:
  assumes "AA_state_inv b a n s"
  shows "ok b (AA_state_inv b a n) (AA_handlePostPckLossRatioNotification x y s)"
    "ok b (AA_state_inv b a n) (AA_handleResetLinkProberPckLossCount s)"
    "ok b (AA_state_inv b a n) (AA_updateLinkFailureDetectionState st ty s)"
    "ok b (AA_state_inv b a n) (AA_handleSuspendTimerExpiry s)"
    "ok b (AA_state_inv b a n) (AA_handleMuxProbeRequestEvent s)"
  using assms
  by (auto simp: AA_handlePostPckLossRatioNotification_def AA_handleResetLinkProberPckLossCount_def
      AA_updateLinkFailureDetectionState_def AA_handleSuspendTimerExpiry_def AA_handleMuxProbeRequestEvent_def
      intro!: AA_okI [where a = a and n = n])

lemma AA_state_inv_peer_wait_timeout:
  "AA_state_inv b a n s \<Longrightarrow> ok b (AA_state_inv b a n) (AA_handlePeerMuxWaitTimeout ec s)"
  by (auto simp: AA_handlePeerMuxWaitTimeout_def intro!: AA_okI [where a = a and n = n])


text \<open>Tasks posted by the sub-machines and the timers; the premise has the task put back.\<close>

fun plain_task :: "task \<Rightarrow> bool" where
  "plain_task (TaskPeerChange _) = False"
| "plain_task (TaskTimer _ _) = False"
| "plain_task t = (\<not> label_change t)"

lemma AA_inv_taken: "AA_inv b a n (post_tasks [t] s) c \<Longrightarrow> plain_task t \<Longrightarrow> AA_inv b a n s c"
  by (cases t) (auto simp: AA_inv_defs synced_def timer_alive_def)

lemma AA_inv_taken_label:
  "AA_inv b a n (post_tasks [TaskProberChange l] s) c \<Longrightarrow>
     AA_inv b a n s (if psm_current (mLinkProberStateMachinePtr s) = l then c\<lparr>ps := l\<rparr> else c)"
  "AA_inv b a n (post_tasks [TaskMuxChange l'] s) c \<Longrightarrow>
     AA_inv b a n s (if mux_current (mMuxStateMachine s) = l' then c\<lparr>ms := l'\<rparr> else c)"
  "AA_inv b a n (post_tasks [TaskLinkChange l''] s) c \<Longrightarrow>
     AA_inv b a n s (if link_current (mLinkStateMachine s) = l'' then c\<lparr>ls := l''\<rparr> else c)"
  using synced_taken_prober [of l s c] synced_taken_mux [of l' s c] synced_taken_link [of l'' s c]
  by (simp_all add: AA_inv_defs timer_alive_def)

lemma AA_inv_taken_peer:
  "AA_inv b a n (post_tasks [TaskPeerChange l] s) c \<Longrightarrow>
     AA_inv b a n (if psm_mCurrentPeerState (mLinkProberStateMachinePtr s) = l
                   then AA_enterPeerLinkProberState l s else s) c"
  by (auto simp: AA_enterPeerLinkProberState_def AA_inv_defs synced_def timer_alive_def component_all_def)

lemma AA_inv_taken_timer:
  "AA_inv b a n (post_tasks [TaskTimer i ec] s) c \<Longrightarrow> i \<noteq> ResyncTimer \<Longrightarrow> AA_inv b a n (AA_stopWaitMux s) c"
  "AA_inv b a n (post_tasks [TaskTimer i ec] s) c \<Longrightarrow> i = PeerWaitTimer \<or> i = OscillationTimer \<Longrightarrow>
     AA_inv b a n s c"
  by (auto simp: AA_stopWaitMux_def AA_inv_defs synced_def timer_alive_def component_all_def)

lemma AA_inv_taken_resync:
  "AA_inv b a n (post_tasks [TaskTimer ResyncTimer ec] s) c \<Longrightarrow>
     AA_inv b False n s c \<and> (a \<longrightarrow> component_all s \<longrightarrow> mWaitStateMachineInit s = [])"
  by (auto simp: AA_inv_defs synced_def timer_alive_def)

lemma AA_inv_resync_restart:
  "AA_inv b False n s c \<Longrightarrow> (a \<longrightarrow> component_all s \<longrightarrow> mWaitStateMachineInit s = []) \<Longrightarrow>
     AA_inv b a n (AA_startAdminForwardingStateSyncUpTimer s) c"
  by (auto simp: AA_startAdminForwardingStateSyncUpTimer_def AA_inv_defs synced_def timer_alive_def component_all_def)

lemma AA_probeMuxState_init [simp]:
  "component_all (AA_probeMuxState s) = component_all s"
  "mWaitStateMachineInit (AA_probeMuxState s) = mWaitStateMachineInit s"
  by (simp_all add: AA_probeMuxState_def AA_startMuxWaitTimer_def AA_startWaitMux_def AA_setWaitStateCause_def
      component_all_def)

lemma AA_state_inv_resync:
  assumes "AA_state_inv b a n (post_tasks [TaskTimer ResyncTimer ec] s)"
  shows "ok b (AA_state_inv b a n) (AA_handleAdminForwardingStateSyncUp ec s)"
  using assms AA_inv_taken_resync [of b a n ec s "mCompositeState s"]
  by (auto simp: AA_handleAdminForwardingStateSyncUp_def Let_def AA_state_inv_def intro!: AA_inv_resync_restart)

lemma AA_state_inv_prober_change:
  assumes "AA_state_inv b a n (post_tasks [TaskProberChange l] s)"
  shows "ok b (AA_state_inv b a n) (AA_handleStateChange_prober l s)"
proof -
  have "AA_inv b a n s (if psm_current (mLinkProberStateMachinePtr s) = l
          then (mCompositeState s)\<lparr>ps := l\<rparr> else mCompositeState s)"
    using assms by (auto simp: AA_state_inv_def dest: AA_inv_taken_label(1))
  then show ?thesis
    by (auto simp: AA_handleStateChange_prober_def Let_def ok_rules AA_state_inv_def [of _ _ _ s]
        split: if_splits intro!: AA_state_inv_transition [where a = a and n = n, THEN ok_mono])
qed

lemma AA_state_inv_mux_change:
  assumes "AA_state_inv b a n (post_tasks [TaskMuxChange l] s)"
  shows "ok b (AA_state_inv b a n) (AA_handleStateChange_mux l s)"
proof -
  have "AA_inv b a n s (if mux_current (mMuxStateMachine s) = l
          then (mCompositeState s)\<lparr>ms := l\<rparr> else mCompositeState s)"
    using assms by (auto simp: AA_state_inv_def dest: AA_inv_taken_label(2))
  then show ?thesis
    by (auto simp: AA_handleStateChange_mux_def Let_def ok_rules AA_state_inv_def [of _ _ _ s]
        split: if_splits intro!: AA_state_inv_transition [where a = a and n = n, THEN ok_mono])
qed

lemma AA_state_inv_link_change:
  assumes "AA_state_inv b a n (post_tasks [TaskLinkChange l] s)"
  shows "ok b (AA_state_inv b a n) (AA_handleStateChange_link l s)"
proof -
  have inv: "AA_inv b a n s (if link_current (mLinkStateMachine s) = l
          then (mCompositeState s)\<lparr>ls := l\<rparr> else mCompositeState s)"
    using assms by (auto simp: AA_state_inv_def dest: AA_inv_taken_label(3))
  show ?thesis
  proof (cases "link_current (mLinkStateMachine s) = l")
    case True
    with inv have c: "AA_inv b a n s ((mCompositeState s)\<lparr>ls := l\<rparr>)" by simp
    then have "case_prod (AA_inv b a n) (AA_initLinkProberState s ((mCompositeState s)\<lparr>ls := l\<rparr>))"
      by (rule AA_inv_initLinkProberState)
    with True c show ?thesis
      by (auto simp: AA_handleStateChange_link_def Let_def ok_rules AA_state_inv_commit split_def
          intro!: AA_inv_switchMuxState [where a = a and n = n, THEN ok_mono]
            AA_inv_transition [where a = a and n = n, THEN ok_mono]
          simp: AA_state_inv_commit [unfolded split_def] intro: AA_state_inv_op)
  next
    case False
    with inv show ?thesis
      by (auto simp: AA_handleStateChange_link_def AA_state_inv_def)
  qed
qed

lemma AA_state_inv_peer_change:
  assumes "AA_state_inv b a n (post_tasks [TaskPeerChange l] s)"
  shows "ok b (AA_state_inv b a n) (AA_handlePeerStateChange l s)"
proof -
  have "AA_state_inv b a n (if psm_mCurrentPeerState (mLinkProberStateMachinePtr s) = l
          then AA_enterPeerLinkProberState l s else s)"
    using assms AA_inv_taken_peer [of b a n l s] by (simp add: AA_state_inv_def)
  then show ?thesis
    by (auto simp: AA_handlePeerStateChange_def Let_def split: prober_label.splits if_splits)
qed

lemma AA_state_inv_timeouts:
  "AA_state_inv b a n (post_tasks [TaskTimer DeadlineTimer ec] s) \<Longrightarrow>
     ok b (AA_state_inv b a n) (AA_handleMuxProbeTimeout ec s)"
  "AA_state_inv b a n (post_tasks [TaskTimer WaitTimer ec] s) \<Longrightarrow>
     ok b (AA_state_inv b a n) (AA_handleMuxWaitTimeout ec s)"
proof -
  have stop: "AA_state_inv b a n (AA_stopWaitMux s)"
    if "AA_state_inv b a n (post_tasks [TaskTimer i ec] s)" "i \<noteq> ResyncTimer" for i
    using that AA_inv_taken_timer(1) [of b a n i ec s] by (simp add: AA_state_inv_def)
  show "AA_state_inv b a n (post_tasks [TaskTimer WaitTimer ec] s) \<Longrightarrow>
     ok b (AA_state_inv b a n) (AA_handleMuxWaitTimeout ec s)"
    using stop [of WaitTimer] by (simp add: AA_handleMuxWaitTimeout_def)
  show "AA_state_inv b a n (post_tasks [TaskTimer DeadlineTimer ec] s) \<Longrightarrow>
     ok b (AA_state_inv b a n) (AA_handleMuxProbeTimeout ec s)"
    using stop [of DeadlineTimer] by (simp add: AA_handleMuxProbeTimeout_def Let_def)
qed


section \<open>The dispatcher\<close>

lemma AA_prober_processEvent_current:
  assumes "LinkProberStateMachineActiveActive_processEvent cfg e m = (m', ts)"
  shows "psm_current m' = psm_current m \<or> TaskProberChange (psm_current m') \<in> set ts"
    and "psm_mCurrentPeerState m' = psm_mCurrentPeerState m \<or> TaskPeerChange (psm_mCurrentPeerState m') \<in> set ts"
proof (atomize(full), cases e)
  case (IcmpEvent i)
  then show "(psm_current m' = psm_current m \<or> TaskProberChange (psm_current m') \<in> set ts) \<and>
    (psm_mCurrentPeerState m' = psm_mCurrentPeerState m \<or> TaskPeerChange (psm_mCurrentPeerState m') \<in> set ts)"
    using assms prober_processEvent_current [of cfg i m m'] prober_processPeerEvent_current [of cfg i m m']
    by (auto split: prod.splits if_splits)
qed (use assms in auto)

lemma AA_inv_replace_prober:
  assumes inv: "AA_inv b a n s c"
    and own: "psm_current m = psm_current (mLinkProberStateMachinePtr s) \<or> TaskProberChange (psm_current m) \<in> set ts"
    and peer: "psm_mCurrentPeerState m = psm_mCurrentPeerState (mLinkProberStateMachinePtr s) \<or>
      TaskPeerChange (psm_mCurrentPeerState m) \<in> set ts"
  shows "AA_inv b a n (post_tasks ts (s\<lparr>mLinkProberStateMachinePtr := m\<rparr>)) c"
proof -
  let ?s = "post_tasks ts (s\<lparr>mLinkProberStateMachinePtr := m\<rparr>)"
  have "synced s c" and "peer_synced s" using inv by (simp_all add: AA_inv_def AA_data_ok_def)
  from \<open>synced s c\<close> own have "synced ?s c"
    by (elim disjE) (auto simp: synced_def)
  moreover from \<open>peer_synced s\<close> peer have "peer_synced ?s"
    by (elim disjE) (auto simp: peer_synced_def)
  ultimately show ?thesis
    using inv by (auto simp: AA_inv_def AA_data_ok_def AA_calls_ok_def AA_activated_def timer_alive_def
        component_all_def)
qed

lemma AA_state_inv_events:
  assumes "AA_state_inv b a n s"
  shows "AA_state_inv b a n (AA_process_prober_event e s)" "AA_state_inv b a n (process_mux_event e' s)"
    "AA_state_inv b a n (process_link_event e'' s)"
proof -
  show "AA_state_inv b a n (AA_process_prober_event e s)"
  proof (cases "LinkProberStateMachineActiveActive_processEvent (mMuxPortConfig s) e (mLinkProberStateMachinePtr s)")
    case (Pair m ts)
    then show ?thesis
      using assms AA_prober_processEvent_current [OF Pair]
      by (simp add: AA_process_prober_event_def AA_state_inv_def AA_inv_replace_prober)
  qed
  show "AA_state_inv b a n (process_mux_event e' s)"
  proof (cases "MuxStateMachine_processEvent (mMuxPortConfig s) e' (mMuxStateMachine s)")
    case (Pair m ts)
    then show ?thesis
      using assms mux_processEvent_current [OF Pair]
      by (auto simp: process_mux_event_def AA_state_inv_def AA_inv_defs synced_def timer_alive_def
          component_all_def split: if_splits)
  qed
  show "AA_state_inv b a n (process_link_event e'' s)"
  proof (cases "LinkStateMachine_processEvent (mMuxPortConfig s) e'' (mLinkStateMachine s)")
    case (Pair m ts)
    then show ?thesis
      using assms link_processEvent_current [OF Pair]
      by (auto simp: process_link_event_def AA_state_inv_def AA_inv_defs synced_def timer_alive_def
          component_all_def split: if_splits)
  qed
qed

lemmas AA_state_inv_handlers =
  AA_state_inv_soc AA_state_inv_server_mac AA_state_inv_well_known_mac AA_state_inv_src_mac
  AA_state_inv_probe_mux AA_state_inv_probe_failure AA_state_inv_mux_state AA_state_inv_peer_mux
  AA_state_inv_link_state AA_state_inv_config AA_state_inv_default_route AA_state_inv_prober_requests
  AA_state_inv_events

lemma AA_run_state_inv:
  assumes "AA_state_inv b True (length (calls s)) (post_tasks [t] s)"
  shows "ok b (AA_state_inv b True (length (calls s))) (AA_run t s)"
proof (cases "plain_task t")
  case True
  with assms have "AA_state_inv b True (length (calls s)) s"
    by (auto simp: AA_state_inv_def dest: AA_inv_taken)
  with True show ?thesis
    by (cases "(t, s)" rule: AA_run.cases)
      (simp_all add: AA_state_inv_handlers LinkManagerStateMachineBase_noop_handler_def)
next
  case False
  have same: "AA_state_inv b True (length (calls s)) s" if "t = TaskTimer i ec" "i = PeerWaitTimer \<or> i = OscillationTimer" for i ec
    using assms AA_inv_taken_timer(2) [of b True _ i ec s] that by (simp add: AA_state_inv_def)
  show ?thesis
  proof (cases t)
    case (TaskTimer i ec)
    with assms show ?thesis
      by (cases i) (simp_all add: AA_state_inv_timeouts AA_state_inv_resync AA_state_inv_peer_wait_timeout
          LinkManagerStateMachineBase_noop_handler_def same)
  qed (use False assms in \<open>simp_all add: AA_state_inv_prober_change AA_state_inv_mux_change
      AA_state_inv_link_change AA_state_inv_peer_change\<close>)
qed

definition AA_reach_inv :: "bool \<Rightarrow> aa_state \<Rightarrow> bool" where
  "AA_reach_inv b s \<longleftrightarrow> AA_state_inv b True (length (calls s)) s"

lemma AA_reach_inv_take_task:
  "AA_reach_inv b s \<Longrightarrow> i < length (tasks s) \<Longrightarrow>
     AA_state_inv b True (length (calls s)) (post_tasks [tasks s ! i] (take_task i s))"
  using set_take_task [of i s] synced_take_task [of s "mCompositeState s" i]
  by (auto simp: AA_reach_inv_def AA_state_inv_def AA_inv_defs take_task_def timer_alive_def component_all_def)

lemma AA_state_inv_reach: "AA_state_inv b True n s \<Longrightarrow> AA_reach_inv b s"
  by (simp add: AA_reach_inv_def AA_state_inv_def AA_inv_defs)

interpretation AA_strand: strand_invariant AA_run "AA_reach_inv b" for b
proof
  show "AA_reach_inv b s'" if "AA_reach_inv b s" "i < length (tasks s)"
    "AA_run (tasks s ! i) (take_task i s) = Some s'" for s i s'
    using AA_run_state_inv [of b "take_task i s" "tasks s ! i"] AA_reach_inv_take_task [OF that(1,2)] that(3)
    by (auto dest: ok_SomeD intro: AA_state_inv_reach)
  show "AA_reach_inv b (fire_timer j s)" if "AA_reach_inv b s" for s j
    using that by (auto simp: AA_reach_inv_def AA_state_inv_def AA_inv_defs synced_def fire_timer_def
        timer_alive_def component_all_def)
qed (simp_all add: AA_reach_inv_def AA_state_inv_def)

lemma AA_reach_inv_new: "AA_reach_inv False (ActiveActiveStateMachine_new cfg)"
  by (simp add: AA_reach_inv_def AA_state_inv_def AA_inv_defs synced_def ActiveActiveStateMachine_new_def published_def
      LinkProberStateMachineActiveActive_new_def MuxStateMachine_new_def LinkStateMachine_new_def component_all_def)

end
