(* ===== verification/Active_Active_Properties.thy ===== *)
theory Active_Active_Properties
  imports Active_Active_Props Sub_Machine_Properties "HOL-Library.Code_Target_Nat"
begin

text \<open>
  The properties of the active-active link manager: the invariants of its reachable states, by
  the interpretation \<open>AA_strand\<close>, an abstract specification of its decisions that the
  transition table refines, and what single handlers do.
\<close>

abbreviation AA_reachable :: "mux_port_config \<Rightarrow> aa_state \<Rightarrow> bool" where
  "AA_reachable cfg \<equiv> port_reachable AA_run (ActiveActiveStateMachine_new cfg)"

lemma AA_reachable_inv: "AA_reachable cfg s \<Longrightarrow> AA_reach_inv False s"
  using AA_strand.inv_reachable AA_reach_inv_new by blast

lemma AA_reachable_inv_bound: "AA_reachable cfg s \<Longrightarrow> mLinkProberPtr s \<noteq> None \<Longrightarrow> AA_reach_inv True s"
  using AA_reachable_inv by (simp add: AA_reach_inv_def AA_state_inv_def AA_inv_defs)

section \<open>A booted port, for the witnesses\<close>

definition AA_boot :: "nat \<Rightarrow> mux_mode \<Rightarrow> mux_label \<Rightarrow> task list \<Rightarrow> aa_state option" where
  "AA_boot n m l ts = drain AA_run n (post_tasks
     ([TaskSoCIpv4 5, TaskLinkState LinkUp, TaskDefaultRoute RouteOK, TaskMuxState l, TaskMuxConfig m] @ ts)
     (ActiveActiveStateMachine_new (sample_port_config CableActiveActive)))"

lemma AA_boot_reachable:
  "AA_boot n m l ts = Some s \<Longrightarrow> l \<noteq> MuxWait \<Longrightarrow> (\<And>t. t \<in> set ts \<Longrightarrow> external_task t) \<Longrightarrow>
     AA_reachable (sample_port_config CableActiveActive) s"
  unfolding AA_boot_def
  by (rule drain_reachable [rotated], assumption, rule posts_reachable)
    (auto intro: reach_start simp: list_all_iff)

section \<open>Invariants of the reachable states\<close>

text \<open>
  C10. In every reachable state with no label change on its way, the composite state of the
  active-active manager is the triple of the current states of its three machines.
\<close>
theorem AA_composite_follows_machines:
  assumes "AA_reachable cfg s" and "quiescent s"
  shows "mCompositeState s = machine_labels s"
  using AA_reachable_inv [OF assms(1)] assms(2)
  by (simp add: AA_reach_inv_def AA_state_inv_def AA_inv_def synced_quiescent)

lemma AA_composite_follows_machines_witness:
  "\<exists>s. AA_boot 20 ModeAuto MuxActive (replicate 3 (TaskProberEvent (IcmpEvent IcmpUnknownEvent))) = Some s \<and>
     machine_labels s = \<lparr>ps = ProberUnknown, ms = MuxStandby, ls = LinkUp\<rparr> \<and> mCompositeState s = machine_labels s"
proof -
  have "map_option (\<lambda>s. (quiescent s, machine_labels s))
      (AA_boot 20 ModeAuto MuxActive (replicate 3 (TaskProberEvent (IcmpEvent IcmpUnknownEvent)))) =
    Some (True, \<lparr>ps = ProberUnknown, ms = MuxStandby, ls = LinkUp\<rparr>)" by code_simp
  from run_result [OF this] obtain s
    where s: "AA_boot 20 ModeAuto MuxActive (replicate 3 (TaskProberEvent (IcmpEvent IcmpUnknownEvent))) = Some s"
      "quiescent s" "machine_labels s = \<lparr>ps = ProberUnknown, ms = MuxStandby, ls = LinkUp\<rparr>" by blast
  have "AA_reachable (sample_port_config CableActiveActive) s"
    using AA_boot_reachable [OF s(1)] by simp
  from AA_composite_follows_machines [OF this s(2)] s show ?thesis by metis
qed



text \<open>
  C12. Every forwarding state the active-active manager sets is one the configured mode allows:
  in manual mode none, in active mode only active, in standby mode only standby; and it sets
  the peer's forwarding state in auto mode only.
\<close>
theorem AA_switch_respects_mode:
  assumes "AA_reachable cfg s" and "i < length (tasks s)"
    and "AA_run (tasks s ! i) (take_task i s) = Some s'" and "c \<in> set (new_calls s s')"
  shows "AA_call_allowed (mMode (mMuxPortConfig s')) c"
proof -
  have "AA_state_inv False True (length (calls (take_task i s))) (post_tasks [tasks s ! i] (take_task i s))"
    using AA_reach_inv_take_task [OF AA_reachable_inv [OF assms(1)] assms(2)] by simp
  from ok_SomeD [OF AA_run_state_inv [OF this] assms(3)] assms(4) show ?thesis
    by (simp add: AA_state_inv_def AA_inv_defs new_calls_def list_all_iff)
qed

lemma AA_switch_respects_mode_witness:
  "\<exists>s s'. AA_boot 8 ModeStandby MuxActive (replicate 3 (TaskProberEvent (IcmpEvent IcmpUnknownEvent))) = Some s \<and> AA_run (tasks s ! 0) (take_task 0 s) = Some s' \<and>
     new_calls s s' \<noteq> [] \<and> list_all (AA_call_allowed ModeStandby) (new_calls s s')"
proof -
  have "map_option (\<lambda>s. (0 < length (tasks s), map_option (\<lambda>s'. (mMode (mMuxPortConfig s'), new_calls s s' \<noteq> []))
      (AA_run (tasks s ! 0) (take_task 0 s))))
    (AA_boot 8 ModeStandby MuxActive (replicate 3 (TaskProberEvent (IcmpEvent IcmpUnknownEvent)))) = Some (True, Some (ModeStandby, True))" by code_simp
  from run_result [OF this] obtain s s'
    where s: "AA_boot 8 ModeStandby MuxActive (replicate 3 (TaskProberEvent (IcmpEvent IcmpUnknownEvent))) = Some s" "0 < length (tasks s)"
      "AA_run (tasks s ! 0) (take_task 0 s) = Some s'" "mMode (mMuxPortConfig s') = ModeStandby" "new_calls s s' \<noteq> []"
    by auto
  have "AA_reachable (sample_port_config CableActiveActive) s" using AA_boot_reachable [OF s(1)] by simp
  from AA_switch_respects_mode [OF this s(2,3)] s show ?thesis by (auto simp: list_all_iff)
qed

text \<open>
  C15. The periodic re-synchronisation with the server never stops: in every reachable state
  of an activated port its timer is armed or its handler is queued, and no configured mode is
  left waiting for the activation.
\<close>
theorem AA_resync_never_stops:
  assumes "AA_reachable cfg s" and "component_all s"
  shows "timer_alive ResyncTimer s \<and> mWaitStateMachineInit s = []"
  using AA_reachable_inv [OF assms(1)] assms(2)
  by (simp add: AA_reach_inv_def AA_state_inv_def AA_inv_defs)

lemma AA_resync_never_stops_witness:
  "\<exists>s. AA_boot 5 ModeAuto MuxActive [] = Some s \<and> component_all s \<and> timer_alive ResyncTimer s"
proof -
  have "map_option component_all (AA_boot 5 ModeAuto MuxActive []) = Some True" by code_simp
  from run_result [OF this] obtain s where s: "AA_boot 5 ModeAuto MuxActive [] = Some s" "component_all s" by auto
  have "AA_reachable (sample_port_config CableActiveActive) s" using AA_boot_reachable [OF s(1)] by simp
  from AA_resync_never_stops [OF this s(2)] s show ?thesis by blast
qed

text \<open>
  C16. The flag that suppresses MUX probes is never stuck: in every reachable state in which
  \<open>mWaitMux\<close> is set, one of the two timers whose handlers clear it is armed or queued.
\<close>
theorem AA_wait_flag_backed:
  assumes "AA_reachable cfg s" and "mWaitMux s"
  shows "timer_alive DeadlineTimer s \<or> timer_alive WaitTimer s"
  using AA_reachable_inv [OF assms(1)] assms(2)
  by (simp add: AA_reach_inv_def AA_state_inv_def AA_inv_defs)

lemma AA_wait_flag_backed_witness:
  "\<exists>s. AA_boot 20 ModeAuto MuxActive (replicate 3 (TaskProberEvent (IcmpEvent IcmpUnknownEvent))) = Some s \<and> mWaitMux s \<and>
     (timer_alive DeadlineTimer s \<or> timer_alive WaitTimer s)"
proof -
  have "map_option mWaitMux (AA_boot 20 ModeAuto MuxActive (replicate 3 (TaskProberEvent (IcmpEvent IcmpUnknownEvent)))) = Some True" by code_simp
  from run_result [OF this] obtain s where s: "AA_boot 20 ModeAuto MuxActive (replicate 3 (TaskProberEvent (IcmpEvent IcmpUnknownEvent))) = Some s" "mWaitMux s" by auto
  have "AA_reachable (sample_port_config CableActiveActive) s" using AA_boot_reachable [OF s(1)] by simp
  from AA_wait_flag_backed [OF this s(2)] s show ?thesis by blast
qed

text \<open>
  C17. In every reachable state with no peer change on its way, the peer prober state that the
  manager keeps is the current peer state of the link prober machine.
\<close>
theorem AA_peer_follows_machine:
  assumes "AA_reachable cfg s" and "\<And>l. TaskPeerChange l \<notin> set (tasks s)"
  shows "mPeerLinkProberState s = psm_mCurrentPeerState (mLinkProberStateMachinePtr s)"
  using AA_reachable_inv [OF assms(1)] assms(2)
  by (auto simp: AA_reach_inv_def AA_state_inv_def AA_inv_defs)

lemma AA_peer_follows_machine_witness:
  "\<exists>s. AA_boot 20 ModeAuto MuxActive [TaskProberEvent (IcmpEvent IcmpPeerActiveEvent)] = Some s \<and>
     mPeerLinkProberState s = ProberPeerActive \<and>
     psm_mCurrentPeerState (mLinkProberStateMachinePtr s) = ProberPeerActive"
proof -
  have "map_option (\<lambda>s. (tasks s, mPeerLinkProberState s))
    (AA_boot 20 ModeAuto MuxActive [TaskProberEvent (IcmpEvent IcmpPeerActiveEvent)]) =
    Some ([], ProberPeerActive)" by code_simp
  from run_result [OF this] obtain s
    where s: "AA_boot 20 ModeAuto MuxActive [TaskProberEvent (IcmpEvent IcmpPeerActiveEvent)] = Some s"
      "tasks s = []" "mPeerLinkProberState s = ProberPeerActive" by auto
  have "AA_reachable (sample_port_config CableActiveActive) s" using AA_boot_reachable [OF s(1)] by simp
  from AA_peer_follows_machine [OF this] s show ?thesis by simp
qed

text \<open>
  C19. The probe backoff factor of the active-active manager lies between 1 and 32 in every
  reachable state, and the health last published is the manager's label.
\<close>
theorem AA_backoff_and_published_health:
  assumes "AA_reachable cfg s"
  shows "unat (mMuxProbeBackoffFactor s) \<in> {1..32} \<and> published s"
  using AA_reachable_inv [OF assms]
  by (simp add: AA_reach_inv_def AA_state_inv_def AA_inv_defs factor_ok_def AA_MAX_BACKOFF_FACTOR_def)

lemma AA_backoff_and_published_health_witness:
  "\<exists>s. AA_boot 5 ModeAuto MuxActive [] = Some s \<and> mLabel s = Healthy \<and> published s"
proof -
  have "map_option mLabel (AA_boot 5 ModeAuto MuxActive []) = Some Healthy" by code_simp
  from run_result [OF this] obtain s where s: "AA_boot 5 ModeAuto MuxActive [] = Some s" "mLabel s = Healthy" by auto
  have "AA_reachable (sample_port_config CableActiveActive) s" using AA_boot_reachable [OF s(1)] by simp
  from AA_backoff_and_published_health [OF this] s show ?thesis by blast
qed

section \<open>The decisions\<close>

text \<open>
  What the manager may decide for a composite state: nothing, a probe of the MUX with a retry
  timer, or a switch, forced or not.
\<close>

datatype decision = Keep | ProbeAgain | SwitchTo mux_label bool

text \<open>The label the heartbeats ask for: own heartbeats keep the ToR active, their loss makes it standby.\<close>

definition heartbeat_target :: "prober_label \<Rightarrow> mux_label" where
  "heartbeat_target p = (if p = ProberActive then MuxActive else MuxStandby)"

text \<open>A fixed mode contradicts the heartbeats; then the fixed label is enforced.\<close>

definition fixed_against :: "mux_mode \<Rightarrow> mux_label \<Rightarrow> bool" where
  "fixed_against m target \<longleftrightarrow> (m = ModeStandby \<and> target = MuxActive) \<or> (m = ModeActive \<and> target = MuxStandby)"

definition opposite :: "mux_label \<Rightarrow> mux_label" where
  "opposite l = (if l = MuxActive then MuxStandby else MuxActive)"

definition not_confirmed :: "aa_state \<Rightarrow> mux_label \<Rightarrow> bool" where
  "not_confirmed s l \<longleftrightarrow> mLastMuxStateNotification s \<noteq> l \<or>
     (mLastMuxNotificationType s = MuxNotificationFromProbe \<and> mLastMuxProbeNotification s \<noteq> l)"

definition AA_decide :: "aa_state \<Rightarrow> composite \<Rightarrow> decision" where
  "AA_decide s ns =
     (let target = heartbeat_target (ps ns); changed = (ps (mCompositeState s) \<noteq> ps ns) in
      if ps ns \<notin> {ProberActive, ProberUnknown} then Keep
      else if ls ns = LinkDown then
        (if ps ns = ProberActive then Keep
         else if ms ns = MuxActive then SwitchTo MuxStandby False
         else if ms ns \<in> {MuxWait, MuxUnknown}
         then (if changed then SwitchTo MuxStandby False else ProbeAgain)
         else Keep)
      else if ms ns \<in> {MuxActive, MuxStandby} then
        (if fixed_against (mMode (mMuxPortConfig s)) target
         then (if not_confirmed s (opposite target) then SwitchTo (opposite target) True else Keep)
         else if ms ns = target
         then (if mLastMuxStateNotification s = MuxUnknown then SwitchTo target False else Keep)
         else if target = MuxActive \<and> mDefaultRouteState s = RouteNA then Keep
         else SwitchTo target False)
      else if ms ns = MuxUnknown then (if changed then SwitchTo target False else ProbeAgain)
      else if ms ns = MuxWait then SwitchTo target False
      else if target = MuxActive then ProbeAgain else Keep)"

fun AA_perform :: "decision \<Rightarrow> aa_state \<Rightarrow> composite \<Rightarrow> (aa_state \<times> composite) option" where
  "AA_perform Keep s ns = Some (s, ns)"
| "AA_perform ProbeAgain s ns = Some (AA_startMuxProbeTimer s, ns)"
| "AA_perform (SwitchTo l f) s ns = AA_switchMuxState l f s ns"

text \<open>
  C14. The transition table implements the abstract decision: for every composite state, every
  mode and every history of notifications, the twelve entries and the empty ones together do
  exactly what \<open>AA_decide\<close> prescribes, so the heartbeats decide the target, a fixed mode
  overrides them until it is confirmed, and a missing default route blocks a switch to active.
\<close>
theorem AA_table_refines_decision:
  "AA_transition s ns = AA_perform (AA_decide s ns) s ns"
  unfolding AA_transition_def
  by (cases "ps ns"; cases "ms ns"; cases "ls ns")
    (auto simp: AA_transition_defs AA_decide_def heartbeat_target_def fixed_against_def opposite_def
      not_confirmed_def Let_def)





definition AA_healthy :: "aa_state \<Rightarrow> bool" where
  "AA_healthy s \<longleftrightarrow> ls (mCompositeState s) = LinkUp \<and> ps (mCompositeState s) = ProberActive \<and>
     (mLastMuxStateNotification s \<in> {ms (mCompositeState s), MuxUnknown} \<or>
      (mLastMuxNotificationType s = MuxNotificationFromProbe \<and> mLastMuxProbeNotification s = MuxUnknown)) \<and>
     (ifEnableDefaultRouteFeature (mMuxPortConfig s) \<longrightarrow> mDefaultRouteState s = RouteOK)"

lemma AA_updateMuxLinkmgrState_label:
  "mLabel (AA_updateMuxLinkmgrState s) = (if AA_healthy (AA_updateMuxLinkmgrState s) then Healthy else Unhealthy)"
  by (auto simp: AA_updateMuxLinkmgrState_def AA_healthy_def AA_setLabel_def Let_def)

text \<open>
  C18. The health label of the active-active manager is recomputed by every change of state: after a
  prober, MUX, link or default route change it is Healthy exactly when the link is up, the own
  heartbeats arrive, the MUX is in the state last notified (or the last notification or probe
  was inconclusive), and the default route, if its feature is on, is present.
\<close>
theorem AA_label_matches_health:
  assumes "AA_run t s = Some s'" and "label_change t \<or> (\<exists>r. t = TaskDefaultRoute r)"
  shows "mLabel s' = (if AA_healthy s' then Healthy else Unhealthy)"
  using assms
  by (cases t)
    (auto simp: AA_handleStateChange_prober_def AA_handleStateChange_mux_def AA_handleStateChange_link_def
      AA_handleDefaultRouteStateNotification_def Let_def bind_eq_Some_conv AA_updateMuxLinkmgrState_label)

lemma AA_label_matches_health_witness:
  "\<exists>s s'. AA_boot 8 ModeAuto MuxActive (replicate 3 (TaskProberEvent (IcmpEvent IcmpUnknownEvent))) = Some s \<and> mLabel s = Healthy \<and>
     AA_run (TaskProberChange ProberUnknown) s = Some s' \<and> \<not> AA_healthy s' \<and> mLabel s' = Unhealthy"
proof -
  have "map_option (\<lambda>s. (mLabel s, map_option AA_healthy (AA_run (TaskProberChange ProberUnknown) s)))
    (AA_boot 8 ModeAuto MuxActive (replicate 3 (TaskProberEvent (IcmpEvent IcmpUnknownEvent)))) = Some (Healthy, Some False)" by code_simp
  from run_result [OF this] obtain s s' where s: "AA_boot 8 ModeAuto MuxActive (replicate 3 (TaskProberEvent (IcmpEvent IcmpUnknownEvent))) = Some s" "mLabel s = Healthy"
      "AA_run (TaskProberChange ProberUnknown) s = Some s'" "\<not> AA_healthy s'" by auto
  from AA_label_matches_health [OF s(3)] s show ?thesis by auto
qed

end
