(* ===== verification/Mux_Port.thy ===== *)
theory Mux_Port
  imports Link_Manager_Base
begin

text \<open>
  \<open>MuxPort.cpp\<close>: the strings of the data bases become labels and are posted to the port's
  strand as tasks; and the string tables of \<open>DbInterface.cpp\<close> that write labels back. The port's
  configuration is the one its link manager holds.
\<close>

section \<open>Reading\<close>

definition link_state_of :: "string \<Rightarrow> link_label" where
  "link_state_of s = (if s = ''up'' then LinkUp else LinkDown)"

definition peer_link_state_of :: "string \<Rightarrow> link_label" where
  "peer_link_state_of s = (if s = ''down'' then LinkDown else LinkUp)"

definition mux_state_of :: "string \<Rightarrow> mux_label" where
  "mux_state_of s =
     (if s = ''active'' then MuxActive else if s = ''standby'' then MuxStandby
      else if s = ''error'' then MuxError else MuxUnknown)"

definition probe_state_of :: "string \<Rightarrow> mux_label" where
  "probe_state_of s =
     (if s = ''active'' then MuxActive else if s = ''standby'' then MuxStandby else MuxUnknown)"

lemma decoded_not_wait [simp]: "mux_state_of s \<noteq> MuxWait" "probe_state_of s \<noteq> MuxWait"
  by (simp_all add: mux_state_of_def probe_state_of_def)

section \<open>Handlers\<close>

definition MuxPort_handleBladeIpv4AddressUpdate :: "ip_address \<Rightarrow> 'a lm_base_scheme \<Rightarrow> 'a lm_base_scheme" where
  "MuxPort_handleBladeIpv4AddressUpdate a p = post_tasks [TaskBladeIpv4 a] p"

definition MuxPort_handleSoCIpv4AddressUpdate :: "ip_address \<Rightarrow> 'a lm_base_scheme \<Rightarrow> 'a lm_base_scheme" where
  "MuxPort_handleSoCIpv4AddressUpdate a p = post_tasks [TaskSoCIpv4 a] p"

definition MuxPort_updateLinkFailureDetectionState :: "string \<Rightarrow> string \<Rightarrow> 'a lm_base_scheme \<Rightarrow> 'a lm_base_scheme" where
  "MuxPort_updateLinkFailureDetectionState st ty p = post_tasks [TaskLinkFailureDetection st ty] p"

text \<open>Not posted: it writes the configuration from the calling thread.\<close>

definition MuxPort_updateProberType :: "string \<Rightarrow> 'a lm_base_scheme \<Rightarrow> 'a lm_base_scheme" where
  "MuxPort_updateProberType ty p =
     p\<lparr>mMuxPortConfig :=
        setLinkProberType (if ty = ''hardware'' then ProberHardware else ProberSoftware) (mMuxPortConfig p)\<rparr>"

definition MuxPort_handleLinkState :: "string \<Rightarrow> 'a lm_base_scheme \<Rightarrow> 'a lm_base_scheme" where
  "MuxPort_handleLinkState st p = post_tasks [TaskLinkState (link_state_of st)] p"

definition MuxPort_handlePeerLinkState :: "string \<Rightarrow> 'a lm_base_scheme \<Rightarrow> 'a lm_base_scheme" where
  "MuxPort_handlePeerLinkState st p = post_tasks [TaskPeerLinkState (peer_link_state_of st)] p"

definition MuxPort_handleGetServerMacAddress :: "mac_address \<Rightarrow> 'a lm_base_scheme \<Rightarrow> 'a lm_base_scheme" where
  "MuxPort_handleGetServerMacAddress a p = post_tasks [TaskServerMac a] p"

text \<open>The receive interval handed to the data base, computed in \<open>uint32_t\<close>.\<close>

definition MuxPort_rx_interval :: "u32 \<Rightarrow> mux_port_config \<Rightarrow> u32" where
  "MuxPort_rx_interval timeout cfg = timeout * getNegativeStateChangeRetryCount cfg"

definition MuxPort_handleUseWellKnownMacAddress :: "'a lm_base_scheme \<Rightarrow> 'a lm_base_scheme" where
  "MuxPort_handleUseWellKnownMacAddress p = post_tasks [TaskUseWellKnownMac] p"

definition MuxPort_handleSrcMacAddressUpdate :: "'a lm_base_scheme \<Rightarrow> 'a lm_base_scheme" where
  "MuxPort_handleSrcMacAddressUpdate p = post_tasks [TaskSrcMacConfig] p"

definition MuxPort_handleGetMuxState :: "string \<Rightarrow> 'a lm_base_scheme \<Rightarrow> 'a lm_base_scheme" where
  "MuxPort_handleGetMuxState st p = post_tasks [TaskGetMuxState (mux_state_of st)] p"

definition MuxPort_handleProbeMuxState :: "string \<Rightarrow> 'a lm_base_scheme \<Rightarrow> 'a lm_base_scheme" where
  "MuxPort_handleProbeMuxState st p =
     (if st \<noteq> ''active'' \<and> st \<noteq> ''standby'' \<and> st = ''failure'' \<and>
         mPortCableType (mMuxPortConfig p) = CableActiveActive
      then post_tasks [TaskProbeMuxFailure] p
      else post_tasks [TaskProbeMuxState (probe_state_of st)] p)"

definition MuxPort_handleMuxState :: "string \<Rightarrow> 'a lm_base_scheme \<Rightarrow> 'a lm_base_scheme" where
  "MuxPort_handleMuxState st p = post_tasks [TaskMuxState (mux_state_of st)] p"

definition MuxPort_handleMuxConfig :: "string \<Rightarrow> 'a lm_base_scheme \<Rightarrow> 'a lm_base_scheme" where
  "MuxPort_handleMuxConfig st p =
     (if st = ''active'' then post_tasks [TaskMuxConfig ModeActive] p
      else if st = ''manual'' then post_tasks [TaskMuxConfig ModeManual] p
      else if st = ''standby'' then post_tasks [TaskMuxConfig ModeStandby] p
      else if st = ''detach'' then
        (if mPortCableType (mMuxPortConfig p) = CableActiveStandby then p
         else post_tasks [TaskMuxConfig ModeDetached] p)
      else post_tasks [TaskMuxConfig ModeAuto] p)"

definition MuxPort_handlePeerMuxState :: "string \<Rightarrow> 'a lm_base_scheme \<Rightarrow> 'a lm_base_scheme" where
  "MuxPort_handlePeerMuxState st p = post_tasks [TaskPeerMuxState (mux_state_of st)] p"

definition MuxPort_handleDefaultRouteState :: "string \<Rightarrow> 'a lm_base_scheme \<Rightarrow> 'a lm_base_scheme" where
  "MuxPort_handleDefaultRouteState st p =
     post_tasks [TaskDefaultRoute (if st = ''na'' \<and> ifEnableDefaultRouteFeature (mMuxPortConfig p)
       then RouteNA else RouteOK)] p"

definition MuxPort_resetPckLossCount :: "'a lm_base_scheme \<Rightarrow> 'a lm_base_scheme" where
  "MuxPort_resetPckLossCount p = post_tasks [TaskResetPckLoss] p"

definition MuxPort_handleTsaEnable :: "bool \<Rightarrow> 'a lm_base_scheme \<Rightarrow> 'a lm_base_scheme" where
  "MuxPort_handleTsaEnable enable p =
     post_tasks [TaskMuxConfig (if enable then ModeStandby else ModeAuto)] p"

definition MuxPort_handleResetSuspendTimer :: "'a lm_base_scheme \<Rightarrow> 'a lm_base_scheme" where
  "MuxPort_handleResetSuspendTimer p = post_tasks [TaskResetSuspendTimer] p"

text \<open>What \<open>probeMuxState\<close> and \<open>warmRestartReconciliation\<close> ask of the data base.\<close>

datatype db_request = DbProbeForwardingState string | DbProbeMuxState string | DbWarmRestartReconciliation string

definition MuxPort_probeMuxState :: "mux_port_config \<Rightarrow> db_request list" where
  "MuxPort_probeMuxState cfg =
     (case mPortCableType cfg of
        CableActiveActive \<Rightarrow> [DbProbeForwardingState (mPortName cfg)]
      | CableActiveStandby \<Rightarrow> [DbProbeMuxState (mPortName cfg)])"

definition MuxPort_warmRestartReconciliation :: "mux_port_config \<Rightarrow> db_request list" where
  "MuxPort_warmRestartReconciliation cfg =
     (if mMode cfg \<noteq> ModeAuto then [DbWarmRestartReconciliation (mPortName cfg)] else [])"

lemmas MuxPort_defs =
  MuxPort_handleBladeIpv4AddressUpdate_def MuxPort_handleSoCIpv4AddressUpdate_def
  MuxPort_updateLinkFailureDetectionState_def MuxPort_handleLinkState_def MuxPort_handlePeerLinkState_def
  MuxPort_handleGetServerMacAddress_def MuxPort_handleUseWellKnownMacAddress_def
  MuxPort_handleSrcMacAddressUpdate_def MuxPort_handleGetMuxState_def MuxPort_handleProbeMuxState_def
  MuxPort_handleMuxState_def MuxPort_handleMuxConfig_def MuxPort_handlePeerMuxState_def
  MuxPort_handleDefaultRouteState_def MuxPort_resetPckLossCount_def MuxPort_handleTsaEnable_def
  MuxPort_handleResetSuspendTimer_def

section \<open>Writing\<close>

text \<open>
  \<open>DbInterface::mMuxState\<close>, indexed by the label; it has no entry for Wait, the index of which
  lies past its end: \<open>None\<close>.
\<close>

definition DbInterface_mMuxState :: "string list" where
  "DbInterface_mMuxState = [''active'', ''standby'', ''unknown'', ''Error'']"

fun mux_label_index :: "mux_label \<Rightarrow> nat" where
  "mux_label_index MuxActive = 0"
| "mux_label_index MuxStandby = 1"
| "mux_label_index MuxUnknown = 2"
| "mux_label_index MuxError = 3"
| "mux_label_index MuxWait = 4"

definition mux_state_name :: "mux_label \<Rightarrow> string option" where
  "mux_state_name l =
     (if mux_label_index l < length DbInterface_mMuxState then Some (DbInterface_mMuxState ! mux_label_index l)
      else None)"

text \<open>
  \<open>handleSetMuxState\<close> and \<open>handleSetPeerMuxState\<close>: the state field they write, if any; a label
  above Unknown is dropped.
\<close>

definition DbInterface_handleSetMuxState :: "mux_label \<Rightarrow> string option" where
  "DbInterface_handleSetMuxState l =
     (if mux_label_index l \<le> mux_label_index MuxUnknown then mux_state_name l else None)"

definition DbInterface_handleSetPeerMuxState :: "mux_label \<Rightarrow> string option" where
  "DbInterface_handleSetPeerMuxState l =
     (if mux_label_index l \<le> mux_label_index MuxUnknown then mux_state_name l else None)"

definition DbInterface_mMuxLinkmgrState :: "string list" where
  "DbInterface_mMuxLinkmgrState = [''uninitialized'', ''unhealthy'', ''healthy'']"

fun health_index :: "health \<Rightarrow> nat" where
  "health_index Uninitialized = 0"
| "health_index Unhealthy = 1"
| "health_index Healthy = 2"

lemmas db_name_defs = mux_state_name_def DbInterface_handleSetMuxState_def DbInterface_handleSetPeerMuxState_def DbInterface_mMuxState_def DbInterface_mMuxLinkmgrState_def

end
