(* ===== verification/Link_Prober_Packet.thy ===== *)
theory Link_Prober_Packet
  imports Port_Config
begin

text \<open>
  The heartbeat packet of \<open>link_prober/LinkProberBase.cpp\<close> and \<open>IcmpPayload.h\<close>: an Ethernet
  header, an IPv4 header, an ICMP echo header, a payload with the GUID of the sender, and a
  sequence of type-length-value records (TLVs). A buffer is a function from byte offsets to bytes;
  the fields that the code stores with \<open>htons\<close> and \<open>htonl\<close> are in network order.
\<close>

unbundle bit_operations_syntax

section \<open>Bytes, and numbers in network order\<close>

type_synonym buffer = "nat \<Rightarrow> u8"

definition be16 :: "u8 \<Rightarrow> u8 \<Rightarrow> u16" where
  "be16 h l = ucast h * 256 + ucast l"

definition ntohs_at :: "buffer \<Rightarrow> nat \<Rightarrow> u16" where
  "ntohs_at b i = be16 (b i) (b (Suc i))"

definition ntohl_at :: "buffer \<Rightarrow> nat \<Rightarrow> u32" where
  "ntohl_at b i = ucast (ntohs_at b i) * 65536 + ucast (ntohs_at b (i + 2))"

definition put16 :: "nat \<Rightarrow> u16 \<Rightarrow> buffer \<Rightarrow> buffer" where
  "put16 i w b = b(i := ucast (drop_bit 8 w), Suc i := ucast w)"

definition put32 :: "nat \<Rightarrow> u32 \<Rightarrow> buffer \<Rightarrow> buffer" where
  "put32 i w b = put16 (i + 2) (ucast w) (put16 i (ucast (drop_bit 16 w)) b)"

text \<open>\<open>memcpy\<close> of a list of bytes.\<close>

fun put_bytes :: "nat \<Rightarrow> u8 list \<Rightarrow> buffer \<Rightarrow> buffer" where
  "put_bytes i [] b = b"
| "put_bytes i (x # xs) b = put_bytes (Suc i) xs (b(i := x))"

lemma unat_u16_less: "unat (w :: u16) < 65536"
  using unsigned_less [of w] by simp

lemma unat_be16: "unat (be16 h l) = unat h * 256 + unat l"
  using unat_u8_less [of h] unat_u8_less [of l]
  by (simp add: be16_def unat_word_ariths unsigned_ucast_eq take_bit_nat_eq_self)

lemma unat_hi8: "unat (ucast (drop_bit 8 (w :: u16)) :: u8) = unat w div 256"
proof -
  have "unat w div 256 < 256" using unat_u16_less [of w] by simp
  then show ?thesis
    by (simp add: unsigned_ucast_eq unsigned_drop_bit_eq drop_bit_eq_div take_bit_nat_eq_self unat_div_distrib)
qed

lemma unat_lo8: "unat (ucast (w :: u16) :: u8) = unat w mod 256"
  by (simp add: unsigned_ucast_eq take_bit_eq_mod)

lemma be16_parts [simp]: "be16 (ucast (drop_bit 8 w)) (ucast w) = w"
  using unat_hi8 [of w] by (simp add: word_unat_eq_iff unat_be16 unat_lo8)

lemma ntohs_at_put16 [simp]: "ntohs_at (put16 i w b) i = w"
  by (simp add: ntohs_at_def put16_def)

lemma ntohs_at_put16_other [simp]:
  "j \<noteq> i \<Longrightarrow> Suc j \<noteq> i \<Longrightarrow> j \<noteq> Suc i \<Longrightarrow> ntohs_at (put16 i w b) j = ntohs_at b j"
  by (simp add: ntohs_at_def put16_def)

lemma put16_other [simp]: "j \<noteq> i \<Longrightarrow> j \<noteq> Suc i \<Longrightarrow> put16 i w b j = b j"
  by (simp add: put16_def)

lemma put32_other [simp]: "j < i \<or> i + 4 \<le> j \<Longrightarrow> put32 i w b j = b j"
  by (auto simp: put32_def)

lemma ntohl_at_put32 [simp]: "ntohl_at (put32 i w b) i = w"
proof -
  have "unat w < 2 ^ 32" using unsigned_less [of w] by simp
  then have "unat (ucast (ucast (drop_bit 16 w) :: u16) * 65536 + ucast (ucast w :: u16) :: u32) = unat w"
    by (simp add: unat_word_ariths unsigned_ucast_eq unsigned_drop_bit_eq drop_bit_eq_div take_bit_eq_mod)
  then show ?thesis
    by (simp add: ntohl_at_def put32_def word_unat_eq_iff)
qed

lemma put_bytes_other: "j < i \<or> i + length xs \<le> j \<Longrightarrow> put_bytes i xs b j = b j"
  by (induction xs arbitrary: i b) auto

lemma put_bytes_nth: "j < length xs \<Longrightarrow> put_bytes i xs b (i + j) = xs ! j"
proof (induction xs arbitrary: i b j)
  case (Cons x xs)
  then show ?case
    using Cons.IH [of "j - 1" "Suc i"] by (cases j) (auto simp: put_bytes_other)
qed simp

section \<open>Layout\<close>

text \<open>
  The sizes of \<open>ether_header\<close>, \<open>iphdr\<close>, \<open>icmphdr\<close>, \<open>IcmpPayload\<close>, \<open>TlvHead\<close> and \<open>Tlv\<close>; the structs of
  the payload are packed.
\<close>

abbreviation (input) sizeof_ether_header :: nat where "sizeof_ether_header \<equiv> 14"
abbreviation (input) sizeof_iphdr :: nat where "sizeof_iphdr \<equiv> 20"
abbreviation (input) sizeof_icmphdr :: nat where "sizeof_icmphdr \<equiv> 8"
abbreviation (input) sizeof_IcmpPayload :: nat where "sizeof_IcmpPayload \<equiv> 24"
abbreviation (input) sizeof_TlvHead :: nat where "sizeof_TlvHead \<equiv> 3"
abbreviation (input) sizeof_Tlv :: nat where "sizeof_Tlv \<equiv> 4"

definition MUX_MAX_ICMP_BUFFER_SIZE :: nat where
  "MUX_MAX_ICMP_BUFFER_SIZE = 9100"

definition mPacketHeaderSize :: nat where
  "mPacketHeaderSize = sizeof_ether_header + sizeof_iphdr + sizeof_icmphdr"

definition mTlvStartOffset :: nat where
  "mTlvStartOffset = sizeof_ether_header + sizeof_iphdr + sizeof_icmphdr + sizeof_IcmpPayload"

text \<open>Offsets of the two headers and of the fields of the ICMP header and of the payload.\<close>

abbreviation (input) ip_header :: nat where "ip_header \<equiv> 14"
abbreviation (input) icmp_header :: nat where "icmp_header \<equiv> 34"
abbreviation (input) icmp_checksum :: nat where "icmp_checksum \<equiv> 36"
abbreviation (input) icmp_echo_id :: nat where "icmp_echo_id \<equiv> 38"
abbreviation (input) icmp_echo_sequence :: nat where "icmp_echo_sequence \<equiv> 40"
abbreviation (input) ip_tot_len :: nat where "ip_tot_len \<equiv> 16"
abbreviation (input) ip_check :: nat where "ip_check \<equiv> 24"
abbreviation (input) payload_uuid :: nat where "payload_uuid \<equiv> 50"

lemmas layout_defs = mPacketHeaderSize_def mTlvStartOffset_def MUX_MAX_ICMP_BUFFER_SIZE_def

section \<open>Checksums\<close>

text \<open>
  \<open>calculateChecksum\<close> adds the 16-bit words of a region into a \<open>uint32_t\<close>; a last odd byte counts as
  the high byte of a word (\<open>ntohs\<close> of the byte on a little-endian machine).
\<close>

fun calculateChecksum_loop :: "buffer \<Rightarrow> nat \<Rightarrow> nat \<Rightarrow> u32 \<Rightarrow> u32" where
  "calculateChecksum_loop b i n acc =
     (if 1 < n then calculateChecksum_loop b (i + 2) (n - 2) (acc + ucast (ntohs_at b i))
      else if n \<noteq> 0 then acc + ucast (be16 (b i) 0)
      else acc)"

declare calculateChecksum_loop.simps [simp del]

definition calculateChecksum :: "buffer \<Rightarrow> nat \<Rightarrow> nat \<Rightarrow> u32" where
  "calculateChecksum b i n = calculateChecksum_loop b i n 0"

definition addChecksumCarryover :: "u32 \<Rightarrow> u16" where
  "addChecksumCarryover s =
     (let s1 = drop_bit 16 s + (s AND 0xFFFF);
          s2 = s1 + drop_bit 16 s1
      in ucast (NOT s2))"

text \<open>The sum of the words of a region as a natural number, for the specification.\<close>

fun word_sum :: "buffer \<Rightarrow> nat \<Rightarrow> nat \<Rightarrow> nat" where
  "word_sum b i 0 = 0"
| "word_sum b i (Suc 0) = unat (be16 (b i) 0)"
| "word_sum b i (Suc (Suc n)) = unat (ntohs_at b i) + word_sum b (i + 2) n"

lemma word_sum_bound: "word_sum b i n \<le> 65535 * n"
proof (induction b i n rule: word_sum.induct)
  case (2 b i)
  show ?case using unat_u16_less [of "be16 (b i) 0"] by simp
next
  case (3 b i n)
  then show ?case using unat_u16_less [of "ntohs_at b i"] by simp
qed simp

lemma word_sum_cong: "(\<And>j. i \<le> j \<Longrightarrow> j < i + n \<Longrightarrow> b j = b' j) \<Longrightarrow> word_sum b i n = word_sum b' i n"
  by (induction b i n rule: word_sum.induct) (auto simp: ntohs_at_def)

text \<open>
  A receiver accepts a region when the sum of all its words, the checksum included, is a positive
  multiple of \<open>0xFFFF\<close>, that is, when recomputing the checksum gives zero.
\<close>

definition checksum_valid :: "buffer \<Rightarrow> nat \<Rightarrow> nat \<Rightarrow> bool" where
  "checksum_valid b i n \<longleftrightarrow> addChecksumCarryover (calculateChecksum b i n) = 0"

subsection \<open>Folding and storing a checksum\<close>

lemma ucast_not_u32: "(ucast (NOT (w :: u32)) :: u16) = NOT (ucast w)"
  by (rule bit_eqI) (simp add: bit_simps)

lemma unat_not_u16: "unat (NOT w) = 65535 - unat (w :: u16)"
proof -
  have "NOT w = 0xFFFF - w" by (simp add: not_eq_complement)
  moreover have "w \<le> 0xFFFF" by (simp add: word_le_nat_alt) (use unat_u16_less [of w] in linarith)
  ultimately show ?thesis by (simp add: unat_sub)
qed

lemma unat_addChecksumCarryover:
  "unat (addChecksumCarryover s) =
     (let m = unat s div 65536 + unat s mod 65536 in 65535 - (if m < 65536 then m else m - 65535))"
proof -
  define n where "n = unat s"
  define m where "m = n div 65536 + n mod 65536"
  have n: "n < 65536 * 65536" using unsigned_less [of s] by (simp add: n_def)
  then have m: "m \<le> 131070" "n div 65536 < 65536" unfolding m_def by (auto simp: less_mult_imp_div_less)
  define w1 where "w1 = drop_bit 16 s + (s AND 0xFFFF)"
  have s1: "unat w1 = m"
  proof -
    have "s AND 0xFFFF = take_bit 16 s" by (simp add: take_bit_eq_mask mask_eq_exp_minus_1)
    then have "unat (s AND 0xFFFF) = n mod 65536" by (simp add: n_def unat_mod_distrib take_bit_eq_mod)
    moreover have "unat (drop_bit 16 s) = n div 65536" by (simp add: n_def unsigned_drop_bit_eq drop_bit_eq_div unat_div_distrib)
    ultimately show ?thesis using m by (simp add: w1_def unat_word_ariths m_def)
  qed
  define s2 where "s2 = w1 + drop_bit 16 w1"
  have s2: "unat s2 = m + m div 65536"
    using m by (simp add: s2_def unat_word_ariths s1 unsigned_drop_bit_eq drop_bit_eq_div unat_div_distrib)
  have "addChecksumCarryover s = NOT (ucast s2)"
    unfolding addChecksumCarryover_def s2_def w1_def Let_def by (rule ucast_not_u32)
  then have "unat (addChecksumCarryover s) = 65535 - (m + m div 65536) mod 65536"
    by (simp add: unat_not_u16 unsigned_ucast_eq take_bit_eq_mod s2)
  moreover have "(m + m div 65536) mod 65536 = (if m < 65536 then m else m - 65535)"
  proof (cases "m < 65536")
    case False
    with m have "m div 65536 = 1" "m + 1 = 65536 + (m - 65535)" "m - 65535 < 65536" by auto
    then show ?thesis using False by (metis mod_add_self1 mod_less)
  qed simp
  ultimately show ?thesis by (simp add: Let_def m_def n_def)
qed

lemma addChecksumCarryover_mod: "(unat s + unat (addChecksumCarryover s)) mod 65535 = 0"
proof -
  define q r where "q = unat s div 65536" and "r = unat s mod 65536"
  have "unat s < 65536 * 65536" using unsigned_less [of s] by simp
  then have qr: "unat s = 65535 * q + (q + r)" "q < 65536" "r < 65536"
    by (auto simp: q_def r_def less_mult_imp_div_less)
  show ?thesis
  proof (cases "q + r < 65536")
    case True
    have "unat s + unat (addChecksumCarryover s) = 65535 * (q + 1)"
      using True qr by (simp add: unat_addChecksumCarryover Let_def q_def [symmetric] r_def [symmetric])
    then show ?thesis by simp
  next
    case False
    have "unat s + unat (addChecksumCarryover s) = 65535 * (q + 2)"
      using False qr by (simp add: unat_addChecksumCarryover Let_def q_def [symmetric] r_def [symmetric])
    then show ?thesis by simp
  qed
qed

lemma addChecksumCarryover_0: "addChecksumCarryover s = 0 \<longleftrightarrow> 0 < unat s \<and> unat s mod 65535 = 0"
proof -
  define c where "c = unat (addChecksumCarryover s)"
  have c: "c \<le> 65535" and sc: "(unat s + c) mod 65535 = 0"
    using unat_u16_less [of "addChecksumCarryover s"] addChecksumCarryover_mod [of s] by (simp_all add: c_def)
  have zero: "c = 65535 \<longleftrightarrow> unat s = 0"
  proof -
    have "unat s div 65536 + unat s mod 65536 = 0 \<longleftrightarrow> unat s = 0" by (metis add_is_0 div_0 div_mult_mod_eq mod_0 mult_0)
    then show ?thesis by (auto simp: c_def unat_addChecksumCarryover Let_def)
  qed
  have "c = 0 \<longleftrightarrow> 0 < unat s \<and> unat s mod 65535 = 0"
  proof
    assume "c = 0"
    with sc zero show "0 < unat s \<and> unat s mod 65535 = 0" by auto
  next
    assume a: "0 < unat s \<and> unat s mod 65535 = 0"
    then have "c mod 65535 = 0" using sc mod_add_left_eq [of "unat s" 65535 c] by simp
    moreover have "c < 65535" using a c zero by linarith
    ultimately show "c = 0" by simp
  qed
  then show ?thesis by (simp add: c_def unat_eq_0)
qed

lemma unat_calculateChecksum_loop:
  "unat acc + word_sum b i n < 2 ^ 32 \<Longrightarrow> unat (calculateChecksum_loop b i n acc) = unat acc + word_sum b i n"
proof (induction b i n arbitrary: acc rule: word_sum.induct)
  case (1 b i)
  show ?case by (simp add: calculateChecksum_loop.simps)
next
  case (2 b i)
  then show ?case
    by (simp add: calculateChecksum_loop.simps unat_word_ariths unsigned_ucast_eq take_bit_nat_eq_self)
next
  case (3 b i n)
  have "unat (ucast (ntohs_at b i) :: u32) = unat (ntohs_at b i)"
    using unat_u16_less [of "ntohs_at b i"] by (simp add: unsigned_ucast_eq take_bit_nat_eq_self)
  with 3 have "unat (acc + ucast (ntohs_at b i)) = unat acc + unat (ntohs_at b i)"
    by (simp add: unat_word_ariths)
  with 3 show ?case by (simp add: calculateChecksum_loop.simps [of b i "Suc (Suc n)"])
qed

lemma unat_calculateChecksum:
  assumes "n \<le> MUX_MAX_ICMP_BUFFER_SIZE"
  shows "unat (calculateChecksum b i n) = word_sum b i n"
  using assms word_sum_bound [of b i n]
  by (simp add: calculateChecksum_def unat_calculateChecksum_loop layout_defs)

lemma checksum_valid_iff:
  assumes "n \<le> MUX_MAX_ICMP_BUFFER_SIZE"
  shows "checksum_valid b i n \<longleftrightarrow> 0 < word_sum b i n \<and> word_sum b i n mod 65535 = 0"
  by (simp add: checksum_valid_def addChecksumCarryover_0 unat_calculateChecksum [OF assms])

lemma word_sum_take_word:
  assumes "even k" and "k + 2 \<le> n"
  shows "word_sum b i n = unat (ntohs_at b (i + k)) + word_sum (put16 (i + k) 0 b) i n"
  using assms
proof (induction b i n arbitrary: k rule: word_sum.induct)
  case (3 b i n)
  show ?case
  proof (cases "k = 0")
    case True
    have "word_sum (put16 i 0 b) (i + 2) n = word_sum b (i + 2) n" by (rule word_sum_cong) simp
    with True show ?thesis by simp
  next
    case False
    with 3(2) obtain j where k: "k = j + 2" by (cases "(b, i, k)" rule: word_sum.cases) auto
    have "word_sum b (i + 2) n = unat (ntohs_at b (i + 2 + j)) + word_sum (put16 (i + 2 + j) 0 b) (i + 2) n"
      using 3(2,3) k by (intro "3.IH") auto
    with k show ?thesis by (simp add: add.assoc)
  qed
qed auto

lemma word_sum_put_word:
  assumes "even k" and "k + 2 \<le> n"
  shows "word_sum (put16 (i + k) w b) i n + unat (ntohs_at b (i + k)) = word_sum b i n + unat w"
proof -
  have "put16 (i + k) 0 (put16 (i + k) w b) = put16 (i + k) 0 b" by (simp add: put16_def fun_eq_iff)
  then show ?thesis
    using word_sum_take_word [OF assms, of "put16 (i + k) w b" i] word_sum_take_word [OF assms, of b i] by simp
qed

section \<open>TLV records\<close>

definition TLV_COMMAND :: u8 where "TLV_COMMAND = 0x5"
definition TLV_DUMMY :: u8 where "TLV_DUMMY = 0xfe"
definition TLV_SENTINEL :: u8 where "TLV_SENTINEL = 0xff"

datatype tlv_command = COMMAND_NONE | COMMAND_SWITCH_ACTIVE | COMMAND_MUX_PROBE

fun tlv_command_byte :: "tlv_command \<Rightarrow> u8" where
  "tlv_command_byte COMMAND_NONE = 0"
| "tlv_command_byte COMMAND_SWITCH_ACTIVE = 1"
| "tlv_command_byte COMMAND_MUX_PROBE = 2"

lemmas tlv_type_defs = TLV_COMMAND_def TLV_DUMMY_def TLV_SENTINEL_def

text \<open>The size of the record at an offset of the received bytes, and 0 if there is no complete one.\<close>

definition findNextTlv :: "buffer \<Rightarrow> nat \<Rightarrow> nat \<Rightarrow> nat" where
  "findNextTlv rx readOffset bytesTransferred =
     (if readOffset + sizeof_TlvHead \<le> bytesTransferred
      then let tlvSize = sizeof_TlvHead + unat (ntohs_at rx (readOffset + 1))
           in if bytesTransferred < readOffset + tlvSize then 0 else tlvSize
      else 0)"

definition getNextTLVPtr :: "buffer \<Rightarrow> nat \<Rightarrow> nat \<Rightarrow> nat option" where
  "getNextTLVPtr rx offset bytesTransferred =
     (let nextTlvSize = findNextTlv rx offset bytesTransferred
      in if nextTlvSize = 0 then None else Some nextTlvSize)"

lemma getNextTLVPtr_bounds:
  "getNextTLVPtr rx off n = Some k \<Longrightarrow> sizeof_TlvHead \<le> k \<and> off + k \<le> n"
  by (auto simp: getNextTLVPtr_def findNextTlv_def Let_def split: if_splits)

text \<open>A command of the peer becomes an event of the prober state machine; the own ones are ignored.\<close>

definition handleTlvCommandRecv :: "buffer \<Rightarrow> nat \<Rightarrow> bool \<Rightarrow> prober_event list" where
  "handleTlvCommandRecv rx tlvPtr isPeer =
     (if isPeer then
        (if rx (tlvPtr + 3) = tlv_command_byte COMMAND_SWITCH_ACTIVE then [SwitchActiveRequestEvent]
         else if rx (tlvPtr + 3) = tlv_command_byte COMMAND_MUX_PROBE then [MuxProbeRequestEvent]
         else [])
      else [])"

text \<open>
  The loop over the records. It stops at the end of the received bytes, at an incomplete record, at the
  sentinel, and at a record of unknown type whose size is \<open>sizeof(Tlv)\<close>. Every record takes at least
  three bytes, so the loop ends.
\<close>

function handleTlvRecv_loop :: "buffer \<Rightarrow> nat \<Rightarrow> bool \<Rightarrow> nat \<Rightarrow> prober_event list" where
  "handleTlvRecv_loop rx bytesTransferred isSelfGuid nextTlvOffset =
     (case getNextTLVPtr rx nextTlvOffset bytesTransferred of
        None \<Rightarrow> []
      | Some nextTlvSize \<Rightarrow>
          if rx nextTlvOffset = TLV_COMMAND
          then handleTlvCommandRecv rx nextTlvOffset (\<not> isSelfGuid) @
               handleTlvRecv_loop rx bytesTransferred isSelfGuid (nextTlvOffset + nextTlvSize)
          else if rx nextTlvOffset = TLV_SENTINEL then []
          else if nextTlvSize = sizeof_Tlv then []
          else handleTlvRecv_loop rx bytesTransferred isSelfGuid (nextTlvOffset + nextTlvSize))"
  by pat_completeness auto
termination
  by (relation "measure (\<lambda>(rx, n, self, off). n - off)") (auto dest!: getNextTLVPtr_bounds)

declare handleTlvRecv_loop.simps [simp del]

definition handleTlvRecv :: "buffer \<Rightarrow> nat \<Rightarrow> bool \<Rightarrow> prober_event list" where
  "handleTlvRecv rx bytesTransferred isSelfGuid =
     handleTlvRecv_loop rx bytesTransferred isSelfGuid mTlvStartOffset"

section \<open>GUIDs\<close>

text \<open>Formatting as hexadecimal digits in lower case, with leading zeros.\<close>

definition hex_digit :: "nat \<Rightarrow> char" where
  "hex_digit k = ''0123456789abcdef'' ! k"

fun hex_digits :: "nat \<Rightarrow> nat \<Rightarrow> string" where
  "hex_digits 0 n = []"
| "hex_digits (Suc k) n = hex_digits k (n div 16) @ [hex_digit (n mod 16)]"

lemma hex_digit_inject: "i < 16 \<Longrightarrow> j < 16 \<Longrightarrow> hex_digit i = hex_digit j \<longleftrightarrow> i = j"
  unfolding hex_digit_def by (rule nth_eq_iff_index_eq) simp_all

lemma hex_digits_inject: "m < 16 ^ k \<Longrightarrow> n < 16 ^ k \<Longrightarrow> hex_digits k m = hex_digits k n \<longleftrightarrow> m = n"
proof (induction k arbitrary: m n)
  case (Suc k)
  then have "m div 16 < 16 ^ k" "n div 16 < 16 ^ k" by (auto simp: less_mult_imp_div_less)
  with Suc.IH have "hex_digits (Suc k) m = hex_digits (Suc k) n \<longleftrightarrow> m div 16 = n div 16 \<and> m mod 16 = n mod 16"
    by (auto simp: hex_digit_inject)
  then show ?case by (metis div_mult_mod_eq)
qed simp

definition guid_string :: "u32 \<Rightarrow> string" where
  "guid_string g = ''0x'' @ hex_digits 8 (unat g)"

lemma guid_string_inject [simp]: "guid_string g = guid_string h \<longleftrightarrow> g = h"
proof -
  have "unat g < 16 ^ 8" "unat h < 16 ^ 8" using unsigned_less [of g] unsigned_less [of h] by simp_all
  from hex_digits_inject [OF this] show ?thesis
    by (simp add: guid_string_def word_unat_eq_iff del: hex_digits.simps)
qed

text \<open>The GUID of a payload at an offset: its last four bytes; all eight zero are the invalid GUID.\<close>

definition getGuidStr :: "buffer \<Rightarrow> nat \<Rightarrow> string" where
  "getGuidStr rx icmpPayload =
     (if list_all (\<lambda>i. rx (icmpPayload + 8 + i) = 0) [0..<8] then ''0x0''
      else guid_string (ntohl_at rx (icmpPayload + 12)))"

lemma guid_string_valid [simp]: "guid_string g \<noteq> ''0x0''"
proof -
  have "length (hex_digits k n) = k" for k n by (induction k arbitrary: n) simp_all
  then have "length (guid_string g) = 10" by (simp add: guid_string_def del: hex_digits.simps)
  then show ?thesis by auto
qed

text \<open>The GUID a port generates: the last 16 bits of the Loopback3 address and of the server's address.\<close>

definition deterministicGuid :: "mux_port_config \<Rightarrow> u32" where
  "deterministicGuid cfg =
     (let loopback3Last16Bits = ucast (mLoopback3Ipv4Address (mMuxConfig cfg) AND 0xFFFF) :: u16;
          socLast16Bits = ucast (mBladeIpv4Address cfg AND 0xFFFF) :: u16
      in push_bit 16 (ucast loopback3Last16Bits) OR ucast socLast16Bits)"

text \<open>\<open>generateGuid\<close> returns the string and stores the UUID: twelve zero bytes and the GUID.\<close>

definition generateGuid :: "mux_port_config \<Rightarrow> string \<times> u8 list" where
  "generateGuid cfg =
     (let g = deterministicGuid cfg
      in (guid_string g,
          replicate 12 0 @ map (put32 0 g (\<lambda>_. 0)) [0, 1, 2, 3]))"

end
