(* ===== verification/Socket_Filter.thy ===== *)
theory Socket_Filter
  imports Link_Prober_Packet
begin

text \<open>
  The filter that the link prober attaches to its raw socket, \<open>mIcmpFilter\<close> of
  \<open>link_prober/LinkProberBase.cpp\<close>: a program of thirteen instructions in the language of the classic
  BPF machine, whose fourth instruction is completed with the address of the server. The machine is given
  for the instructions that the program uses.
\<close>

section \<open>The filter machine\<close>

text \<open>An instruction, \<open>struct sock_filter\<close>: the operation, the two relative jumps and the operand.\<close>

record sock_filter =
  bpf_code :: u16
  bpf_jt :: u8
  bpf_jf :: u8
  bpf_k :: u32

definition load_byte :: "buffer \<Rightarrow> nat \<Rightarrow> u32 \<Rightarrow> u32 option" where
  "load_byte b n i = (if unat i < n then Some (ucast (b (unat i))) else None)"

definition load_half :: "buffer \<Rightarrow> nat \<Rightarrow> u32 \<Rightarrow> u32 option" where
  "load_half b n i = (if unat i + 2 \<le> n then Some (ucast (ntohs_at b (unat i))) else None)"

definition load_word :: "buffer \<Rightarrow> nat \<Rightarrow> u32 \<Rightarrow> u32 option" where
  "load_word b n i = (if unat i + 4 \<le> n then Some (ntohl_at b (unat i)) else None)"

text \<open>
  The run of a program on a packet of \<open>n\<close> bytes, from the instruction \<open>pc\<close> with the accumulator \<open>a\<close> and
  the index register \<open>x\<close>. The result is the number of bytes to keep; a load behind the end of the packet
  drops it. \<open>None\<close> stands for an instruction outside the fragment, the end of the program or of the fuel.
\<close>

fun bpf_run :: "sock_filter list \<Rightarrow> buffer \<Rightarrow> nat \<Rightarrow> nat \<Rightarrow> nat \<Rightarrow> u32 \<Rightarrow> u32 \<Rightarrow> u32 option" where
  "bpf_run fs b n 0 pc a x = None"
| "bpf_run fs b n (Suc m) pc a x =
     (if pc < length fs
      then (let f = fs ! pc;
                next = (\<lambda>r. case r of None \<Rightarrow> Some 0 | Some v \<Rightarrow> bpf_run fs b n m (pc + 1) v x);
                jump = (\<lambda>c. bpf_run fs b n m (pc + 1 + unat (if c then bpf_jt f else bpf_jf f)) a x)
            in if bpf_code f = 0x20 then next (load_word b n (bpf_k f))
               else if bpf_code f = 0x28 then next (load_half b n (bpf_k f))
               else if bpf_code f = 0x30 then next (load_byte b n (bpf_k f))
               else if bpf_code f = 0x50 then next (load_byte b n (x + bpf_k f))
               else if bpf_code f = 0xb1
               then (case load_byte b n (bpf_k f) of None \<Rightarrow> Some 0
                     | Some v \<Rightarrow> bpf_run fs b n m (pc + 1) a (push_bit 2 (v AND 0xf)))
               else if bpf_code f = 0x15 then jump (a = bpf_k f)
               else if bpf_code f = 0x45 then jump (a AND bpf_k f \<noteq> 0)
               else if bpf_code f = 0x06 then Some (bpf_k f)
               else None)
      else None)"

lemma bpf_run_numeral [simp]:
  "bpf_run fs b n (numeral v) pc a x = bpf_run fs b n (Suc (pred_numeral v)) pc a x"
  by (simp only: numeral_eq_Suc)

section \<open>The program\<close>

definition bpf_instruction :: "u16 \<Rightarrow> u8 \<Rightarrow> u8 \<Rightarrow> u32 \<Rightarrow> sock_filter" where
  "bpf_instruction c jt jf k = \<lparr>bpf_code = c, bpf_jt = jt, bpf_jf = jf, bpf_k = k\<rparr>"

definition mIcmpFilter :: "sock_filter list" where
  "mIcmpFilter =
     [bpf_instruction 0x28 0 0 0x0000000c,
      bpf_instruction 0x15 0 10 0x00000800,
      bpf_instruction 0x20 0 0 0x0000001a,
      bpf_instruction 0x15 0 8 0x00000000,
      bpf_instruction 0x30 0 0 0x00000017,
      bpf_instruction 0x15 0 6 0x00000001,
      bpf_instruction 0x28 0 0 0x00000014,
      bpf_instruction 0x45 4 0 0x00001fff,
      bpf_instruction 0xb1 0 0 0x0000000e,
      bpf_instruction 0x50 0 0 0x0000000e,
      bpf_instruction 0x15 0 1 0x00000000,
      bpf_instruction 0x06 0 0 0x00040000,
      bpf_instruction 0x06 0 0 0x00000000]"

text \<open>The address that \<open>setupSocket\<close> stores in the program before it attaches the filter.\<close>

definition filter_address :: "ip_address \<Rightarrow> sock_filter list \<Rightarrow> sock_filter list" where
  "filter_address a fs = fs[3 := (fs ! 3)\<lparr>bpf_k := a\<rparr>]"

definition filter_passes :: "sock_filter list \<Rightarrow> buffer \<Rightarrow> nat \<Rightarrow> bool" where
  "filter_passes fs b n \<longleftrightarrow> (case bpf_run fs b n (length fs) 0 0 0 of None \<Rightarrow> False | Some k \<Rightarrow> k \<noteq> 0)"

section \<open>What the filter accepts\<close>

text \<open>
  The reference: an IPv4 packet from the address \<open>a\<close> that carries ICMP, is no later fragment, and holds an
  echo reply behind its IP header, wherever the header ends.
\<close>

definition echo_reply_from :: "ip_address \<Rightarrow> buffer \<Rightarrow> nat \<Rightarrow> bool" where
  "echo_reply_from a b n \<longleftrightarrow> 30 \<le> n \<and> ntohs_at b 12 = 0x0800 \<and> ntohl_at b 26 = a \<and> b 23 = 1 \<and>
     unat (ntohs_at b 20) mod 8192 = 0 \<and>
     (let i = 14 + 4 * (unat (b 14) mod 16) in i < n \<and> b i = 0)"

lemma low_bits: "unat ((v :: u32) AND mask m) = unat v mod 2 ^ m"
  by (simp only: take_bit_eq_mask [symmetric] unsigned_take_bit_eq) (simp add: take_bit_eq_mod)

lemma fragment_bits: "(ucast (w :: u16) :: u32) AND 0x1fff = 0 \<longleftrightarrow> unat w mod 8192 = 0"
proof -
  have "(0x1fff :: u32) = mask 13" by (simp add: mask_eq_exp_minus_1)
  then have "unat ((ucast w :: u32) AND 0x1fff) = unat w mod 8192"
    using low_bits [of "ucast w" 13] unat_u16_less [of w] by (simp add: unsigned_ucast_eq take_bit_nat_eq_self)
  then show ?thesis by (simp add: unat_eq_0 [symmetric] del: unat_eq_0)
qed

lemma header_length: "unat (push_bit 2 ((ucast (h :: u8) :: u32) AND 0xf) + 14) = 14 + 4 * (unat h mod 16)"
proof -
  have "(0xf :: u32) = mask 4" by (simp add: mask_eq_exp_minus_1)
  then have "unat ((ucast h :: u32) AND 0xf) = unat h mod 16"
    using low_bits [of "ucast h" 4] unat_u8_less [of h] by (simp add: unsigned_ucast_eq take_bit_nat_eq_self)
  moreover have "unat h mod 16 < 16" by simp
  ultimately show ?thesis
    by (simp add: push_bit_eq_mult unat_word_ariths)
qed

lemma zero_byte: "(ucast (v :: u8) :: u32) = 0 \<longleftrightarrow> v = 0" "(ucast v :: u32) = 1 \<longleftrightarrow> v = 1"
  using unat_u8_less [of v] by (auto simp: word_unat_eq_iff unsigned_ucast_eq take_bit_nat_eq_self)

lemma ether_type: "(ucast (w :: u16) :: u32) = 0x800 \<longleftrightarrow> w = 0x800"
  using unat_u16_less [of w] by (auto simp: word_unat_eq_iff unsigned_ucast_eq take_bit_nat_eq_self)

lemma icmp_filter_meaning:
  "bpf_run (filter_address a mIcmpFilter) b n (length mIcmpFilter) 0 0 0 =
     Some (if echo_reply_from a b n then 0x40000 else 0)"
  by (simp add: mIcmpFilter_def filter_address_def bpf_instruction_def load_half_def load_word_def load_byte_def
      echo_reply_from_def fragment_bits header_length zero_byte ether_type Let_def del: push_bit_and)

end
