(* ===== verification/Link_Prober_Sw.thy ===== *)
theory Link_Prober_Sw
  imports Socket_Filter Link_Manager_Base
begin

text \<open>
  The software link prober: \<open>link_prober/LinkProberBase.cpp\<close> and \<open>LinkProberSw.cpp\<close>. It sends a
  heartbeat in every probing interval, tells its own replies from those of the peer by the GUID, and
  posts what it heard to the prober state machine. It runs on a strand of its own; the link
  managers call it through the function pointers of the datatype \<open>call\<close>.

  \<open>None\<close> stands for undefined behaviour or an abort: a failed assertion, a division by zero, or the
  cast of a software prober to a hardware prober in \<open>handleRecv\<close>.
\<close>

section \<open>State\<close>

datatype session_type = SessionUnknown | SessionSoftware | SessionHardware

datatype heartbeat_type = HEARTBEAT_SELF | HEARTBEAT_PEER

datatype prober_timer = ProbeTimer | SuspendTimer | SwitchoverTimer

datatype io_result = IoSuccess nat | IoError | IoAborted

datatype read_kind = InitRead | DataRead

text \<open>The handlers that wait on the prober's strand.\<close>

datatype prober_task =
    DoUpdateFrame | DoSendHeartbeat bool | DoSendSwitchCommand | DoSendProbeCommand
  | DoTimer prober_timer error_code | DoInitRecv io_result | DoRecv io_result

text \<open>What the prober posts to the strand of the port.\<close>

datatype prober_post = PostEvent prober_event | PostPckLossRatioUpdate u64 u64 | PostMacUpdate mac_address

record link_prober =
  lp_mMuxPortConfig :: mux_port_config
  mTxSeqNo :: u16
  mRxSelfSeqNo :: u16
  mRxPeerSeqNo :: u16
  mIcmpChecksum :: u32
  mIpChecksum :: u32
  mSelfGuid :: string
  mPeerGuid :: string
  mSelfUUID :: "u8 list"
  mPeerType :: session_type
  mTxPacketSize :: nat
  mTxBuffer :: buffer
  mRxBuffer :: buffer
  mSockFilterPtr :: "sock_filter list"
  mSuspendTx :: bool
  mShutdownTx :: bool
  mDecreaseProbingInterval :: bool
  mIcmpUnknownEventCount :: u64
  mIcmpPacketCount :: u64
  prober_timers :: "prober_timer \<Rightarrow> timer"
  prober_now :: nat
  prober_reads :: "read_kind list"
  prober_tasks :: "prober_task list"
  posted :: "prober_post list"
  sent :: "u8 list list"

text \<open>
  The constructor. The buffers and \<open>mTxPacketSize\<close> have no initialiser: their first contents are
  parameters.
\<close>

definition LinkProberSw_new :: "buffer \<Rightarrow> buffer \<Rightarrow> nat \<Rightarrow> mux_port_config \<Rightarrow> link_prober" where
  "LinkProberSw_new tx0 rx0 size0 cfg =
     \<lparr>lp_mMuxPortConfig = cfg, mTxSeqNo = 0xffff, mRxSelfSeqNo = 0, mRxPeerSeqNo = 0,
      mIcmpChecksum = 0, mIpChecksum = 0,
      mSelfGuid = fst (generateGuid cfg), mPeerGuid = [], mSelfUUID = snd (generateGuid cfg),
      mPeerType = SessionUnknown, mTxPacketSize = size0, mTxBuffer = tx0, mRxBuffer = rx0,
      mSockFilterPtr = mIcmpFilter,
      mSuspendTx = False, mShutdownTx = False, mDecreaseProbingInterval = False,
      mIcmpUnknownEventCount = 0, mIcmpPacketCount = 0,
      prober_timers = (\<lambda>_. \<lparr>tm_expiry = None, tm_pending = False\<rparr>), prober_now = 0,
      prober_reads = [], prober_tasks = [], posted = [], sent = []\<rparr>"

definition prober_post_task :: "prober_task \<Rightarrow> link_prober \<Rightarrow> link_prober" where
  "prober_post_task t s = s\<lparr>prober_tasks := prober_tasks s @ [t]\<rparr>"

definition post_to_manager :: "prober_post list \<Rightarrow> link_prober \<Rightarrow> link_prober" where
  "post_to_manager xs s = s\<lparr>posted := posted s @ xs\<rparr>"

definition prober_cancel_timer :: "prober_timer \<Rightarrow> link_prober \<Rightarrow> link_prober" where
  "prober_cancel_timer i s =
     (if tm_pending (prober_timers s i)
      then prober_post_task (DoTimer i OperationAborted)
             (s\<lparr>prober_timers := (prober_timers s)(i := (prober_timers s i)\<lparr>tm_pending := False\<rparr>)\<rparr>)
      else s)"

definition prober_start_timer :: "prober_timer \<Rightarrow> nat \<Rightarrow> link_prober \<Rightarrow> link_prober" where
  "prober_start_timer i d s =
     (let s1 = prober_cancel_timer i s
      in s1\<lparr>prober_timers := (prober_timers s1)(i := \<lparr>tm_expiry = Some (prober_now s1 + d), tm_pending = True\<rparr>)\<rparr>)"

fun read_handler :: "read_kind \<Rightarrow> io_result \<Rightarrow> prober_task" where
  "read_handler InitRead r = DoInitRecv r"
| "read_handler DataRead r = DoRecv r"

text \<open>\<open>mStream.cancel()\<close>: all pending reads end with \<open>operation_aborted\<close>.\<close>

definition stream_cancel :: "link_prober \<Rightarrow> link_prober" where
  "stream_cancel s =
     s\<lparr>prober_tasks := prober_tasks s @ map (\<lambda>k. read_handler k IoAborted) (prober_reads s), prober_reads := []\<rparr>"

definition startInitRecv :: "link_prober \<Rightarrow> link_prober" where
  "startInitRecv s = s\<lparr>prober_reads := prober_reads s @ [InitRead]\<rparr>"

definition startRecv :: "link_prober \<Rightarrow> link_prober" where
  "startRecv s = s\<lparr>prober_reads := prober_reads s @ [DataRead]\<rparr>"

definition on_tx :: "(buffer \<Rightarrow> buffer) \<Rightarrow> link_prober \<Rightarrow> link_prober" where
  "on_tx f s = s\<lparr>mTxBuffer := f (mTxBuffer s)\<rparr>"

section \<open>The heartbeat packet\<close>

definition computeChecksum_icmp :: "nat \<Rightarrow> link_prober \<Rightarrow> link_prober" where
  "computeChecksum_icmp n s =
     (let b = put16 icmp_checksum 0 (mTxBuffer s);
          c = calculateChecksum b icmp_header n
      in s\<lparr>mTxBuffer := put16 icmp_checksum (addChecksumCarryover c) b, mIcmpChecksum := c\<rparr>)"

definition computeChecksum_ip :: "nat \<Rightarrow> link_prober \<Rightarrow> link_prober" where
  "computeChecksum_ip n s =
     (let b = put16 ip_check 0 (mTxBuffer s);
          c = calculateChecksum b ip_header n
      in s\<lparr>mTxBuffer := put16 ip_check (addChecksumCarryover c) b, mIpChecksum := c\<rparr>)"

text \<open>The length of the IP header: the low half of its first byte, in units of four bytes.\<close>

definition ip_header_length :: "buffer \<Rightarrow> nat" where
  "ip_header_length b = unat (push_bit 2 (b ip_header AND 0xF))"

definition resetTxBufferTlv :: "link_prober \<Rightarrow> link_prober" where
  "resetTxBufferTlv s = s\<lparr>mTxPacketSize := mTlvStartOffset\<rparr>"

definition appendTlvSentinel :: "link_prober \<Rightarrow> link_prober option" where
  "appendTlvSentinel s =
     (if mTxPacketSize s + sizeof_TlvHead \<le> MUX_MAX_ICMP_BUFFER_SIZE
      then Some ((on_tx (\<lambda>b. put16 (mTxPacketSize s + 1) 0 (b(mTxPacketSize s := TLV_SENTINEL))) s)
             \<lparr>mTxPacketSize := mTxPacketSize s + sizeof_TlvHead\<rparr>)
      else None)"

definition appendTlvCommand :: "tlv_command \<Rightarrow> link_prober \<Rightarrow> link_prober option" where
  "appendTlvCommand c s =
     (if mTxPacketSize s + (sizeof_TlvHead + 1) \<le> MUX_MAX_ICMP_BUFFER_SIZE
      then Some ((on_tx (\<lambda>b. (put16 (mTxPacketSize s + 1) 1 (b(mTxPacketSize s := TLV_COMMAND)))
                     (mTxPacketSize s + 3 := tlv_command_byte c)) s)
             \<lparr>mTxPacketSize := mTxPacketSize s + (sizeof_TlvHead + 1)\<rparr>)
      else None)"

definition calculateTxPacketChecksum :: "link_prober \<Rightarrow> link_prober" where
  "calculateTxPacketChecksum s =
     (let totalPayloadSize = mTxPacketSize s - mPacketHeaderSize;
          s = computeChecksum_icmp (sizeof_icmphdr + totalPayloadSize) s;
          s = on_tx (put16 ip_tot_len (of_nat (sizeof_iphdr + sizeof_icmphdr + totalPayloadSize))) s
      in computeChecksum_ip (ip_header_length (mTxBuffer s)) s)"

definition initTxBufferTlvSendProbe :: "link_prober \<Rightarrow> link_prober option" where
  "initTxBufferTlvSendProbe s = do {
     s \<leftarrow> appendTlvCommand COMMAND_MUX_PROBE (resetTxBufferTlv s);
     s \<leftarrow> appendTlvSentinel s;
     Some (calculateTxPacketChecksum s)
   }"

definition initTxBufferTlvSendSwitch :: "link_prober \<Rightarrow> link_prober option" where
  "initTxBufferTlvSendSwitch s = do {
     s \<leftarrow> appendTlvCommand COMMAND_SWITCH_ACTIVE (resetTxBufferTlv s);
     s \<leftarrow> appendTlvSentinel s;
     Some (calculateTxPacketChecksum s)
   }"

definition initTxBufferTlvSentinel :: "link_prober \<Rightarrow> link_prober option" where
  "initTxBufferTlvSentinel s = do {
     s \<leftarrow> appendTlvSentinel (resetTxBufferTlv s);
     Some (calculateTxPacketChecksum s)
   }"

definition mSoftwareCookie :: u32 where "mSoftwareCookie = 0x47656d69"
definition mHardwareCookie :: u32 where "mHardwareCookie = 0x58767e7a"
definition payload_mVersion :: u32 where "payload_mVersion = 0"

text \<open>\<open>initializeSendBuffer\<close> writes the whole packet; the IP identification is the random number \<open>r\<close>.\<close>

definition initializeSendBuffer :: "u16 \<Rightarrow> link_prober \<Rightarrow> link_prober option" where
  "initializeSendBuffer r s = do {
     let cfg = lp_mMuxPortConfig s;
     let shost = (if ifEnableUseTorMac cfg then mTorMacAddress (mMuxConfig cfg) else mVlanMacAddress (mMuxConfig cfg));
     let s = on_tx (put16 12 0x0800 \<circ> put_bytes 6 shost \<circ> put_bytes 0 (mBladeMacAddress cfg)) s;
     let s = on_tx (put_bytes payload_uuid (take 8 (drop 8 (mSelfUUID s))) \<circ>
                    put_bytes 58 (replicate 8 0) \<circ> put32 46 payload_mVersion \<circ> put32 mPacketHeaderSize mSoftwareCookie) s;
     s \<leftarrow> appendTlvSentinel (resetTxBufferTlv s);
     let totalPayloadSize = mTxPacketSize s - mPacketHeaderSize;
     let s = on_tx (put32 30 (mBladeIpv4Address cfg) \<circ> put32 26 (mLoopbackIpv4Address (mMuxConfig cfg)) \<circ>
                    put16 ip_check 0 \<circ> put_bytes 22 [64, 1] \<circ> put16 20 0 \<circ> put16 18 r \<circ>
                    put16 ip_tot_len (of_nat (sizeof_iphdr + sizeof_icmphdr + totalPayloadSize)) \<circ>
                    put_bytes ip_header [0x45, 0xb8]) s;
     let s = computeChecksum_ip (ip_header_length (mTxBuffer s)) s;
     let s = on_tx (put16 icmp_echo_sequence (mTxSeqNo s) \<circ> put16 icmp_echo_id (mServerId cfg) \<circ>
                    put_bytes icmp_header [8, 0]) s;
     Some (computeChecksum_icmp (sizeof_icmphdr + totalPayloadSize) s)
   }"

section \<open>Sending\<close>

definition updateIcmpSequenceNo :: "link_prober \<Rightarrow> link_prober" where
  "updateIcmpSequenceNo s =
     (let n = mTxSeqNo s + 1;
          c = mIcmpChecksum s + (if n \<noteq> 0 then 1 else 0)
      in s\<lparr>mRxPeerSeqNo := mTxSeqNo s, mRxSelfSeqNo := mTxSeqNo s, mTxSeqNo := n, mIcmpChecksum := c,
           mTxBuffer := put16 icmp_checksum (addChecksumCarryover c) (put16 icmp_echo_sequence n (mTxBuffer s))\<rparr>)"

definition sendHeartbeat :: "bool \<Rightarrow> link_prober \<Rightarrow> link_prober" where
  "sendHeartbeat forceSend s =
     (let s = updateIcmpSequenceNo s
      in if forceSend \<or> (\<not> mSuspendTx s \<and> \<not> mShutdownTx s)
         then s\<lparr>sent := sent s @ [map (mTxBuffer s) [0..<mTxPacketSize s]]\<rparr>
         else s)"

definition handleSendProbeCommand :: "link_prober \<Rightarrow> link_prober option" where
  "handleSendProbeCommand s = do {
     s \<leftarrow> initTxBufferTlvSendProbe s;
     initTxBufferTlvSentinel (sendHeartbeat False s)
   }"

definition handleSendSwitchCommand :: "link_prober \<Rightarrow> link_prober option" where
  "handleSendSwitchCommand s = do {
     s \<leftarrow> initTxBufferTlvSendSwitch s;
     s \<leftarrow> initTxBufferTlvSentinel (sendHeartbeat False s);
     Some (post_to_manager [PostEvent SwitchActiveCommandCompleteEvent] s)
   }"

definition sendPeerProbeCommand :: "link_prober \<Rightarrow> link_prober" where
  "sendPeerProbeCommand s = prober_post_task DoSendProbeCommand s"

definition sendPeerSwitchCommand :: "link_prober \<Rightarrow> link_prober" where
  "sendPeerSwitchCommand s = prober_post_task DoSendSwitchCommand s"

definition probePeerTor :: "link_prober \<Rightarrow> link_prober" where
  "probePeerTor s = (if mPeerType s = SessionSoftware then prober_post_task (DoSendHeartbeat False) s else s)"

definition LinkProberSw_detectLink :: "link_prober \<Rightarrow> link_prober" where
  "LinkProberSw_detectLink s =
     s\<lparr>prober_tasks := prober_tasks s @
        replicate (unat (getPositiveStateChangeRetryCount (lp_mMuxPortConfig s))) (DoSendHeartbeat True)\<rparr>"

definition LinkProberSw_updateEthernetFrame :: "link_prober \<Rightarrow> link_prober" where
  "LinkProberSw_updateEthernetFrame s = prober_post_task DoUpdateFrame s"

section \<open>Probing\<close>

definition getProbingInterval :: "link_prober \<Rightarrow> u32" where
  "getProbingInterval s =
     (if mDecreaseProbingInterval s then getDecreasedTimeoutIpv4_msec (lp_mMuxPortConfig s)
      else getTimeoutIpv4_msec (lp_mMuxPortConfig s))"

definition LinkProberSw_startTimer :: "link_prober \<Rightarrow> link_prober" where
  "LinkProberSw_startTimer s = prober_start_timer ProbeTimer (unat (getProbingInterval s)) s"

text \<open>The socket gets a copy of the filter, which is not replaced later: the field stands for both.\<close>

definition attachFilter :: "link_prober \<Rightarrow> link_prober" where
  "attachFilter s = s\<lparr>mSockFilterPtr := filter_address (mBladeIpv4Address (lp_mMuxPortConfig s)) (mSockFilterPtr s)\<rparr>"

definition setupSocket :: "u16 \<Rightarrow> link_prober \<Rightarrow> link_prober option" where
  "setupSocket r s = do {
     s \<leftarrow> initializeSendBuffer r (attachFilter s);
     Some (startInitRecv s)
   }"

definition LinkProberSw_initialize :: "u16 \<Rightarrow> link_prober \<Rightarrow> link_prober option" where
  "LinkProberSw_initialize r s = setupSocket r s"

definition LinkProberSw_startProbing :: "link_prober \<Rightarrow> link_prober" where
  "LinkProberSw_startProbing s = LinkProberSw_startTimer (startRecv (sendHeartbeat False (stream_cancel s)))"

text \<open>The reports to the prober state machine, by cable type.\<close>

definition reportHeartbeatReplyReceived :: "heartbeat_type \<Rightarrow> link_prober \<Rightarrow> link_prober" where
  "reportHeartbeatReplyReceived h s =
     (case mPortCableType (lp_mMuxPortConfig s) of
        CableActiveStandby \<Rightarrow>
          if mTxSeqNo s = mRxSelfSeqNo s then post_to_manager [PostEvent (IcmpEvent IcmpSelfEvent)] s
          else if mTxSeqNo s = mRxPeerSeqNo s then post_to_manager [PostEvent (IcmpEvent IcmpPeerEvent)] s
          else s
      | CableActiveActive \<Rightarrow>
          let s = (if h = HEARTBEAT_SELF \<and> mTxSeqNo s = mRxSelfSeqNo s
                   then post_to_manager [PostEvent (IcmpEvent IcmpSelfEvent)] s else s)
          in if h = HEARTBEAT_PEER \<and> mTxSeqNo s = mRxPeerSeqNo s
             then post_to_manager [PostEvent (IcmpEvent IcmpPeerActiveEvent)] s else s)"

definition reportHeartbeatReplyNotReceived :: "heartbeat_type \<Rightarrow> link_prober \<Rightarrow> link_prober" where
  "reportHeartbeatReplyNotReceived h s =
     (case mPortCableType (lp_mMuxPortConfig s) of
        CableActiveStandby \<Rightarrow>
          if mTxSeqNo s \<noteq> mRxSelfSeqNo s \<and> mTxSeqNo s \<noteq> mRxPeerSeqNo s
          then post_to_manager [PostEvent (IcmpEvent IcmpUnknownEvent)]
                 (s\<lparr>mIcmpUnknownEventCount := mIcmpUnknownEventCount s + 1\<rparr>)
          else s
      | CableActiveActive \<Rightarrow>
          let s = (if mTxSeqNo s \<noteq> mRxSelfSeqNo s
                   then post_to_manager [PostEvent (IcmpEvent IcmpUnknownEvent)]
                          (s\<lparr>mIcmpUnknownEventCount := mIcmpUnknownEventCount s + 1\<rparr>) else s)
          in if mTxSeqNo s \<noteq> mRxPeerSeqNo s
             then post_to_manager [PostEvent (IcmpEvent IcmpPeerUnknownEvent)] s else s)"

definition LinkProberSw_handleTimeout :: "error_code \<Rightarrow> link_prober \<Rightarrow> link_prober option" where
  "LinkProberSw_handleTimeout ec s =
     (let s = reportHeartbeatReplyNotReceived HEARTBEAT_SELF (stream_cancel s);
          s = s\<lparr>mIcmpPacketCount := mIcmpPacketCount s + 1\<rparr>;
          n = ucast (getLinkProberStatUpdateIntervalCount (lp_mMuxPortConfig s)) :: u64
      in if n = 0 then None
         else let s = (if mIcmpPacketCount s mod n = 0
                       then post_to_manager [PostPckLossRatioUpdate (mIcmpUnknownEventCount s) (mIcmpPacketCount s)] s
                       else s)
              in Some (LinkProberSw_startProbing s))"

definition LinkProberSw_resetIcmpPacketCounts :: "link_prober \<Rightarrow> link_prober" where
  "LinkProberSw_resetIcmpPacketCounts s =
     post_to_manager [PostPckLossRatioUpdate 0 0] (s\<lparr>mIcmpUnknownEventCount := 0, mIcmpPacketCount := 0\<rparr>)"

section \<open>Suspending, shutting down, and the faster probing after a switch\<close>

definition LinkProberSw_suspendTxProbes :: "u32 \<Rightarrow> link_prober \<Rightarrow> link_prober" where
  "LinkProberSw_suspendTxProbes t s = (prober_start_timer SuspendTimer (unat t) s)\<lparr>mSuspendTx := True\<rparr>"

definition LinkProberSw_resumeTxProbes :: "link_prober \<Rightarrow> link_prober" where
  "LinkProberSw_resumeTxProbes s = prober_cancel_timer SuspendTimer s"

definition LinkProberSw_handleSuspendTimeout :: "error_code \<Rightarrow> link_prober \<Rightarrow> link_prober" where
  "LinkProberSw_handleSuspendTimeout ec s =
     (let s = s\<lparr>mSuspendTx := False\<rparr>
      in if ec = Success then post_to_manager [PostEvent SuspendTimerExpiredEvent] s else s)"

definition LinkProberSw_shutdownTxProbes :: "link_prober \<Rightarrow> link_prober" where
  "LinkProberSw_shutdownTxProbes s = s\<lparr>mShutdownTx := True\<rparr>"

definition LinkProberSw_restartTxProbes :: "link_prober \<Rightarrow> link_prober" where
  "LinkProberSw_restartTxProbes s = s\<lparr>mShutdownTx := False\<rparr>"

definition LinkProberSw_decreaseProbeIntervalAfterSwitch :: "u32 \<Rightarrow> link_prober \<Rightarrow> link_prober" where
  "LinkProberSw_decreaseProbeIntervalAfterSwitch t s =
     (prober_start_timer SwitchoverTimer (unat t) s)\<lparr>mDecreaseProbingInterval := True\<rparr>"

definition LinkProberSw_revertProbeIntervalAfterSwitchComplete :: "link_prober \<Rightarrow> link_prober" where
  "LinkProberSw_revertProbeIntervalAfterSwitchComplete s =
     (prober_cancel_timer SwitchoverTimer s)\<lparr>mDecreaseProbingInterval := False\<rparr>"

definition LinkProberSw_handleSwitchoverTimeout :: "error_code \<Rightarrow> link_prober \<Rightarrow> link_prober" where
  "LinkProberSw_handleSwitchoverTimeout ec s = s\<lparr>mDecreaseProbingInterval := False\<rparr>"

section \<open>Receiving\<close>

definition LinkProberSw_handleIcmpPayload :: "nat \<Rightarrow> link_prober \<Rightarrow> link_prober" where
  "LinkProberSw_handleIcmpPayload bytesTransferred s =
     (let rx = mRxBuffer s;
          isHwCookie = (ntohl_at rx mPacketHeaderSize = mHardwareCookie)
      in if ntohl_at rx (mPacketHeaderSize + 4) \<le> payload_mVersion \<and>
            (ntohs_at rx icmp_echo_id = mServerId (lp_mMuxPortConfig s) \<or> isHwCookie)
         then (let guid = getGuidStr rx mPacketHeaderSize
               in if guid = ''0x0'' then startRecv s
                  else let isSelfGuid = (mSelfGuid s = guid);
                           s = (if isSelfGuid then s\<lparr>mRxSelfSeqNo := mTxSeqNo s\<rparr>
                                else s\<lparr>mRxPeerSeqNo := mTxSeqNo s, mPeerGuid := guid,
                                       mPeerType := (if isHwCookie then SessionHardware else mPeerType s)\<rparr>);
                           s = reportHeartbeatReplyReceived (if isSelfGuid then HEARTBEAT_SELF else HEARTBEAT_PEER) s
                       in startRecv (post_to_manager (map PostEvent (handleTlvRecv rx bytesTransferred isSelfGuid)) s))
         else startRecv s)"

fun LinkProberBase_handleRecv :: "io_result \<Rightarrow> link_prober \<Rightarrow> link_prober option" where
  "LinkProberBase_handleRecv (IoSuccess n) s =
     (if mLinkProberType (lp_mMuxPortConfig s) = ProberHardware then None
      else Some (LinkProberSw_handleIcmpPayload n s))"
| "LinkProberBase_handleRecv _ s = Some s"

definition LinkProberBase_handleInitRecv :: "io_result \<Rightarrow> link_prober \<Rightarrow> link_prober" where
  "LinkProberBase_handleInitRecv r s =
     (if r \<noteq> IoAborted
      then let cfg = lp_mMuxPortConfig s
           in post_to_manager [PostMacUpdate (if ifEnableUseTorMac cfg then mTorMacAddress (mMuxConfig cfg)
                                              else mVlanMacAddress (mMuxConfig cfg))] s
      else s)"

section \<open>The prober as the managers see it\<close>

text \<open>The function pointers bound to the prober; the other calls go to the port.\<close>

fun LinkProberSw_call :: "u16 \<Rightarrow> call \<Rightarrow> link_prober \<Rightarrow> link_prober option" where
  "LinkProberSw_call r InitializeProber s = LinkProberSw_initialize r s"
| "LinkProberSw_call r StartProbing s = Some (LinkProberSw_startProbing s)"
| "LinkProberSw_call r UpdateEthernetFrame s = Some (LinkProberSw_updateEthernetFrame s)"
| "LinkProberSw_call r ProbePeerTor s = Some (probePeerTor s)"
| "LinkProberSw_call r DetectLink s = Some (LinkProberSw_detectLink s)"
| "LinkProberSw_call r (SuspendTx t) s = Some (LinkProberSw_suspendTxProbes t s)"
| "LinkProberSw_call r ResumeTx s = Some (LinkProberSw_resumeTxProbes s)"
| "LinkProberSw_call r ShutdownTx s = Some (LinkProberSw_shutdownTxProbes s)"
| "LinkProberSw_call r RestartTx s = Some (LinkProberSw_restartTxProbes s)"
| "LinkProberSw_call r ResetIcmpPacketCounts s = Some (LinkProberSw_resetIcmpPacketCounts s)"
| "LinkProberSw_call r SendPeerSwitchCommand s = Some (sendPeerSwitchCommand s)"
| "LinkProberSw_call r SendPeerProbeCommand s = Some (sendPeerProbeCommand s)"
| "LinkProberSw_call r (DecreaseInterval t) s = Some (LinkProberSw_decreaseProbeIntervalAfterSwitch t s)"
| "LinkProberSw_call r RevertInterval s = Some (LinkProberSw_revertProbeIntervalAfterSwitchComplete s)"
| "LinkProberSw_call r _ s = Some s"

fun LinkProberSw_run :: "u16 \<Rightarrow> prober_task \<Rightarrow> link_prober \<Rightarrow> link_prober option" where
  "LinkProberSw_run r DoUpdateFrame s = initializeSendBuffer r s"
| "LinkProberSw_run r (DoSendHeartbeat forceSend) s = Some (sendHeartbeat forceSend s)"
| "LinkProberSw_run r DoSendSwitchCommand s = handleSendSwitchCommand s"
| "LinkProberSw_run r DoSendProbeCommand s = handleSendProbeCommand s"
| "LinkProberSw_run r (DoTimer ProbeTimer ec) s = LinkProberSw_handleTimeout ec s"
| "LinkProberSw_run r (DoTimer SuspendTimer ec) s = Some (LinkProberSw_handleSuspendTimeout ec s)"
| "LinkProberSw_run r (DoTimer SwitchoverTimer ec) s = Some (LinkProberSw_handleSwitchoverTimeout ec s)"
| "LinkProberSw_run r (DoInitRecv res) s = Some (LinkProberBase_handleInitRecv res s)"
| "LinkProberSw_run r (DoRecv res) s = LinkProberBase_handleRecv res s"

text \<open>A read completes: the first pending one takes the bytes, at most the size of the buffer.\<close>

definition receive :: "io_result \<Rightarrow> u8 list \<Rightarrow> link_prober \<Rightarrow> link_prober" where
  "receive res bytes s =
     (case prober_reads s of
        [] \<Rightarrow> s
      | k # ks \<Rightarrow> prober_post_task (read_handler k res)
          (s\<lparr>mRxBuffer := put_bytes 0 bytes (mRxBuffer s), prober_reads := ks\<rparr>))"

definition fire_prober_timer :: "prober_timer \<Rightarrow> link_prober \<Rightarrow> link_prober" where
  "fire_prober_timer i s = prober_post_task (DoTimer i Success)
     (s\<lparr>prober_timers := (prober_timers s)(i := (prober_timers s i)\<lparr>tm_pending := False\<rparr>)\<rparr>)"

definition take_prober_task :: "nat \<Rightarrow> link_prober \<Rightarrow> link_prober" where
  "take_prober_task i s = s\<lparr>prober_tasks := take i (prober_tasks s) @ drop (Suc i) (prober_tasks s)\<rparr>"

text \<open>
  The steps of an initialised prober: a call of the manager, any pending task of its strand, a due
  timer, the end of a read, the passage of time, and a change of the configuration that it shares
  with the manager (everything may change but the cable type and the server identifier, which are fixed when the port is created).
\<close>

inductive prober_step :: "link_prober \<Rightarrow> link_prober \<Rightarrow> bool" where
  step_prober_call: "c \<noteq> InitializeProber \<Longrightarrow> LinkProberSw_call r c s = Some s' \<Longrightarrow> prober_step s s'"
| step_prober_run: "i < length (prober_tasks s) \<Longrightarrow>
    LinkProberSw_run r (prober_tasks s ! i) (take_prober_task i s) = Some s' \<Longrightarrow> prober_step s s'"
| step_prober_timer: "tm_pending (prober_timers s i) \<Longrightarrow> tm_expiry (prober_timers s i) = Some t \<Longrightarrow> t \<le> prober_now s \<Longrightarrow>
    prober_step s (fire_prober_timer i s)"
| step_prober_packet: "length bytes \<le> MUX_MAX_ICMP_BUFFER_SIZE \<Longrightarrow>
    prober_step s (receive (IoSuccess (length bytes)) bytes s)"
| step_prober_read_error: "prober_step s (receive IoError [] s)"
| step_prober_clock: "prober_step s (s\<lparr>prober_now := prober_now s + d\<rparr>)"
| step_prober_config: "mPortCableType cfg = mPortCableType (lp_mMuxPortConfig s) \<Longrightarrow>
    mServerId cfg = mServerId (lp_mMuxPortConfig s) \<Longrightarrow>
    prober_step s (s\<lparr>lp_mMuxPortConfig := cfg\<rparr>)"

text \<open>The states reached from an initialised prober, with the number of steps.\<close>

inductive prober_reachable :: "mux_port_config \<Rightarrow> nat \<Rightarrow> link_prober \<Rightarrow> bool" for cfg where
  prober_start: "LinkProberSw_initialize r (LinkProberSw_new tx0 rx0 size0 cfg) = Some s \<Longrightarrow> prober_reachable cfg 0 s"
| prober_next: "prober_reachable cfg n s \<Longrightarrow> prober_step s s' \<Longrightarrow> prober_reachable cfg (Suc n) s'"

inductive_cases prober_stepE: "prober_step s s'"

end
