(* ===== verification/Link_Prober_Props.thy ===== *)
theory Link_Prober_Props
  imports Link_Prober_Sw
begin

text \<open>
  The invariant of the software prober: the frame in its buffer is well-formed and carries valid checksums,
  also after the incremental update of the ICMP checksum; every packet ever sent was such a frame; a
  suspension always ends; the counters of the packet loss report are consistent.
\<close>

section \<open>Buffers\<close>

lemma checksum_stored:
  assumes "even k" and "k + 2 \<le> n" and "n \<le> MUX_MAX_ICMP_BUFFER_SIZE" and "0 < word_sum (put16 (i + k) 0 b) i n"
  shows "checksum_valid (put16 (i + k) (addChecksumCarryover (calculateChecksum (put16 (i + k) 0 b) i n)) (put16 (i + k) 0 b)) i n"
proof -
  let ?b = "put16 (i + k) 0 b"
  let ?c = "calculateChecksum ?b i n"
  have c: "unat ?c = word_sum ?b i n" by (rule unat_calculateChecksum [OF assms(3)])
  have "word_sum (put16 (i + k) (addChecksumCarryover ?c) ?b) i n = unat ?c + unat (addChecksumCarryover ?c)"
    using word_sum_put_word [OF assms(1,2), of i "addChecksumCarryover ?c" ?b] c by simp
  with assms(4) c addChecksumCarryover_mod [of ?c] show ?thesis
    by (simp add: checksum_valid_iff [OF assms(3)])
qed

lemma checksum_valid_cong:
  assumes "n \<le> MUX_MAX_ICMP_BUFFER_SIZE" and "\<And>j. i \<le> j \<Longrightarrow> j < i + n \<Longrightarrow> b j = b' j"
  shows "checksum_valid b i n \<longleftrightarrow> checksum_valid b' i n"
  using word_sum_cong [of i n b b'] assms by (simp add: checksum_valid_iff)

text \<open>The first word of a region is positive when its first byte is.\<close>

lemma word_sum_pos: "b i \<noteq> 0 \<Longrightarrow> 0 < n \<Longrightarrow> 0 < word_sum b i n"
  by (cases "(b, i, n)" rule: word_sum.cases) (auto simp: ntohs_at_def unat_be16 unat_gt_0)

section \<open>Well-formed frames\<close>

text \<open>The fields of a heartbeat of the server \<open>sid\<close> with the UUID \<open>u\<close>, and its records.\<close>

definition header_ok :: "u16 \<Rightarrow> u8 list \<Rightarrow> buffer \<Rightarrow> bool" where
  "header_ok sid u b \<longleftrightarrow>
     b ip_header = 0x45 \<and> b icmp_header = 8 \<and> ntohs_at b icmp_echo_id = sid \<and>
     ntohl_at b 42 = mSoftwareCookie \<and> ntohl_at b 46 = payload_mVersion \<and>
     map b [payload_uuid..<payload_uuid + 8] = drop 8 u"

definition encode_command :: "tlv_command \<Rightarrow> u8 list" where
  "encode_command c = [TLV_COMMAND, 0, 1, tlv_command_byte c]"

definition encode_tlvs :: "tlv_command list \<Rightarrow> u8 list" where
  "encode_tlvs cs = concat (map encode_command cs) @ [TLV_SENTINEL, 0, 0]"

definition tlvs_ok :: "tlv_command list \<Rightarrow> nat \<Rightarrow> buffer \<Rightarrow> bool" where
  "tlvs_ok cs n b \<longleftrightarrow> n = 66 + 4 * length cs + 3 \<and> map b [66..<n] = encode_tlvs cs"

text \<open>
  The ICMP checksum is kept incrementally: the stored field folds \<open>mIcmpChecksum\<close>, which agrees
  with the sum of the other words modulo \<open>0xFFFF\<close> and has grown by at most \<open>k\<close> since it was computed.
\<close>

definition icmp_sum_ok :: "nat \<Rightarrow> link_prober \<Rightarrow> bool" where
  "icmp_sum_ok k s \<longleftrightarrow>
     ntohs_at (mTxBuffer s) icmp_checksum = addChecksumCarryover (mIcmpChecksum s) \<and>
     ntohs_at (mTxBuffer s) icmp_echo_sequence = mTxSeqNo s \<and>
     0 < unat (mIcmpChecksum s) \<and> unat (mIcmpChecksum s) \<le> 65535 * 40 + k \<and>
     word_sum (put16 icmp_checksum 0 (mTxBuffer s)) icmp_header (mTxPacketSize s - icmp_header) mod 65535 =
       unat (mIcmpChecksum s) mod 65535"

definition frame_ok :: "u16 \<Rightarrow> u8 list \<Rightarrow> tlv_command list \<Rightarrow> nat \<Rightarrow> link_prober \<Rightarrow> bool" where
  "frame_ok sid u cs k s \<longleftrightarrow>
     header_ok sid u (mTxBuffer s) \<and> tlvs_ok cs (mTxPacketSize s) (mTxBuffer s) \<and> length cs \<le> 1 \<and>
     checksum_valid (mTxBuffer s) ip_header sizeof_iphdr \<and> icmp_sum_ok k s"

lemma header_ok_cong:
  "(\<And>i. i \<in> {14, 34, 38, 39} \<union> {42..57} \<Longrightarrow> b i = b' i) \<Longrightarrow> header_ok sid u b = header_ok sid u b'"
proof -
  assume a: "\<And>i. i \<in> {14, 34, 38, 39} \<union> {42..57} \<Longrightarrow> b i = b' i"
  then have "map b [50..<58] = map b' [50..<58]" by simp
  with a show ?thesis by (simp add: header_ok_def ntohs_at_def ntohl_at_def)
qed

lemma tlvs_ok_cong: "(\<And>i. 66 \<le> i \<Longrightarrow> b i = b' i) \<Longrightarrow> tlvs_ok cs n b = tlvs_ok cs n b'"
proof -
  assume "\<And>i. 66 \<le> i \<Longrightarrow> b i = b' i"
  then have "map b [66..<n] = map b' [66..<n]" by simp
  then show ?thesis by (simp only: tlvs_ok_def)
qed

lemma icmp_sum_ok_mono: "icmp_sum_ok k s \<Longrightarrow> k \<le> k' \<Longrightarrow> icmp_sum_ok k' s"
  by (auto simp: icmp_sum_ok_def)

lemma frame_ok_mono: "frame_ok sid u cs k s \<Longrightarrow> k \<le> k' \<Longrightarrow> frame_ok sid u cs k' s"
  by (auto simp: frame_ok_def elim: icmp_sum_ok_mono)

lemma tlvs_ok_size: "tlvs_ok cs n b \<Longrightarrow> length cs \<le> 1 \<Longrightarrow> 69 \<le> n \<and> n \<le> 73"
  by (auto simp: tlvs_ok_def)

text \<open>Both checksums of a well-formed frame are accepted by a receiver.\<close>

lemma frame_ok_checksums:
  assumes "frame_ok sid u cs k s"
  shows "checksum_valid (mTxBuffer s) ip_header sizeof_iphdr"
    and "checksum_valid (mTxBuffer s) icmp_header (mTxPacketSize s - icmp_header)"
proof -
  show "checksum_valid (mTxBuffer s) ip_header sizeof_iphdr" using assms by (simp add: frame_ok_def)
  let ?b = "mTxBuffer s" and ?n = "mTxPacketSize s - 34"
  have n: "35 \<le> ?n" "?n \<le> MUX_MAX_ICMP_BUFFER_SIZE" and i: "icmp_sum_ok k s" and t: "?b 34 \<noteq> 0"
    using assms tlvs_ok_size [of cs "mTxPacketSize s" ?b] by (auto simp: frame_ok_def header_ok_def layout_defs)
  have "word_sum ?b 34 ?n = unat (addChecksumCarryover (mIcmpChecksum s)) + word_sum (put16 36 0 ?b) 34 ?n"
    using word_sum_take_word [of 2 ?n ?b 34] n i by (simp add: icmp_sum_ok_def)
  moreover have "(unat (addChecksumCarryover (mIcmpChecksum s)) + word_sum (put16 36 0 ?b) 34 ?n) mod 65535 =
      (unat (mIcmpChecksum s) + unat (addChecksumCarryover (mIcmpChecksum s))) mod 65535"
    using i unfolding icmp_sum_ok_def by (subst add.commute) (rule mod_add_cong, simp_all)
  ultimately show "checksum_valid ?b icmp_header (mTxPacketSize s - icmp_header)"
    using n t word_sum_pos [of ?b 34 ?n] by (simp add: checksum_valid_iff addChecksumCarryover_mod)
qed

section \<open>The operations on the frame\<close>

lemma icmp_sum_ok_cong:
  assumes "\<And>i. 34 \<le> i \<Longrightarrow> b i = mTxBuffer s i" and "icmp_sum_ok k s"
  shows "icmp_sum_ok k (s\<lparr>mTxBuffer := b, mIpChecksum := x\<rparr>)"
proof -
  have "word_sum (put16 36 0 b) 34 n = word_sum (put16 36 0 (mTxBuffer s)) 34 n" for n
    by (rule word_sum_cong) (simp add: put16_def assms(1))
  with assms show ?thesis by (simp add: icmp_sum_ok_def ntohs_at_def)
qed

lemma header_ok_put [simp]:
  "i \<in> {16, 18, 20, 24, 36, 40} \<or> 58 \<le> i \<Longrightarrow> header_ok sid u (put16 i w b) = header_ok sid u b"
  "58 \<le> i \<Longrightarrow> header_ok sid u (b(i := x)) = header_ok sid u b"
  by (rule header_ok_cong; auto simp: put16_def)+

lemma tlvs_ok_put [simp]: "Suc i < 66 \<Longrightarrow> tlvs_ok cs n (put16 i w b) = tlvs_ok cs n b"
  by (rule tlvs_ok_cong) (simp add: put16_def)

lemma ip_valid_put [simp]:
  "34 \<le> i \<Longrightarrow> checksum_valid (put16 i w b) 14 20 = checksum_valid b 14 20"
  by (rule checksum_valid_cong) (auto simp: put16_def layout_defs)

lemma computeChecksum_ip_valid:
  "mTxBuffer s 14 \<noteq> 0 \<Longrightarrow> checksum_valid (mTxBuffer (computeChecksum_ip 20 s)) 14 20"
  using checksum_stored [of 10 20 14 "mTxBuffer s"] word_sum_pos [of "put16 24 0 (mTxBuffer s)" 14 20]
  by (simp add: computeChecksum_ip_def Let_def layout_defs)

lemma computeChecksum_ip_frame:
  assumes "frame_ok sid u cs k s"
  shows "frame_ok sid u cs k (computeChecksum_ip 20 (on_tx (put16 16 w) s))"
proof -
  let ?t = "on_tx (put16 16 w) s"
  have "icmp_sum_ok k (computeChecksum_ip 20 ?t)"
    unfolding computeChecksum_ip_def Let_def
    by (rule icmp_sum_ok_cong)
      (use assms icmp_sum_ok_cong [of "put16 16 w (mTxBuffer s)" s k "mIpChecksum s"] in
        \<open>auto simp: frame_ok_def on_tx_def\<close>)
  moreover have "checksum_valid (mTxBuffer (computeChecksum_ip 20 ?t)) 14 20"
    using assms by (intro computeChecksum_ip_valid) (simp add: frame_ok_def header_ok_def on_tx_def)
  ultimately show ?thesis
    using assms by (simp add: frame_ok_def computeChecksum_ip_def on_tx_def Let_def)
qed

lemma computeChecksum_icmp_frame:
  assumes "header_ok sid u (mTxBuffer s)" and "tlvs_ok cs (mTxPacketSize s) (mTxBuffer s)" and "length cs \<le> 1"
    and "checksum_valid (mTxBuffer s) 14 20" and "ntohs_at (mTxBuffer s) 40 = mTxSeqNo s"
  shows "frame_ok sid u cs 0 (computeChecksum_icmp (mTxPacketSize s - 34) s)"
proof -
  let ?n = "mTxPacketSize s - 34" and ?b = "put16 36 0 (mTxBuffer s)"
  have n: "35 \<le> ?n" "?n \<le> 39" using tlvs_ok_size [OF assms(2,3)] by auto
  have c: "unat (calculateChecksum ?b 34 ?n) = word_sum ?b 34 ?n"
    using n by (intro unat_calculateChecksum) (simp add: layout_defs)
  have pos: "0 < word_sum ?b 34 ?n" using n assms(1) by (intro word_sum_pos) (simp_all add: header_ok_def)
  have "word_sum ?b 34 ?n \<le> 65535 * 40" using word_sum_bound [of ?b 34 ?n] n by linarith
  moreover have "put16 36 0 (put16 36 w ?b) = ?b" for w by (simp add: put16_def fun_eq_iff)
  ultimately have "icmp_sum_ok 0 (computeChecksum_icmp ?n s)"
    using c pos assms(5) by (simp add: icmp_sum_ok_def computeChecksum_icmp_def Let_def)
  with assms show ?thesis by (simp add: frame_ok_def computeChecksum_icmp_def Let_def)
qed

lemma calculateTxPacketChecksum_frame:
  assumes "header_ok sid u (mTxBuffer s)" and "tlvs_ok cs (mTxPacketSize s) (mTxBuffer s)" and "length cs \<le> 1"
    and "checksum_valid (mTxBuffer s) 14 20" and "ntohs_at (mTxBuffer s) 40 = mTxSeqNo s"
  shows "frame_ok sid u cs 0 (calculateTxPacketChecksum s)"
proof -
  have "mTxPacketSize s \<ge> 69" using tlvs_ok_size [OF assms(2,3)] by simp
  then have "8 + (mTxPacketSize s - 42) = mTxPacketSize s - 34" by simp
  moreover have "ip_header_length (mTxBuffer (on_tx (put16 16 w) (computeChecksum_icmp n s))) = 20" for w n
    using assms(1) by (simp add: ip_header_length_def header_ok_def on_tx_def computeChecksum_icmp_def Let_def)
  ultimately show ?thesis
    using computeChecksum_ip_frame [OF computeChecksum_icmp_frame [OF assms]]
    by (simp add: calculateTxPacketChecksum_def layout_defs Let_def)
qed

lemma appended_tlvs:
  "tlvs_ok [] 69 (put16 67 0 (b(66 := TLV_SENTINEL)))"
  "tlvs_ok [c] 73 (put16 71 0 (((put16 67 1 (b(66 := TLV_COMMAND)))(69 := tlv_command_byte c))(70 := TLV_SENTINEL)))"
  by (simp_all add: tlvs_ok_def encode_tlvs_def encode_command_def put16_def)

lemma append_frames:
  assumes "frame_ok sid u cs k s"
  shows "\<exists>s1. initTxBufferTlvSentinel s = Some s1 \<and> frame_ok sid u [] 0 s1"
    and "\<exists>s1. initTxBufferTlvSendSwitch s = Some s1 \<and> frame_ok sid u [COMMAND_SWITCH_ACTIVE] 0 s1"
    and "\<exists>s1. initTxBufferTlvSendProbe s = Some s1 \<and> frame_ok sid u [COMMAND_MUX_PROBE] 0 s1"
proof -
  let ?b = "mTxBuffer s"
  have a: "header_ok sid u ?b" "ntohs_at ?b 40 = mTxSeqNo s" "checksum_valid ?b 14 20"
    using assms by (simp_all add: frame_ok_def icmp_sum_ok_def)
  have ip: "checksum_valid (b(i := x)) 14 20 = checksum_valid b 14 20" if "34 \<le> i" for b i x
    using that by (intro checksum_valid_cong) (auto simp: layout_defs)
  have seq: "ntohs_at (b(i := x)) 40 = ntohs_at b 40" if "42 \<le> i" for b i x
    using that by (simp add: ntohs_at_def)
  note simps = a ip seq appended_tlvs layout_defs on_tx_def resetTxBufferTlv_def appendTlvSentinel_def appendTlvCommand_def
  show "\<exists>s1. initTxBufferTlvSentinel s = Some s1 \<and> frame_ok sid u [] 0 s1"
    by (auto simp: initTxBufferTlvSentinel_def simps intro!: calculateTxPacketChecksum_frame)
  show "\<exists>s1. initTxBufferTlvSendSwitch s = Some s1 \<and> frame_ok sid u [COMMAND_SWITCH_ACTIVE] 0 s1"
    by (auto simp: initTxBufferTlvSendSwitch_def simps simp del: tlv_command_byte.simps intro!: calculateTxPacketChecksum_frame)
  show "\<exists>s1. initTxBufferTlvSendProbe s = Some s1 \<and> frame_ok sid u [COMMAND_MUX_PROBE] 0 s1"
    by (auto simp: initTxBufferTlvSendProbe_def simps simp del: tlv_command_byte.simps intro!: calculateTxPacketChecksum_frame)
qed

lemma ntohl_at_put_bytes: "i + 4 \<le> j \<Longrightarrow> ntohl_at (put_bytes j xs b) i = ntohl_at b i"
  by (simp add: ntohl_at_def ntohs_at_def put_bytes_other)

lemma ntohl_at_put32_other: "i + 4 \<le> j \<Longrightarrow> ntohl_at (put32 j w b) i = ntohl_at b i"
  by (simp add: ntohl_at_def ntohs_at_def)

lemma payload_bytes:
  assumes "length u = 16"
  shows "map (put_bytes 50 (drop 8 u) b) [50..<58] = drop 8 u"
  using assms put_bytes_nth [of _ "drop 8 u" 50 b] by (intro nth_equalityI) (simp_all del: upt_rec_numeral)

lemma initializeSendBuffer_frame:
  assumes "length (mSelfUUID s) = 16"
  shows "\<exists>s1. initializeSendBuffer r s = Some s1 \<and> frame_ok (mServerId (lp_mMuxPortConfig s)) (mSelfUUID s) [] 0 s1"
proof -
  define cfg where "cfg = lp_mMuxPortConfig s"
  define pay where "pay = put_bytes 50 (drop 8 (mSelfUUID s)) (put_bytes 58 (replicate 8 0)
    (put32 46 payload_mVersion (put32 42 mSoftwareCookie (put16 12 0x0800 (put_bytes 6
      (if ifEnableUseTorMac cfg then mTorMacAddress (mMuxConfig cfg) else mVlanMacAddress (mMuxConfig cfg))
      (put_bytes 0 (mBladeMacAddress cfg) (mTxBuffer s)))))))"
  define tlv where "tlv = put16 67 0 (pay(66 := TLV_SENTINEL))"
  define ip where "ip = put32 30 (mBladeIpv4Address cfg) (put32 26 (mLoopbackIpv4Address (mMuxConfig cfg))
    (put16 24 0 (put_bytes 22 [64, 1] (put16 20 0 (put16 18 r (put16 16 55 (put_bytes 14 [0x45, 0xb8] tlv)))))))"
  define s1 where "s1 = computeChecksum_ip 20 (s\<lparr>mTxBuffer := ip, mTxPacketSize := 69\<rparr>)"
  define s2 where "s2 = on_tx (put16 40 (mTxSeqNo s) \<circ> put16 38 (mServerId cfg) \<circ> put_bytes 34 [8, 0]) s1"
  have run: "initializeSendBuffer r s = Some (computeChecksum_icmp (mTxPacketSize s2 - 34) s2)"
    by (simp add: initializeSendBuffer_def on_tx_def resetTxBufferTlv_def appendTlvSentinel_def layout_defs
        assms s1_def s2_def ip_def tlv_def pay_def cfg_def ip_header_length_def computeChecksum_ip_def Let_def)
  have s2: "mTxPacketSize s2 = 69" "mTxSeqNo s2 = mTxSeqNo s" by (simp_all add: s2_def s1_def on_tx_def computeChecksum_ip_def Let_def)
  have b: "mTxBuffer s2 i = pay i" if "i \<in> {42..<66}" for i
    using that by (simp add: s2_def s1_def on_tx_def computeChecksum_ip_def ip_def tlv_def Let_def)
  have b': "mTxBuffer s2 i = tlv i" if "66 \<le> i" for i
    using that by (simp add: s2_def s1_def on_tx_def computeChecksum_ip_def ip_def Let_def)
  have uuid: "map (mTxBuffer s2) [50..<58] = drop 8 (mSelfUUID s)"
    using payload_bytes [OF assms] b by (simp add: pay_def)
  have "header_ok (mServerId cfg) (mSelfUUID s) (mTxBuffer s2)"
  proof -
    have "mTxBuffer s2 14 = 0x45" "mTxBuffer s2 34 = 8" "ntohs_at (mTxBuffer s2) 38 = mServerId cfg"
      by (simp_all add: s2_def s1_def on_tx_def computeChecksum_ip_def ip_def Let_def)
    moreover have "ntohl_at (mTxBuffer s2) 42 = ntohl_at pay 42" "ntohl_at (mTxBuffer s2) 46 = ntohl_at pay 46"
      by (simp_all add: ntohl_at_def ntohs_at_def b)
    moreover have "ntohl_at pay 42 = mSoftwareCookie" "ntohl_at pay 46 = payload_mVersion"
      by (simp_all add: pay_def ntohl_at_put_bytes ntohl_at_put32_other)
    ultimately show ?thesis using uuid by (simp add: header_ok_def)
  qed
  moreover have "tlvs_ok [] (mTxPacketSize s2) (mTxBuffer s2)"
    using tlvs_ok_cong [OF b'] by (simp add: s2 tlv_def appended_tlvs)
  moreover have "checksum_valid (mTxBuffer s2) 14 20"
  proof -
    have "checksum_valid (mTxBuffer s1) 14 20"
      unfolding s1_def by (rule computeChecksum_ip_valid) (simp add: ip_def)
    moreover have "checksum_valid (mTxBuffer s2) 14 20 = checksum_valid (mTxBuffer s1) 14 20"
      by (rule checksum_valid_cong) (auto simp: s2_def on_tx_def layout_defs)
    ultimately show ?thesis by simp
  qed
  ultimately show ?thesis
    using computeChecksum_icmp_frame [of "mServerId cfg" "mSelfUUID s" s2 "[]"] s2
    by (simp add: run s2_def on_tx_def cfg_def)
qed

lemma updateIcmpSequenceNo_frame:
  assumes "frame_ok sid u cs k s" and "k < 2 ^ 31"
  shows "frame_ok sid u cs (Suc k) (updateIcmpSequenceNo s)"
proof -
  define n where "n = mTxSeqNo s + 1"
  define d :: u32 where "d = (if n \<noteq> 0 then 1 else 0)"
  define c where "c = mIcmpChecksum s + d"
  let ?b = "mTxBuffer s" and ?m = "mTxPacketSize s - 34"
  have i: "icmp_sum_ok k s" and m: "35 \<le> ?m"
    using assms(1) tlvs_ok_size [of cs "mTxPacketSize s" ?b] by (auto simp: frame_ok_def)
  have c: "unat c = unat (mIcmpChecksum s) + unat d"
    using i assms(2) by (simp add: c_def d_def icmp_sum_ok_def unat_word_ariths)
  have "put16 36 0 (put16 36 w (put16 40 n ?b)) = put16 40 n (put16 36 0 ?b)" for w
    by (simp add: put16_def fun_eq_iff)
  moreover have "word_sum (put16 40 n (put16 36 0 ?b)) 34 ?m + unat (mTxSeqNo s) =
      word_sum (put16 36 0 ?b) 34 ?m + unat n"
    using word_sum_put_word [of 6 ?m 34 n "put16 36 0 ?b"] m i by (simp add: icmp_sum_ok_def)
  moreover have "unat n + (if n = 0 then 65535 else 0) = unat (mTxSeqNo s) + unat d"
  proof -
    have "unat n = (unat (mTxSeqNo s) + 1) mod 65536" by (simp add: n_def unat_word_ariths)
    moreover have "n = 0 \<longleftrightarrow> unat n = 0" by (simp add: unat_eq_0)
    ultimately show ?thesis
      using unat_u16_less [of "mTxSeqNo s"] by (cases "unat (mTxSeqNo s) = 65535") (auto simp: d_def)
  qed
  ultimately have sum: "word_sum (put16 36 0 (put16 36 w (put16 40 n ?b))) 34 ?m + (if n = 0 then 65535 else 0) =
      word_sum (put16 36 0 ?b) 34 ?m + unat d" for w by simp
  have "word_sum (put16 36 0 (put16 36 w (put16 40 n ?b))) 34 ?m mod 65535 = unat c mod 65535" for w
  proof -
    have "(word_sum (put16 36 0 (put16 36 w (put16 40 n ?b))) 34 ?m + (if n = 0 then 65535 else 0)) mod 65535 =
        unat c mod 65535"
      unfolding sum c using i by (intro mod_add_cong) (simp_all add: icmp_sum_ok_def)
    then show ?thesis by (simp split: if_splits)
  qed
  moreover have "updateIcmpSequenceNo s = s\<lparr>mRxPeerSeqNo := mTxSeqNo s, mRxSelfSeqNo := mTxSeqNo s, mTxSeqNo := n,
      mIcmpChecksum := c, mTxBuffer := put16 36 (addChecksumCarryover c) (put16 40 n ?b)\<rparr>"
    by (simp add: updateIcmpSequenceNo_def n_def c_def d_def Let_def)
  moreover have "unat d \<le> 1" by (simp add: d_def)
  ultimately show ?thesis
    using assms(1) i c by (simp add: frame_ok_def icmp_sum_ok_def)
qed

section \<open>Packets\<close>

text \<open>
  What a port with the server identifier \<open>sid\<close> and the UUID \<open>u\<close> puts on the wire to send the
  commands \<open>cs\<close>: a frame whose fields, records and two checksums are right.
\<close>

definition packet_buffer :: "u8 list \<Rightarrow> buffer" where
  "packet_buffer p = put_bytes 0 p (\<lambda>_. 0)"

definition heartbeat_packet :: "u16 \<Rightarrow> u8 list \<Rightarrow> tlv_command list \<Rightarrow> u8 list \<Rightarrow> bool" where
  "heartbeat_packet sid u cs p \<longleftrightarrow>
     (let b = packet_buffer p in
      header_ok sid u b \<and> tlvs_ok cs (length p) b \<and>
      checksum_valid b ip_header sizeof_iphdr \<and> checksum_valid b icmp_header (length p - icmp_header))"

lemma packet_buffer_map: "j < n \<Longrightarrow> packet_buffer (map b [0..<n]) j = b j"
  using put_bytes_nth [of j "map b [0..<n]" 0] by (simp add: packet_buffer_def)

lemma frame_ok_packet:
  assumes "frame_ok sid u cs k s"
  shows "heartbeat_packet sid u cs (map (mTxBuffer s) [0..<mTxPacketSize s])"
proof -
  let ?n = "mTxPacketSize s" and ?b = "mTxBuffer s"
  let ?p = "packet_buffer (map ?b [0..<?n])"
  have n: "69 \<le> ?n" "?n \<le> 73"
    using assms tlvs_ok_size [of cs ?n ?b] by (auto simp: frame_ok_def)
  note same = packet_buffer_map [of _ ?n ?b]
  have "header_ok sid u ?p = header_ok sid u ?b" using n by (intro header_ok_cong same) auto
  moreover have "tlvs_ok cs ?n ?p = tlvs_ok cs ?n ?b"
  proof -
    have "map ?p [66..<?n] = map ?b [66..<?n]" using same by simp
    then show ?thesis by (simp only: tlvs_ok_def)
  qed
  moreover have "checksum_valid ?p 14 20 = checksum_valid ?b 14 20"
    "checksum_valid ?p 34 (?n - 34) = checksum_valid ?b 34 (?n - 34)"
    using n by (auto intro!: checksum_valid_cong same simp: layout_defs)
  ultimately show ?thesis
    using assms frame_ok_checksums [OF assms]
    by (simp add: heartbeat_packet_def Let_def frame_ok_def)
qed

section \<open>The invariant of the prober\<close>

definition suspension_backed :: "link_prober \<Rightarrow> bool" where
  "suspension_backed s \<longleftrightarrow>
     (mSuspendTx s \<longrightarrow> tm_pending (prober_timers s SuspendTimer) \<or>
        DoTimer SuspendTimer Success \<in> set (prober_tasks s) \<or>
        DoTimer SuspendTimer OperationAborted \<in> set (prober_tasks s))"

definition counters_ok :: "nat \<Rightarrow> link_prober \<Rightarrow> bool" where
  "counters_ok k s \<longleftrightarrow> unat (mIcmpUnknownEventCount s) \<le> unat (mIcmpPacketCount s) \<and> unat (mIcmpPacketCount s) \<le> k"

definition identity_ok :: "mux_port_config \<Rightarrow> link_prober \<Rightarrow> bool" where
  "identity_ok cfg s \<longleftrightarrow>
     mServerId (lp_mMuxPortConfig s) = mServerId cfg \<and>
     mPortCableType (lp_mMuxPortConfig s) = mPortCableType cfg \<and>
     (mSelfGuid s, mSelfUUID s) = generateGuid cfg \<and>
     mSockFilterPtr s = filter_address (mBladeIpv4Address cfg) mIcmpFilter"

definition packets_ok :: "mux_port_config \<Rightarrow> link_prober \<Rightarrow> bool" where
  "packets_ok cfg s \<longleftrightarrow>
     list_all (\<lambda>p. \<exists>cs. length cs \<le> 1 \<and> heartbeat_packet (mServerId cfg) (snd (generateGuid cfg)) cs p) (sent s)"

definition prober_inv :: "mux_port_config \<Rightarrow> tlv_command list \<Rightarrow> nat \<Rightarrow> link_prober \<Rightarrow> bool" where
  "prober_inv cfg cs k s \<longleftrightarrow>
     frame_ok (mServerId cfg) (snd (generateGuid cfg)) cs k s \<and> identity_ok cfg s \<and> packets_ok cfg s \<and>
     suspension_backed s \<and> counters_ok k s"

lemmas prober_inv_defs = prober_inv_def suspension_backed_def counters_ok_def identity_ok_def packets_ok_def
lemmas frame_defs = frame_ok_def icmp_sum_ok_def

lemma prober_inv_mono: "prober_inv cfg cs k s \<Longrightarrow> k \<le> k' \<Longrightarrow> prober_inv cfg cs k' s"
  by (auto simp: prober_inv_def counters_ok_def elim: frame_ok_mono)

text \<open>The invariant reads the frame, the identity, the counters, the sent packets and the suspension only.\<close>

lemma prober_inv_cong:
  assumes "mTxBuffer s' = mTxBuffer s" "mTxPacketSize s' = mTxPacketSize s" "mTxSeqNo s' = mTxSeqNo s"
    "mIcmpChecksum s' = mIcmpChecksum s" "lp_mMuxPortConfig s' = lp_mMuxPortConfig s" "mSelfGuid s' = mSelfGuid s"
    "mSelfUUID s' = mSelfUUID s" "sent s' = sent s" "mIcmpUnknownEventCount s' = mIcmpUnknownEventCount s"
    "mIcmpPacketCount s' = mIcmpPacketCount s" "mSockFilterPtr s' = mSockFilterPtr s" "suspension_backed s' = suspension_backed s"
  shows "prober_inv cfg cs k s' = prober_inv cfg cs k s"
  using assms by (simp add: prober_inv_def counters_ok_def identity_ok_def packets_ok_def frame_defs)

lemma prober_inv_update [simp]:
  "prober_inv cfg cs k (s\<lparr>mRxBuffer := b\<rparr>) = prober_inv cfg cs k s"
  "prober_inv cfg cs k (s\<lparr>mRxSelfSeqNo := n\<rparr>) = prober_inv cfg cs k s"
  "prober_inv cfg cs k (s\<lparr>mRxPeerSeqNo := n\<rparr>) = prober_inv cfg cs k s"
  "prober_inv cfg cs k (s\<lparr>mPeerGuid := g\<rparr>) = prober_inv cfg cs k s"
  "prober_inv cfg cs k (s\<lparr>mPeerType := y\<rparr>) = prober_inv cfg cs k s"
  "prober_inv cfg cs k (s\<lparr>mShutdownTx := x\<rparr>) = prober_inv cfg cs k s"
  "prober_inv cfg cs k (s\<lparr>mDecreaseProbingInterval := x\<rparr>) = prober_inv cfg cs k s"
  "prober_inv cfg cs k (s\<lparr>prober_now := d\<rparr>) = prober_inv cfg cs k s"
  "prober_inv cfg cs k (s\<lparr>prober_reads := ks\<rparr>) = prober_inv cfg cs k s"
  "prober_inv cfg cs k (post_to_manager xs s) = prober_inv cfg cs k s"
  "prober_inv cfg cs k (startRecv s) = prober_inv cfg cs k s"
  "prober_inv cfg cs k (startInitRecv s) = prober_inv cfg cs k s"
  by (rule prober_inv_cong; simp add: suspension_backed_def post_to_manager_def startRecv_def startInitRecv_def)+

lemma suspension_backed_tasks:
  assumes "suspension_backed s"
  shows "suspension_backed (s\<lparr>prober_tasks := prober_tasks s @ ts\<rparr>)"
    "suspension_backed (prober_cancel_timer i s)"
    "suspension_backed (prober_start_timer i d s)"
    "suspension_backed (fire_prober_timer i s)"
    "suspension_backed ((prober_start_timer SuspendTimer d s)\<lparr>mSuspendTx := True\<rparr>)"
    "suspension_backed (s\<lparr>mSuspendTx := False\<rparr>)"
  using assms
  by (auto simp: suspension_backed_def prober_post_task_def prober_cancel_timer_def
      prober_start_timer_def fire_prober_timer_def Let_def)

lemma prober_inv_tasks [simp]:
  assumes "prober_inv cfg cs k s"
  shows "prober_inv cfg cs k (s\<lparr>prober_tasks := prober_tasks s @ ts\<rparr>)"
    "prober_inv cfg cs k (prober_post_task t s)"
    "prober_inv cfg cs k (stream_cancel s)"
    "prober_inv cfg cs k (prober_cancel_timer i s)"
    "prober_inv cfg cs k (prober_start_timer i d s)"
    "prober_inv cfg cs k (fire_prober_timer i s)"
    "prober_inv cfg cs k ((prober_start_timer SuspendTimer d s)\<lparr>mSuspendTx := True\<rparr>)"
    "prober_inv cfg cs k (s\<lparr>mSuspendTx := False\<rparr>)"
  using assms
  by (auto simp: prober_inv_defs frame_defs prober_post_task_def stream_cancel_def prober_cancel_timer_def
      prober_start_timer_def fire_prober_timer_def Let_def)

lemma identity_ok_update [simp]:
  "identity_ok cfg (s\<lparr>mTxBuffer := b, mTxPacketSize := n\<rparr>) = identity_ok cfg s"
  by (simp add: identity_ok_def)

lemma sendHeartbeat_inv:
  assumes "prober_inv cfg cs k s" and "k < 2 ^ 31"
  shows "prober_inv cfg cs (Suc k) (sendHeartbeat forceSend s)"
proof -
  let ?s1 = "updateIcmpSequenceNo s"
  have f: "frame_ok (mServerId cfg) (snd (generateGuid cfg)) cs (Suc k) ?s1"
    using assms by (auto simp: prober_inv_def intro: updateIcmpSequenceNo_frame)
  from frame_ok_packet [OF this] have p: "heartbeat_packet (mServerId cfg) (snd (generateGuid cfg)) cs
      (map (mTxBuffer ?s1) [0..<mTxPacketSize ?s1])" .
  have rest: "identity_ok cfg ?s1" "packets_ok cfg ?s1" "suspension_backed ?s1" "counters_ok (Suc k) ?s1"
    using assms(1) by (simp_all add: prober_inv_defs updateIcmpSequenceNo_def Let_def)
  have cs: "length cs \<le> 1" using f by (simp add: frame_ok_def)
  show ?thesis
    using f rest p cs by (auto simp: sendHeartbeat_def Let_def prober_inv_defs frame_defs)
qed

lemma initTx_inv:
  assumes "prober_inv cfg cs k s"
  shows "\<exists>s1. initTxBufferTlvSentinel s = Some s1 \<and> prober_inv cfg [] k s1"
    and "\<exists>s1. initTxBufferTlvSendSwitch s = Some s1 \<and> prober_inv cfg [COMMAND_SWITCH_ACTIVE] k s1"
    and "\<exists>s1. initTxBufferTlvSendProbe s = Some s1 \<and> prober_inv cfg [COMMAND_MUX_PROBE] k s1"
proof -
  have f: "frame_ok (mServerId cfg) (snd (generateGuid cfg)) cs k s" using assms by (simp add: prober_inv_def)
  note defs = initTxBufferTlvSentinel_def initTxBufferTlvSendSwitch_def initTxBufferTlvSendProbe_def
    appendTlvSentinel_def appendTlvCommand_def resetTxBufferTlv_def on_tx_def calculateTxPacketChecksum_def
    computeChecksum_icmp_def computeChecksum_ip_def Let_def
  have "identity_ok cfg s1 \<and> packets_ok cfg s1 \<and> suspension_backed s1 \<and> counters_ok k s1"
    if "initTxBufferTlvSentinel s = Some s1 \<or> initTxBufferTlvSendSwitch s = Some s1 \<or> initTxBufferTlvSendProbe s = Some s1" for s1
    using that assms by (auto simp: prober_inv_defs defs bind_eq_Some_conv split: if_splits)
  then show "\<exists>s1. initTxBufferTlvSentinel s = Some s1 \<and> prober_inv cfg [] k s1"
    "\<exists>s1. initTxBufferTlvSendSwitch s = Some s1 \<and> prober_inv cfg [COMMAND_SWITCH_ACTIVE] k s1"
    "\<exists>s1. initTxBufferTlvSendProbe s = Some s1 \<and> prober_inv cfg [COMMAND_MUX_PROBE] k s1"
    using append_frames [OF f] frame_ok_mono [of _ _ _ 0 _ k] unfolding prober_inv_def by blast+
qed

lemma initializeSendBuffer_inv:
  assumes "identity_ok cfg s" and "packets_ok cfg s" and "suspension_backed s" and "counters_ok k s"
  shows "\<exists>s1. initializeSendBuffer r s = Some s1 \<and> prober_inv cfg [] k s1"
proof -
  have u: "length (mSelfUUID s) = 16" using assms(1) by (auto simp: identity_ok_def generateGuid_def Let_def)
  have id: "mServerId (lp_mMuxPortConfig s) = mServerId cfg" "mSelfUUID s = snd (generateGuid cfg)"
    using assms(1) by (auto simp: identity_ok_def prod_eq_iff)
  obtain s1 where s1: "initializeSendBuffer r s = Some s1"
    "frame_ok (mServerId cfg) (snd (generateGuid cfg)) [] 0 s1"
    using initializeSendBuffer_frame [OF u, of r] id by auto
  have "identity_ok cfg s1 \<and> packets_ok cfg s1 \<and> suspension_backed s1 \<and> counters_ok k s1"
    using assms s1(1)
    by (auto simp: initializeSendBuffer_def appendTlvSentinel_def resetTxBufferTlv_def on_tx_def
        computeChecksum_icmp_def computeChecksum_ip_def Let_def prober_inv_defs bind_eq_Some_conv split: if_splits)
  with s1 frame_ok_mono [OF s1(2), of k] show ?thesis by (simp add: prober_inv_def)
qed

lemma prober_inv_start:
  "LinkProberSw_initialize r (LinkProberSw_new tx0 rx0 size0 cfg) = Some s \<Longrightarrow> prober_inv cfg [] 0 s"
  using initializeSendBuffer_inv [of cfg "attachFilter (LinkProberSw_new tx0 rx0 size0 cfg)" 0 r]
  by (auto simp: LinkProberSw_initialize_def setupSocket_def attachFilter_def LinkProberSw_new_def identity_ok_def packets_ok_def
      suspension_backed_def counters_ok_def)

section \<open>Preservation by the steps\<close>

text \<open>The tasks that do not end a suspension may be taken from the queue.\<close>

lemma prober_inv_take:
  assumes "prober_inv cfg cs k s" and "i < length (prober_tasks s)"
    and "\<And>ec. prober_tasks s ! i \<noteq> DoTimer SuspendTimer ec"
  shows "prober_inv cfg cs k (take_prober_task i s)"
proof -
  have "set (prober_tasks s) = insert (prober_tasks s ! i) (set (prober_tasks (take_prober_task i s)))"
    using assms(2) by (subst id_take_nth_drop [OF assms(2)]) (simp add: take_prober_task_def)
  then have "DoTimer SuspendTimer ec \<in> set (prober_tasks (take_prober_task i s))
      \<longleftrightarrow> DoTimer SuspendTimer ec \<in> set (prober_tasks s)" for ec
    using assms(3) by (metis insert_iff)
  with assms(1) show ?thesis
    by (auto simp: prober_inv_defs frame_defs take_prober_task_def)
qed

lemma reportHeartbeatReplyReceived_inv [simp]:
  "prober_inv cfg cs k s \<Longrightarrow> prober_inv cfg cs k (reportHeartbeatReplyReceived h s)"
  by (simp add: reportHeartbeatReplyReceived_def Let_def split: cable_type.split)

lemma prober_inv_sequence [simp]:
  "prober_inv cfg cs k s \<Longrightarrow> prober_inv cfg cs k (LinkProberSw_handleIcmpPayload n s)"
  by (simp add: LinkProberSw_handleIcmpPayload_def Let_def)

lemma timeout_counters:
  assumes "prober_inv cfg cs k s" and "k < 2 ^ 31"
  shows "prober_inv cfg cs (Suc k)
    ((reportHeartbeatReplyNotReceived h s)\<lparr>mIcmpPacketCount := mIcmpPacketCount s + 1\<rparr>)"
proof -
  have w: "unat (x + 1) = unat x + 1" if "unat x \<le> k" for x :: u64
    using that assms(2) by (simp add: unat_word_ariths)
  have c: "unat (mIcmpUnknownEventCount s) \<le> unat (mIcmpPacketCount s)" "unat (mIcmpPacketCount s) \<le> k"
    using assms(1) by (simp_all add: prober_inv_def counters_ok_def)
  have "unat (mIcmpPacketCount s + 1) = unat (mIcmpPacketCount s) + 1"
    "unat (mIcmpUnknownEventCount s + 1) = unat (mIcmpUnknownEventCount s) + 1"
    using w [OF c(2)] w [OF order.trans [OF c]] by simp_all
  moreover have "frame_ok (mServerId cfg) (snd (generateGuid cfg)) cs (Suc k) s"
    using assms(1) frame_ok_mono by (fastforce simp: prober_inv_def)
  ultimately show ?thesis
    using assms(1) c
    by (simp add: reportHeartbeatReplyNotReceived_def Let_def prober_inv_defs frame_defs post_to_manager_def
        split: cable_type.split)
qed

lemma sendHeartbeat_counters:
  "mIcmpPacketCount (sendHeartbeat f s) = mIcmpPacketCount s"
  by (simp add: sendHeartbeat_def updateIcmpSequenceNo_def Let_def)

lemma startProbing_inv:
  assumes "prober_inv cfg cs k s" and "k < 2 ^ 31"
  shows "prober_inv cfg cs (Suc k) (LinkProberSw_startProbing s)"
  using sendHeartbeat_inv [of cfg cs k "stream_cancel s" False] assms
  by (simp add: LinkProberSw_startProbing_def LinkProberSw_startTimer_def)

lemma prober_call_inv:
  assumes "prober_inv cfg [] k s" and "k < 2 ^ 31" and "c \<noteq> InitializeProber" and "LinkProberSw_call r c s = Some s'"
  shows "prober_inv cfg [] (Suc k) s'"
proof -
  have m: "prober_inv cfg [] (Suc k) s" using assms(1) prober_inv_mono by fastforce
  have "s' = LinkProberSw_startProbing s" if "c = StartProbing" using that assms(4) by simp
  moreover have "prober_inv cfg [] (Suc k) (s\<lparr>mIcmpUnknownEventCount := 0, mIcmpPacketCount := 0\<rparr>)"
    using m by (simp add: prober_inv_defs frame_defs)
  ultimately show ?thesis
    using assms(3,4) m startProbing_inv [OF assms(1,2)]
    by (cases "(r, c, s)" rule: LinkProberSw_call.cases)
      (auto simp: LinkProberSw_updateEthernetFrame_def probePeerTor_def LinkProberSw_detectLink_def
        LinkProberSw_suspendTxProbes_def LinkProberSw_resumeTxProbes_def LinkProberSw_shutdownTxProbes_def
        LinkProberSw_restartTxProbes_def LinkProberSw_resetIcmpPacketCounts_def sendPeerSwitchCommand_def
        sendPeerProbeCommand_def LinkProberSw_decreaseProbeIntervalAfterSwitch_def
        LinkProberSw_revertProbeIntervalAfterSwitchComplete_def)
qed

lemma handleTimeout_inv:
  assumes "prober_inv cfg cs k s" and "Suc k < 2 ^ 31" and "LinkProberSw_handleTimeout ec s = Some s'"
  shows "prober_inv cfg cs (Suc (Suc k)) s'"
proof -
  have "prober_inv cfg cs (Suc k) ((reportHeartbeatReplyNotReceived HEARTBEAT_SELF (stream_cancel s))
      \<lparr>mIcmpPacketCount := mIcmpPacketCount (stream_cancel s) + 1\<rparr>)"
    using assms(1,2) by (intro timeout_counters) simp_all
  moreover have "mIcmpPacketCount (reportHeartbeatReplyNotReceived HEARTBEAT_SELF x) = mIcmpPacketCount x" for x
    by (simp add: reportHeartbeatReplyNotReceived_def post_to_manager_def Let_def split: cable_type.split)
  ultimately show ?thesis
    using assms(2,3) startProbing_inv [of cfg cs "Suc k"]
    by (auto simp: LinkProberSw_handleTimeout_def Let_def split: if_splits)
qed

lemma handleSend_inv:
  assumes "prober_inv cfg [] k s" and "k < 2 ^ 31"
  shows "\<exists>s'. handleSendSwitchCommand s = Some s' \<and> prober_inv cfg [] (Suc k) s'"
    and "\<exists>s'. handleSendProbeCommand s = Some s' \<and> prober_inv cfg [] (Suc k) s'"
proof -
  obtain a where a: "initTxBufferTlvSendSwitch s = Some a" "prober_inv cfg [COMMAND_SWITCH_ACTIVE] k a"
    using initTx_inv(2) [OF assms(1)] by blast
  from initTx_inv(1) [OF sendHeartbeat_inv [OF a(2) assms(2), of False]] a(1)
  show "\<exists>s'. handleSendSwitchCommand s = Some s' \<and> prober_inv cfg [] (Suc k) s'"
    by (auto simp: handleSendSwitchCommand_def)
  obtain b where b: "initTxBufferTlvSendProbe s = Some b" "prober_inv cfg [COMMAND_MUX_PROBE] k b"
    using initTx_inv(3) [OF assms(1)] by blast
  from initTx_inv(1) [OF sendHeartbeat_inv [OF b(2) assms(2), of False]] b(1)
  show "\<exists>s'. handleSendProbeCommand s = Some s' \<and> prober_inv cfg [] (Suc k) s'"
    by (auto simp: handleSendProbeCommand_def)
qed

text \<open>The task that ends a suspension clears the flag, so its removal from the queue does no harm.\<close>

lemma handleSuspendTimeout_inv:
  assumes "prober_inv cfg cs k s" and "i < length (prober_tasks s)"
  shows "prober_inv cfg cs k (LinkProberSw_handleSuspendTimeout ec (take_prober_task i s))"
  using assms(1)
  by (simp add: LinkProberSw_handleSuspendTimeout_def Let_def prober_inv_defs frame_defs take_prober_task_def
      post_to_manager_def)

lemma prober_run_inv:
  assumes "prober_inv cfg [] k s" and "Suc k < 2 ^ 31" and "i < length (prober_tasks s)"
    and "LinkProberSw_run r (prober_tasks s ! i) (take_prober_task i s) = Some s'"
  shows "prober_inv cfg [] (k + 2) s'"
proof (cases "\<exists>ec. prober_tasks s ! i = DoTimer SuspendTimer ec")
  case True
  with assms(4) prober_inv_mono [OF handleSuspendTimeout_inv [OF assms(1,3)], of "k + 2"] show ?thesis
    by auto
next
  case False
  define s0 where "s0 = take_prober_task i s"
  have k: "k < 2 ^ 31" using assms(2) by simp
  have s0: "prober_inv cfg [] k s0"
    using False assms(1,3) unfolding s0_def by (intro prober_inv_take) auto
  then have "identity_ok cfg s0" "packets_ok cfg s0" "suspension_backed s0" "counters_ok k s0"
    by (simp_all add: prober_inv_def)
  note frame = initializeSendBuffer_inv [OF this, of r] handleSend_inv [OF s0 k] sendHeartbeat_inv [OF s0 k]
  have "\<exists>j \<le> k + 2. prober_inv cfg [] j s'"
  proof (cases "(r, prober_tasks s ! i, s0)" rule: LinkProberSw_run.cases)
    case (1 r' s1)
    with frame assms(4) show ?thesis by (auto simp: s0_def intro: exI [of _ k])
  next
    case (2 r' f s1)
    with frame assms(4) show ?thesis by (auto simp: s0_def intro: exI [of _ "Suc k"])
  next
    case (3 r' s1)
    with frame assms(4) show ?thesis by (auto simp: s0_def intro: exI [of _ "Suc k"])
  next
    case (4 r' s1)
    with frame assms(4) show ?thesis by (auto simp: s0_def intro: exI [of _ "Suc k"])
  next
    case (5 r' ec s1)
    with handleTimeout_inv [OF s0 assms(2)] assms(4) show ?thesis by (auto simp: s0_def intro: exI [of _ "Suc (Suc k)"])
  next
    case (6 r' ec s1)
    with False show ?thesis by simp
  next
    case (7 r' ec s1)
    with s0 assms(4) show ?thesis
      by (auto simp: s0_def LinkProberSw_handleSwitchoverTimeout_def intro: exI [of _ k])
  next
    case (8 r' res s1)
    with s0 assms(4) show ?thesis
      by (auto simp: s0_def LinkProberBase_handleInitRecv_def Let_def intro: exI [of _ k])
  next
    case (9 r' res s1)
    with s0 assms(4) show ?thesis
      by (cases res) (auto simp: s0_def intro: exI [of _ k] split: if_splits)
  qed
  then show ?thesis by (auto intro: prober_inv_mono)
qed

lemma prober_inv_receive [simp]: "prober_inv cfg cs k s \<Longrightarrow> prober_inv cfg cs k (receive res bytes s)"
  by (simp add: receive_def split: list.split)

lemma prober_step_inv:
  assumes "prober_step s s'" and "prober_inv cfg [] k s" and "Suc k < 2 ^ 31"
  shows "prober_inv cfg [] (k + 2) s'"
  using assms(1)
proof (cases rule: prober_step.cases)
  case (step_prober_call c r)
  with prober_call_inv [OF assms(2)] assms(3) show ?thesis by (auto intro: prober_inv_mono [where k = "Suc k"])
next
  case (step_prober_run i r)
  with prober_run_inv [OF assms(2,3)] show ?thesis by blast
next
  case (step_prober_config cfg')
  with assms(2) have "prober_inv cfg [] k s'" by (simp add: prober_inv_defs frame_defs)
  then show ?thesis by (auto intro: prober_inv_mono)
qed (use assms(2) in \<open>auto intro: prober_inv_mono [where k = k]\<close>)

lemma prober_reachable_inv:
  assumes "prober_reachable cfg n s" and "n < 2 ^ 30"
  shows "prober_inv cfg [] (2 * n) s"
  using assms
proof (induction rule: prober_reachable.induct)
  case (prober_start r tx0 rx0 size0 s)
  then show ?case using prober_inv_start by simp
next
  case (prober_next n s s')
  then show ?case using prober_step_inv [of s s' cfg "2 * n"] by simp
qed

end
