(* ===== verification/Heartbeat_Properties.thy ===== *)
theory Heartbeat_Properties
  imports Link_Prober_Props Sub_Machine_Properties
begin

text \<open>
  The properties of the heartbeats (C28 to C33): what the software prober sends, what the receiver
  makes of a packet, how a command reaches the peer, what one probing cycle reports, and when the
  prober is silent. The first sections relate the bytes on the wire to what a receiver reads.
\<close>

section \<open>What a receiver reads\<close>

text \<open>The UUID of a GUID, and the events of a command.\<close>

definition guid_uuid :: "u32 \<Rightarrow> u8 list" where
  "guid_uuid g = replicate 12 0 @ map (put32 0 g (\<lambda>_. 0)) [0, 1, 2, 3]"

fun command_events :: "tlv_command \<Rightarrow> prober_event list" where
  "command_events COMMAND_NONE = []"
| "command_events COMMAND_SWITCH_ACTIVE = [SwitchActiveRequestEvent]"
| "command_events COMMAND_MUX_PROBE = [MuxProbeRequestEvent]"

lemma generateGuid_eq: "generateGuid cfg = (guid_string (deterministicGuid cfg), guid_uuid (deterministicGuid cfg))"
  by (simp add: generateGuid_def guid_uuid_def Let_def)

lemma map_upt_nth: "map b [i..<j] = xs \<Longrightarrow> k < j - i \<Longrightarrow> b (i + k) = xs ! k"
  by auto

lemma getGuidStr_uuid:
  assumes "map rx [50..<58] = drop 8 (guid_uuid g)" and "g \<noteq> 0"
  shows "getGuidStr rx 42 = guid_string g"
proof -
  have b: "rx (50 + k) = drop 8 (guid_uuid g) ! k" if "k < 8" for k
    using map_upt_nth [OF assms(1), of k] that by simp
  have "ntohl_at rx 54 = ntohl_at (put32 0 g (\<lambda>_. 0)) 0"
    using b [of 4] b [of 5] b [of 6] b [of 7]
    by (simp add: ntohl_at_def ntohs_at_def guid_uuid_def nth_append eval_nat_numeral)
  then have g: "ntohl_at rx 54 = g" by simp
  have "\<not> list_all (\<lambda>i. rx (42 + 8 + i) = 0) [0..<8]"
  proof
    assume "list_all (\<lambda>i. rx (42 + 8 + i) = 0) [0..<8]"
    then have "rx (50 + k) = 0" if "k < 8" for k using that by (auto simp: list_all_iff)
    from this [of 4] this [of 5] this [of 6] this [of 7]
    have "rx 54 = 0" "rx 55 = 0" "rx 56 = 0" "rx 57 = 0" by simp_all
    then have "ntohl_at rx 54 = 0" by (simp add: ntohl_at_def ntohs_at_def be16_def)
    with g assms(2) show False by simp
  qed
  with g show ?thesis by (simp add: getGuidStr_def del: upt_rec_numeral)
qed

lemma handleTlvRecv_loop_encoded:
  assumes "map rx [off..<off + 4 * length cs + 3] = encode_tlvs cs"
  shows "handleTlvRecv_loop rx (off + 4 * length cs + 3) self off =
    (if self then [] else concat (map command_events cs))"
  using assms
proof (induction cs arbitrary: off)
  case Nil
  have "rx off = TLV_SENTINEL" "rx (off + 1) = 0" "rx (off + 2) = 0"
    using map_upt_nth [OF Nil, of 0] map_upt_nth [OF Nil, of 1] map_upt_nth [OF Nil, of 2]
    by (simp_all add: encode_tlvs_def)
  then show ?case
    by (simp add: handleTlvRecv_loop.simps [of rx _ _ off] getNextTLVPtr_def findNextTlv_def Let_def tlv_type_defs
        split: option.split)
next
  case (Cons c cs)
  let ?n = "off + 4 * length (c # cs) + 3"
  have b: "rx off = TLV_COMMAND" "rx (off + 1) = 0" "rx (off + 2) = 1" "rx (off + 3) = tlv_command_byte c"
    using map_upt_nth [OF Cons.prems, of 0] map_upt_nth [OF Cons.prems, of 1] map_upt_nth [OF Cons.prems, of 2]
      map_upt_nth [OF Cons.prems, of 3]
    by (simp_all add: encode_tlvs_def encode_command_def numeral_3_eq_3 numeral_2_eq_2)
  have split: "[off..<?n] = [off..<off + 4] @ [off + 4..<off + 4 + 4 * length cs + 3]"
    using upt_add_eq_append [of off "off + 4" "4 * length cs + 3"] by (simp add: add.assoc)
  have "map rx [off + 4..<off + 4 + 4 * length cs + 3] = encode_tlvs cs"
  proof -
    have "map rx [off..<off + 4] @ map rx [off + 4..<off + 4 + 4 * length cs + 3] = encode_command c @ encode_tlvs cs"
      using Cons.prems by (simp only: split map_append) (simp add: encode_tlvs_def)
    then show ?thesis by (subst (asm) append_eq_append_conv) (simp_all add: encode_command_def)
  qed
  from Cons.IH [OF this] have ih: "handleTlvRecv_loop rx ?n self (off + 4) = (if self then [] else concat (map command_events cs))"
    by (simp add: add.commute add.left_commute)
  have "ntohs_at rx (off + 1) = 1" using b by (simp add: ntohs_at_def be16_def numeral_2_eq_2)
  then have "getNextTLVPtr rx off ?n = Some 4" by (simp add: getNextTLVPtr_def findNextTlv_def Let_def)
  moreover have "handleTlvCommandRecv rx off isPeer = (if isPeer then command_events c else [])" for isPeer
    using b by (cases c) (simp_all add: handleTlvCommandRecv_def)
  ultimately show ?case
    using b ih by (subst handleTlvRecv_loop.simps) simp
qed

text \<open>
  The server echoes a packet: it changes the Ethernet and IP headers and the first four bytes of the
  ICMP header, and keeps everything from the identifier on.
\<close>

definition echoed :: "u8 list \<Rightarrow> buffer \<Rightarrow> bool" where
  "echoed p rx \<longleftrightarrow> map rx [icmp_echo_id..<length p] = drop icmp_echo_id p"

lemma echoed_nth: "echoed p rx \<Longrightarrow> 38 \<le> i \<Longrightarrow> i < length p \<Longrightarrow> rx i = packet_buffer p i"
  using map_upt_nth [of rx 38 "length p" "drop 38 p" "i - 38"] put_bytes_nth [of i p 0 "\<lambda>_. 0"]
  by (simp add: echoed_def packet_buffer_def)

lemma header_ok_uuid: "header_ok sid u b \<Longrightarrow> map b [50..<58] = drop 8 u"
  by (simp add: header_ok_def del: upt_rec_numeral)

lemma echoed_fields:
  assumes "heartbeat_packet sid (guid_uuid g) cs p" and "echoed p rx"
  shows "ntohs_at rx icmp_echo_id = sid" and "ntohl_at rx 42 = mSoftwareCookie" and "ntohl_at rx 46 = payload_mVersion"
    and "g \<noteq> 0 \<Longrightarrow> getGuidStr rx 42 = guid_string g"
    and "handleTlvRecv rx (length p) self = (if self then [] else concat (map command_events cs))"
proof -
  let ?b = "packet_buffer p"
  have n: "length p = 66 + 4 * length cs + 3" and t: "map ?b [66..<length p] = encode_tlvs cs"
    and h: "header_ok sid (guid_uuid g) ?b"
    using assms(1) unfolding heartbeat_packet_def tlvs_ok_def Let_def by blast+
  have same: "rx i = ?b i" if "38 \<le> i" "i < 69" for i using echoed_nth [OF assms(2) that(1)] that(2) n by simp
  show "ntohs_at rx icmp_echo_id = sid" "ntohl_at rx 42 = mSoftwareCookie" "ntohl_at rx 46 = payload_mVersion"
    using h same by (simp_all add: header_ok_def ntohs_at_def ntohl_at_def)
  have "map rx [50..<58] = map ?b [50..<58]" using same by simp
  then have "map rx [50..<58] = drop 8 (guid_uuid g)" using header_ok_uuid [OF h] by (rule trans)
  then show "getGuidStr rx 42 = guid_string g" if "g \<noteq> 0" using that by (rule getGuidStr_uuid)
  have "map rx [66..<length p] = map ?b [66..<length p]" using echoed_nth [OF assms(2)] by simp
  with t have "map rx [66..<66 + 4 * length cs + 3] = encode_tlvs cs" unfolding n by (rule trans [rotated])
  then show "handleTlvRecv rx (length p) self = (if self then [] else concat (map command_events cs))"
    using handleTlvRecv_loop_encoded [of rx 66 cs self] unfolding n by (simp add: handleTlvRecv_def layout_defs)
qed

section \<open>Hearing a heartbeat\<close>

text \<open>
  The abstract view of a receiver: which cable, and whether the own heartbeat and one of the peer
  have been heard in this cycle. The event a heartbeat causes, and what it makes heard.
\<close>

definition own_heard :: "link_prober \<Rightarrow> bool" where "own_heard s \<longleftrightarrow> mTxSeqNo s = mRxSelfSeqNo s"
definition peer_heard :: "link_prober \<Rightarrow> bool" where "peer_heard s \<longleftrightarrow> mTxSeqNo s = mRxPeerSeqNo s"

definition reply_event :: "cable_type \<Rightarrow> bool \<Rightarrow> bool \<Rightarrow> icmp_event" where
  "reply_event cable own heard =
     (if own then IcmpSelfEvent
      else case cable of
        CableActiveStandby \<Rightarrow> if heard then IcmpSelfEvent else IcmpPeerEvent
      | CableActiveActive \<Rightarrow> IcmpPeerActiveEvent)"

lemma hear_heartbeat:
  assumes "heartbeat_packet (mServerId (lp_mMuxPortConfig s)) (guid_uuid g) cs p" and "echoed p (mRxBuffer s)" and "g \<noteq> 0"
    and "mSelfGuid s = guid_string h"
  shows "posted (LinkProberSw_handleIcmpPayload (length p) s) = posted s @
      PostEvent (IcmpEvent (reply_event (mPortCableType (lp_mMuxPortConfig s)) (g = h) (own_heard s))) #
      (if g = h then [] else map PostEvent (concat (map command_events cs)))"
    and "own_heard (LinkProberSw_handleIcmpPayload (length p) s) = (g = h \<or> own_heard s)"
    and "peer_heard (LinkProberSw_handleIcmpPayload (length p) s) = (g \<noteq> h \<or> peer_heard s)"
    and "mSelfGuid (LinkProberSw_handleIcmpPayload (length p) s) = mSelfGuid s"
    and "lp_mMuxPortConfig (LinkProberSw_handleIcmpPayload (length p) s) = lp_mMuxPortConfig s"
  using echoed_fields [OF assms(1,2)] assms(3,4)
  by (auto simp: LinkProberSw_handleIcmpPayload_def reportHeartbeatReplyReceived_def reply_event_def own_heard_def
      peer_heard_def post_to_manager_def startRecv_def layout_defs Let_def split: cable_type.split)

text \<open>A packet arrives in the buffer and its handler runs.\<close>

definition hear :: "buffer \<times> nat \<Rightarrow> link_prober \<Rightarrow> link_prober" where
  "hear q s = LinkProberSw_handleIcmpPayload (snd q) (s\<lparr>mRxBuffer := fst q\<rparr>)"

text \<open>The buffer \<open>q\<close> holds the echo of a heartbeat of the GUID and commands \<open>a\<close>, for the server \<open>sid\<close>.\<close>

definition echo_of :: "u16 \<Rightarrow> u32 \<times> tlv_command list \<Rightarrow> buffer \<times> nat \<Rightarrow> bool" where
  "echo_of sid a q \<longleftrightarrow> fst a \<noteq> 0 \<and>
     (\<exists>p. heartbeat_packet sid (guid_uuid (fst a)) (snd a) p \<and> echoed p (fst q) \<and> snd q = length p)"

text \<open>
  The specification of a probing cycle of the port with the GUID \<open>h\<close>: the events for the heartbeats heard, in
  order, and at the timeout an event for each heartbeat that is missing.
\<close>

definition heard_events :: "cable_type \<Rightarrow> bool \<Rightarrow> bool \<Rightarrow> icmp_event list" where
  "heard_events cable own peer =
     (case cable of
        CableActiveStandby \<Rightarrow> if own \<or> peer then [] else [IcmpUnknownEvent]
      | CableActiveActive \<Rightarrow> (if own then [] else [IcmpUnknownEvent]) @ (if peer then [] else [IcmpPeerUnknownEvent]))"

fun cycle_events :: "cable_type \<Rightarrow> u32 \<Rightarrow> bool \<Rightarrow> bool \<Rightarrow> (u32 \<times> tlv_command list) list \<Rightarrow> prober_event list" where
  "cycle_events cable h own peer [] = map IcmpEvent (heard_events cable own peer)"
| "cycle_events cable h own peer ((g, cs) # hs) =
     IcmpEvent (reply_event cable (g = h) own) #
     (if g = h then [] else concat (map command_events cs)) @
     cycle_events cable h (g = h \<or> own) (g \<noteq> h \<or> peer) hs"

lemma startProbing_frame:
  "posted (LinkProberSw_startProbing s) = posted s"
  "\<not> own_heard (LinkProberSw_startProbing s)" "\<not> peer_heard (LinkProberSw_startProbing s)"
  by (simp_all add: LinkProberSw_startProbing_def LinkProberSw_startTimer_def startRecv_def stream_cancel_def
      sendHeartbeat_def updateIcmpSequenceNo_def prober_start_timer_def prober_cancel_timer_def prober_post_task_def
      own_heard_def peer_heard_def Let_def)

lemma timeout_events:
  assumes "getLinkProberStatUpdateIntervalCount (lp_mMuxPortConfig s) \<noteq> 0"
  shows "\<exists>s' loss. LinkProberSw_handleTimeout ec s = Some s' \<and>
    posted s' = posted s @ map (PostEvent \<circ> IcmpEvent) (heard_events (mPortCableType (lp_mMuxPortConfig s)) (own_heard s) (peer_heard s)) @ loss \<and>
    (loss = [] \<or> (\<exists>x y. loss = [PostPckLossRatioUpdate x y])) \<and> \<not> own_heard s' \<and> \<not> peer_heard s'"
proof -
  have n: "(ucast (getLinkProberStatUpdateIntervalCount (lp_mMuxPortConfig s)) :: u64) \<noteq> 0"
  proof -
    have "unat (ucast w :: u64) = unat w" for w :: u32
    proof -
      have "unat w < 4294967296" using unsigned_less [of w] by simp
      then show ?thesis by (simp add: unsigned_ucast_eq take_bit_nat_eq_self)
    qed
    then show ?thesis using assms by (metis unat_eq_0)
  qed
  define s1 where "s1 = (reportHeartbeatReplyNotReceived HEARTBEAT_SELF (stream_cancel s))
    \<lparr>mIcmpPacketCount := mIcmpPacketCount (reportHeartbeatReplyNotReceived HEARTBEAT_SELF (stream_cancel s)) + 1\<rparr>"
  have s1: "posted s1 = posted s @ map (PostEvent \<circ> IcmpEvent)
      (heard_events (mPortCableType (lp_mMuxPortConfig s)) (own_heard s) (peer_heard s))"
    "lp_mMuxPortConfig s1 = lp_mMuxPortConfig s"
    by (auto simp: s1_def reportHeartbeatReplyNotReceived_def heard_events_def own_heard_def peer_heard_def
        stream_cancel_def post_to_manager_def Let_def split: cable_type.split)
  have n1: "lp_mMuxPortConfig (reportHeartbeatReplyNotReceived HEARTBEAT_SELF (stream_cancel s)) = lp_mMuxPortConfig s"
    using s1(2) by (simp add: s1_def)
  have "LinkProberSw_handleTimeout ec s = Some (LinkProberSw_startProbing
      (if mIcmpPacketCount s1 mod ucast (getLinkProberStatUpdateIntervalCount (lp_mMuxPortConfig s)) = 0
       then post_to_manager [PostPckLossRatioUpdate (mIcmpUnknownEventCount s1) (mIcmpPacketCount s1)] s1 else s1))"
    using n by (simp add: LinkProberSw_handleTimeout_def s1_def [symmetric] Let_def n1 s1(2))
  then show ?thesis
    using s1(1) by (auto simp: startProbing_frame post_to_manager_def)
qed

lemma cycle_events_append:
  assumes "list_all2 (echo_of (mServerId (lp_mMuxPortConfig s))) hs qs" and "mSelfGuid s = guid_string h"
  shows "posted (fold hear qs s) @ map PostEvent (map IcmpEvent
      (heard_events (mPortCableType (lp_mMuxPortConfig s)) (own_heard (fold hear qs s)) (peer_heard (fold hear qs s)))) =
    posted s @ map PostEvent (cycle_events (mPortCableType (lp_mMuxPortConfig s)) h (own_heard s) (peer_heard s) hs) \<and>
    lp_mMuxPortConfig (fold hear qs s) = lp_mMuxPortConfig s"
  using assms
proof (induction hs arbitrary: qs s)
  case (Cons a hs)
  obtain g cs where a: "a = (g, cs)" by (cases a)
  from Cons.prems(1) obtain q qs' where qs: "qs = q # qs'" "list_all2 (echo_of (mServerId (lp_mMuxPortConfig s))) hs qs'"
    and "echo_of (mServerId (lp_mMuxPortConfig s)) a q" by (auto simp: list_all2_Cons1)
  then obtain p where p: "heartbeat_packet (mServerId (lp_mMuxPortConfig s)) (guid_uuid g) cs p" "echoed p (fst q)"
    "snd q = length p" "g \<noteq> 0" unfolding echo_of_def a fst_conv snd_conv by blast
  let ?s = "s\<lparr>mRxBuffer := fst q\<rparr>"
  have "own_heard ?s = own_heard s" "peer_heard ?s = peer_heard s" by (simp_all add: own_heard_def peer_heard_def)
  with hear_heartbeat [of ?s g cs p h] p Cons.prems(2)
  have "posted (hear q s) = posted s @
      PostEvent (IcmpEvent (reply_event (mPortCableType (lp_mMuxPortConfig s)) (g = h) (own_heard s))) #
      (if g = h then [] else map PostEvent (concat (map command_events cs)))"
    "own_heard (hear q s) = (g = h \<or> own_heard s)" "peer_heard (hear q s) = (g \<noteq> h \<or> peer_heard s)"
    "mSelfGuid (hear q s) = guid_string h" "lp_mMuxPortConfig (hear q s) = lp_mMuxPortConfig s"
    by (simp_all add: hear_def)
  with Cons.IH [of "hear q s" qs'] qs a show ?case by simp
qed simp

section \<open>The bytes the record loop reads\<close>

lemma getNextTLVPtr_cong:
  "(\<And>i. i < n \<Longrightarrow> rx i = rx' i) \<Longrightarrow> getNextTLVPtr rx off n = getNextTLVPtr rx' off n"
  by (simp add: getNextTLVPtr_def findNextTlv_def ntohs_at_def Let_def)

lemma handleTlvRecv_loop_cong:
  assumes "\<And>i. i \<le> n \<Longrightarrow> rx i = rx' i"
  shows "handleTlvRecv_loop rx n self off = handleTlvRecv_loop rx' n self off"
  using assms
proof (induction rx n self off rule: handleTlvRecv_loop.induct)
  case (1 rx n self off)
  show ?case
  proof (cases "getNextTLVPtr rx off n")
    case None
    then show ?thesis
      using getNextTLVPtr_cong [of n rx rx' off] "1.prems" by (simp add: handleTlvRecv_loop.simps)
  next
    case (Some k)
    with getNextTLVPtr_cong [of n rx rx' off] "1.prems" have k: "getNextTLVPtr rx' off n = Some k" by simp
    from getNextTLVPtr_bounds [OF Some] have b: "off + 3 \<le> n" by simp
    then have "rx off = rx' off" "handleTlvCommandRecv rx off p = handleTlvCommandRecv rx' off p" for p
      using "1.prems" by (simp_all add: handleTlvCommandRecv_def)
    with "1.IH" [OF Some] "1.prems" show ?thesis
      by (simp add: handleTlvRecv_loop.simps [of rx] handleTlvRecv_loop.simps [of rx'] Some k)
  qed
qed

section \<open>Suspension\<close>

lemma sent_frame [simp]:
  "sent (prober_post_task t s) = sent s" "sent (prober_cancel_timer i s) = sent s"
  "sent (prober_start_timer i d s) = sent s" "sent (post_to_manager xs s) = sent s"
  "sent (startRecv s) = sent s" "sent (reportHeartbeatReplyReceived h s) = sent s"
  by (simp_all add: prober_post_task_def prober_cancel_timer_def prober_start_timer_def post_to_manager_def
      startRecv_def reportHeartbeatReplyReceived_def Let_def split: cable_type.split)

text \<open>The handlers that send nothing while a port is suspended or shut down: all but a forced heartbeat.\<close>

lemma quiet_sends [simp]:
  "mSuspendTx s \<or> mShutdownTx s \<Longrightarrow> sent (sendHeartbeat False s) = sent s"
  by (auto simp: sendHeartbeat_def updateIcmpSequenceNo_def Let_def)

lemma initTx_frame:
  "initTxBufferTlvSentinel s = Some s1 \<Longrightarrow> sent s1 = sent s"
  "initTxBufferTlvSendSwitch s = Some s1 \<Longrightarrow> sent s1 = sent s \<and> mSuspendTx s1 = mSuspendTx s \<and> mShutdownTx s1 = mShutdownTx s"
  "initTxBufferTlvSendProbe s = Some s1 \<Longrightarrow> sent s1 = sent s \<and> mSuspendTx s1 = mSuspendTx s \<and> mShutdownTx s1 = mShutdownTx s"
  "initializeSendBuffer r s = Some s1 \<Longrightarrow> sent s1 = sent s"
  by (auto simp: initTxBufferTlvSentinel_def initTxBufferTlvSendSwitch_def initTxBufferTlvSendProbe_def
      initializeSendBuffer_def appendTlvSentinel_def appendTlvCommand_def resetTxBufferTlv_def on_tx_def
      calculateTxPacketChecksum_def computeChecksum_icmp_def computeChecksum_ip_def Let_def bind_eq_Some_conv
      split: if_splits)

lemma initTx_posted:
  "initTxBufferTlvSentinel s = Some s1 \<Longrightarrow> posted s1 = posted s"
  "initTxBufferTlvSendSwitch s = Some s1 \<Longrightarrow> posted s1 = posted s"
  by (auto simp: initTxBufferTlvSentinel_def initTxBufferTlvSendSwitch_def
      appendTlvSentinel_def appendTlvCommand_def resetTxBufferTlv_def on_tx_def
      calculateTxPacketChecksum_def computeChecksum_icmp_def computeChecksum_ip_def Let_def bind_eq_Some_conv
      split: if_splits)

lemma reportNotReceived_frame:
  "sent (reportHeartbeatReplyNotReceived h s) = sent s"
  "mSuspendTx (reportHeartbeatReplyNotReceived h s) = mSuspendTx s"
  "mShutdownTx (reportHeartbeatReplyNotReceived h s) = mShutdownTx s"
  by (simp_all add: reportHeartbeatReplyNotReceived_def post_to_manager_def Let_def split: cable_type.split)

lemma startProbing_sent:
  "mSuspendTx s \<or> mShutdownTx s \<Longrightarrow> sent (LinkProberSw_startProbing s) = sent s"
  using quiet_sends [of "stream_cancel s"]
  by (auto simp: LinkProberSw_startProbing_def LinkProberSw_startTimer_def startRecv_def prober_start_timer_def
      prober_cancel_timer_def prober_post_task_def stream_cancel_def Let_def)

lemma handleTimeout_sent:
  assumes "mSuspendTx s \<or> mShutdownTx s" and "LinkProberSw_handleTimeout ec s = Some s'"
  shows "sent s' = sent s"
proof -
  let ?s1 = "reportHeartbeatReplyNotReceived HEARTBEAT_SELF (stream_cancel s)"
  have "sent ?s1 = sent s" "mSuspendTx ?s1 = mSuspendTx s" "mShutdownTx ?s1 = mShutdownTx s"
    by (simp_all add: reportNotReceived_frame stream_cancel_def)
  with assms show ?thesis
    by (auto simp: LinkProberSw_handleTimeout_def post_to_manager_def startProbing_sent Let_def split: if_splits)
qed

lemma quiet_run:
  assumes "mSuspendTx s \<or> mShutdownTx s" and "t \<noteq> DoSendHeartbeat True" and "LinkProberSw_run r t s = Some s'"
  shows "sent s' = sent s"
proof (cases "(r, t, s)" rule: LinkProberSw_run.cases)
  case (2 r' f s1)
  with assms show ?thesis by auto
next
  case (3 r' s1)
  with assms initTx_frame show ?thesis
    by (fastforce simp: handleSendSwitchCommand_def post_to_manager_def bind_eq_Some_conv)
next
  case (4 r' s1)
  with assms initTx_frame show ?thesis
    by (fastforce simp: handleSendProbeCommand_def bind_eq_Some_conv)
next
  case (9 r' res s1)
  with assms show ?thesis
    by (cases res) (auto simp: LinkProberSw_handleIcmpPayload_def Let_def split: if_splits)
qed (use assms handleTimeout_sent initTx_frame in \<open>auto simp: LinkProberSw_handleSuspendTimeout_def
      LinkProberSw_handleSwitchoverTimeout_def LinkProberBase_handleInitRecv_def post_to_manager_def Let_def\<close>)

lemma quiet_call:
  assumes "mSuspendTx s \<or> mShutdownTx s" and "c \<noteq> InitializeProber" and "LinkProberSw_call r c s = Some s'"
  shows "sent s' = sent s"
  using assms
  by (cases "(r, c, s)" rule: LinkProberSw_call.cases)
    (auto simp: startProbing_sent LinkProberSw_updateEthernetFrame_def probePeerTor_def LinkProberSw_detectLink_def
        LinkProberSw_suspendTxProbes_def LinkProberSw_resumeTxProbes_def LinkProberSw_shutdownTxProbes_def
        LinkProberSw_restartTxProbes_def LinkProberSw_resetIcmpPacketCounts_def sendPeerSwitchCommand_def
        sendPeerProbeCommand_def LinkProberSw_decreaseProbeIntervalAfterSwitch_def
        LinkProberSw_revertProbeIntervalAfterSwitchComplete_def)

section \<open>Properties\<close>

lemma prober_identity:
  assumes "prober_reachable cfg n s" and "n < 2 ^ 30"
  shows "mServerId (lp_mMuxPortConfig s) = mServerId cfg" and "mPortCableType (lp_mMuxPortConfig s) = mPortCableType cfg"
    and "mSelfGuid s = guid_string (deterministicGuid cfg)" and "mSelfUUID s = guid_uuid (deterministicGuid cfg)"
  using prober_reachable_inv [OF assms] by (simp_all add: prober_inv_def identity_ok_def generateGuid_eq)

text \<open>Two ToRs that serve the same server: their Loopback3 addresses differ.\<close>

definition tor_config :: "cable_type \<Rightarrow> u32 \<Rightarrow> mux_port_config" where
  "tor_config cable lo = (sample_port_config cable)
     \<lparr>mMuxConfig := sample_config\<lparr>mLoopback3Ipv4Address := lo\<rparr>, mBladeIpv4Address := 0xC0A80002\<rparr>"

lemma tor_config_simps [simp]:
  "mServerId (tor_config cable lo) = 1" "mPortCableType (tor_config cable lo) = cable"
  "mLinkProberType (tor_config cable lo) = ProberSoftware"
  "deterministicGuid (tor_config cable 0x0AD44200) = 0x42000002" "deterministicGuid (tor_config cable 0x0AD44201) = 0x42010002"
  "getLinkProberStatUpdateIntervalCount (tor_config cable lo) = 300"
  by (simp_all add: tor_config_def sample_defs config_getter_defs deterministicGuid_def Let_def)

text \<open>An initialised prober with no step taken.\<close>

lemma prober_exists:
  obtains s where "prober_reachable cfg 0 s" and "lp_mMuxPortConfig s = cfg" and "sent s = []" and "mSuspendTx s = False"
    and "mShutdownTx s = False" and "mTxSeqNo s = 0xffff" and "mRxSelfSeqNo s = 0" and "mRxPeerSeqNo s = 0"
    and "prober_reads s \<noteq> []" and "prober_inv cfg [] 0 s"
proof -
  let ?s0 = "LinkProberSw_new (\<lambda>_. 0) (\<lambda>_. 0) 0 cfg"
  obtain s1 where s1: "initializeSendBuffer 0 (attachFilter ?s0) = Some s1"
    using initializeSendBuffer_frame [of "attachFilter ?s0"] by (auto simp: attachFilter_def LinkProberSw_new_def generateGuid_def Let_def)
  have r: "LinkProberSw_initialize 0 ?s0 = Some (startInitRecv s1)"
    by (simp add: LinkProberSw_initialize_def setupSocket_def s1)
  have "lp_mMuxPortConfig s1 = cfg" "sent s1 = []" "\<not> mSuspendTx s1" "\<not> mShutdownTx s1" "mTxSeqNo s1 = 0xffff"
    "mRxSelfSeqNo s1 = 0" "mRxPeerSeqNo s1 = 0"
    using s1 by (auto simp: initializeSendBuffer_def appendTlvSentinel_def resetTxBufferTlv_def on_tx_def
        computeChecksum_icmp_def computeChecksum_ip_def attachFilter_def LinkProberSw_new_def Let_def bind_eq_Some_conv
        split: if_splits)
  with that [OF prober_start [OF r]] prober_inv_start [OF r] show thesis by (simp add: startInitRecv_def)
qed

lemma heartbeat_sent:
  assumes "prober_inv cfg cs k s" and "k < 2 ^ 31" and "f \<or> \<not> mSuspendTx s \<and> \<not> mShutdownTx s"
  shows "\<exists>p. sent (sendHeartbeat f s) = sent s @ [p] \<and>
    heartbeat_packet (mServerId cfg) (guid_uuid (deterministicGuid cfg)) cs p"
proof -
  have "frame_ok (mServerId cfg) (guid_uuid (deterministicGuid cfg)) cs (Suc k) (updateIcmpSequenceNo s)"
    using assms(1,2) updateIcmpSequenceNo_frame by (simp add: prober_inv_def generateGuid_eq)
  moreover have "mSuspendTx (updateIcmpSequenceNo s) = mSuspendTx s" "mShutdownTx (updateIcmpSequenceNo s) = mShutdownTx s"
    "sent (updateIcmpSequenceNo s) = sent s"
    by (simp_all add: updateIcmpSequenceNo_def Let_def)
  ultimately show ?thesis
    using frame_ok_packet assms(3) by (auto simp: sendHeartbeat_def Let_def)
qed




lemma packet_exists:
  obtains p where "heartbeat_packet (mServerId cfg) (guid_uuid (deterministicGuid cfg)) [COMMAND_SWITCH_ACTIVE] p"
    and "length p = 73"
proof -
  obtain s where "prober_inv cfg [] 0 s" by (rule prober_exists)
  from initTx_inv(2) [OF this] obtain s1 where "prober_inv cfg [COMMAND_SWITCH_ACTIVE] 0 s1" by blast
  from heartbeat_sent [OF this, of True] obtain p
    where "heartbeat_packet (mServerId cfg) (guid_uuid (deterministicGuid cfg)) [COMMAND_SWITCH_ACTIVE] p" by auto
  with that show thesis by (auto simp: heartbeat_packet_def tlvs_ok_def Let_def)
qed

text \<open>A fresh prober that finds given bytes in its receive buffer.\<close>

lemma prober_with_bytes:
  assumes "length bs \<le> 9100"
  obtains s where "prober_reachable cfg 1 s" and "lp_mMuxPortConfig s = cfg" and "echoed bs (mRxBuffer s)"
    and "\<not> own_heard s" and "\<not> peer_heard s"
proof -
  obtain s where s: "prober_reachable cfg 0 s" "lp_mMuxPortConfig s = cfg" "prober_reads s \<noteq> []"
    "mTxSeqNo s = 0xffff" "mRxSelfSeqNo s = 0" "mRxPeerSeqNo s = 0" by (rule prober_exists)
  let ?s1 = "receive (IoSuccess (length bs)) bs s"
  have "prober_reachable cfg 1 ?s1"
    using prober_next [OF s(1) step_prober_packet] assms by (simp add: layout_defs)
  moreover have "mRxBuffer ?s1 = put_bytes 0 bs (mRxBuffer s)" "lp_mMuxPortConfig ?s1 = cfg"
    "\<not> own_heard ?s1" "\<not> peer_heard ?s1"
    using s by (auto simp: receive_def prober_post_task_def own_heard_def peer_heard_def split: list.split)
  moreover have "echoed bs (put_bytes 0 bs b)" for b
    using put_bytes_nth [of _ bs 0 b] by (auto simp: echoed_def intro: nth_equalityI)
  ultimately show thesis using that by simp
qed






text \<open>
  C32. A suspended or shut-down prober is silent: no call of a manager and no task puts a packet on
  the wire, except the forced heartbeats that \<open>detectLink\<close> queues.
\<close>
theorem suspended_prober_is_silent:
  assumes "mSuspendTx s \<or> mShutdownTx s"
  shows "(\<forall>r c s'. c \<noteq> InitializeProber \<longrightarrow> LinkProberSw_call r c s = Some s' \<longrightarrow> sent s' = sent s) \<and>
    (\<forall>r t s'. t \<noteq> DoSendHeartbeat True \<longrightarrow> LinkProberSw_run r t s = Some s' \<longrightarrow> sent s' = sent s)"
  using quiet_call [OF assms] quiet_run [OF assms] by blast

lemma suspended_prober_is_silent_witness:
  "\<exists>s. prober_reachable (tor_config CableActiveActive 0x0AD44200) 1 s \<and> mSuspendTx s \<and>
     sent (LinkProberSw_startProbing s) = sent s"
proof -
  obtain s where s: "prober_reachable (tor_config CableActiveActive 0x0AD44200) 0 s" by (rule prober_exists)
  let ?s1 = "LinkProberSw_suspendTxProbes 400 s"
  have "prober_reachable (tor_config CableActiveActive 0x0AD44200) 1 ?s1"
    using prober_next [OF s step_prober_call [of "SuspendTx 400" 0]] by simp
  moreover have m: "mSuspendTx ?s1" by (simp add: LinkProberSw_suspendTxProbes_def)
  moreover have "sent (LinkProberSw_startProbing ?s1) = sent ?s1"
    using suspended_prober_is_silent [THEN conjunct1, rule_format, of ?s1 StartProbing 0] m by simp
  ultimately show ?thesis by blast
qed



text \<open>
  A second suspension is cut short: when a suspended prober is suspended again, the wait that is
  replaced ends with \<open>operation_aborted\<close>, and its handler lifts the suspension although the
  new wait has just begun.
\<close>
lemma second_suspension_is_cut_short:
  assumes "tm_pending (prober_timers s SuspendTimer)"
  shows "\<exists>s1 s2. LinkProberSw_call r (SuspendTx t) s = Some s1 \<and> mSuspendTx s1 \<and>
    prober_tasks s1 = prober_tasks s @ [DoTimer SuspendTimer OperationAborted] \<and>
    LinkProberSw_run r (DoTimer SuspendTimer OperationAborted) (take_prober_task (length (prober_tasks s)) s1) = Some s2 \<and>
    \<not> mSuspendTx s2 \<and> prober_timers s2 SuspendTimer = \<lparr>tm_expiry = Some (prober_now s + unat t), tm_pending = True\<rparr>"
  using assms
  by (simp add: LinkProberSw_suspendTxProbes_def prober_start_timer_def prober_cancel_timer_def prober_post_task_def
      LinkProberSw_handleSuspendTimeout_def take_prober_task_def Let_def)

lemma second_suspension_is_cut_short_witness:
  "\<exists>s s1 s2. prober_reachable (tor_config CableActiveActive 0x0AD44200) 1 s \<and>
     LinkProberSw_call 0 (SuspendTx 400) s = Some s1 \<and> mSuspendTx s1 \<and>
     LinkProberSw_run 0 (DoTimer SuspendTimer OperationAborted) (take_prober_task (length (prober_tasks s)) s1) = Some s2 \<and>
     \<not> mSuspendTx s2"
proof -
  obtain s where s: "prober_reachable (tor_config CableActiveActive 0x0AD44200) 0 s" by (rule prober_exists)
  let ?s1 = "LinkProberSw_suspendTxProbes 400 s"
  have r: "prober_reachable (tor_config CableActiveActive 0x0AD44200) 1 ?s1"
    using prober_next [OF s step_prober_call [of "SuspendTx 400" 0]] by simp
  have "tm_pending (prober_timers ?s1 SuspendTimer)"
    by (simp add: LinkProberSw_suspendTxProbes_def prober_start_timer_def Let_def)
  from second_suspension_is_cut_short [OF this, of 0 400] r show ?thesis by blast
qed

text \<open>
  The record loop reads the received bytes and at most one more: two buffers that agree up to and
  including that byte give the same events, for any received length. The one more byte is really
  read: a command record of length zero at the end takes its command from behind the packet.
\<close>
lemma tlv_loop_overread:
  "handleTlvRecv (\<lambda>i. if i \<le> n then rx i else x i) n self = handleTlvRecv rx n self \<and>
   (\<exists>rx rx'. map rx [0..<69] = map rx' [0..<69] \<and> handleTlvRecv rx 69 False = [SwitchActiveRequestEvent] \<and> handleTlvRecv rx' 69 False = [])"
proof
  show "handleTlvRecv (\<lambda>i. if i \<le> n then rx i else x i) n self = handleTlvRecv rx n self"
    unfolding handleTlvRecv_def by (rule handleTlvRecv_loop_cong) simp
  define b :: "u8 \<Rightarrow> buffer" where "b c = (\<lambda>_. 0)(66 := TLV_COMMAND, 69 := c)" for c
  have "handleTlvRecv (b c) 69 False = (if c = 1 then [SwitchActiveRequestEvent] else if c = 2 then [MuxProbeRequestEvent] else [])" for c
    by (simp add: handleTlvRecv_def handleTlvRecv_loop.simps [of _ 69] getNextTLVPtr_def findNextTlv_def
        handleTlvCommandRecv_def ntohs_at_def be16_def layout_defs b_def)
  moreover have "map (b 1) [0..<69] = map (b 0) [0..<69]" by (simp add: b_def del: upt_rec_numeral)
  ultimately show "\<exists>rx rx'. map rx [0..<69] = map rx' [0..<69] \<and> handleTlvRecv rx 69 False = [SwitchActiveRequestEvent] \<and>
      handleTlvRecv rx' 69 False = []"
    by (intro exI [of _ "b 1"] exI [of _ "b 0"] conjI) (simp_all del: upt_rec_numeral)
qed

end
