(* ===== verification/Db_Interface.thy ===== *)
theory Db_Interface
  imports Mux_Port "HOL-Library.AList"
begin

text \<open>
  What \<open>DbInterface.cpp\<close> writes: every request of a port is posted to the strand of the data base
  interface and becomes a sequence of writes to the tables there. The tables belong to the swss
  library; the model records the calls to it. Time stamps are given by the clock of the
  environment, as text.
\<close>

section \<open>State\<close>

text \<open>The table classes' name macros: the tables that \<open>DbInterface\<close> writes or reads on request.\<close>

datatype db_table =
    APP_MUX_CABLE | APP_PEER_HW_FORWARDING_STATE | APP_MUX_CABLE_COMMAND | APP_FORWARDING_STATE_COMMAND
  | APP_ICMP_ECHO_SESSION | STATE_MUX_LINKMGR | STATE_MUX_METRICS | STATE_LINK_PROBE_STATS
  | STATE_MUX_SWITCH_CAUSE | STATE_SWITCH_CAPABILITY | STATE_MUX_CABLE | CFG_MUX_CABLE | CFG_DEVICE_METADATA | CFG_VLAN
  | CFG_LOOPBACK_INTERFACE

type_synonym field_values = "(string \<times> string) list"

text \<open>An entry of a table or a notification: its key, the operation, and the fields with their values.\<close>

type_synonym entry = "string \<times> string \<times> field_values"

text \<open>What the data bases hold when they are read: \<open>hget\<close>, \<open>getKeys\<close> and \<open>getContent\<close> of a table.\<close>

record database =
  db_hget :: "db_table \<Rightarrow> string \<Rightarrow> string \<Rightarrow> string option"
  db_keys :: "db_table \<Rightarrow> string list"
  db_content :: "db_table \<Rightarrow> entry list"

text \<open>The calls to a table: \<open>hset\<close>, \<open>set\<close>, \<open>del\<close> and \<open>hdel\<close>.\<close>

datatype db_write =
    DbHset db_table string string string | DbSet db_table string field_values
  | DbDel db_table string | DbHdel db_table string string

text \<open>An address of \<open>boost::asio::ip\<close>.\<close>

datatype address = AddressV4 u32 | AddressV6 "u8 list"

text \<open>The handlers that wait on the strand.\<close>

datatype db_task =
    HandleGetMuxState string | HandleSetMuxState string mux_label | HandleSetPeerMuxState string mux_label
  | HandleProbeMuxState string | HandleProbeForwardingState string
  | HandleSetMuxLinkmgrState string health | HandlePostMuxMetrics string mux_metrics mux_label string
  | HandlePostSwitchCause string switch_cause string
  | HandlePostLinkProberMetrics string prober_metrics string | HandlePostPckLossRatio string u64 u64
  | HandleSetMuxMode string string | HandleIcmpEchoSession string field_values
  | HandleDeleteIcmpEchoSession string | HandleUpdateInterval u32 u32

record db_interface =
  mServerIpPortMap :: "(address \<times> string) list"
  hw_offload_capable :: bool
  mPollSwssNotifcation :: bool
  db_tasks :: "db_task list"
  db_writes :: "db_write list"

definition DbInterface_new :: db_interface where
  "DbInterface_new = \<lparr>mServerIpPortMap = [], hw_offload_capable = False, mPollSwssNotifcation = True,
     db_tasks = [], db_writes = []\<rparr>"

definition db_post :: "db_task \<Rightarrow> db_interface \<Rightarrow> db_interface" where
  "db_post t d = d\<lparr>db_tasks := db_tasks d @ [t]\<rparr>"

definition db_write_all :: "db_write list \<Rightarrow> db_interface \<Rightarrow> db_interface" where
  "db_write_all ws d = d\<lparr>db_writes := db_writes d @ ws\<rparr>"

section \<open>Requests\<close>

definition DbInterface_getMuxState :: "string \<Rightarrow> db_interface \<Rightarrow> db_interface" where
  "DbInterface_getMuxState portName = db_post (HandleGetMuxState portName)"

definition DbInterface_setMuxState :: "string \<Rightarrow> mux_label \<Rightarrow> db_interface \<Rightarrow> db_interface" where
  "DbInterface_setMuxState portName label = db_post (HandleSetMuxState portName label)"

definition DbInterface_setPeerMuxState :: "string \<Rightarrow> mux_label \<Rightarrow> db_interface \<Rightarrow> db_interface" where
  "DbInterface_setPeerMuxState portName label = db_post (HandleSetPeerMuxState portName label)"

definition DbInterface_probeMuxState :: "string \<Rightarrow> db_interface \<Rightarrow> db_interface" where
  "DbInterface_probeMuxState portName = db_post (HandleProbeMuxState portName)"

definition DbInterface_probeForwardingState :: "string \<Rightarrow> db_interface \<Rightarrow> db_interface" where
  "DbInterface_probeForwardingState portName = db_post (HandleProbeForwardingState portName)"

definition DbInterface_setMuxLinkmgrState :: "string \<Rightarrow> health \<Rightarrow> db_interface \<Rightarrow> db_interface" where
  "DbInterface_setMuxLinkmgrState portName label = db_post (HandleSetMuxLinkmgrState portName label)"

definition DbInterface_postMetricsEvent ::
  "string \<Rightarrow> string \<Rightarrow> mux_metrics \<Rightarrow> mux_label \<Rightarrow> db_interface \<Rightarrow> db_interface" where
  "DbInterface_postMetricsEvent time portName metrics label = db_post (HandlePostMuxMetrics portName metrics label time)"

definition DbInterface_postSwitchCause :: "string \<Rightarrow> string \<Rightarrow> switch_cause \<Rightarrow> db_interface \<Rightarrow> db_interface" where
  "DbInterface_postSwitchCause time portName cause = db_post (HandlePostSwitchCause portName cause time)"

definition DbInterface_postLinkProberMetricsEvent ::
  "string \<Rightarrow> string \<Rightarrow> prober_metrics \<Rightarrow> db_interface \<Rightarrow> db_interface" where
  "DbInterface_postLinkProberMetricsEvent time portName metrics = db_post (HandlePostLinkProberMetrics portName metrics time)"

definition DbInterface_postPckLossRatio :: "string \<Rightarrow> u64 \<Rightarrow> u64 \<Rightarrow> db_interface \<Rightarrow> db_interface" where
  "DbInterface_postPckLossRatio portName unknownEventCount expectedPacketCount =
     db_post (HandlePostPckLossRatio portName unknownEventCount expectedPacketCount)"

definition DbInterface_setMuxMode :: "string \<Rightarrow> string \<Rightarrow> db_interface \<Rightarrow> db_interface" where
  "DbInterface_setMuxMode portName state = db_post (HandleSetMuxMode portName state)"

definition DbInterface_createIcmpEchoSession :: "string \<Rightarrow> field_values \<Rightarrow> db_interface \<Rightarrow> db_interface" where
  "DbInterface_createIcmpEchoSession key entries = db_post (HandleIcmpEchoSession key entries)"

definition DbInterface_deleteIcmpEchoSession :: "string \<Rightarrow> db_interface \<Rightarrow> db_interface" where
  "DbInterface_deleteIcmpEchoSession key = db_post (HandleDeleteIcmpEchoSession key)"

definition DbInterface_updateIntervalv4 :: "u32 \<Rightarrow> u32 \<Rightarrow> db_interface \<Rightarrow> db_interface" where
  "DbInterface_updateIntervalv4 tx_interval rx_interval = db_post (HandleUpdateInterval tx_interval rx_interval)"

definition DbInterface_updateIntervalv6 :: "u32 \<Rightarrow> u32 \<Rightarrow> db_interface \<Rightarrow> db_interface" where
  "DbInterface_updateIntervalv6 tx_interval rx_interval = db_post (HandleUpdateInterval tx_interval rx_interval)"

section \<open>Names of the enumerations\<close>

fun mux_metrics_name :: "mux_metrics \<Rightarrow> string" where
  "mux_metrics_name SwitchingStart = ''start''"
| "mux_metrics_name SwitchingEnd = ''end''"

definition DbInterface_mLinkProbeMetrics :: "string list" where
  "DbInterface_mLinkProbeMetrics =
     [''link_prober_unknown_start'', ''link_prober_unknown_end'', ''link_prober_wait_start'',
      ''link_prober_active_start'', ''link_prober_standby_start'']"

fun prober_metrics_index :: "prober_metrics \<Rightarrow> nat" where
  "prober_metrics_index LinkProberUnknownStart = 0"
| "prober_metrics_index LinkProberUnknownEnd = 1"
| "prober_metrics_index LinkProberWaitStart = 2"
| "prober_metrics_index LinkProberActiveStart = 3"
| "prober_metrics_index LinkProberStandbyStart = 4"

fun switch_cause_name :: "switch_cause \<Rightarrow> string" where
  "switch_cause_name PeerHeartbeatMissing = ''Peer_Heartbeat_Missing''"
| "switch_cause_name PeerLinkDown = ''Peer_Link_Down''"
| "switch_cause_name TlvSwitchActiveCommand = ''Tlv_Switch_Active_Command''"
| "switch_cause_name CauseLinkDown = ''Link_Down''"
| "switch_cause_name TransceiverDaemonTimeout = ''Transceiver_Daemon_Timeout''"
| "switch_cause_name MatchingHardwareState = ''Matching_Hardware_State''"
| "switch_cause_name ConfigMuxMode = ''Config_Mux_Mode''"
| "switch_cause_name HarewareStateUnknown = ''Hardware_State_Unknown''"
| "switch_cause_name TimedOscillation = ''Timed_Oscillation''"

text \<open>\<open>std::to_string\<close> of an unsigned number.\<close>

definition dec_digit :: "nat \<Rightarrow> char" where
  "dec_digit k = ''0123456789'' ! k"

fun to_string :: "nat \<Rightarrow> string" where
  "to_string n = (if n < 10 then [dec_digit n] else to_string (n div 10) @ [dec_digit (n mod 10)])"

declare to_string.simps [simp del]

section \<open>Handlers\<close>

definition DbInterface_handleProbeMuxState :: "string \<Rightarrow> db_write list" where
  "DbInterface_handleProbeMuxState portName = [DbHset APP_MUX_CABLE_COMMAND portName ''command'' ''probe'']"

definition DbInterface_handleProbeForwardingState :: "string \<Rightarrow> db_write list" where
  "DbInterface_handleProbeForwardingState portName =
     [DbHset APP_FORWARDING_STATE_COMMAND portName ''command'' ''probe'']"

definition DbInterface_handleSetMuxLinkmgrState :: "string \<Rightarrow> health \<Rightarrow> db_write list" where
  "DbInterface_handleSetMuxLinkmgrState portName label =
     [DbHset STATE_MUX_LINKMGR portName ''state'' (DbInterface_mMuxLinkmgrState ! health_index label)]"

text \<open>The name of the label is read from the table without a test: \<open>None\<close> behind its end.\<close>

definition DbInterface_handlePostMuxMetrics ::
  "string \<Rightarrow> mux_metrics \<Rightarrow> mux_label \<Rightarrow> string \<Rightarrow> db_write list option" where
  "DbInterface_handlePostMuxMetrics portName metrics label time = do {
     name \<leftarrow> mux_state_name label;
     Some ((if metrics = SwitchingStart then [DbDel STATE_MUX_METRICS portName] else []) @
           [DbHset STATE_MUX_METRICS portName
              (''linkmgrd_switch_'' @ name @ ''_'' @ mux_metrics_name metrics) time])
   }"

definition DbInterface_handlePostSwitchCause :: "string \<Rightarrow> switch_cause \<Rightarrow> string \<Rightarrow> db_write list" where
  "DbInterface_handlePostSwitchCause portName cause time =
     [DbHset STATE_MUX_SWITCH_CAUSE portName ''cause'' (switch_cause_name cause),
      DbHset STATE_MUX_SWITCH_CAUSE portName ''time'' time]"

definition DbInterface_handlePostLinkProberMetrics :: "string \<Rightarrow> prober_metrics \<Rightarrow> string \<Rightarrow> db_write list" where
  "DbInterface_handlePostLinkProberMetrics portName metrics time =
     map (DbHdel STATE_LINK_PROBE_STATS portName) DbInterface_mLinkProbeMetrics @
     [DbHset STATE_LINK_PROBE_STATS portName (DbInterface_mLinkProbeMetrics ! prober_metrics_index metrics) time]"

definition DbInterface_handlePostPckLossRatio :: "string \<Rightarrow> u64 \<Rightarrow> u64 \<Rightarrow> db_write list" where
  "DbInterface_handlePostPckLossRatio portName unknownEventCount expectedPacketCount =
     [DbSet STATE_LINK_PROBE_STATS portName
        [(''pck_loss_count'', to_string (unat unknownEventCount)),
         (''pck_expected_count'', to_string (unat expectedPacketCount))]]"

definition DbInterface_handleSetMuxMode :: "string \<Rightarrow> string \<Rightarrow> db_write list" where
  "DbInterface_handleSetMuxMode portName state = [DbHset CFG_MUX_CABLE portName ''state'' state]"

definition DbInterface_handleIcmpEchoSession :: "string \<Rightarrow> field_values \<Rightarrow> db_write list" where
  "DbInterface_handleIcmpEchoSession key entries = [DbSet APP_ICMP_ECHO_SESSION key entries]"

definition DbInterface_handleDeleteIcmpEchoSession :: "string \<Rightarrow> db_write list" where
  "DbInterface_handleDeleteIcmpEchoSession key = [DbDel APP_ICMP_ECHO_SESSION key]"

text \<open>The keys are those the session table holds when the handler runs.\<close>

definition DbInterface_handleUpdateInterval :: "string list \<Rightarrow> u32 \<Rightarrow> u32 \<Rightarrow> db_write list" where
  "DbInterface_handleUpdateInterval sessions tx_interval rx_interval =
     map (\<lambda>key. DbSet APP_ICMP_ECHO_SESSION key
       [(''tx_interval'', to_string (unat tx_interval)), (''rx_interval'', to_string (unat rx_interval))]) sessions"

text \<open>
  All handlers but \<open>handleGetMuxState\<close>, which calls the port manager; \<open>keys\<close> are the sessions in the
  data base, \<open>None\<close> is a read behind the end of a name table.
\<close>

fun DbInterface_run :: "string list \<Rightarrow> db_task \<Rightarrow> db_write list option" where
  "DbInterface_run sessions (HandleGetMuxState n) = Some []"
| "DbInterface_run sessions (HandleSetMuxState n l) =
     (case DbInterface_handleSetMuxState l of None \<Rightarrow> Some [] | Some st \<Rightarrow> Some [DbSet APP_MUX_CABLE n [(''state'', st)]])"
| "DbInterface_run sessions (HandleSetPeerMuxState n l) =
     (case DbInterface_handleSetPeerMuxState l of
        None \<Rightarrow> Some [] | Some st \<Rightarrow> Some [DbHset APP_PEER_HW_FORWARDING_STATE n ''state'' st])"
| "DbInterface_run sessions (HandleProbeMuxState n) = Some (DbInterface_handleProbeMuxState n)"
| "DbInterface_run sessions (HandleProbeForwardingState n) = Some (DbInterface_handleProbeForwardingState n)"
| "DbInterface_run sessions (HandleSetMuxLinkmgrState n l) = Some (DbInterface_handleSetMuxLinkmgrState n l)"
| "DbInterface_run sessions (HandlePostMuxMetrics n m l t) = DbInterface_handlePostMuxMetrics n m l t"
| "DbInterface_run sessions (HandlePostSwitchCause n c t) = Some (DbInterface_handlePostSwitchCause n c t)"
| "DbInterface_run sessions (HandlePostLinkProberMetrics n m t) = Some (DbInterface_handlePostLinkProberMetrics n m t)"
| "DbInterface_run sessions (HandlePostPckLossRatio n x y) = Some (DbInterface_handlePostPckLossRatio n x y)"
| "DbInterface_run sessions (HandleSetMuxMode n st) = Some (DbInterface_handleSetMuxMode n st)"
| "DbInterface_run sessions (HandleIcmpEchoSession k fvs) = Some (DbInterface_handleIcmpEchoSession k fvs)"
| "DbInterface_run sessions (HandleDeleteIcmpEchoSession k) = Some (DbInterface_handleDeleteIcmpEchoSession k)"
| "DbInterface_run sessions (HandleUpdateInterval x y) = Some (DbInterface_handleUpdateInterval sessions x y)"

section \<open>Reading the configured modes\<close>

text \<open>\<open>std::find_if\<close> over the fields: the value of the first field of that name.\<close>

definition find_field :: "string \<Rightarrow> entry \<Rightarrow> string option" where
  "find_field f e = map_of (snd (snd e)) f"

fun DbInterface_getMuxModeConfig :: "entry list \<Rightarrow> (string \<times> string) list \<Rightarrow> (string \<times> string) list" where
  "DbInterface_getMuxModeConfig [] modes = modes"
| "DbInterface_getMuxModeConfig (e # entries) modes =
     DbInterface_getMuxModeConfig entries
       (case find_field ''state'' e of None \<Rightarrow> modes | Some muxMode \<Rightarrow> AList.update (fst e) muxMode modes)"

section \<open>The calls of a port\<close>

text \<open>
  The forwarding members of \<open>MuxPort.h\<close>: what a call of the link manager asks of the data base
  interface; \<open>time\<close> is the time of the call. The calls to the prober ask nothing of it, and
  \<open>warmRestartReconciliation\<close> goes through the port manager.
\<close>

fun MuxPort_db_call :: "string \<Rightarrow> mux_port_config \<Rightarrow> call \<Rightarrow> db_interface \<Rightarrow> db_interface" where
  "MuxPort_db_call time cfg (SetMuxState l) = DbInterface_setMuxState (mPortName cfg) l"
| "MuxPort_db_call time cfg (SetPeerMuxState l) = DbInterface_setPeerMuxState (mPortName cfg) l"
| "MuxPort_db_call time cfg GetMuxState = DbInterface_getMuxState (mPortName cfg)"
| "MuxPort_db_call time cfg ProbeMuxState =
     (case mPortCableType cfg of
        CableActiveActive \<Rightarrow> DbInterface_probeForwardingState (mPortName cfg)
      | CableActiveStandby \<Rightarrow> DbInterface_probeMuxState (mPortName cfg))"
| "MuxPort_db_call time cfg (SetMuxLinkmgrState l) = DbInterface_setMuxLinkmgrState (mPortName cfg) l"
| "MuxPort_db_call time cfg (PostMetricsEvent m l) = DbInterface_postMetricsEvent time (mPortName cfg) m l"
| "MuxPort_db_call time cfg (PostSwitchCause c) = DbInterface_postSwitchCause time (mPortName cfg) c"
| "MuxPort_db_call time cfg (PostLinkProberMetricsEvent m) = DbInterface_postLinkProberMetricsEvent time (mPortName cfg) m"
| "MuxPort_db_call time cfg (PostPckLossRatio x y) = DbInterface_postPckLossRatio (mPortName cfg) x y"
| "MuxPort_db_call time cfg _ = (\<lambda>d. d)"

end
