(* ===== verification/Mux_Logger.thy ===== *)
theory Mux_Logger
  imports Linkmgr_Prelude
begin

text \<open>
  The log of the daemon, \<open>common/MuxLogger.*\<close> and \<open>common/SwssLogBackend.*\<close>: the level and the filter, the sinks
  that the initialisation adds, and the two ways in which the level is changed later. Boost.Log, syslog and the
  swss logger are behind it: what they do with a message that reaches a sink is not modelled.
\<close>

section \<open>Levels\<close>

text \<open>The severities of Boost.Log (\<open>boost::log::trivial\<close>), in ascending order.\<close>

datatype severity_level = SevTrace | SevDebug | SevInfo | SevWarning | SevError | SevFatal

text \<open>The levels of syslog; the priorities of the swss logger have the same numbers and are cast to them.\<close>

datatype syslog_level = Emergency | Alert | Critical | SyslogError | SyslogWarning | Notice | SyslogInfo | SyslogDebug

fun severity_rank :: "severity_level \<Rightarrow> nat" where
  "severity_rank SevTrace = 0"
| "severity_rank SevDebug = 1"
| "severity_rank SevInfo = 2"
| "severity_rank SevWarning = 3"
| "severity_rank SevError = 4"
| "severity_rank SevFatal = 5"

fun syslog_rank :: "syslog_level \<Rightarrow> nat" where
  "syslog_rank Emergency = 0"
| "syslog_rank Alert = 1"
| "syslog_rank Critical = 2"
| "syslog_rank SyslogError = 3"
| "syslog_rank SyslogWarning = 4"
| "syslog_rank Notice = 5"
| "syslog_rank SyslogInfo = 6"
| "syslog_rank SyslogDebug = 7"

lemma severity_rank_inject: "severity_rank a = severity_rank b \<longleftrightarrow> a = b"
  by (cases a; cases b) simp_all

lemma syslog_rank_inject: "syslog_rank a = syslog_rank b \<longleftrightarrow> a = b"
  by (cases a; cases b) simp_all

instantiation severity_level :: linorder
begin

definition less_eq_severity_level :: "severity_level \<Rightarrow> severity_level \<Rightarrow> bool" where
  "less_eq_severity_level a b \<longleftrightarrow> severity_rank a \<le> severity_rank b"

definition less_severity_level :: "severity_level \<Rightarrow> severity_level \<Rightarrow> bool" where
  "less_severity_level a b \<longleftrightarrow> severity_rank a < severity_rank b"

instance
  by standard (auto simp: less_eq_severity_level_def less_severity_level_def severity_rank_inject)

end

instantiation syslog_level :: linorder
begin

definition less_eq_syslog_level :: "syslog_level \<Rightarrow> syslog_level \<Rightarrow> bool" where
  "less_eq_syslog_level a b \<longleftrightarrow> syslog_rank a \<le> syslog_rank b"

definition less_syslog_level :: "syslog_level \<Rightarrow> syslog_level \<Rightarrow> bool" where
  "less_syslog_level a b \<longleftrightarrow> syslog_rank a < syslog_rank b"

instance
  by standard (auto simp: less_eq_syslog_level_def less_syslog_level_def syslog_rank_inject)

end

lemmas level_order = less_eq_severity_level_def less_severity_level_def less_eq_syslog_level_def less_syslog_level_def

fun mBoostLogLevelMapper :: "syslog_level \<Rightarrow> severity_level" where
  "mBoostLogLevelMapper Emergency = SevFatal"
| "mBoostLogLevelMapper Alert = SevFatal"
| "mBoostLogLevelMapper Critical = SevError"
| "mBoostLogLevelMapper SyslogError = SevError"
| "mBoostLogLevelMapper SyslogWarning = SevWarning"
| "mBoostLogLevelMapper Notice = SevWarning"
| "mBoostLogLevelMapper SyslogInfo = SevInfo"
| "mBoostLogLevelMapper SyslogDebug = SevTrace"

fun mSyslogLevelMapper :: "severity_level \<Rightarrow> syslog_level" where
  "mSyslogLevelMapper SevFatal = Alert"
| "mSyslogLevelMapper SevError = SyslogError"
| "mSyslogLevelMapper SevWarning = Notice"
| "mSyslogLevelMapper SevInfo = SyslogInfo"
| "mSyslogLevelMapper SevDebug = SyslogDebug"
| "mSyslogLevelMapper SevTrace = SyslogDebug"

section \<open>The logger\<close>

datatype log_sink = SyslogSink | SwssSink | FileSink string

text \<open>
  The singleton with its level, the filter and the sinks of the logging core (there is no filter until the
  first \<open>setLevel\<close>), and the minimum priority of the swss logger.
\<close>

record mux_logger =
  mLinkToSwssLogger :: bool
  mLevel :: severity_level
  core_filter :: "severity_level option"
  core_sinks :: "log_sink list"
  swss_min_prio :: syslog_level

definition MuxLogger_new :: "syslog_level \<Rightarrow> mux_logger" where
  "MuxLogger_new prio =
     \<lparr>mLinkToSwssLogger = False, mLevel = SevInfo, core_filter = None, core_sinks = [], swss_min_prio = prio\<rparr>"

definition setLevel :: "severity_level \<Rightarrow> mux_logger \<Rightarrow> mux_logger" where
  "setLevel level l = l\<lparr>mLevel := level, core_filter := Some level\<rparr>"

text \<open>
  Adding a sink: the libraries may throw, which becomes the exception of the logger, here \<open>None\<close>. \<open>fails\<close> says
  for which sinks they do.
\<close>

definition add_sink :: "(log_sink \<Rightarrow> bool) \<Rightarrow> log_sink \<Rightarrow> mux_logger \<Rightarrow> mux_logger option" where
  "add_sink fails sink l = (if fails sink then None else Some (l\<lparr>core_sinks := core_sinks l @ [sink]\<rparr>))"

definition addSyslogSink :: "(log_sink \<Rightarrow> bool) \<Rightarrow> mux_logger \<Rightarrow> mux_logger option" where
  "addSyslogSink fails = add_sink fails SyslogSink"

definition addSwssSyslogSink :: "(log_sink \<Rightarrow> bool) \<Rightarrow> mux_logger \<Rightarrow> mux_logger option" where
  "addSwssSyslogSink fails = add_sink fails SwssSink"

definition addExtraLogFileSink :: "(log_sink \<Rightarrow> bool) \<Rightarrow> string \<Rightarrow> mux_logger \<Rightarrow> mux_logger option" where
  "addExtraLogFileSink fails logFile = add_sink fails (FileSink logFile)"

text \<open>A priority set in the data base; \<open>prio_of\<close> is the table of the priority names of the swss library.\<close>

definition swssPrioNotify :: "(string \<Rightarrow> syslog_level option) \<Rightarrow> string \<Rightarrow> mux_logger \<Rightarrow> mux_logger" where
  "swssPrioNotify prio_of prioStr l =
     (case prio_of prioStr of
        None \<Rightarrow> l
      | Some swssLogLevel \<Rightarrow> setLevel (mBoostLogLevelMapper swssLogLevel) (l\<lparr>swss_min_prio := swssLogLevel\<rparr>))"

text \<open>
  Linking to the data base: \<open>linked\<close> are the priorities that the library notifies before it returns, given
  the default one.
\<close>

definition startSwssLogger ::
  "(string \<Rightarrow> syslog_level option) \<Rightarrow> (string \<Rightarrow> string list) \<Rightarrow> string \<Rightarrow> mux_logger \<Rightarrow> mux_logger" where
  "startSwssLogger prio_of linked swssPrio l = fold (swssPrioNotify prio_of) (linked swssPrio) l"

definition MuxLogger_initialize ::
  "(log_sink \<Rightarrow> bool) \<Rightarrow> (string \<Rightarrow> syslog_level option) \<Rightarrow> (string \<Rightarrow> string list) \<Rightarrow> string \<Rightarrow> severity_level \<Rightarrow>
     bool \<Rightarrow> bool \<Rightarrow> mux_logger \<Rightarrow> mux_logger option" where
  "MuxLogger_initialize fails prio_of linked path level extraLogFile linkToSwssLogger l = do {
     let l = l\<lparr>mLevel := level, mLinkToSwssLogger := linkToSwssLogger\<rparr>;
     l \<leftarrow> (if linkToSwssLogger then do {
             l \<leftarrow> addSwssSyslogSink fails l;
             Some ((startSwssLogger prio_of linked ''NOTICE'' l)\<lparr>mLevel := SevWarning\<rparr>)
           } else addSyslogSink fails l);
     (if extraLogFile then addExtraLogFileSink fails path l else Some l)
   }"

section \<open>Messages\<close>

datatype log_output = ToSyslog syslog_level string | ToSwss syslog_level string | ToFile string severity_level string

fun sink_consume :: "log_sink \<Rightarrow> severity_level \<Rightarrow> string \<Rightarrow> log_output" where
  "sink_consume SyslogSink sev msg = ToSyslog (mSyslogLevelMapper sev) msg"
| "sink_consume SwssSink sev msg = ToSwss (mSyslogLevelMapper sev) msg"
| "sink_consume (FileSink f) sev msg = ToFile f sev msg"

text \<open>The macro \<open>MUXLOG\<close>: the test of the level, then the filter of the core, then every sink.\<close>

definition MUXLOG :: "mux_logger \<Rightarrow> severity_level \<Rightarrow> string \<Rightarrow> log_output list" where
  "MUXLOG l sev msg =
     (if mLevel l \<le> sev \<and> (case core_filter l of None \<Rightarrow> True | Some f \<Rightarrow> f \<le> sev)
      then map (\<lambda>s. sink_consume s sev msg) (core_sinks l) else [])"

section \<open>What is logged\<close>

text \<open>A level that is set decides alone, whatever the level and the filter were before.\<close>

lemma set_level_decides: "MUXLOG (setLevel level l) sev msg = (if level \<le> sev then map (\<lambda>s. sink_consume s sev msg) (core_sinks l) else [])"
  by (simp add: MUXLOG_def setLevel_def)

text \<open>After the initialisation there is a sink, and the messages at the level asked for reach it, or those from
  warnings on where the swss logger is used.\<close>

lemma initialized_logger:
  assumes "MuxLogger_initialize fails prio_of linked path level extra link (MuxLogger_new p) = Some l"
  shows "core_sinks l = (if link then SwssSink else SyslogSink) # (if extra then [FileSink path] else [])"
    and "mLevel l = (if link then SevWarning else level)" and "\<not> link \<Longrightarrow> core_filter l = None"
proof -
  have sinks: "core_sinks (fold (swssPrioNotify prio_of) ps x) = core_sinks x" for ps and x :: mux_logger
    by (induction ps arbitrary: x) (simp_all add: swssPrioNotify_def setLevel_def split: option.split)
  show "core_sinks l = (if link then SwssSink else SyslogSink) # (if extra then [FileSink path] else [])"
    "mLevel l = (if link then SevWarning else level)" "\<not> link \<Longrightarrow> core_filter l = None"
    using assms sinks
    by (auto simp: MuxLogger_initialize_def MuxLogger_new_def startSwssLogger_def addSyslogSink_def addSwssSyslogSink_def
        addExtraLogFileSink_def add_sink_def Let_def split: if_splits bind_splits)
qed

text \<open>
  No message that the swss logger would write at its priority is held back by the level that the priority is
  mapped to. The other direction fails at three of the eight priorities: at \<open>WARN\<close>, \<open>CRIT\<close> and \<open>EMERG\<close> messages
  pass the level whose own priority is below the one that was set, so the swss logger drops all
  warnings at \<open>WARN\<close>, all errors at \<open>CRIT\<close> and everything at \<open>EMERG\<close>.
\<close>

lemma nothing_is_held_back: "mSyslogLevelMapper sev \<le> prio \<Longrightarrow> mBoostLogLevelMapper prio \<le> sev"
  by (cases sev; cases prio) (simp_all add: level_order)

lemma swss_priorities_agree:
  "(\<forall>sev. mBoostLogLevelMapper prio \<le> sev \<longrightarrow> mSyslogLevelMapper sev \<le> prio) \<longleftrightarrow> prio \<notin> {SyslogWarning, Critical, Emergency}"
proof
  show "prio \<notin> {SyslogWarning, Critical, Emergency}"
    if "\<forall>sev. mBoostLogLevelMapper prio \<le> sev \<longrightarrow> mSyslogLevelMapper sev \<le> prio"
    using that [rule_format, of "mBoostLogLevelMapper prio"] by (cases prio) (simp_all add: level_order)
  show "\<forall>sev. mBoostLogLevelMapper prio \<le> sev \<longrightarrow> mSyslogLevelMapper sev \<le> prio"
    if "prio \<notin> {SyslogWarning, Critical, Emergency}"
  proof (intro allI impI)
    show "mSyslogLevelMapper sev \<le> prio" if "mBoostLogLevelMapper prio \<le> sev" for sev
      using that \<open>prio \<notin> _\<close> by (cases prio; cases sev) (simp_all add: level_order)
  qed
qed

text \<open>
  A priority that the library notifies while the logger is linked is overwritten: the filter has it, but
  the level is that of warnings, so debugging that was asked for before the start is not logged.
\<close>

lemma early_priority_is_lost:
  assumes "MuxLogger_initialize fails prio_of (\<lambda>_. [''DEBUG'']) path level False True (MuxLogger_new p) = Some l"
    and "prio_of ''DEBUG'' = Some SyslogDebug"
  shows "swss_min_prio l = SyslogDebug" and "core_filter l = Some SevTrace" and "MUXLOG l SevInfo msg = []"
  using assms
  by (auto simp: MuxLogger_initialize_def MuxLogger_new_def startSwssLogger_def addSwssSyslogSink_def add_sink_def
      swssPrioNotify_def setLevel_def MUXLOG_def level_order Let_def split: if_splits)

end
