(* ===== verification/Mux_Manager.thy ===== *)
theory Mux_Manager
  imports Db_Interface Active_Standby_Handlers Active_Active_Handlers Mux_Logger
begin

text \<open>
  \<open>MuxManager.cpp\<close>: the directory of the ports. It creates a port when its name is first used,
  passes every notification on to the port it is for, keeps the configuration that all ports share,
  and counts the ports that are reconciled after a warm restart. The result of an operation that
  may throw is a sum, with the exception on the left.
\<close>

section \<open>Ports\<close>

datatype mux_port = StandbyPort as_state | ActivePort aa_state

fun port_config :: "mux_port \<Rightarrow> mux_port_config" where
  "port_config (StandbyPort s) = mMuxPortConfig s"
| "port_config (ActivePort s) = mMuxPortConfig s"

fun port_map_config :: "(mux_port_config \<Rightarrow> mux_port_config) \<Rightarrow> mux_port \<Rightarrow> mux_port" where
  "port_map_config f (StandbyPort s) = StandbyPort (s\<lparr>mMuxPortConfig := f (mMuxPortConfig s)\<rparr>)"
| "port_map_config f (ActivePort s) = ActivePort (s\<lparr>mMuxPortConfig := f (mMuxPortConfig s)\<rparr>)"

text \<open>
  The constructor; the members without initialiser, the prober type and the cause of a switch
  command, get indeterminate values.
\<close>

definition MuxPort_new ::
  "link_prober_type \<times> switch_cause \<Rightarrow> mux_config \<Rightarrow> string \<Rightarrow> u16 \<Rightarrow> cable_type \<Rightarrow> mux_port" where
  "MuxPort_new indet c portName serverId portCableType =
     (let cfg = MuxPortConfig_new (fst indet) c portName serverId portCableType
      in case portCableType of
           CableActiveActive \<Rightarrow> ActivePort (ActiveActiveStateMachine_new cfg)
         | CableActiveStandby \<Rightarrow> StandbyPort (ActiveStandbyStateMachine_new (snd indet) cfg))"

definition MuxPort_setServerMacAddress :: "mac_address \<Rightarrow> mux_port \<Rightarrow> mux_port" where
  "MuxPort_setServerMacAddress a = port_map_config (setBladeMacAddress a)"

definition MuxPort_setWellKnownMacAddress :: "mac_address \<Rightarrow> mux_port \<Rightarrow> mux_port" where
  "MuxPort_setWellKnownMacAddress a = port_map_config (setWellKnownMacAddress a)"

text \<open>The notifications of a port, as messages, so that either kind of port takes them.\<close>

datatype port_notification =
    NotifyBladeIpv4 ip_address | NotifySoCIpv4 ip_address | NotifyLinkFailureDetection string string
  | NotifyProberType string | NotifyLinkState string | NotifyPeerLinkState string
  | NotifyServerMac mac_address | NotifyUseWellKnownMac | NotifySrcMac
  | NotifyGetMuxState string | NotifyProbeMuxState string | NotifyMuxState string
  | NotifyMuxConfig string | NotifyPeerMuxState string | NotifyDefaultRoute string
  | NotifyResetPckLoss | NotifyTsa bool | NotifyResetSuspendTimer

fun MuxPort_notify :: "port_notification \<Rightarrow> 'a lm_base_scheme \<Rightarrow> 'a lm_base_scheme" where
  "MuxPort_notify (NotifyBladeIpv4 a) = MuxPort_handleBladeIpv4AddressUpdate a"
| "MuxPort_notify (NotifySoCIpv4 a) = MuxPort_handleSoCIpv4AddressUpdate a"
| "MuxPort_notify (NotifyLinkFailureDetection st ty) = MuxPort_updateLinkFailureDetectionState st ty"
| "MuxPort_notify (NotifyProberType ty) = MuxPort_updateProberType ty"
| "MuxPort_notify (NotifyLinkState st) = MuxPort_handleLinkState st"
| "MuxPort_notify (NotifyPeerLinkState st) = MuxPort_handlePeerLinkState st"
| "MuxPort_notify (NotifyServerMac a) = MuxPort_handleGetServerMacAddress a"
| "MuxPort_notify NotifyUseWellKnownMac = MuxPort_handleUseWellKnownMacAddress"
| "MuxPort_notify NotifySrcMac = MuxPort_handleSrcMacAddressUpdate"
| "MuxPort_notify (NotifyGetMuxState st) = MuxPort_handleGetMuxState st"
| "MuxPort_notify (NotifyProbeMuxState st) = MuxPort_handleProbeMuxState st"
| "MuxPort_notify (NotifyMuxState st) = MuxPort_handleMuxState st"
| "MuxPort_notify (NotifyMuxConfig st) = MuxPort_handleMuxConfig st"
| "MuxPort_notify (NotifyPeerMuxState st) = MuxPort_handlePeerMuxState st"
| "MuxPort_notify (NotifyDefaultRoute st) = MuxPort_handleDefaultRouteState st"
| "MuxPort_notify NotifyResetPckLoss = MuxPort_resetPckLossCount"
| "MuxPort_notify (NotifyTsa b) = MuxPort_handleTsaEnable b"
| "MuxPort_notify NotifyResetSuspendTimer = MuxPort_handleResetSuspendTimer"

fun notify_port :: "port_notification \<Rightarrow> mux_port \<Rightarrow> mux_port" where
  "notify_port x (StandbyPort s) = StandbyPort (MuxPort_notify x s)"
| "notify_port x (ActivePort s) = ActivePort (MuxPort_notify x s)"

section \<open>State\<close>

text \<open>The exceptions, and undefined behaviour of the C++ library (\<open>atoi\<close> of a number above \<open>INT_MAX\<close>).\<close>

datatype mux_error = ConfigNotFound string | RangeError string | UndefinedBehaviour string

type_synonym 'a result = "mux_error + 'a"

fun and_then :: "'a result \<Rightarrow> ('a \<Rightarrow> 'b result) \<Rightarrow> 'b result" where
  "and_then (Inl e) f = Inl e"
| "and_then (Inr x) f = f x"

datatype manager_task = UpdateReconciliationCount int | ReconciliationTimeout error_code

record mux_manager =
  mm_mMuxConfig :: mux_config
  mPortReconciliationCount :: u16
  mDbInterfacePtr :: db_interface
  mPortMap :: "(string \<times> mux_port) list"
  mPortCableTypeMap :: "(string \<times> cable_type) list"
  mIpv4DefaultRouteState :: string
  mIpv6DefaultRouteState :: string
  mReconciliationTimer :: timer
  manager_now_ms :: nat
  manager_tasks :: "manager_task list"
  warm_start_reconciled :: bool
  mIoService_stopped :: bool
  muxLogger :: mux_logger

text \<open>The logger is a singleton of the process, kept with the manager; \<open>log\<close> is what it is before.\<close>

definition MuxManager_new :: "mux_logger \<Rightarrow> mac_address \<Rightarrow> mac_address \<Rightarrow> mux_manager" where
  "MuxManager_new log tor vlan =
     \<lparr>mm_mMuxConfig = MuxConfig_new tor vlan, mPortReconciliationCount = 0, mDbInterfacePtr = DbInterface_new,
      mPortMap = [], mPortCableTypeMap = [], mIpv4DefaultRouteState = ''na'', mIpv6DefaultRouteState = ''na'',
      mReconciliationTimer = \<lparr>tm_expiry = None, tm_pending = False\<rparr>, manager_now_ms = 0, manager_tasks = [],
      warm_start_reconciled = False, mIoService_stopped = False, muxLogger = log\<rparr>"

definition db_call :: "(db_interface \<Rightarrow> db_interface) \<Rightarrow> mux_manager \<Rightarrow> mux_manager" where
  "db_call f m = m\<lparr>mDbInterfacePtr := f (mDbInterfacePtr m)\<rparr>"

text \<open>A write to the shared configuration: all ports hold a reference to it.\<close>

definition set_shared_config :: "(mux_config \<Rightarrow> mux_config) \<Rightarrow> mux_manager \<Rightarrow> mux_manager" where
  "set_shared_config f m =
     (let c = f (mm_mMuxConfig m)
      in m\<lparr>mm_mMuxConfig := c,
           mPortMap := map (map_prod id (port_map_config (\<lambda>cfg. cfg\<lparr>mMuxConfig := c\<rparr>))) (mPortMap m)\<rparr>)"

text \<open>\<open>mPortMap.find\<close> followed by a handler of the port, if there is one; and the same for all ports.\<close>

definition notify :: "string \<Rightarrow> port_notification \<Rightarrow> mux_manager \<Rightarrow> mux_manager" where
  "notify portName x m = m\<lparr>mPortMap := AList.map_entry portName (notify_port x) (mPortMap m)\<rparr>"

definition notify_all_ports :: "port_notification \<Rightarrow> mux_manager \<Rightarrow> mux_manager" where
  "notify_all_ports x m = m\<lparr>mPortMap := map (map_prod id (notify_port x)) (mPortMap m)\<rparr>"

section \<open>Creating ports\<close>

definition KNOWN_MAC_START :: mac_address where
  "KNOWN_MAC_START = [0x04, 0x27, 0x28, 0x7a, 0x00, 0x00]"

definition KNOWN_MAC_COUNT :: nat where
  "KNOWN_MAC_COUNT = 1024"

text \<open>The loop, with the number of addresses bytes left, \<open>addrIndex + 1\<close>.\<close>

fun generateServerMac_loop :: "nat \<Rightarrow> nat \<Rightarrow> mac_address \<Rightarrow> mac_address" where
  "generateServerMac_loop offset 0 address = address"
| "generateServerMac_loop offset (Suc addrIndex) address =
     (if offset = 0 then address
      else generateServerMac_loop (offset div 0xff) addrIndex (address[addrIndex := of_nat (offset mod 0xff)]))"

definition generateServerMac :: "u16 \<Rightarrow> mac_address result" where
  "generateServerMac serverId =
     (if KNOWN_MAC_COUNT \<le> unat serverId then Inl (RangeError ''Out of MAC address range'')
      else let addrIndex = 6 - 1;
               offset = unat (KNOWN_MAC_START ! addrIndex) + unat serverId
           in Inr (generateServerMac_loop offset (Suc addrIndex) KNOWN_MAC_START))"

text \<open>\<open>atoi\<close> of the digits at the end of the name, stored in a \<open>uint16_t\<close>; no digits are 0.\<close>

definition is_digit :: "char \<Rightarrow> bool" where
  "is_digit c \<longleftrightarrow> 48 \<le> (of_char c :: nat) \<and> (of_char c :: nat) \<le> 57"

definition trailing_digits :: "string \<Rightarrow> string" where
  "trailing_digits portName = rev (takeWhile is_digit (rev portName))"

definition digits_value :: "string \<Rightarrow> nat" where
  "digits_value ds = foldl (\<lambda>n c. 10 * n + (of_char c - 48)) 0 ds"

definition server_id_of :: "string \<Rightarrow> u16 result" where
  "server_id_of portName =
     (let n = digits_value (trailing_digits portName)
      in if n < 2 ^ 31 then Inr (of_nat n) else Inl (UndefinedBehaviour ''atoi''))"

definition getMuxPortCableType :: "string \<Rightarrow> mux_manager \<Rightarrow> cable_type \<times> mux_manager" where
  "getMuxPortCableType portName m =
     (case map_of (mPortCableTypeMap m) portName of
        Some t \<Rightarrow> (t, m)
      | None \<Rightarrow> (CableActiveStandby, m\<lparr>mPortCableTypeMap := mPortCableTypeMap m @ [(portName, CableActiveStandby)]\<rparr>))"

text \<open>\<open>indet\<close> holds the indeterminate first values of the members of a new port.\<close>

definition create_port ::
  "link_prober_type \<times> switch_cause \<Rightarrow> mux_config \<Rightarrow> string \<Rightarrow> cable_type \<Rightarrow> mux_port result" where
  "create_port indet c portName t =
     and_then (server_id_of portName) (\<lambda>serverId.
       let p = MuxPort_new indet c portName serverId t
       in if t = CableActiveActive
          then and_then (generateServerMac serverId) (\<lambda>address.
                 let p = MuxPort_setWellKnownMacAddress address p
                 in Inr (if mUseWellKnownMacActiveActive c then MuxPort_setServerMacAddress address p else p))
          else Inr p)"

definition getMuxPortPtrOrThrow ::
  "link_prober_type \<times> switch_cause \<Rightarrow> string \<Rightarrow> mux_manager \<Rightarrow> mux_manager result" where
  "getMuxPortPtrOrThrow indet portName m =
     (case getMuxPortCableType portName m of
        (muxPortCableType, m) \<Rightarrow>
          (case map_of (mPortMap m) portName of
             Some p \<Rightarrow> Inr m
           | None \<Rightarrow> and_then (create_port indet (mm_mMuxConfig m) portName muxPortCableType)
                       (\<lambda>p. Inr (m\<lparr>mPortMap := mPortMap m @ [(portName, p)]\<rparr>))))"

section \<open>Configuration\<close>

definition MuxManager_updatePortCableType :: "string \<Rightarrow> string \<Rightarrow> mux_manager \<Rightarrow> mux_manager" where
  "MuxManager_updatePortCableType portName cableType m =
     (let portCableType =
            (if cableType = ''active-standby'' then CableActiveStandby
             else if cableType = ''active-active'' then CableActiveActive else CableActiveStandby)
      in if map_of (mPortCableTypeMap m) portName = None
         then m\<lparr>mPortCableTypeMap := mPortCableTypeMap m @ [(portName, portCableType)]\<rparr> else m)"

definition MuxManager_updateLogVerbosity :: "string \<Rightarrow> mux_manager \<Rightarrow> mux_manager" where
  "MuxManager_updateLogVerbosity verbosity m =
     (let level = (if verbosity = ''trace'' then SevTrace else if verbosity = ''debug'' then SevDebug
                   else if verbosity = ''info'' then SevInfo else if verbosity = ''error'' then SevError
                   else if verbosity = ''fatal'' then SevFatal else SevWarning)
      in m\<lparr>muxLogger := setLevel level (muxLogger m)\<rparr>)"

definition MuxManager_setUseWellKnownMacActiveActive :: "bool \<Rightarrow> mux_manager \<Rightarrow> mux_manager" where
  "MuxManager_setUseWellKnownMacActiveActive useWellKnownMac m =
     notify_all_ports NotifyUseWellKnownMac
       (set_shared_config (setUseWellKnownMacActiveActive useWellKnownMac) m)"

text \<open>\<open>MuxPort::setTimeoutIpv4_msec\<close> and its twin tell the data base the new intervals, once per port.\<close>

definition MuxPort_setTimeoutIpv4_msec :: "u32 \<Rightarrow> mux_port \<Rightarrow> db_interface \<Rightarrow> db_interface" where
  "MuxPort_setTimeoutIpv4_msec timeout_msec p =
     DbInterface_updateIntervalv4 timeout_msec (MuxPort_rx_interval timeout_msec (port_config p))"

definition MuxPort_setTimeoutIpv6_msec :: "u32 \<Rightarrow> mux_port \<Rightarrow> db_interface \<Rightarrow> db_interface" where
  "MuxPort_setTimeoutIpv6_msec timeout_msec p =
     DbInterface_updateIntervalv6 timeout_msec (MuxPort_rx_interval timeout_msec (port_config p))"

definition MuxManager_setTimeoutIpv4_msec :: "u32 \<Rightarrow> mux_manager \<Rightarrow> mux_manager" where
  "MuxManager_setTimeoutIpv4_msec timeout_msec m =
     (let m = set_shared_config (setTimeoutIpv4_msec timeout_msec) m
      in db_call (fold (MuxPort_setTimeoutIpv4_msec timeout_msec \<circ> snd) (mPortMap m)) m)"

definition MuxManager_setTimeoutIpv6_msec :: "u32 \<Rightarrow> mux_manager \<Rightarrow> mux_manager" where
  "MuxManager_setTimeoutIpv6_msec timeout_msec m =
     (let m = set_shared_config (setTimeoutIpv6_msec timeout_msec) m
      in db_call (fold (MuxPort_setTimeoutIpv6_msec timeout_msec \<circ> snd) (mPortMap m)) m)"

definition MuxManager_setIfUseTorMacAsSrcMac :: "bool \<Rightarrow> mux_manager \<Rightarrow> mux_manager" where
  "MuxManager_setIfUseTorMacAsSrcMac useTorMac = set_shared_config (setIfUseTorMacAsSrcMac useTorMac)"

definition MuxManager_processSrcMac :: "bool \<Rightarrow> mux_manager \<Rightarrow> mux_manager" where
  "MuxManager_processSrcMac useTorMac m =
     (if mEnableUseTorMac (mm_mMuxConfig m) \<noteq> useTorMac
      then notify_all_ports NotifySrcMac (MuxManager_setIfUseTorMacAsSrcMac useTorMac m)
      else m)"

definition MuxManager_updateMuxPortConfig :: "string \<Rightarrow> string \<Rightarrow> mux_manager \<Rightarrow> mux_manager" where
  "MuxManager_updateMuxPortConfig portName config = notify portName (NotifyMuxConfig config)"

definition MuxManager_resetPckLossCount :: "string \<Rightarrow> mux_manager \<Rightarrow> mux_manager" where
  "MuxManager_resetPckLossCount portName = notify portName NotifyResetPckLoss"

definition MuxManager_processResetSuspendTimer :: "string list \<Rightarrow> mux_manager \<Rightarrow> mux_manager" where
  "MuxManager_processResetSuspendTimer portNames = fold (\<lambda>n. notify n NotifyResetSuspendTimer) portNames"

definition MuxManager_handleTsaEnableNotification :: "bool \<Rightarrow> mux_manager \<Rightarrow> mux_manager" where
  "MuxManager_handleTsaEnableNotification enable = notify_all_ports (NotifyTsa enable)"

section \<open>Notifications\<close>

text \<open>The operations that create the port first; the type of the cable is looked up after that.\<close>

definition port_cable :: "string \<Rightarrow> mux_manager \<Rightarrow> cable_type" where
  "port_cable portName m = fst (getMuxPortCableType portName m)"

definition MuxManager_addOrUpdateMuxPort ::
  "link_prober_type \<times> switch_cause \<Rightarrow> string \<Rightarrow> address \<Rightarrow> mux_manager \<Rightarrow> mux_manager result" where
  "MuxManager_addOrUpdateMuxPort indet portName a m =
     and_then (getMuxPortPtrOrThrow indet portName m) (\<lambda>m.
       Inr (case a of
              AddressV4 ip \<Rightarrow> if port_cable portName m = CableActiveStandby then notify portName (NotifyBladeIpv4 ip) m else m
            | AddressV6 _ \<Rightarrow> m))"

definition MuxManager_addOrUpdateMuxPortSoCAddress ::
  "link_prober_type \<times> switch_cause \<Rightarrow> string \<Rightarrow> address \<Rightarrow> mux_manager \<Rightarrow> mux_manager result" where
  "MuxManager_addOrUpdateMuxPortSoCAddress indet portName a m =
     and_then (getMuxPortPtrOrThrow indet portName m) (\<lambda>m.
       Inr (case a of
              AddressV4 ip \<Rightarrow> if port_cable portName m = CableActiveActive then notify portName (NotifySoCIpv4 ip) m else m
            | AddressV6 _ \<Rightarrow> m))"

definition MuxManager_updateLinkFailureDetectionState ::
  "link_prober_type \<times> switch_cause \<Rightarrow> string \<Rightarrow> string \<Rightarrow> string \<Rightarrow> mux_manager \<Rightarrow> mux_manager result" where
  "MuxManager_updateLinkFailureDetectionState indet portName st session_type m =
     and_then (getMuxPortPtrOrThrow indet portName m) (\<lambda>m.
       Inr (if port_cable portName m = CableActiveActive
            then notify portName (NotifyLinkFailureDetection st session_type) m else m))"

definition MuxManager_updateProberType ::
  "link_prober_type \<times> switch_cause \<Rightarrow> string \<Rightarrow> string \<Rightarrow> mux_manager \<Rightarrow> mux_manager result" where
  "MuxManager_updateProberType indet portName proberType m =
     and_then (getMuxPortPtrOrThrow indet portName m) (\<lambda>m.
       Inr (if port_cable portName m = CableActiveActive then notify portName (NotifyProberType proberType) m else m))"

definition MuxManager_addOrUpdateMuxPortLinkState ::
  "link_prober_type \<times> switch_cause \<Rightarrow> string \<Rightarrow> string \<Rightarrow> mux_manager \<Rightarrow> mux_manager result" where
  "MuxManager_addOrUpdateMuxPortLinkState indet portName linkState m =
     and_then (getMuxPortPtrOrThrow indet portName m) (\<lambda>m. Inr (notify portName (NotifyLinkState linkState) m))"

definition MuxManager_addOrUpdatePeerLinkState ::
  "link_prober_type \<times> switch_cause \<Rightarrow> string \<Rightarrow> string \<Rightarrow> mux_manager \<Rightarrow> mux_manager result" where
  "MuxManager_addOrUpdatePeerLinkState indet portName linkState m =
     and_then (getMuxPortPtrOrThrow indet portName m) (\<lambda>m. Inr (notify portName (NotifyPeerLinkState linkState) m))"

definition MuxManager_addOrUpdateMuxPortMuxState ::
  "link_prober_type \<times> switch_cause \<Rightarrow> string \<Rightarrow> string \<Rightarrow> mux_manager \<Rightarrow> mux_manager result" where
  "MuxManager_addOrUpdateMuxPortMuxState indet portName muxState m =
     and_then (getMuxPortPtrOrThrow indet portName m) (\<lambda>m. Inr (notify portName (NotifyMuxState muxState) m))"

definition MuxManager_processGetServerMacAddress :: "string \<Rightarrow> mac_address \<Rightarrow> mux_manager \<Rightarrow> mux_manager" where
  "MuxManager_processGetServerMacAddress portName a = notify portName (NotifyServerMac a)"

definition MuxManager_processGetMuxState :: "string \<Rightarrow> string \<Rightarrow> mux_manager \<Rightarrow> mux_manager" where
  "MuxManager_processGetMuxState portName muxState = notify portName (NotifyGetMuxState muxState)"

definition MuxManager_processProbeMuxState :: "string \<Rightarrow> string \<Rightarrow> mux_manager \<Rightarrow> mux_manager" where
  "MuxManager_processProbeMuxState portName muxState = notify portName (NotifyProbeMuxState muxState)"

definition MuxManager_processPeerMuxState :: "string \<Rightarrow> string \<Rightarrow> mux_manager \<Rightarrow> mux_manager" where
  "MuxManager_processPeerMuxState portName peerMuxState = notify portName (NotifyPeerMuxState peerMuxState)"

definition MuxManager_addOrUpdateDefaultRouteState :: "bool \<Rightarrow> string \<Rightarrow> mux_manager \<Rightarrow> mux_manager" where
  "MuxManager_addOrUpdateDefaultRouteState is_v4 routeState m =
     (let m = (if is_v4 then m\<lparr>mIpv4DefaultRouteState := routeState\<rparr> else m\<lparr>mIpv6DefaultRouteState := routeState\<rparr>);
          nextState = (if mIpv4DefaultRouteState m = ''ok'' then ''ok'' else ''na'')
      in notify_all_ports (NotifyDefaultRoute nextState) m)"

section \<open>Warm restart\<close>

definition manager_post :: "manager_task \<Rightarrow> mux_manager \<Rightarrow> mux_manager" where
  "manager_post t m = m\<lparr>manager_tasks := manager_tasks m @ [t]\<rparr>"

definition reconciliation_timer_cancel :: "mux_manager \<Rightarrow> mux_manager" where
  "reconciliation_timer_cancel m =
     (if tm_pending (mReconciliationTimer m)
      then manager_post (ReconciliationTimeout OperationAborted)
             (m\<lparr>mReconciliationTimer := (mReconciliationTimer m)\<lparr>tm_pending := False\<rparr>\<rparr>)
      else m)"

definition MuxManager_updateWarmRestartReconciliationCount :: "int \<Rightarrow> mux_manager \<Rightarrow> mux_manager" where
  "MuxManager_updateWarmRestartReconciliationCount increment = manager_post (UpdateReconciliationCount increment)"

definition MuxManager_handleUpdateReconciliationCount :: "int \<Rightarrow> mux_manager \<Rightarrow> mux_manager" where
  "MuxManager_handleUpdateReconciliationCount increment m =
     (let m = m\<lparr>mPortReconciliationCount := mPortReconciliationCount m + of_int increment\<rparr>
      in if mPortReconciliationCount m = 0 then reconciliation_timer_cancel m else m)"

definition MuxManager_startWarmRestartReconciliationTimer :: "u32 \<Rightarrow> mux_manager \<Rightarrow> mux_manager" where
  "MuxManager_startWarmRestartReconciliationTimer timeout m =
     (let m = reconciliation_timer_cancel m;
          sec = (if timeout = 0 then mMuxReconciliationTimeout_sec (mm_mMuxConfig m) else timeout)
      in m\<lparr>mReconciliationTimer := \<lparr>tm_expiry = Some (manager_now_ms m + unat sec * 1000), tm_pending = True\<rparr>\<rparr>)"

definition MuxManager_handleWarmRestartReconciliationTimeout :: "entry list \<Rightarrow> mux_manager \<Rightarrow> mux_manager" where
  "MuxManager_handleWarmRestartReconciliationTimeout muxCable m =
     (let m = db_call (fold (\<lambda>(n, mode). if mode = ''auto'' then id else DbInterface_setMuxMode n ''auto'')
                (DbInterface_getMuxModeConfig muxCable [])) m
      in m\<lparr>warm_start_reconciled := True\<rparr>)"

text \<open>\<open>isWarmStart\<close> is the library's answer.\<close>

definition DbInterface_warmRestartReconciliation :: "bool \<Rightarrow> string \<Rightarrow> mux_manager \<Rightarrow> mux_manager" where
  "DbInterface_warmRestartReconciliation isWarmStart portName m =
     (if isWarmStart
      then MuxManager_updateWarmRestartReconciliationCount (- 1) (db_call (DbInterface_setMuxMode portName ''auto'') m)
      else m)"

section \<open>Start and stop\<close>

definition MuxManager_startReconciliation :: "bool \<Rightarrow> u32 \<Rightarrow> mux_manager \<Rightarrow> mux_manager" where
  "MuxManager_startReconciliation isWarmStart warmStartTimer m =
     (if isWarmStart then MuxManager_startWarmRestartReconciliationTimer warmStartTimer m else m)"

definition MuxManager_enableFeatures :: "bool \<Rightarrow> bool \<Rightarrow> mux_manager \<Rightarrow> mux_manager" where
  "MuxManager_enableFeatures enable_feature_measurement enable_feature_default_route m =
     set_shared_config (enableDefaultRouteFeature enable_feature_default_route)
       (set_shared_config (enableSwitchoverMeasurement enable_feature_measurement) m)"

definition MuxManager_initialize :: "bool \<Rightarrow> u32 \<Rightarrow> bool \<Rightarrow> bool \<Rightarrow> mux_manager \<Rightarrow> mux_manager" where
  "MuxManager_initialize isWarmStart warmStartTimer enable_feature_measurement enable_feature_default_route m =
     MuxManager_enableFeatures enable_feature_measurement enable_feature_default_route
       (MuxManager_startReconciliation isWarmStart warmStartTimer m)"

datatype signal = SIGINT | SIGTERM | SIGUSR1 | SIGUSR2

definition MuxManager_handleProcessTerminate :: "mux_manager \<Rightarrow> mux_manager" where
  "MuxManager_handleProcessTerminate m =
     (db_call (\<lambda>d. d\<lparr>mPollSwssNotifcation := False\<rparr>) m)\<lparr>mIoService_stopped := True\<rparr>"

definition MuxManager_handleSignal :: "signal \<Rightarrow> mux_manager \<Rightarrow> mux_manager" where
  "MuxManager_handleSignal signalNumber m =
     (if signalNumber = SIGINT \<or> signalNumber = SIGTERM then MuxManager_handleProcessTerminate m else m)"

end
