(* ===== verification/Db_Notification.thy ===== *)
theory Db_Notification
  imports Mux_Manager
begin

text \<open>
  What \<open>DbInterface.cpp\<close> and \<open>NetMsgInterface.cpp\<close> read: the configuration read once at the start,
  the notifications of the subscribed tables, and the neighbour messages of the kernel, all passed on
  to the port manager. The parsers of other libraries are parameters of the model.
\<close>

section \<open>Libraries\<close>

text \<open>
  The functions of boost and swss that parse text, \<open>None\<close> where they fail: \<open>boost::asio::ip::make_address\<close>,
  \<open>swss::MacAddress\<close>, \<open>boost::lexical_cast<uint32_t>\<close> and \<open>boost::tokenizer\<close>; and the indeterminate
  first values of the members of a port, by its name.
\<close>

record library =
  make_address :: "string \<Rightarrow> address option"
  MacAddress :: "string \<Rightarrow> mac_address option"
  lexical_cast_u32 :: "string \<Rightarrow> u32 option"
  tokenizer :: "string \<Rightarrow> string list"
  indeterminate :: "string \<Rightarrow> link_prober_type \<times> switch_cause"

text \<open>A loop over entries that stops at the first exception.\<close>

fun for_entries :: "('e \<Rightarrow> 's \<Rightarrow> 's result) \<Rightarrow> 'e list \<Rightarrow> 's \<Rightarrow> 's result" where
  "for_entries f [] m = Inr m"
| "for_entries f (e # es) m = and_then (f e m) (for_entries f es)"

text \<open>\<open>s.erase(s.find("/"))\<close>, and \<open>s.find(pattern) != npos\<close>.\<close>

definition erase_mask :: "string \<Rightarrow> string" where
  "erase_mask s = takeWhile (\<lambda>c. c \<noteq> CHR ''/'') s"

fun starts_with :: "string \<Rightarrow> string \<Rightarrow> bool" where
  "starts_with [] s = True"
| "starts_with (p # pattern) [] = False"
| "starts_with (p # pattern) (c # s) = (p = c \<and> starts_with pattern s)"

fun contains :: "string \<Rightarrow> string \<Rightarrow> bool" where
  "contains pattern [] = (pattern = [])"
| "contains pattern (c # s) = (starts_with pattern (c # s) \<or> contains pattern s)"

section \<open>The start-up configuration\<close>

definition DbInterface_processTorMacAddress :: "library \<Rightarrow> string \<Rightarrow> mux_manager \<Rightarrow> mux_manager result" where
  "DbInterface_processTorMacAddress lib mac m =
     (case MacAddress lib mac of
        Some a \<Rightarrow> Inr (set_shared_config (setTorMacAddress a) m)
      | None \<Rightarrow> Inl (ConfigNotFound (''Invalid ToR MAC address '' @ mac)))"

definition DbInterface_getTorMacAddress :: "library \<Rightarrow> database \<Rightarrow> mux_manager \<Rightarrow> mux_manager result" where
  "DbInterface_getTorMacAddress lib db m =
     (case db_hget db CFG_DEVICE_METADATA ''localhost'' ''mac'' of
        Some mac \<Rightarrow> DbInterface_processTorMacAddress lib mac m
      | None \<Rightarrow> Inl (ConfigNotFound ''ToR MAC address is not found''))"

definition DbInterface_processVlanMacAddress :: "library \<Rightarrow> string \<Rightarrow> mux_manager \<Rightarrow> mux_manager" where
  "DbInterface_processVlanMacAddress lib mac m =
     (case MacAddress lib mac of
        Some a \<Rightarrow> set_shared_config (setVlanMacAddress a) m
      | None \<Rightarrow> MuxManager_setIfUseTorMacAsSrcMac True m)"

definition DbInterface_getVlanMacAddress :: "library \<Rightarrow> database \<Rightarrow> string list \<Rightarrow> mux_manager \<Rightarrow> mux_manager" where
  "DbInterface_getVlanMacAddress lib db vlanNames m =
     (case vlanNames of
        [] \<Rightarrow> MuxManager_setIfUseTorMacAsSrcMac True m
      | vlanName # _ \<Rightarrow>
          (case db_hget db CFG_VLAN vlanName ''mac'' of
             Some mac \<Rightarrow> DbInterface_processVlanMacAddress lib mac m
           | None \<Rightarrow> MuxManager_setIfUseTorMacAsSrcMac True m))"

definition DbInterface_getVlanNames :: "library \<Rightarrow> database \<Rightarrow> mux_manager \<Rightarrow> mux_manager" where
  "DbInterface_getVlanNames lib db = DbInterface_getVlanMacAddress lib db (db_keys db CFG_VLAN)"

text \<open>
  One interface: the name is searched for the pattern, but the address is always cut off behind as many
  characters as the pattern has.
\<close>

definition process_loopback :: "library \<Rightarrow> string \<Rightarrow> mux_manager \<Rightarrow> mux_manager" where
  "process_loopback lib loopbackIntf m =
     (let ip = erase_mask (drop 10 loopbackIntf)
      in if contains ''Loopback2|'' loopbackIntf
         then (case make_address lib ip of
                 Some (AddressV4 a) \<Rightarrow> set_shared_config (setLoopbackIpv4Address a) m
               | _ \<Rightarrow> m)
         else if contains ''Loopback3|'' loopbackIntf
         then (case make_address lib ip of
                 Some (AddressV4 a) \<Rightarrow> set_shared_config (setLoopback3Ipv4Address a) m
               | _ \<Rightarrow> m)
         else m)"

definition DbInterface_processLoopbackInterfacesInfo :: "library \<Rightarrow> string list \<Rightarrow> mux_manager \<Rightarrow> mux_manager" where
  "DbInterface_processLoopbackInterfacesInfo lib loopbackIntfs = fold (process_loopback lib) loopbackIntfs"

definition DbInterface_getLoopbackInterfacesInfo :: "library \<Rightarrow> database \<Rightarrow> mux_manager \<Rightarrow> mux_manager" where
  "DbInterface_getLoopbackInterfacesInfo lib db =
     DbInterface_processLoopbackInterfacesInfo lib (db_keys db CFG_LOOPBACK_INTERFACE)"

definition DbInterface_processServerIpAddress :: "library \<Rightarrow> entry list \<Rightarrow> mux_manager \<Rightarrow> mux_manager result" where
  "DbInterface_processServerIpAddress lib =
     for_entries (\<lambda>e m. case find_field ''server_ipv4'' e of
         None \<Rightarrow> Inr m
       | Some smartNicIpAddress \<Rightarrow>
           (case make_address lib (erase_mask smartNicIpAddress) of
              None \<Rightarrow> Inr m
            | Some ipAddress \<Rightarrow>
                and_then (MuxManager_addOrUpdateMuxPort (indeterminate lib (fst e)) (fst e) ipAddress m)
                  (\<lambda>m. Inr (db_call (\<lambda>d. d\<lparr>mServerIpPortMap := AList.update ipAddress (fst e) (mServerIpPortMap d)\<rparr>) m))))"

definition DbInterface_getServerIpAddress :: "library \<Rightarrow> database \<Rightarrow> mux_manager \<Rightarrow> mux_manager result" where
  "DbInterface_getServerIpAddress lib db m =
     (let entries = db_content db CFG_MUX_CABLE
      in DbInterface_processServerIpAddress lib entries
           (MuxManager_updateWarmRestartReconciliationCount (int (length entries)) m))"

definition DbInterface_processPortCableType :: "entry list \<Rightarrow> mux_manager \<Rightarrow> mux_manager" where
  "DbInterface_processPortCableType =
     fold (\<lambda>e. MuxManager_updatePortCableType (fst e)
       (case find_field ''cable_type'' e of None \<Rightarrow> ''active-standby'' | Some portCableType \<Rightarrow> portCableType))"

definition DbInterface_getPortCableType :: "database \<Rightarrow> mux_manager \<Rightarrow> mux_manager" where
  "DbInterface_getPortCableType db = DbInterface_processPortCableType (db_content db CFG_MUX_CABLE)"

text \<open>The capability is a static variable: once seen, it stays.\<close>

definition DbInterface_processProberType ::
  "library \<Rightarrow> database \<Rightarrow> entry list \<Rightarrow> mux_manager \<Rightarrow> mux_manager result" where
  "DbInterface_processProberType lib db entries m =
     (let m = (if db_hget db STATE_SWITCH_CAPABILITY ''switch'' ''ICMP_OFFLOAD_CAPABLE'' = Some ''true''
               then db_call (\<lambda>d. d\<lparr>hw_offload_capable := True\<rparr>) m else m);
          capable = hw_offload_capable (mDbInterfacePtr m)
      in for_entries (\<lambda>e m.
           let proberType = (case find_field ''prober_type'' e of
                 Some v \<Rightarrow> if capable then v else ''software'' | None \<Rightarrow> ''software'')
           in MuxManager_updateProberType (indeterminate lib (fst e)) (fst e) proberType m) entries m)"

definition DbInterface_getProberType :: "library \<Rightarrow> database \<Rightarrow> mux_manager \<Rightarrow> mux_manager result" where
  "DbInterface_getProberType lib db = DbInterface_processProberType lib db (db_content db CFG_MUX_CABLE)"

definition DbInterface_processSoCIpAddress :: "library \<Rightarrow> entry list \<Rightarrow> mux_manager \<Rightarrow> mux_manager result" where
  "DbInterface_processSoCIpAddress lib =
     for_entries (\<lambda>e m. case find_field ''soc_ipv4'' e of
         None \<Rightarrow> Inr m
       | Some SoCIpAddress \<Rightarrow>
           (case make_address lib (erase_mask SoCIpAddress) of
              None \<Rightarrow> Inr m
            | Some ipAddress \<Rightarrow> MuxManager_addOrUpdateMuxPortSoCAddress (indeterminate lib (fst e)) (fst e) ipAddress m))"

definition DbInterface_getSoCIpAddress :: "library \<Rightarrow> database \<Rightarrow> mux_manager \<Rightarrow> mux_manager result" where
  "DbInterface_getSoCIpAddress lib db = DbInterface_processSoCIpAddress lib (db_content db CFG_MUX_CABLE)"

text \<open>The first part of \<open>handleSwssNotification\<close>.\<close>

definition DbInterface_readConfiguration :: "library \<Rightarrow> database \<Rightarrow> mux_manager \<Rightarrow> mux_manager result" where
  "DbInterface_readConfiguration lib db m =
     and_then (DbInterface_getTorMacAddress lib db m) (\<lambda>m.
     and_then (DbInterface_getProberType lib db (DbInterface_getPortCableType db
        (DbInterface_getLoopbackInterfacesInfo lib db (DbInterface_getVlanNames lib db m)))) (\<lambda>m.
     and_then (DbInterface_getServerIpAddress lib db m) (DbInterface_getSoCIpAddress lib db)))"

section \<open>Notifications of the tables\<close>

text \<open>The common loop: an entry that has the field is passed on with its key and the value.\<close>

definition on_field :: "string \<Rightarrow> (string \<Rightarrow> string \<Rightarrow> 's \<Rightarrow> 's) \<Rightarrow> entry \<Rightarrow> 's \<Rightarrow> 's" where
  "on_field f act e m = (case find_field f e of None \<Rightarrow> m | Some v \<Rightarrow> act (fst e) v m)"

definition DbInterface_processMuxPortConfigNotifiction :: "entry list \<Rightarrow> mux_manager \<Rightarrow> mux_manager" where
  "DbInterface_processMuxPortConfigNotifiction =
     fold (\<lambda>e m. on_field ''pck_loss_data_reset'' (\<lambda>port v. MuxManager_resetPckLossCount port) e
                   (on_field ''state'' MuxManager_updateMuxPortConfig e m))"

text \<open>
  The fields of the key \<open>LINK_PROBER\<close>: \<open>None\<close> is a bad cast, which ends the loop; what was set
  before it stays.
\<close>

definition link_prober_field :: "library \<Rightarrow> string \<Rightarrow> string \<Rightarrow> mux_manager \<Rightarrow> mux_manager option" where
  "link_prober_field lib f v m =
     (let cast = (\<lambda>act. map_option (\<lambda>x. act x m) (lexical_cast_u32 lib v))
      in if f = ''interval_v4'' then cast MuxManager_setTimeoutIpv4_msec
         else if f = ''interval_v6'' then cast MuxManager_setTimeoutIpv6_msec
         else if f = ''positive_signal_count''
           then cast (\<lambda>x. set_shared_config (setPositiveStateChangeRetryCount x))
         else if f = ''negative_signal_count''
           then cast (\<lambda>x. set_shared_config (setNegativeStateChangeRetryCount x))
         else if f = ''suspend_timer'' then cast (\<lambda>x. set_shared_config (setSuspendTimeout_msec x))
         else if f = ''use_well_known_mac'' then Some (MuxManager_setUseWellKnownMacActiveActive (v = ''enable'') m)
         else if f = ''src_mac'' then Some (MuxManager_processSrcMac (v = ''ToRMac'') m)
         else if f = ''interval_pck_loss_count_update''
           then cast (\<lambda>x. set_shared_config (setLinkProberStatUpdateIntervalCount x))
         else if f = ''reset_suspend_timer'' then Some (MuxManager_processResetSuspendTimer (tokenizer lib v) m)
         else Some m)"

fun link_prober_fields :: "library \<Rightarrow> field_values \<Rightarrow> mux_manager \<Rightarrow> mux_manager" where
  "link_prober_fields lib [] m = m"
| "link_prober_fields lib ((f, v) # fvs) m =
     (case link_prober_field lib f v m of None \<Rightarrow> m | Some m' \<Rightarrow> link_prober_fields lib fvs m')"

text \<open>The fields of the key \<open>TIMED_OSCILLATION\<close>: here a bad cast skips the field only.\<close>

definition oscillation_field :: "library \<Rightarrow> string \<times> string \<Rightarrow> mux_manager \<Rightarrow> mux_manager" where
  "oscillation_field lib fv m =
     (case fv of (f, v) \<Rightarrow>
        if f = ''oscillation_enabled'' then
          (if v = ''true'' then set_shared_config (setOscillationEnabled True) m
           else if v = ''false'' then set_shared_config (setOscillationEnabled False) m
           else m)
        else if f = ''interval_sec'' then
          (case lexical_cast_u32 lib v of
             None \<Rightarrow> m | Some x \<Rightarrow> set_shared_config (setOscillationInterval_sec x False) m)
        else m)"

text \<open>The fields of the key \<open>MUXLOGGER\<close>; a log that is linked to the swss logger takes its level from there.\<close>

definition logger_field :: "string \<times> string \<Rightarrow> mux_manager \<Rightarrow> mux_manager" where
  "logger_field fv m =
     (case fv of (f, v) \<Rightarrow>
        if f = ''log_verbosity'' \<and> \<not> mLinkToSwssLogger (muxLogger m) then MuxManager_updateLogVerbosity v m else m)"

definition DbInterface_processMuxLinkmgrConfigNotifiction ::
  "library \<Rightarrow> entry list \<Rightarrow> mux_manager \<Rightarrow> mux_manager" where
  "DbInterface_processMuxLinkmgrConfigNotifiction lib =
     fold (\<lambda>(key, operation, fieldValues) m.
       if key = ''LINK_PROBER'' then link_prober_fields lib fieldValues m
       else if key = ''MUXLOGGER'' then fold logger_field fieldValues m
       else if key = ''TIMED_OSCILLATION'' then fold (oscillation_field lib) fieldValues m
       else m)"

definition DbInterface_processLinkStateNotifiction :: "library \<Rightarrow> entry list \<Rightarrow> mux_manager \<Rightarrow> mux_manager result" where
  "DbInterface_processLinkStateNotifiction lib =
     for_entries (\<lambda>e m. case find_field ''oper_status'' e of
       None \<Rightarrow> Inr m | Some v \<Rightarrow> MuxManager_addOrUpdateMuxPortLinkState (indeterminate lib (fst e)) (fst e) v m)"

definition DbInterface_processPeerLinkStateNotification :: "library \<Rightarrow> entry list \<Rightarrow> mux_manager \<Rightarrow> mux_manager result" where
  "DbInterface_processPeerLinkStateNotification lib =
     for_entries (\<lambda>e m. case find_field ''link_status_peer'' e of
       None \<Rightarrow> Inr m | Some v \<Rightarrow> MuxManager_addOrUpdatePeerLinkState (indeterminate lib (fst e)) (fst e) v m)"

definition DbInterface_processMuxResponseNotifiction :: "entry list \<Rightarrow> mux_manager \<Rightarrow> mux_manager" where
  "DbInterface_processMuxResponseNotifiction = fold (on_field ''response'' MuxManager_processProbeMuxState)"

definition DbInterface_processForwardingResponseNotification :: "entry list \<Rightarrow> mux_manager \<Rightarrow> mux_manager" where
  "DbInterface_processForwardingResponseNotification =
     fold (\<lambda>e m. on_field ''response_peer'' MuxManager_processPeerMuxState e
                   (on_field ''response'' MuxManager_processProbeMuxState e m))"

definition DbInterface_processPeerMuxNotification :: "entry list \<Rightarrow> mux_manager \<Rightarrow> mux_manager" where
  "DbInterface_processPeerMuxNotification = fold (on_field ''state'' MuxManager_processPeerMuxState)"

definition DbInterface_processMuxStateNotifiction :: "library \<Rightarrow> entry list \<Rightarrow> mux_manager \<Rightarrow> mux_manager result" where
  "DbInterface_processMuxStateNotifiction lib =
     for_entries (\<lambda>e m. case find_field ''state'' e of
       None \<Rightarrow> Inr m | Some v \<Rightarrow> MuxManager_addOrUpdateMuxPortMuxState (indeterminate lib (fst e)) (fst e) v m)"

definition DbInterface_processDefaultRouteStateNotification :: "entry list \<Rightarrow> mux_manager \<Rightarrow> mux_manager" where
  "DbInterface_processDefaultRouteStateNotification =
     fold (on_field ''state'' (\<lambda>key v m.
       if key = ''0.0.0.0/0'' then MuxManager_addOrUpdateDefaultRouteState True v m
       else if key = ''::/0'' then MuxManager_addOrUpdateDefaultRouteState False v m
       else m))"

definition DbInterface_processTsaEnableNotification :: "entry list \<Rightarrow> mux_manager \<Rightarrow> mux_manager" where
  "DbInterface_processTsaEnableNotification =
     fold (on_field ''tsa_enabled'' (\<lambda>key v. MuxManager_handleTsaEnableNotification (v = ''true'')))"

text \<open>
  The key of an echo session is \<open>vrf|port|guid|type\<close>. A key with fewer than three separators leaves
  both results empty.
\<close>

fun split_at :: "char \<Rightarrow> string \<Rightarrow> (string \<times> string) option" where
  "split_at c [] = None"
| "split_at c (x # xs) = (if x = c then Some ([], xs) else map_option (\<lambda>(a, b). (x # a, b)) (split_at c xs))"

definition DbInterface_extractIfnameAndSessionType :: "string \<Rightarrow> string \<times> string" where
  "DbInterface_extractIfnameAndSessionType key =
     (case split_at (CHR ''|'') key of
        None \<Rightarrow> ([], [])
      | Some (_, rest) \<Rightarrow>
          (case split_at (CHR ''|'') rest of
             None \<Rightarrow> ([], [])
           | Some (ifname, rest) \<Rightarrow>
               (case split_at (CHR ''|'') rest of
                  None \<Rightarrow> ([], [])
                | Some (_, sessionType) \<Rightarrow> (ifname, sessionType))))"

definition DbInterface_processIcmpEchoSessionStateNotification ::
  "library \<Rightarrow> entry list \<Rightarrow> mux_manager \<Rightarrow> mux_manager result" where
  "DbInterface_processIcmpEchoSessionStateNotification lib =
     for_entries (\<lambda>e m.
       case DbInterface_extractIfnameAndSessionType (fst e) of
         (port, session_type) \<Rightarrow>
           (case find_field ''state'' e of
              None \<Rightarrow> Inr m
            | Some v \<Rightarrow> MuxManager_updateLinkFailureDetectionState (indeterminate lib port) port v session_type m))"

section \<open>The thread of the notifications\<close>

text \<open>The subscribed tables, and the dispatch in the loop of \<open>handleSwssNotification\<close>.\<close>

datatype selectable =
    configDbMuxLinkmgrTable | configDbMuxTable | configDbBgpDeviceGlobalTable | appDbPortTable
  | appDbMuxResponseTable | appDbForwardingResponseTable | stateDbPortTable | stateDbRouteTable
  | stateDbMuxInfoTable | stateDbPeerMuxTable | stateDbIcmpEchoSessionTable | netlinkNeighbor

fun DbInterface_dispatch :: "library \<Rightarrow> selectable \<Rightarrow> entry list \<Rightarrow> mux_manager \<Rightarrow> mux_manager result" where
  "DbInterface_dispatch lib configDbMuxLinkmgrTable es m = Inr (DbInterface_processMuxLinkmgrConfigNotifiction lib es m)"
| "DbInterface_dispatch lib configDbMuxTable es m = Inr (DbInterface_processMuxPortConfigNotifiction es m)"
| "DbInterface_dispatch lib configDbBgpDeviceGlobalTable es m = Inr (DbInterface_processTsaEnableNotification es m)"
| "DbInterface_dispatch lib appDbPortTable es m = DbInterface_processLinkStateNotifiction lib es m"
| "DbInterface_dispatch lib appDbMuxResponseTable es m = Inr (DbInterface_processMuxResponseNotifiction es m)"
| "DbInterface_dispatch lib appDbForwardingResponseTable es m = Inr (DbInterface_processForwardingResponseNotification es m)"
| "DbInterface_dispatch lib stateDbPortTable es m = DbInterface_processMuxStateNotifiction lib es m"
| "DbInterface_dispatch lib stateDbRouteTable es m = Inr (DbInterface_processDefaultRouteStateNotification es m)"
| "DbInterface_dispatch lib stateDbMuxInfoTable es m = DbInterface_processPeerLinkStateNotification lib es m"
| "DbInterface_dispatch lib stateDbPeerMuxTable es m = Inr (DbInterface_processPeerMuxNotification es m)"
| "DbInterface_dispatch lib stateDbIcmpEchoSessionTable es m = DbInterface_processIcmpEchoSessionStateNotification lib es m"
| "DbInterface_dispatch lib netlinkNeighbor es m = Inr m"

section \<open>Neighbour messages\<close>

definition DbInterface_updateServerMacAddress :: "address \<Rightarrow> mac_address \<Rightarrow> mux_manager \<Rightarrow> mux_manager" where
  "DbInterface_updateServerMacAddress serverIp serverMac m =
     (case map_of (mServerIpPortMap (mDbInterfacePtr m)) serverIp of
        None \<Rightarrow> m | Some portName \<Rightarrow> MuxManager_processGetServerMacAddress portName serverMac m)"

definition NetMsgInterface_updateMacAddress :: "library \<Rightarrow> string \<Rightarrow> string \<Rightarrow> mux_manager \<Rightarrow> mux_manager" where
  "NetMsgInterface_updateMacAddress lib ip mac m =
     (case make_address lib ip of
        None \<Rightarrow> m
      | Some ipAddress \<Rightarrow>
          (case MacAddress lib mac of
             None \<Rightarrow> m | Some macAddress \<Rightarrow> DbInterface_updateServerMacAddress ipAddress macAddress m))"

datatype netlink_message = RTM_NEWNEIGH | RTM_GETNEIGH | RTM_DELNEIGH | RTM_OTHER
datatype address_family = AF_INET | AF_INET6 | AF_OTHER

definition NetMsgInterface_onMsg ::
  "library \<Rightarrow> netlink_message \<Rightarrow> address_family \<Rightarrow> string \<Rightarrow> string \<Rightarrow> mux_manager \<Rightarrow> mux_manager" where
  "NetMsgInterface_onMsg lib msgType family macStr ipStr m =
     (if msgType \<noteq> RTM_OTHER \<and> family \<noteq> AF_OTHER \<and> \<not> starts_with ''none'' macStr
      then NetMsgInterface_updateMacAddress lib ipStr macStr m
      else m)"

text \<open>\<open>handleGetMuxState\<close>: the answer is read from the data base when the handler runs.\<close>

definition DbInterface_handleGetMuxState :: "string option \<Rightarrow> string \<Rightarrow> mux_manager \<Rightarrow> mux_manager" where
  "DbInterface_handleGetMuxState state portName m =
     (case state of None \<Rightarrow> m | Some st \<Rightarrow> MuxManager_processGetMuxState portName st m)"

end
