(* ===== verification/Port_Footprint.thy ===== *)
theory Port_Footprint
  imports Active_Standby_Props Active_Active_Props
begin

text \<open>
  What no handler of a port ever touches, and what it never does: the identity of the port and the
  configuration it shares stay, and no call and no task carries a MUX label without a name in the
  data base; and a handler only appends to the queue of tasks and to the trace of calls.
\<close>

section \<open>The footprint\<close>

definition same_identity :: "mux_port_config \<Rightarrow> mux_port_config \<Rightarrow> bool" where
  "same_identity c d \<longleftrightarrow> mMuxConfig c = mMuxConfig d \<and> mPortName c = mPortName d \<and> mServerId c = mServerId d \<and>
     mPortCableType c = mPortCableType d \<and> mWellKnownMacAddress c = mWellKnownMacAddress d"

lemma same_identity_refl [simp]: "same_identity c c"
  by (simp add: same_identity_def)

lemma same_identity_update [simp]:
  "same_identity c (d\<lparr>mMode := x1\<rparr>) = same_identity c d"
  "same_identity c (d\<lparr>mBladeIpv4Address := x2\<rparr>) = same_identity c d"
  "same_identity c (d\<lparr>mBladeMacAddress := x3\<rparr>) = same_identity c d"
  "same_identity c (d\<lparr>mLastUpdatedMacAddress := x4\<rparr>) = same_identity c d"
  "same_identity c (d\<lparr>mLinkProberType := x5\<rparr>) = same_identity c d"
  by (simp_all add: same_identity_def)

fun call_in_range :: "call \<Rightarrow> bool" where
  "call_in_range (SetMuxState l) \<longleftrightarrow> l \<noteq> MuxWait"
| "call_in_range (SetPeerMuxState l) \<longleftrightarrow> l \<noteq> MuxWait"
| "call_in_range (PostMetricsEvent m l) \<longleftrightarrow> l \<noteq> MuxWait"
| "call_in_range _ \<longleftrightarrow> True"

fun task_in_range :: "task \<Rightarrow> bool" where
  "task_in_range (TaskGetMuxState l) \<longleftrightarrow> l \<noteq> MuxWait"
| "task_in_range (TaskProbeMuxState l) \<longleftrightarrow> l \<noteq> MuxWait"
| "task_in_range (TaskMuxState l) \<longleftrightarrow> l \<noteq> MuxWait"
| "task_in_range (TaskPeerMuxState l) \<longleftrightarrow> l \<noteq> MuxWait"
| "task_in_range _ \<longleftrightarrow> True"

text \<open>A state with the identity \<open>c\<close> that is reached from the queue \<open>T\<close> and the trace \<open>K\<close> by appending.\<close>

definition footprint :: "mux_port_config \<Rightarrow> task list \<Rightarrow> call list \<Rightarrow> 'a lm_base_scheme \<Rightarrow> bool" where
  "footprint c T K s \<longleftrightarrow> same_identity c (mMuxPortConfig s) \<and>
     (\<exists>cs. calls s = K @ cs \<and> list_all call_in_range cs) \<and> (\<exists>ts. tasks s = T @ ts \<and> list_all task_in_range ts)"

lemma footprint_start: "footprint (mMuxPortConfig s) (tasks s) (calls s) s"
  by (simp add: footprint_def)

lemma footprint_empty: "footprint c [] [] s \<longleftrightarrow> same_identity c (mMuxPortConfig s) \<and>
    list_all call_in_range (calls s) \<and> list_all task_in_range (tasks s)"
  by (simp add: footprint_def)

lemma external_in_range: "external_task t \<Longrightarrow> task_in_range t"
  by (cases t) auto

lemma footprint_base [simp]:
  "footprint c T K s \<Longrightarrow> list_all task_in_range ts \<Longrightarrow> footprint c T K (post_tasks ts s)"
  "footprint c T K s \<Longrightarrow> call_in_range x \<Longrightarrow> footprint c T K (emit x s)"
  "footprint c T K s \<Longrightarrow> footprint c T K (cancel_timer i s)"
  "footprint c T K s \<Longrightarrow> footprint c T K (start_timer i d s)"
  "footprint c T K s \<Longrightarrow> footprint c T K (fire_timer i s)"
  "footprint c T K (s\<lparr>now_ms := x1\<rparr>) = footprint c T K s"
  "footprint c T K (s\<lparr>mCompositeState := x2\<rparr>) = footprint c T K s"
  "footprint c T K (s\<lparr>mLinkProberStateMachinePtr := x3\<rparr>) = footprint c T K s"
  "footprint c T K (s\<lparr>mLinkProberPtr := x4\<rparr>) = footprint c T K s"
  "footprint c T K (s\<lparr>mMuxStateMachine := x5\<rparr>) = footprint c T K s"
  "footprint c T K (s\<lparr>mLinkStateMachine := x6\<rparr>) = footprint c T K s"
  "footprint c T K (s\<lparr>mLabel := x7\<rparr>) = footprint c T K s"
  "footprint c T K (s\<lparr>mComponentInitState := x8\<rparr>) = footprint c T K s"
  "footprint c T K (s\<lparr>mDefaultRouteState := x9\<rparr>) = footprint c T K s"
  "same_identity c cfg = same_identity c (mMuxPortConfig s) \<Longrightarrow> footprint c T K (s\<lparr>mMuxPortConfig := cfg\<rparr>) = footprint c T K s"
  by (auto simp: footprint_def fire_timer_def post_tasks_def emit_def cancel_timer_def start_timer_def)

lemma footprint_take:
  assumes "footprint c [] [] s" and "i < length (tasks s)"
  shows "footprint c [] [] (take_task i s) \<and> task_in_range (tasks s ! i)"
  using assms by (auto simp: footprint_empty take_task_def list_all_iff dest: in_set_takeD in_set_dropD)

lemma footprint_prober_call: "footprint c T K s \<Longrightarrow> call_in_range x \<Longrightarrow> ok False (footprint c T K) (prober_call x s)"
  by (simp add: prober_call_def)

lemma footprint_src_mac: "footprint c T K s \<Longrightarrow> ok False (footprint c T K) (LinkManagerStateMachineBase_handleSrcMacConfigNotification s)"
  by (auto simp: LinkManagerStateMachineBase_handleSrcMacConfigNotification_def intro: footprint_prober_call)

lemma footprint_events [simp]:
  assumes "footprint c T K s"
  shows "footprint c T K (LinkManagerStateMachineBase_postMuxStateEvent l s)"
    "footprint c T K (process_mux_event e s)" "footprint c T K (process_link_event e' s)"
    "footprint c T K (setComponentInitState q s)"
  using assms
  by (auto simp: LinkManagerStateMachineBase_postMuxStateEvent_def process_mux_event_def process_link_event_def
      setComponentInitState_def list_all_iff split: mux_label.split prod.split)

section \<open>The active-standby manager\<close>

lemma as_footprint_update [simp]:
  "footprint c T K (s\<lparr>mPeerLinkState := x1\<rparr>) = footprint c T K s"
  "footprint c T K (s\<lparr>mOscillationTimerAlive := x2\<rparr>) = footprint c T K s"
  "footprint c T K (s\<lparr>mWaitActiveUpCount := x3\<rparr>) = footprint c T K s"
  "footprint c T K (s\<lparr>mActiveUnknownUpCount := x4\<rparr>) = footprint c T K s"
  "footprint c T K (s\<lparr>mStandbyUnknownUpCount := x5\<rparr>) = footprint c T K s"
  "footprint c T K (s\<lparr>mMuxUnknownBackoffFactor := x6\<rparr>) = footprint c T K s"
  "footprint c T K (s\<lparr>mWaitStandbyUpBackoffFactor := x7\<rparr>) = footprint c T K s"
  "footprint c T K (s\<lparr>mUnknownActiveUpBackoffFactor := x8\<rparr>) = footprint c T K s"
  "footprint c T K (s\<lparr>mPendingMuxModeChange := x9\<rparr>) = footprint c T K s"
  "footprint c T K (s\<lparr>mTargetMuxMode := x10\<rparr>) = footprint c T K s"
  "footprint c T K (s\<lparr>mLastSetMuxState := x11\<rparr>) = footprint c T K s"
  "footprint c T K (s\<lparr>as_mContinuousLinkProberUnknownEvent := x12\<rparr>) = footprint c T K s"
  "footprint c T K (s\<lparr>mSendSwitchActiveCommandCause := x13\<rparr>) = footprint c T K s"
  by (simp_all add: footprint_def)

lemma AS_footprint_ops [simp]:
  assumes "footprint c T K s"
  shows "footprint c T K (AS_startMuxProbeTimer f s)" "footprint c T K (AS_startMuxWaitTimer f s)"
    "footprint c T K (AS_startOscillationTimer s)" "footprint c T K (AS_tryCancelOscillationTimerIfAlive s)"
    "footprint c T K (AS_setWaitStateCause w s)" "footprint c T K (AS_setLabel h s)"
    "footprint c T K (fst (AS_enterLinkProberState l r s d))" "footprint c T K (fst (AS_enterMuxState k s d))"
    "footprint c T K (fst (AS_enterLinkState j s d))"
  using assms by (simp_all add: AS_op_defs)

lemma AS_footprint_waits [simp]:
  assumes "footprint c T K s"
  shows "footprint c T K (fst (AS_enterMuxWaitState s d))" "footprint c T K (fst (AS_initLinkProberState r s d))"
  using assms by (simp_all add: AS_enterMuxWaitState_def AS_initLinkProberState_def split_def split: mux_label.splits)

lemma AS_footprint_commit [simp]: "footprint c T K (AS_commit r) = footprint c T K (fst r)"
  by (simp add: AS_commit_def)

lemma AS_footprint_update_label: "footprint c T K s \<Longrightarrow> ok False (footprint c T K) (AS_updateMuxLinkmgrState s)"
  by (auto simp: AS_updateMuxLinkmgrState_def Let_def ok_rules intro!: footprint_prober_call [where c = c and T = T and K = K, THEN ok_mono])

lemma AS_footprint_shutdown: "footprint c T K s \<Longrightarrow> ok False (footprint c T K) (AS_shutdownOrRestartLinkProberOnDefaultRoute s)"
  by (auto simp: AS_shutdownOrRestartLinkProberOnDefaultRoute_def intro!: footprint_prober_call)

lemma AS_footprint_switch:
  "footprint c T K s \<Longrightarrow> l \<noteq> MuxWait \<Longrightarrow> ok False (\<lambda>r. footprint c T K (fst r)) (AS_switchMuxState cause l force s d)"
  by (auto simp: AS_switchMuxState_def Let_def ok_rules split_def intro!: footprint_prober_call [where c = c and T = T and K = K, THEN ok_mono])

lemma AS_footprint_transition:
  assumes "footprint c T K s"
  shows "ok False (\<lambda>r. footprint c T K (fst r)) (AS_transition s d)"
  unfolding AS_transition_def
  by (cases "(ps d, ms d, ls d)" rule: AS_mStateTransitionHandler.cases)
    (use assms in \<open>auto simp: AS_transition_defs AS_LinkProberUnknownMuxStandbyLinkUp_def Let_def ok_rules split_def
       intro!: footprint_prober_call [where c = c and T = T and K = K, THEN ok_mono] AS_footprint_switch [where c = c and T = T and K = K, THEN ok_mono]\<close>)

lemmas AS_footprint_okI =
  footprint_prober_call [THEN ok_mono] AS_footprint_update_label [THEN ok_mono] AS_footprint_shutdown [THEN ok_mono]
  AS_footprint_switch [THEN ok_mono] AS_footprint_transition [THEN ok_mono]

lemma AS_footprint_activate: "footprint c T K s \<Longrightarrow> ok False (footprint c T K) (AS_activateStateMachine s)"
  by (auto simp: AS_activateStateMachine_def Let_def ok_rules intro!: AS_footprint_okI [where c = c and T = T and K = K])

lemma AS_footprint_config: "footprint c T K s \<Longrightarrow> ok False (footprint c T K) (AS_handleMuxConfigNotification m s)"
  by (auto simp: AS_handleMuxConfigNotification_def Let_def ok_rules split_def intro!: AS_footprint_okI [where c = c and T = T and K = K])

lemma AS_footprint_changes:
  assumes "footprint c T K s"
  shows "ok False (footprint c T K) (AS_handleStateChange_prober l s)"
    "ok False (footprint c T K) (AS_handleStateChange_mux l' s)" "ok False (footprint c T K) (AS_handleStateChange_link k s)"
  using assms
  by (auto simp: AS_handleStateChange_prober_def AS_handleStateChange_mux_def AS_handleStateChange_link_def Let_def
      ok_rules split_def intro!: AS_footprint_okI [where c = c and T = T and K = K] AS_footprint_config [where c = c and T = T and K = K, THEN ok_mono])

lemma AS_footprint_notifications:
  assumes "footprint c T K s"
  shows "ok False (footprint c T K) (AS_handleSwssBladeIpv4AddressUpdate a s)"
    "ok False (footprint c T K) (AS_handleGetServerMacAddressNotification m s)"
    "l \<noteq> MuxWait \<Longrightarrow> ok False (footprint c T K) (AS_handleGetMuxStateNotification l s)"
    "l \<noteq> MuxWait \<Longrightarrow> ok False (footprint c T K) (AS_handleProbeMuxStateNotification l s)"
    "l \<noteq> MuxWait \<Longrightarrow> ok False (footprint c T K) (AS_handleMuxStateNotification l s)"
    "ok False (footprint c T K) (AS_handleSwssLinkStateNotification k s)"
    "ok False (footprint c T K) (AS_handlePeerLinkStateNotification k s)"
    "ok False (footprint c T K) (AS_handleDefaultRouteStateNotification r s)"
  using assms
  by (auto simp: AS_handleSwssBladeIpv4AddressUpdate_def AS_handleGetServerMacAddressNotification_def
      AS_handleGetMuxStateNotification_def AS_handleProbeMuxStateNotification_def AS_handleMuxStateNotification_def
      AS_handleSwssLinkStateNotification_def AS_handlePeerLinkStateNotification_def
      AS_handleDefaultRouteStateNotification_def Let_def ok_rules split_def
      intro!: AS_footprint_okI [where c = c and T = T and K = K] AS_footprint_activate split: link_label.splits)

lemma AS_prober_tasks_in_range [simp]:
  "list_all task_in_range (snd (LinkProberStateMachineActiveStandby_processEvent cfg e m))"
  by (cases "(cfg, e, m)" rule: LinkProberStateMachineActiveStandby_processEvent.cases)
    (auto simp: list_all_iff split: prod.splits if_splits)

lemma AS_footprint_requests:
  assumes "footprint c T K s"
  shows "ok False (footprint c T K) (AS_handlePostPckLossRatioNotification x y s)"
    "ok False (footprint c T K) (AS_handleResetLinkProberPckLossCount s)"
    "ok False (footprint c T K) (AS_handleResetSuspendTimer s)"
    "ok False (footprint c T K) (AS_handleSuspendTimerExpiry s)"
    "ok False (footprint c T K) (AS_handleSwitchActiveCommandCompletion s)"
    "ok False (footprint c T K) (AS_handleSwitchActiveRequestEvent s)"
    "ok False (footprint c T K) (AS_handleMuxProbeTimeout ec s)"
    "ok False (footprint c T K) (AS_handleMuxWaitTimeout ec s)"
    "ok False (footprint c T K) (AS_handleOscillationTimeout ec s)"
    "footprint c T K (AS_process_prober_event e s)"
  using assms
  by (auto simp: AS_handlePostPckLossRatioNotification_def AS_handleResetLinkProberPckLossCount_def
      AS_handleResetSuspendTimer_def AS_handleSuspendTimerExpiry_def AS_handleSwitchActiveRequestEvent_def
      AS_handleSwitchActiveCommandCompletion_def
      AS_handleMuxProbeTimeout_def AS_handleMuxWaitTimeout_def AS_handleOscillationTimeout_def
      AS_process_prober_event_def Let_def ok_rules split_def
      intro!: AS_footprint_okI [where c = c and T = T and K = K] )

lemma AS_footprint_run:
  assumes "footprint c T K s" and "task_in_range t"
  shows "ok False (footprint c T K) (AS_run t s)"
  using assms
  by (cases "(t, s)" rule: AS_run.cases)
    (simp_all add: AS_footprint_changes AS_footprint_notifications AS_footprint_requests AS_footprint_config
      footprint_src_mac LinkManagerStateMachineBase_noop_handler_def)

section \<open>The active-active manager\<close>

lemma aa_footprint_update [simp]:
  "footprint c T K (s\<lparr>mPeerLinkProberState := x1\<rparr>) = footprint c T K s"
  "footprint c T K (s\<lparr>mPeerMuxState := x2\<rparr>) = footprint c T K s"
  "footprint c T K (s\<lparr>mLastSetPeerMuxState := x3\<rparr>) = footprint c T K s"
  "footprint c T K (s\<lparr>mLastMuxStateNotification := x4\<rparr>) = footprint c T K s"
  "footprint c T K (s\<lparr>mLastMuxProbeNotification := x5\<rparr>) = footprint c T K s"
  "footprint c T K (s\<lparr>mLastMuxNotificationType := x6\<rparr>) = footprint c T K s"
  "footprint c T K (s\<lparr>mMuxProbeBackoffFactor := x7\<rparr>) = footprint c T K s"
  "footprint c T K (s\<lparr>mWaitMux := x8\<rparr>) = footprint c T K s"
  "footprint c T K (s\<lparr>mWaitStateMachineInit := x9\<rparr>) = footprint c T K s"
  "footprint c T K (s\<lparr>aa_mContinuousLinkProberUnknownEvent := x10\<rparr>) = footprint c T K s"
  by (simp_all add: footprint_def)

lemma AA_footprint_ops [simp]:
  assumes "footprint c T K s"
  shows "footprint c T K (AA_probeMuxState s)" "footprint c T K (AA_startMuxProbeTimer s)" "footprint c T K (AA_startMuxWaitTimer f s)"
    "footprint c T K (AA_startAdminForwardingStateSyncUpTimer s)" "footprint c T K (AA_stopWaitMux s)" "footprint c T K (AA_setWaitStateCause w s)"
    "footprint c T K (AA_updateMuxLinkmgrState s)" "footprint c T K (AA_enterPeerMuxState l s)" "footprint c T K (AA_enterPeerLinkProberState l' s)"
    "footprint c T K (AA_initPeerLinkProberState s)" "l \<noteq> MuxWait \<Longrightarrow> footprint c T K (AA_switchPeerMuxState l s)"
    "footprint c T K (fst (AA_enterLinkProberState k s d))" "footprint c T K (fst (AA_enterMuxState l s d))"
    "footprint c T K (fst (AA_enterLinkState j s d))" "footprint c T K (fst (AA_initLinkProberState s d))"
    "footprint c T K (AA_notify_all s)"
  using assms
  by (simp_all add: AA_probeMuxState_def AA_startMuxProbeTimer_def AA_startMuxWaitTimer_def AA_startWaitMux_def AA_stopWaitMux_def
      AA_startAdminForwardingStateSyncUpTimer_def AA_setWaitStateCause_def Let_def AA_setLabel_def AA_updateMuxLinkmgrState_def AA_enterPeerMuxState_def
      AA_enterPeerLinkProberState_def AA_initPeerLinkProberState_def AA_switchPeerMuxState_def
      AA_enterLinkProberState_def AA_enterMuxState_def AA_enterLinkState_def AA_initLinkProberState_def
      AA_notify_all_def AA_startPeerMuxWaitTimer_def list_all_iff split: mux_label.splits)

lemma AA_footprint_commit [simp]: "footprint c T K (AA_commit r) = footprint c T K (fst r)"
  by (simp add: AA_commit_def)

lemma AA_footprint_shutdown: "footprint c T K s \<Longrightarrow> ok False (footprint c T K) (AA_shutdownOrRestartLinkProberOnDefaultRoute s)"
  by (auto simp: AA_shutdownOrRestartLinkProberOnDefaultRoute_def intro!: footprint_prober_call)

lemma AA_footprint_switch:
  "footprint c T K s \<Longrightarrow> l \<noteq> MuxWait \<Longrightarrow> ok False (\<lambda>r. footprint c T K (fst r)) (AA_switchMuxState l force s d)"
  by (auto simp: AA_switchMuxState_def Let_def ok_rules split_def intro!: footprint_prober_call [where c = c and T = T and K = K, THEN ok_mono])

lemma AA_footprint_transition:
  assumes "footprint c T K s"
  shows "ok False (\<lambda>r. footprint c T K (fst r)) (AA_transition s d)"
  unfolding AA_transition_def
  by (cases "(ps d, ms d, ls d)" rule: AA_mStateTransitionHandler.cases)
    (use assms in \<open>auto simp: AA_transition_defs intro!: AA_footprint_switch\<close>)

lemmas AA_footprint_okI =
  footprint_prober_call [THEN ok_mono] AA_footprint_shutdown [THEN ok_mono]
  AA_footprint_switch [THEN ok_mono] AA_footprint_transition [THEN ok_mono]

lemma AA_footprint_activate: "footprint c T K s \<Longrightarrow> ok False (footprint c T K) (AA_activateStateMachine s)"
  by (auto simp: AA_activateStateMachine_def Let_def ok_rules intro!: AA_footprint_okI [where c = c and T = T and K = K])

lemma AA_footprint_init_mux: "footprint c T K s \<Longrightarrow> ok False (footprint c T K) (AA_init_mux_component l s)"
  by (auto simp: AA_init_mux_component_def Let_def intro!: AA_footprint_activate)

lemma AA_footprint_config: "footprint c T K s \<Longrightarrow> ok False (footprint c T K) (AA_handleMuxConfigNotification m s)"
  by (auto simp: AA_handleMuxConfigNotification_def Let_def ok_rules split_def intro!: AA_footprint_okI [where c = c and T = T and K = K])

lemma AA_footprint_changes:
  assumes "footprint c T K s"
  shows "ok False (footprint c T K) (AA_handleStateChange_prober l s)"
    "ok False (footprint c T K) (AA_handleStateChange_mux l' s)" "ok False (footprint c T K) (AA_handleStateChange_link k s)"
    "ok False (footprint c T K) (AA_handlePeerStateChange l s)"
  using assms
  by (auto simp: AA_handleStateChange_prober_def AA_handleStateChange_mux_def AA_handleStateChange_link_def
      AA_handlePeerStateChange_def Let_def
      ok_rules split_def intro!: AA_footprint_okI [where c = c and T = T and K = K] split: prober_label.splits)

lemma AA_footprint_notifications:
  assumes "footprint c T K s"
  shows "ok False (footprint c T K) (AA_handleSwssSoCIpv4AddressUpdate a s)"
    "ok False (footprint c T K) (AA_handleGetServerMacAddressNotification m s)"
    "ok False (footprint c T K) (AA_handleUseWellKnownMacAddressNotification s)"
    "l \<noteq> MuxWait \<Longrightarrow> ok False (footprint c T K) (AA_handleProbeMuxStateNotification l s)"
    "l \<noteq> MuxWait \<Longrightarrow> ok False (footprint c T K) (AA_handleMuxStateNotification l s)"
    "ok False (footprint c T K) (AA_handlePeerMuxStateNotification l s)"
    "ok False (footprint c T K) (AA_handleProbeMuxFailure s)"
    "ok False (footprint c T K) (AA_handleSwssLinkStateNotification k s)"
    "ok False (footprint c T K) (AA_handleDefaultRouteStateNotification r s)"
  using assms
  by (auto simp: AA_handleSwssSoCIpv4AddressUpdate_def AA_handleGetServerMacAddressNotification_def
      AA_handleUseWellKnownMacAddressNotification_def AA_handleProbeMuxStateNotification_def AA_handleMuxStateNotification_def
      AA_handlePeerMuxStateNotification_def AA_handleProbeMuxFailure_def
      AA_handleSwssLinkStateNotification_def
      AA_handleDefaultRouteStateNotification_def Let_def ok_rules split_def
      intro!: AA_footprint_okI [where c = c and T = T and K = K] AA_footprint_activate AA_footprint_init_mux split: link_label.splits)

lemma AA_prober_tasks_in_range [simp]:
  "list_all task_in_range (snd (LinkProberStateMachineActiveActive_processEvent cfg e m))"
  by (cases "(cfg, e, m)" rule: LinkProberStateMachineActiveActive_processEvent.cases)
    (auto simp: list_all_iff split: prod.splits if_splits)

lemma AA_footprint_requests:
  assumes "footprint c T K s"
  shows "ok False (footprint c T K) (AA_handlePostPckLossRatioNotification x y s)"
    "ok False (footprint c T K) (AA_handleResetLinkProberPckLossCount s)"
    "ok False (footprint c T K) (AA_updateLinkFailureDetectionState st ty s)"
    "ok False (footprint c T K) (AA_handleSuspendTimerExpiry s)"
    "ok False (footprint c T K) (AA_handleMuxProbeRequestEvent s)"
    "ok False (footprint c T K) (AA_handleMuxProbeTimeout ec s)"
    "ok False (footprint c T K) (AA_handleMuxWaitTimeout ec s)"
    "ok False (footprint c T K) (AA_handlePeerMuxWaitTimeout ec s)"
    "ok False (footprint c T K) (AA_handleAdminForwardingStateSyncUp ec s)"
    "footprint c T K (AA_process_prober_event e s)"
  using assms
  by (auto simp: AA_handlePostPckLossRatioNotification_def AA_handleResetLinkProberPckLossCount_def
      AA_updateLinkFailureDetectionState_def AA_handleSuspendTimerExpiry_def AA_handleMuxProbeRequestEvent_def
      AA_handleMuxProbeTimeout_def AA_handleMuxWaitTimeout_def AA_handlePeerMuxWaitTimeout_def
      AA_handleAdminForwardingStateSyncUp_def
      AA_process_prober_event_def Let_def ok_rules split_def
      intro!: AA_footprint_okI [where c = c and T = T and K = K])

lemma AA_footprint_run:
  assumes "footprint c T K s" and "task_in_range t"
  shows "ok False (footprint c T K) (AA_run t s)"
  using assms
  by (cases "(t, s)" rule: AA_run.cases)
    (simp_all add: AA_footprint_changes AA_footprint_notifications AA_footprint_requests AA_footprint_config
      footprint_src_mac LinkManagerStateMachineBase_noop_handler_def)

end
