(* ===== verification/Daemon.thy ===== *)
theory Daemon
  imports Db_Notification Port_Footprint
begin

text \<open>
  The daemon: the port manager with all its ports, the strands and timers, and the thread that reads
  the notifications. One step runs one handler, of a port, of the data base interface or of the
  manager; a notification is handled whole. All interleavings of the steps are possible.

\<close>

section \<open>One port as a part of the daemon\<close>

fun port_task_count :: "mux_port \<Rightarrow> nat" where
  "port_task_count (StandbyPort s) = length (tasks s)"
| "port_task_count (ActivePort s) = length (tasks s)"

fun run_port :: "nat \<Rightarrow> mux_port \<Rightarrow> mux_port option" where
  "run_port i (StandbyPort s) = map_option StandbyPort (AS_run (tasks s ! i) (take_task i s))"
| "run_port i (ActivePort s) = map_option ActivePort (AA_run (tasks s ! i) (take_task i s))"

fun port_timer_due :: "timer_id \<Rightarrow> mux_port \<Rightarrow> bool" where
  "port_timer_due j (StandbyPort s) = timer_due j s"
| "port_timer_due j (ActivePort s) = timer_due j s"

fun port_fire_timer :: "timer_id \<Rightarrow> mux_port \<Rightarrow> mux_port" where
  "port_fire_timer j (StandbyPort s) = StandbyPort (fire_timer j s)"
| "port_fire_timer j (ActivePort s) = ActivePort (fire_timer j s)"

fun port_post :: "task \<Rightarrow> mux_port \<Rightarrow> mux_port" where
  "port_post t (StandbyPort s) = StandbyPort (post_tasks [t] s)"
| "port_post t (ActivePort s) = ActivePort (post_tasks [t] s)"

fun port_clock :: "nat \<Rightarrow> mux_port \<Rightarrow> mux_port" where
  "port_clock d (StandbyPort s) = StandbyPort (s\<lparr>now_ms := now_ms s + d\<rparr>)"
| "port_clock d (ActivePort s) = ActivePort (s\<lparr>now_ms := now_ms s + d\<rparr>)"

fun port_calls :: "mux_port \<Rightarrow> call list" where
  "port_calls (StandbyPort s) = calls s"
| "port_calls (ActivePort s) = calls s"

text \<open>
  What the calls of a handler do outside the port: \<open>warmRestartReconciliation\<close> goes to the manager
  unless the port is in auto mode, the others to the data base interface. The mode does not change
  in the handler that makes the first kind of call.
\<close>

definition daemon_call :: "bool \<Rightarrow> string \<Rightarrow> mux_port_config \<Rightarrow> call \<Rightarrow> mux_manager \<Rightarrow> mux_manager" where
  "daemon_call isWarmStart time cfg c m =
     (if c = WarmRestartReconciliation
      then (if MuxPort_warmRestartReconciliation cfg = [] then m
            else DbInterface_warmRestartReconciliation isWarmStart (mPortName cfg) m)
      else db_call (MuxPort_db_call time cfg c) m)"

definition set_port :: "string \<Rightarrow> mux_port \<Rightarrow> mux_manager \<Rightarrow> mux_manager" where
  "set_port n p m = m\<lparr>mPortMap := AList.map_entry n (\<lambda>_. p) (mPortMap m)\<rparr>"

definition finish_port_task :: "bool \<Rightarrow> string \<Rightarrow> string \<Rightarrow> mux_port \<Rightarrow> mux_port \<Rightarrow> mux_manager \<Rightarrow> mux_manager" where
  "finish_port_task isWarmStart time n p p' m =
     fold (daemon_call isWarmStart time (port_config p')) (drop (length (port_calls p)) (port_calls p')) (set_port n p' m)"

section \<open>The strands of the data base interface and of the manager\<close>

definition run_db_task :: "database \<Rightarrow> nat \<Rightarrow> mux_manager \<Rightarrow> mux_manager option" where
  "run_db_task db i m =
     (let d = mDbInterfacePtr m; t = db_tasks d ! i;
          m = db_call (\<lambda>d. d\<lparr>db_tasks := take i (db_tasks d) @ drop (Suc i) (db_tasks d)\<rparr>) m
      in case t of
           HandleGetMuxState n \<Rightarrow> Some (DbInterface_handleGetMuxState (db_hget db STATE_MUX_CABLE n ''state'') n m)
         | _ \<Rightarrow> map_option (\<lambda>ws. db_call (db_write_all ws) m) (DbInterface_run (db_keys db APP_ICMP_ECHO_SESSION) t))"

definition run_manager_task :: "database \<Rightarrow> nat \<Rightarrow> mux_manager \<Rightarrow> mux_manager" where
  "run_manager_task db i m =
     (let t = manager_tasks m ! i;
          m = m\<lparr>manager_tasks := take i (manager_tasks m) @ drop (Suc i) (manager_tasks m)\<rparr>
      in case t of
           UpdateReconciliationCount increment \<Rightarrow> MuxManager_handleUpdateReconciliationCount increment m
         | ReconciliationTimeout ec \<Rightarrow>
             MuxManager_handleWarmRestartReconciliationTimeout (db_content db CFG_MUX_CABLE) m)"

definition fire_reconciliation_timer :: "mux_manager \<Rightarrow> mux_manager" where
  "fire_reconciliation_timer m = manager_post (ReconciliationTimeout Success)
     (m\<lparr>mReconciliationTimer := (mReconciliationTimer m)\<lparr>tm_pending := False\<rparr>\<rparr>)"

definition daemon_clock :: "nat \<Rightarrow> mux_manager \<Rightarrow> mux_manager" where
  "daemon_clock d m = m\<lparr>manager_now_ms := manager_now_ms m + d, mPortMap := map (map_prod id (port_clock d)) (mPortMap m)\<rparr>"

section \<open>The steps\<close>

text \<open>The reads at the start of the notification thread, each a step of its own.\<close>

datatype start_read = ReadTorMac | ReadVlan | ReadLoopback | ReadCableType | ReadProberType | ReadServerIp | ReadSoCIp

fun DbInterface_read :: "library \<Rightarrow> database \<Rightarrow> start_read \<Rightarrow> mux_manager \<Rightarrow> mux_manager result" where
  "DbInterface_read lib db ReadTorMac m = DbInterface_getTorMacAddress lib db m"
| "DbInterface_read lib db ReadVlan m = Inr (DbInterface_getVlanNames lib db m)"
| "DbInterface_read lib db ReadLoopback m = Inr (DbInterface_getLoopbackInterfacesInfo lib db m)"
| "DbInterface_read lib db ReadCableType m = Inr (DbInterface_getPortCableType db m)"
| "DbInterface_read lib db ReadProberType m = DbInterface_getProberType lib db m"
| "DbInterface_read lib db ReadServerIp m = DbInterface_getServerIpAddress lib db m"
| "DbInterface_read lib db ReadSoCIp m = DbInterface_getSoCIpAddress lib db m"

inductive daemon_step :: "library \<Rightarrow> bool \<Rightarrow> mux_manager \<Rightarrow> mux_manager \<Rightarrow> bool" for lib isWarmStart where
  daemon_features: "daemon_step lib isWarmStart m (MuxManager_enableFeatures a b m)"
| daemon_read: "DbInterface_read lib db r m = Inr m' \<Longrightarrow> daemon_step lib isWarmStart m m'"
| daemon_notification: "DbInterface_dispatch lib sel es m = Inr m' \<Longrightarrow> daemon_step lib isWarmStart m m'"
| daemon_neighbour: "daemon_step lib isWarmStart m (NetMsgInterface_onMsg lib ty fam mac ip m)"
| daemon_prober: "map_of (mPortMap m) n = Some p \<Longrightarrow> external_task t \<Longrightarrow> daemon_step lib isWarmStart m (set_port n (port_post t p) m)"
| daemon_port: "map_of (mPortMap m) n = Some p \<Longrightarrow> i < port_task_count p \<Longrightarrow> run_port i p = Some p' \<Longrightarrow>
    daemon_step lib isWarmStart m (finish_port_task isWarmStart time n p p' m)"
| daemon_port_timer: "map_of (mPortMap m) n = Some p \<Longrightarrow> port_timer_due j p \<Longrightarrow>
    daemon_step lib isWarmStart m (set_port n (port_fire_timer j p) m)"
| daemon_db: "i < length (db_tasks (mDbInterfacePtr m)) \<Longrightarrow> run_db_task db i m = Some m' \<Longrightarrow> daemon_step lib isWarmStart m m'"
| daemon_manager: "i < length (manager_tasks m) \<Longrightarrow> daemon_step lib isWarmStart m (run_manager_task db i m)"
| daemon_timer: "tm_pending (mReconciliationTimer m) \<Longrightarrow> tm_expiry (mReconciliationTimer m) = Some t \<Longrightarrow>
    t \<le> manager_now_ms m \<Longrightarrow> daemon_step lib isWarmStart m (fire_reconciliation_timer m)"
| daemon_time: "daemon_step lib isWarmStart m (daemon_clock d m)"
| daemon_priority: "daemon_step lib isWarmStart m (m\<lparr>muxLogger := swssPrioNotify prio_of prioStr (muxLogger m)\<rparr>)"
| daemon_signal: "daemon_step lib isWarmStart m (MuxManager_handleSignal sig m)"

text \<open>The states reached from the start; the notification thread starts before the features are set.\<close>

inductive daemon_reachable :: "library \<Rightarrow> bool \<Rightarrow> mux_manager \<Rightarrow> bool" for lib isWarmStart where
  daemon_start: "daemon_reachable lib isWarmStart
    (MuxManager_startReconciliation isWarmStart warmStartTimer (MuxManager_new log tor vlan))"
| daemon_next: "daemon_reachable lib isWarmStart m \<Longrightarrow> daemon_step lib isWarmStart m m' \<Longrightarrow>
    daemon_reachable lib isWarmStart m'"

inductive_cases daemon_stepE: "daemon_step lib isWarmStart m m'"

end
