(* ===== verification/Daemon_Contract.thy ===== *)
theory Daemon_Contract
  imports Daemon
begin

text \<open>
  The contract between the notification thread and the manager: what the primitive operations of
  the manager keep, every notification, every read of the data base and every operation keeps.
\<close>

section \<open>The operations of the manager as an interface\<close>

fun returns :: "('a \<Rightarrow> bool) \<Rightarrow> 'a result \<Rightarrow> bool" where
  "returns P (Inl e) = True"
| "returns P (Inr x) = P x"

lemma returns_and_then: "returns (\<lambda>x. returns P (f x)) r \<Longrightarrow> returns P (and_then r f)"
  by (cases r) auto

lemma returns_mono: "returns P r \<Longrightarrow> (\<And>x. P x \<Longrightarrow> Q x) \<Longrightarrow> returns Q r"
  by (cases r) auto

lemma returns_for_entries: "(\<And>e m. P m \<Longrightarrow> returns P (f e m)) \<Longrightarrow> P m \<Longrightarrow> returns P (for_entries f es m)"
  by (induction es arbitrary: m) (auto intro!: returns_and_then intro: returns_mono)

lemma fold_keeps: "(\<And>e m. P m \<Longrightarrow> P (f e m)) \<Longrightarrow> P m \<Longrightarrow> P (fold f es m)"
  by (induction es arbitrary: m) auto

text \<open>What may wait on the strand of the data base interface, and what a configuration may be.\<close>

fun db_task_in_range :: "db_task \<Rightarrow> bool" where
  "db_task_in_range (HandlePostMuxMetrics n m l t) \<longleftrightarrow> l \<noteq> MuxWait"
| "db_task_in_range _ \<longleftrightarrow> True"

definition db_ok :: "db_interface \<Rightarrow> bool" where
  "db_ok d \<longleftrightarrow> list_all db_task_in_range (db_tasks d)"

definition config_ok :: "mux_config \<Rightarrow> bool" where
  "config_ok c \<longleftrightarrow> 50 \<le> mLinkProberStatUpdateIntervalCount c"

locale manager_operations =
  fixes inv :: "mux_manager \<Rightarrow> bool"
  assumes inv_create: "inv m \<Longrightarrow> returns inv (getMuxPortPtrOrThrow indet n m)"
    and inv_notify: "inv m \<Longrightarrow> inv (notify n x m)"
    and inv_notify_all: "inv m \<Longrightarrow> inv (notify_all_ports x m)"
    and inv_config: "inv m \<Longrightarrow> (\<And>c. config_ok c \<Longrightarrow> config_ok (f c)) \<Longrightarrow> inv (set_shared_config f m)"
    and inv_cable: "inv m \<Longrightarrow> inv (MuxManager_updatePortCableType n t m)"
    and inv_db: "inv m \<Longrightarrow> (\<And>d. db_ok d \<Longrightarrow> db_ok (g d)) \<Longrightarrow> inv (db_call g m)"
    and inv_routes: "inv m \<Longrightarrow> inv (m\<lparr>mIpv4DefaultRouteState := st\<rparr>)" "inv m \<Longrightarrow> inv (m\<lparr>mIpv6DefaultRouteState := st\<rparr>)"
    and inv_logger: "inv m \<Longrightarrow> inv (m\<lparr>muxLogger := l\<rparr>)"
    and inv_count: "inv m \<Longrightarrow> inv (MuxManager_updateWarmRestartReconciliationCount k m)"
begin

lemma inv_config_field:
  assumes "inv m"
  shows "inv (set_shared_config (setTimeoutIpv4_msec x1) m)" "inv (set_shared_config (setTimeoutIpv6_msec x1) m)"
    "inv (set_shared_config (setIfUseTorMacAsSrcMac b) m)" "inv (set_shared_config (setUseWellKnownMacActiveActive b) m)"
    "inv (set_shared_config (setTorMacAddress a) m)" "inv (set_shared_config (setVlanMacAddress a) m)"
    "inv (set_shared_config (setLoopbackIpv4Address ip) m)" "inv (set_shared_config (setLoopback3Ipv4Address ip) m)"
    "inv (set_shared_config (setPositiveStateChangeRetryCount x1) m)" "inv (set_shared_config (setNegativeStateChangeRetryCount x1) m)"
    "inv (set_shared_config (setOscillationEnabled b) m)"
    "inv (set_shared_config (setSuspendTimeout_msec x1) m)" "inv (set_shared_config (setLinkProberStatUpdateIntervalCount x1) m)"
    "inv (set_shared_config (setOscillationInterval_sec x1 b) m)"
  using assms
  by (auto intro!: inv_config simp: config_ok_def setSuspendTimeout_msec_def setLinkProberStatUpdateIntervalCount_def
      setOscillationInterval_sec_def)

lemma inv_manager_config:
  assumes "inv m"
  shows "inv (MuxManager_setUseWellKnownMacActiveActive b m)" "inv (MuxManager_setIfUseTorMacAsSrcMac b m)"
    "inv (MuxManager_processSrcMac b m)" "inv (MuxManager_updateMuxPortConfig n st m)" "inv (MuxManager_resetPckLossCount n m)"
    "inv (MuxManager_processResetSuspendTimer ns m)" "inv (MuxManager_handleTsaEnableNotification b m)"
    "inv (MuxManager_addOrUpdateDefaultRouteState b st m)"
  using assms
  by (simp_all add: MuxManager_setUseWellKnownMacActiveActive_def MuxManager_setIfUseTorMacAsSrcMac_def
      MuxManager_processSrcMac_def MuxManager_updateMuxPortConfig_def MuxManager_resetPckLossCount_def
      MuxManager_processResetSuspendTimer_def MuxManager_handleTsaEnableNotification_def
      MuxManager_addOrUpdateDefaultRouteState_def inv_notify inv_notify_all inv_config_field inv_routes fold_keeps)

lemma db_ok_intervals: "db_ok d \<Longrightarrow> db_ok (fold (MuxPort_setTimeoutIpv4_msec x \<circ> snd) entries d)"
  "db_ok d \<Longrightarrow> db_ok (fold (MuxPort_setTimeoutIpv6_msec x \<circ> snd) entries d)"
  by (rule fold_keeps; simp add: MuxPort_setTimeoutIpv4_msec_def MuxPort_setTimeoutIpv6_msec_def
      DbInterface_updateIntervalv4_def DbInterface_updateIntervalv6_def db_post_def db_ok_def)+

lemma inv_timeouts:
  assumes "inv m"
  shows "inv (MuxManager_setTimeoutIpv4_msec x m)" "inv (MuxManager_setTimeoutIpv6_msec x m)"
  using assms
  by (auto simp: MuxManager_setTimeoutIpv4_msec_def MuxManager_setTimeoutIpv6_msec_def Let_def
      intro!: inv_db inv_config_field db_ok_intervals)

lemma inv_manager_notifications:
  assumes "inv m"
  shows "returns inv (MuxManager_addOrUpdateMuxPort i n a m)" "returns inv (MuxManager_addOrUpdateMuxPortSoCAddress i n a m)"
    "returns inv (MuxManager_updateLinkFailureDetectionState i n st ty m)" "returns inv (MuxManager_updateProberType i n ty m)"
    "returns inv (MuxManager_addOrUpdateMuxPortLinkState i n st m)" "returns inv (MuxManager_addOrUpdatePeerLinkState i n st m)"
    "returns inv (MuxManager_addOrUpdateMuxPortMuxState i n st m)" "inv (MuxManager_processGetServerMacAddress n mac m)"
    "inv (MuxManager_processGetMuxState n st m)" "inv (MuxManager_processProbeMuxState n st m)" "inv (MuxManager_processPeerMuxState n st m)"
  using assms inv_create [OF assms, of i n]
  by (auto simp: MuxManager_addOrUpdateMuxPort_def MuxManager_addOrUpdateMuxPortSoCAddress_def
      MuxManager_updateLinkFailureDetectionState_def MuxManager_updateProberType_def MuxManager_addOrUpdateMuxPortLinkState_def
      MuxManager_addOrUpdatePeerLinkState_def MuxManager_addOrUpdateMuxPortMuxState_def
      MuxManager_processGetServerMacAddress_def MuxManager_processGetMuxState_def MuxManager_processProbeMuxState_def
      MuxManager_processPeerMuxState_def inv_notify intro!: returns_and_then elim!: returns_mono split: address.split)

lemma inv_read:
  assumes "inv m"
  shows "returns inv (DbInterface_read lib db r m)"
proof -
  have vlan: "inv (DbInterface_getVlanNames lib db m)"
    using assms by (auto simp: DbInterface_getVlanNames_def DbInterface_getVlanMacAddress_def
        DbInterface_processVlanMacAddress_def inv_config_field inv_manager_config split: list.split option.split)
  have loopback: "inv (DbInterface_getLoopbackInterfacesInfo lib db m)"
    unfolding DbInterface_getLoopbackInterfacesInfo_def DbInterface_processLoopbackInterfacesInfo_def
    by (rule fold_keeps) (use assms in \<open>auto simp: process_loopback_def Let_def inv_config_field split: option.split address.split\<close>)
  have cable: "inv (DbInterface_getPortCableType db m)"
    unfolding DbInterface_getPortCableType_def DbInterface_processPortCableType_def
    by (rule fold_keeps) (use assms in \<open>auto simp: inv_cable\<close>)
  have mac: "returns inv (DbInterface_getTorMacAddress lib db m)"
    using assms by (auto simp: DbInterface_getTorMacAddress_def DbInterface_processTorMacAddress_def inv_config_field split: option.split)
  have prober: "returns inv (DbInterface_getProberType lib db m)"
    unfolding DbInterface_getProberType_def DbInterface_processProberType_def Let_def
    by (rule returns_for_entries) (use assms in \<open>auto simp: inv_manager_notifications db_ok_def intro!: inv_db\<close>)
  have server: "returns inv (DbInterface_getServerIpAddress lib db m)"
    unfolding DbInterface_getServerIpAddress_def DbInterface_processServerIpAddress_def Let_def
  proof (rule returns_for_entries)
    fix e m assume "inv m"
    then show "returns inv (case find_field ''server_ipv4'' e of
         None \<Rightarrow> Inr m
       | Some smartNicIpAddress \<Rightarrow>
           (case make_address lib (erase_mask smartNicIpAddress) of
              None \<Rightarrow> Inr m
            | Some ipAddress \<Rightarrow>
                and_then (MuxManager_addOrUpdateMuxPort (indeterminate lib (fst e)) (fst e) ipAddress m)
                  (\<lambda>m. Inr (db_call (\<lambda>d. d\<lparr>mServerIpPortMap := AList.update ipAddress (fst e) (mServerIpPortMap d)\<rparr>) m))))"
      by (auto intro!: returns_and_then returns_mono [OF inv_manager_notifications(1)] inv_db
          simp: db_ok_def split: option.split)
  qed (use assms in \<open>auto simp: inv_count\<close>)
  have soc: "returns inv (DbInterface_getSoCIpAddress lib db m)"
    unfolding DbInterface_getSoCIpAddress_def DbInterface_processSoCIpAddress_def
    by (rule returns_for_entries) (use assms in \<open>auto simp: inv_manager_notifications split: option.split\<close>)
  from vlan loopback cable mac prober server soc show ?thesis by (cases r) simp_all
qed

lemma inv_linkmgr_config:
  assumes "inv m"
  shows "inv (DbInterface_processMuxLinkmgrConfigNotifiction lib es m)"
proof -
  have field: "inv m'" if "inv m" "link_prober_field lib f v m = Some m'" for lib f v m m'
    using that by (auto simp: link_prober_field_def Let_def inv_timeouts inv_manager_config inv_config_field split: if_splits)
  have fields: "inv (link_prober_fields lib fvs m)" if "inv m" for fvs m
    using that by (induction lib fvs m rule: link_prober_fields.induct) (auto split: option.split intro: field)
  have osc: "inv (oscillation_field lib fv m)" if "inv m" for fv m
    using that by (auto simp: oscillation_field_def inv_config_field split: prod.split option.split)
  have log: "inv (logger_field fv m)" if "inv m" for fv m
    using that by (auto simp: logger_field_def MuxManager_updateLogVerbosity_def Let_def inv_logger split: prod.split)
  show ?thesis
    unfolding DbInterface_processMuxLinkmgrConfigNotifiction_def
    by (rule fold_keeps) (use assms in \<open>auto simp: fields intro!: fold_keeps [of inv] osc log\<close>)
qed

lemma inv_on_field: "inv m \<Longrightarrow> (\<And>n v m. inv m \<Longrightarrow> inv (act n v m)) \<Longrightarrow> inv (on_field f act e m)"
  by (auto simp: on_field_def split: option.split)

lemma inv_dispatch:
  assumes "inv m"
  shows "returns inv (DbInterface_dispatch lib sel es m)"
  using assms
  by (cases sel)
    (auto simp: inv_linkmgr_config DbInterface_processMuxPortConfigNotifiction_def DbInterface_processTsaEnableNotification_def
      DbInterface_processLinkStateNotifiction_def DbInterface_processPeerLinkStateNotification_def
      DbInterface_processMuxResponseNotifiction_def DbInterface_processForwardingResponseNotification_def
      DbInterface_processPeerMuxNotification_def DbInterface_processMuxStateNotifiction_def
      DbInterface_processDefaultRouteStateNotification_def DbInterface_processIcmpEchoSessionStateNotification_def
      inv_manager_config inv_manager_notifications
      intro!: fold_keeps [of inv] inv_on_field returns_for_entries split: option.split prod.split)

lemma inv_neighbour: "inv m \<Longrightarrow> inv (NetMsgInterface_onMsg lib ty fam mac ip m)"
  by (auto simp: NetMsgInterface_onMsg_def NetMsgInterface_updateMacAddress_def DbInterface_updateServerMacAddress_def
      inv_manager_notifications split: option.split)

end

end
