(* ===== verification/Daemon_Props.thy ===== *)
theory Daemon_Props
  imports Daemon_Contract Active_Standby_Properties Active_Active_Properties
begin

text \<open>
  The invariant of the daemon: its directory is well formed, its ports are ports as the theories of
  the link managers know them, and nothing that is queued for the data base lacks a name.
\<close>

section \<open>The invariant of a port\<close>

text \<open>What the directory promises of the port stored under a name.\<close>

definition port_ok :: "mux_config \<Rightarrow> (string \<times> cable_type) list \<Rightarrow> string \<Rightarrow> mux_port \<Rightarrow> bool" where
  "port_ok c cables n p \<longleftrightarrow>
     mPortName (port_config p) = n \<and> mMuxConfig (port_config p) = c \<and>
     server_id_of n = Inr (mServerId (port_config p)) \<and> map_of cables n = Some (mPortCableType (port_config p)) \<and>
     (case p of
        StandbyPort s \<Rightarrow> mPortCableType (mMuxPortConfig s) = CableActiveStandby
      | ActivePort s \<Rightarrow> mPortCableType (mMuxPortConfig s) = CableActiveActive \<and>
          generateServerMac (mServerId (mMuxPortConfig s)) = Inr (mWellKnownMacAddress (mMuxPortConfig s)))"

fun port_reached :: "mux_port \<Rightarrow> bool" where
  "port_reached (StandbyPort s) \<longleftrightarrow> (\<exists>indet cfg. AS_reachable indet cfg s)"
| "port_reached (ActivePort s) \<longleftrightarrow> (\<exists>cfg. AA_reachable cfg s)"

fun port_in_range :: "mux_port \<Rightarrow> bool" where
  "port_in_range (StandbyPort s) \<longleftrightarrow> footprint (mMuxPortConfig s) [] [] s"
| "port_in_range (ActivePort s) \<longleftrightarrow> footprint (mMuxPortConfig s) [] [] s"

definition port_inv :: "mux_config \<Rightarrow> (string \<times> cable_type) list \<Rightarrow> string \<Rightarrow> mux_port \<Rightarrow> bool" where
  "port_inv c cables n p \<longleftrightarrow> port_ok c cables n p \<and> port_reached p \<and> port_in_range p"

lemma footprint_self: "footprint c [] [] s \<Longrightarrow> footprint (mMuxPortConfig s) [] [] s"
  by (simp add: footprint_empty)

lemma set_config_eq: "cfg\<lparr>mMuxConfig := c, mLinkProberType := mLinkProberType cfg\<rparr> = cfg\<lparr>mMuxConfig := c\<rparr>"
  "cfg\<lparr>mMuxConfig := mMuxConfig cfg, mLinkProberType := ty\<rparr> = cfg\<lparr>mLinkProberType := ty\<rparr>"
  by (cases cfg; simp)+

lemma step_shared_config: "port_step run s (s\<lparr>mMuxPortConfig := (mMuxPortConfig s)\<lparr>mMuxConfig := c\<rparr>\<rparr>)"
  using step_config [where run = run and s = s and c = c and ty = "mLinkProberType (mMuxPortConfig s)"] by (simp only: set_config_eq)

text \<open>A notification posts tasks, or writes the type of the prober.\<close>

definition posts :: "'a lm_base_scheme \<Rightarrow> 'a lm_base_scheme \<Rightarrow> bool" where
  "posts s s' \<longleftrightarrow> (\<exists>ts. list_all external_task ts \<and> s' = post_tasks ts s)"

lemma posts_one [simp]: "external_task t \<Longrightarrow> posts s (post_tasks [t] s)"
  unfolding posts_def by (rule exI [of _ "[t]"]) simp

lemma posts_none [simp]: "posts s s"
  unfolding posts_def by (rule exI [of _ "[]"]) (simp add: post_tasks_def)

lemma notify_cases:
  obtains ts where "list_all external_task ts" "MuxPort_notify x s = post_tasks ts s"
  | ty where "MuxPort_notify x s = s\<lparr>mMuxPortConfig := (mMuxPortConfig s)\<lparr>mLinkProberType := ty\<rparr>\<rparr>"
proof (cases "\<exists>ty. x = NotifyProberType ty")
  case True
  then show thesis using that(2) by (auto simp: MuxPort_updateProberType_def)
next
  case False
  then have "posts s (MuxPort_notify x s)"
    by (cases x) (simp_all add: MuxPort_defs)
  then show thesis using that(1) by (auto simp: posts_def)
qed

lemma notify_step:
  assumes "port_reachable run s0 s"
  shows "port_reachable run s0 (MuxPort_notify x s)"
proof (cases rule: notify_cases [of x s])
  case (1 ts)
  with assms show ?thesis by (simp add: posts_reachable)
next
  case (2 ty)
  have "port_step run s (s\<lparr>mMuxPortConfig := (mMuxPortConfig s)\<lparr>mLinkProberType := ty\<rparr>\<rparr>)"
    using step_config [where run = run and s = s and c = "mMuxConfig (mMuxPortConfig s)" and ty = ty] by (simp only: set_config_eq)
  with assms 2 show ?thesis by (simp add: reach_step)
qed

lemma externals_in_range: "list_all external_task ts \<Longrightarrow> list_all task_in_range ts"
  by (auto simp: list_all_iff external_in_range)

lemma notify_footprint: "footprint c [] [] s \<Longrightarrow> footprint c [] [] (MuxPort_notify x s)"
  by (cases rule: notify_cases [of x s]) (simp_all add: externals_in_range)

lemma notify_identity: "same_identity c (mMuxPortConfig s) \<Longrightarrow> same_identity c (mMuxPortConfig (MuxPort_notify x s))"
  by (cases rule: notify_cases [of x s]) simp_all

lemma port_inv_notify: "port_inv c cables n p \<Longrightarrow> port_inv c cables n (notify_port x p)"
proof (cases p)
  case (StandbyPort s)
  assume "port_inv c cables n p"
  with StandbyPort notify_identity [of "mMuxPortConfig s" s x] show ?thesis
    by (auto simp: port_inv_def port_ok_def same_identity_def intro: notify_step footprint_self [OF notify_footprint])
next
  case (ActivePort s)
  assume "port_inv c cables n p"
  with ActivePort notify_identity [of "mMuxPortConfig s" s x] show ?thesis
    by (auto simp: port_inv_def port_ok_def same_identity_def intro: notify_step footprint_self [OF notify_footprint])
qed

lemma port_inv_config:
  "port_inv c cables n p \<Longrightarrow> port_inv c' cables n (port_map_config (\<lambda>cfg. cfg\<lparr>mMuxConfig := c'\<rparr>) p)"
  by (cases p) (auto simp: port_inv_def port_ok_def footprint_empty intro: reach_step [OF _ step_shared_config])

lemma port_inv_cables: "port_inv c cables n p \<Longrightarrow> cables' = cables @ us \<Longrightarrow> port_inv c cables' n p"
  by (auto simp: port_inv_def port_ok_def map_add_def split: mux_port.splits)

lemma port_inv_same:
  assumes "port_inv c cables n (StandbyPort s)" and "AS_reachable indet cfg s'" and "footprint (mMuxPortConfig s) [] [] s'"
  shows "port_inv c cables n (StandbyPort s')"
  using assms footprint_self [OF assms(3)]
  by (auto simp: port_inv_def port_ok_def) (auto simp: footprint_empty same_identity_def)

lemma port_inv_same_active:
  assumes "port_inv c cables n (ActivePort s)" and "AA_reachable cfg s'" and "footprint (mMuxPortConfig s) [] [] s'"
  shows "port_inv c cables n (ActivePort s')"
  using assms footprint_self [OF assms(3)]
  by (auto simp: port_inv_def port_ok_def) (auto simp: footprint_empty same_identity_def)

section \<open>New ports\<close>

lemma new_with_config:
  "(ActiveActiveStateMachine_new cfg)\<lparr>mMuxPortConfig := cfg'\<rparr> = ActiveActiveStateMachine_new cfg'"
  by (simp add: ActiveActiveStateMachine_new_def)

lemma new_fields [simp]:
  "mMuxPortConfig (ActiveActiveStateMachine_new cfg) = cfg" "mMuxPortConfig (ActiveStandbyStateMachine_new i cfg) = cfg"
  "footprint cfg [] [] (ActiveActiveStateMachine_new cfg)" "footprint cfg [] [] (ActiveStandbyStateMachine_new i cfg)"
  by (simp_all add: ActiveActiveStateMachine_new_def ActiveStandbyStateMachine_new_def footprint_empty)

lemma create_port_cases:
  assumes "create_port indet c n t = Inr p"
  obtains sid where "server_id_of n = Inr sid" "t = CableActiveStandby"
      "p = StandbyPort (ActiveStandbyStateMachine_new (snd indet) (MuxPortConfig_new (fst indet) c n sid t))"
  | sid a where "server_id_of n = Inr sid" "t = CableActiveActive" "generateServerMac sid = Inr a"
      "p = ActivePort (ActiveActiveStateMachine_new ((MuxPortConfig_new (fst indet) c n sid t)
         \<lparr>mWellKnownMacAddress := a, mBladeMacAddress := (if mUseWellKnownMacActiveActive c then a else [0, 0, 0, 0, 0, 0])\<rparr>))"
proof -
  obtain sid where sid: "server_id_of n = Inr sid"
    using assms by (cases "server_id_of n") (auto simp: create_port_def)
  show thesis
  proof (cases t)
    case CableActiveStandby
    then show thesis using assms sid by (intro that(1)) (auto simp: create_port_def MuxPort_new_def Let_def)
  next
    case CableActiveActive
    then obtain a where a: "generateServerMac sid = Inr a"
      using assms sid by (cases "generateServerMac sid") (auto simp: create_port_def)
    show thesis
      using assms sid a CableActiveActive
      by (intro that(2) [of sid a]) (auto simp: create_port_def MuxPort_new_def Let_def new_with_config
          MuxPort_setWellKnownMacAddress_def MuxPort_setServerMacAddress_def MuxPortConfig_new_def)
  qed
qed

lemma create_port_inv:
  assumes "create_port indet c n t = Inr p" and "map_of cables n = Some t"
  shows "port_inv c cables n p"
  using assms(1)
proof (cases rule: create_port_cases)
  case (1 sid)
  with assms(2) show ?thesis
    by (auto simp: port_inv_def port_ok_def MuxPortConfig_new_def intro: reach_start)
next
  case (2 sid a)
  with assms(2) show ?thesis
    by (auto simp: port_inv_def port_ok_def MuxPortConfig_new_def intro: reach_start)
qed

section \<open>The invariant of the daemon\<close>

definition daemon_inv :: "mux_manager \<Rightarrow> bool" where
  "daemon_inv m \<longleftrightarrow> distinct (map fst (mPortMap m)) \<and>
     (\<forall>(n, p) \<in> set (mPortMap m). port_inv (mm_mMuxConfig m) (mPortCableTypeMap m) n p) \<and>
     db_ok (mDbInterfacePtr m) \<and> config_ok (mm_mMuxConfig m)"

lemma daemon_inv_new: "daemon_inv (MuxManager_new log tor vlan)"
  by (simp add: daemon_inv_def MuxManager_new_def DbInterface_new_def db_ok_def config_ok_def MuxConfig_new_def)

text \<open>Operations on the ports, on the directory of the cables, and on the other members.\<close>

lemma daemon_inv_ports:
  assumes "daemon_inv m" and "\<And>n p. port_inv (mm_mMuxConfig m) (mPortCableTypeMap m) n p \<Longrightarrow> port_inv (mm_mMuxConfig m) (mPortCableTypeMap m) n (f p)"
  shows "daemon_inv (m\<lparr>mPortMap := map (map_prod id f) (mPortMap m)\<rparr>)"
  using assms by (auto simp: daemon_inv_def)

lemma daemon_inv_port:
  assumes "daemon_inv m"
    and "\<And>p. (n, p) \<in> set (mPortMap m) \<Longrightarrow> port_inv (mm_mMuxConfig m) (mPortCableTypeMap m) n p \<Longrightarrow>
      port_inv (mm_mMuxConfig m) (mPortCableTypeMap m) n (f p)"
  shows "daemon_inv (m\<lparr>mPortMap := AList.map_entry n f (mPortMap m)\<rparr>)"
proof -
  have entry: "\<exists>p. (k, p) \<in> set xs \<and> q = (if k = n then f p else p)"
    if "(k, q) \<in> set (AList.map_entry n f xs)" "distinct (map fst xs)" for k q xs
    using that by (induction xs) (auto simp: image_iff split: if_splits)
  show ?thesis
    unfolding daemon_inv_def
  proof (simp add: assms(1) [unfolded daemon_inv_def] AList.distinct_map_entry, safe)
    fix k q assume q: "(k, q) \<in> set (AList.map_entry n f (mPortMap m))"
    obtain p where p: "(k, p) \<in> set (mPortMap m)" "q = (if k = n then f p else p)"
      using entry [OF q] assms(1) by (auto simp: daemon_inv_def)
    with assms show "port_inv (mm_mMuxConfig m) (mPortCableTypeMap m) k q"
      by (auto simp: daemon_inv_def)
  qed
qed

lemma daemon_inv_cables:
  assumes "daemon_inv m"
  shows "daemon_inv (m\<lparr>mPortCableTypeMap := mPortCableTypeMap m @ us\<rparr>)"
  using assms by (auto simp: daemon_inv_def intro: port_inv_cables)

lemma daemon_inv_other [simp]:
  "daemon_inv (m\<lparr>mPortReconciliationCount := x1\<rparr>) = daemon_inv m"
  "daemon_inv (m\<lparr>mIpv4DefaultRouteState := x2\<rparr>) = daemon_inv m"
  "daemon_inv (m\<lparr>mIpv6DefaultRouteState := x2\<rparr>) = daemon_inv m"
  "daemon_inv (m\<lparr>mReconciliationTimer := x3\<rparr>) = daemon_inv m"
  "daemon_inv (m\<lparr>manager_now_ms := x4\<rparr>) = daemon_inv m"
  "daemon_inv (m\<lparr>manager_tasks := x5\<rparr>) = daemon_inv m"
  "daemon_inv (m\<lparr>warm_start_reconciled := x6\<rparr>) = daemon_inv m"
  "daemon_inv (m\<lparr>mIoService_stopped := x7\<rparr>) = daemon_inv m"
  "daemon_inv (m\<lparr>muxLogger := x8\<rparr>) = daemon_inv m"
  by (simp_all add: daemon_inv_def)

lemma daemon_inv_db: "daemon_inv m \<Longrightarrow> (\<And>d. db_ok d \<Longrightarrow> db_ok (g d)) \<Longrightarrow> daemon_inv (db_call g m)"
  by (simp add: daemon_inv_def db_call_def)

lemma daemon_inv_cable_type: "daemon_inv m \<Longrightarrow> getMuxPortCableType n m = (t, m') \<Longrightarrow>
    daemon_inv m' \<and> map_of (mPortCableTypeMap m') n = Some t \<and> mPortMap m' = mPortMap m \<and> mm_mMuxConfig m' = mm_mMuxConfig m"
  by (auto simp: getMuxPortCableType_def daemon_inv_cables map_add_def split: option.splits)

lemma daemon_inv_create:
  assumes "daemon_inv m"
  shows "returns daemon_inv (getMuxPortPtrOrThrow indet n m)"
proof -
  obtain t m' where t: "getMuxPortCableType n m = (t, m')" by fastforce
  note m' = daemon_inv_cable_type [OF assms t]
  show ?thesis
  proof (cases "map_of (mPortMap m') n")
    case (Some p)
    with t m' show ?thesis by (simp add: getMuxPortPtrOrThrow_def)
  next
    case None
    have "returns (\<lambda>p. port_inv (mm_mMuxConfig m') (mPortCableTypeMap m') n p) (create_port indet (mm_mMuxConfig m') n t)"
      using m' by (cases "create_port indet (mm_mMuxConfig m') n t") (auto intro: create_port_inv)
    then have "returns (\<lambda>p. daemon_inv (m'\<lparr>mPortMap := mPortMap m' @ [(n, p)]\<rparr>)) (create_port indet (mm_mMuxConfig m') n t)"
      by (rule returns_mono) (use m' None in \<open>auto simp: daemon_inv_def map_of_eq_None_iff\<close>)
    with t None show ?thesis by (auto simp: getMuxPortPtrOrThrow_def intro!: returns_and_then)
  qed
qed

lemma daemon_inv_config:
  assumes "daemon_inv m" and "\<And>c. config_ok c \<Longrightarrow> config_ok (f c)"
  shows "daemon_inv (set_shared_config f m)"
proof -
  have "port_inv (f (mm_mMuxConfig m)) (mPortCableTypeMap m) n (port_map_config (mMuxConfig_update (\<lambda>_. f (mm_mMuxConfig m))) p)"
    if "(n, p) \<in> set (mPortMap m)" for n p
    using that assms(1) port_inv_config [of "mm_mMuxConfig m" "mPortCableTypeMap m" n p "f (mm_mMuxConfig m)"]
    by (auto simp: daemon_inv_def)
  with assms show ?thesis by (auto simp: daemon_inv_def set_shared_config_def Let_def comp_def)
qed

interpretation daemon: manager_operations daemon_inv
proof
  fix m :: mux_manager and n t and x :: port_notification and k :: int
  assume m: "daemon_inv m"
  show "returns daemon_inv (getMuxPortPtrOrThrow indet n m)" for indet using m by (rule daemon_inv_create)
  show "daemon_inv (notify n x m)"
    using m by (auto simp: notify_def intro!: daemon_inv_port port_inv_notify)
  show "daemon_inv (notify_all_ports x m)"
    using m by (auto simp: notify_all_ports_def intro!: daemon_inv_ports port_inv_notify)
  show "daemon_inv (MuxManager_updatePortCableType n t m)"
    using m by (simp add: MuxManager_updatePortCableType_def Let_def daemon_inv_cables)
  show "daemon_inv (m\<lparr>mIpv4DefaultRouteState := st\<rparr>)" "daemon_inv (m\<lparr>mIpv6DefaultRouteState := st\<rparr>)" for st
    using m by simp_all
  show "daemon_inv (m\<lparr>muxLogger := l\<rparr>)" for l using m by simp
  show "daemon_inv (MuxManager_updateWarmRestartReconciliationCount k m)"
    using m by (simp add: MuxManager_updateWarmRestartReconciliationCount_def manager_post_def)
qed (fact daemon_inv_config daemon_inv_db)+

section \<open>Every step keeps it\<close>

lemma port_inv_run:
  assumes inv: "port_inv c cables n p" and i: "i < port_task_count p" and run: "run_port i p = Some p'"
  shows "port_inv c cables n p' \<and> list_all call_in_range (drop k (port_calls p'))"
proof (cases p)
  case (StandbyPort s)
  let ?c = "mMuxPortConfig s"
  obtain s' where s': "AS_run (tasks s ! i) (take_task i s) = Some s'" "p' = StandbyPort s'"
    using run StandbyPort by auto
  have foot: "footprint ?c [] [] (take_task i s) \<and> task_in_range (tasks s ! i)"
    using inv i StandbyPort by (intro footprint_take) (auto simp: port_inv_def)
  then have "footprint ?c [] [] s'" using AS_footprint_run [of ?c "[]" "[]" "take_task i s" "tasks s ! i"] s'(1) by simp
  moreover obtain indet cfg where "AS_reachable indet cfg s" using inv StandbyPort by (auto simp: port_inv_def)
  then have "AS_reachable indet cfg s'" using i s'(1) StandbyPort by (auto intro: reach_step step_run)
  ultimately show ?thesis using inv StandbyPort s'(2)
    by (auto simp: port_inv_same footprint_empty list_all_iff dest: in_set_dropD)
next
  case (ActivePort s)
  let ?c = "mMuxPortConfig s"
  obtain s' where s': "AA_run (tasks s ! i) (take_task i s) = Some s'" "p' = ActivePort s'"
    using run ActivePort by auto
  have foot: "footprint ?c [] [] (take_task i s) \<and> task_in_range (tasks s ! i)"
    using inv i ActivePort by (intro footprint_take) (auto simp: port_inv_def)
  then have "footprint ?c [] [] s'" using AA_footprint_run [of ?c "[]" "[]" "take_task i s" "tasks s ! i"] s'(1) by simp
  moreover obtain cfg where "AA_reachable cfg s" using inv ActivePort by (auto simp: port_inv_def)
  then have "AA_reachable cfg s'" using i s'(1) ActivePort by (auto intro: reach_step step_run)
  ultimately show ?thesis using inv ActivePort s'(2)
    by (auto simp: port_inv_same_active footprint_empty list_all_iff dest: in_set_dropD)
qed

lemma port_inv_fire:
  assumes "port_inv c cables n p" and "port_timer_due j p"
  shows "port_inv c cables n (port_fire_timer j p)"
  using assms
  by (cases p) (auto simp: port_inv_def port_ok_def fire_timer_def footprint_empty intro: reach_step step_timer [unfolded fire_timer_def])

lemma port_inv_post:
  assumes "port_inv c cables n p" and "external_task t"
  shows "port_inv c cables n (port_post t p)"
  using assms
  by (cases p) (auto simp: port_inv_def port_ok_def external_in_range intro: reach_step step_notify)

lemma port_inv_clock: "port_inv c cables n p \<Longrightarrow> port_inv c cables n (port_clock d p)"
  by (cases p) (auto simp: port_inv_def port_ok_def intro: reach_step step_clock)

lemma daemon_inv_set_port:
  assumes "daemon_inv m" and "port_inv (mm_mMuxConfig m) (mPortCableTypeMap m) n p"
  shows "daemon_inv (set_port n p m)"
  unfolding set_port_def using assms by (intro daemon_inv_port)

lemma daemon_inv_call:
  assumes "daemon_inv m" and "call_in_range c"
  shows "daemon_inv (daemon_call isWarmStart time cfg c m)"
proof -
  have "db_ok (MuxPort_db_call time cfg c d)" if "db_ok d" for d
    using that assms(2)
    by (cases c) (auto simp: db_ok_def db_post_def DbInterface_setMuxState_def DbInterface_setPeerMuxState_def
        DbInterface_getMuxState_def DbInterface_probeForwardingState_def DbInterface_probeMuxState_def
        DbInterface_setMuxLinkmgrState_def DbInterface_postMetricsEvent_def DbInterface_postSwitchCause_def
        DbInterface_postLinkProberMetricsEvent_def DbInterface_postPckLossRatio_def split: cable_type.split)
  moreover have "db_ok (DbInterface_setMuxMode n st d)" if "db_ok d" for n st d
    using that by (simp add: db_ok_def db_post_def DbInterface_setMuxMode_def)
  ultimately show ?thesis
    using assms(1) by (auto simp: daemon_call_def DbInterface_warmRestartReconciliation_def intro!: daemon_inv_db daemon.inv_count)
qed

lemma daemon_inv_calls:
  "daemon_inv m \<Longrightarrow> list_all call_in_range cs \<Longrightarrow> daemon_inv (fold (daemon_call isWarmStart time cfg) cs m)"
  by (induction cs arbitrary: m) (simp_all add: daemon_inv_call)

lemma daemon_inv_lookup:
  "daemon_inv m \<Longrightarrow> map_of (mPortMap m) n = Some p \<Longrightarrow> port_inv (mm_mMuxConfig m) (mPortCableTypeMap m) n p"
  by (auto simp: daemon_inv_def dest: map_of_SomeD)

lemma daemon_inv_finish:
  assumes "daemon_inv m" and "map_of (mPortMap m) n = Some p" and "i < port_task_count p" and "run_port i p = Some p'"
  shows "daemon_inv (finish_port_task isWarmStart time n p p' m)"
  using port_inv_run [OF daemon_inv_lookup [OF assms(1,2)] assms(3,4)] assms(1)
  by (auto simp: finish_port_task_def intro!: daemon_inv_calls daemon_inv_set_port)

lemma db_ok_drop: "db_ok d \<Longrightarrow> db_ok (d\<lparr>db_tasks := take i (db_tasks d) @ drop j (db_tasks d)\<rparr>)"
  by (auto simp: db_ok_def list_all_iff dest: in_set_takeD in_set_dropD)

lemma daemon_inv_run_db:
  assumes "daemon_inv m" and "run_db_task db i m = Some m'"
  shows "daemon_inv m'"
proof -
  let ?m = "db_call (\<lambda>d. d\<lparr>db_tasks := take i (db_tasks d) @ drop (Suc i) (db_tasks d)\<rparr>) m"
  have "daemon_inv ?m" using assms(1) db_ok_drop by (rule daemon_inv_db)
  moreover have "daemon_inv (db_call (db_write_all ws) ?m)" for ws
    using \<open>daemon_inv ?m\<close> by (rule daemon_inv_db) (simp add: db_ok_def db_write_all_def)
  ultimately show ?thesis
    using assms(2)
    by (auto simp: run_db_task_def Let_def DbInterface_handleGetMuxState_def MuxManager_processGetMuxState_def
        intro: daemon.inv_notify split: db_task.splits option.splits)
qed

lemma daemon_inv_run_manager:
  assumes "daemon_inv m"
  shows "daemon_inv (run_manager_task db i m)"
proof -
  have mode: "db_ok (fold (\<lambda>(n, mode). if mode = ''auto'' then id else DbInterface_setMuxMode n ''auto'') es d)" if "db_ok d" for es d
    using that by (rule fold_keeps [rotated]) (auto simp: db_ok_def db_post_def DbInterface_setMuxMode_def)
  show ?thesis
    using assms
    by (auto simp: run_manager_task_def Let_def MuxManager_handleUpdateReconciliationCount_def reconciliation_timer_cancel_def
        manager_post_def MuxManager_handleWarmRestartReconciliationTimeout_def mode intro!: daemon_inv_db split: manager_task.split)
qed

lemma daemon_inv_clock: "daemon_inv m \<Longrightarrow> daemon_inv (daemon_clock d m)"
proof -
  assume "daemon_inv m"
  moreover have "daemon_clock d m =
    (m\<lparr>mPortMap := map (map_prod id (port_clock d)) (mPortMap m)\<rparr>)\<lparr>manager_now_ms := manager_now_ms m + d\<rparr>"
    by (simp add: daemon_clock_def)
  ultimately show ?thesis by (simp add: daemon_inv_ports port_inv_clock)
qed

lemma daemon_inv_step:
  assumes "daemon_step lib isWarmStart m m'" and "daemon_inv m"
  shows "daemon_inv m'"
  using assms(1)
proof (cases rule: daemon_step.cases)
  case (daemon_read db r)
  with daemon.inv_read [OF assms(2), of lib db r] show ?thesis by simp
next
  case (daemon_notification sel es)
  with daemon.inv_dispatch [OF assms(2), of lib sel es] show ?thesis by simp
qed (use assms(2) in \<open>auto simp: MuxManager_enableFeatures_def config_ok_def fire_reconciliation_timer_def manager_post_def
      MuxManager_handleSignal_def MuxManager_handleProcessTerminate_def db_ok_def
      intro!: daemon_inv_config daemon_inv_clock daemon.inv_neighbour daemon_inv_set_port port_inv_post port_inv_fire daemon_inv_finish
        daemon_inv_run_manager daemon_inv_db
      intro: daemon_inv_lookup daemon_inv_run_db\<close>)

lemma daemon_reachable_inv: "daemon_reachable lib isWarmStart m \<Longrightarrow> daemon_inv m"
proof (induction rule: daemon_reachable.induct)
  case (daemon_start warmStartTimer log tor vlan)
  show ?case
    by (auto simp: MuxManager_startReconciliation_def MuxManager_startWarmRestartReconciliationTimer_def
        reconciliation_timer_cancel_def manager_post_def Let_def daemon_inv_new)
qed (rule daemon_inv_step)

end
