(* ===== verification/Daemon_Properties.thy ===== *)
theory Daemon_Properties
  imports Daemon_Props "HOL-Library.Code_Target_Nat"
begin

text \<open>
  The properties of the daemon as a whole: its ports are the ports the other theories speak of, no
  handler fails, the directory is consistent, ports are created exactly when they can be, and the
  reconciliation after a warm restart comes to its end.
\<close>

section \<open>A small switch, for the witnesses\<close>

definition sample_library :: library where
  "sample_library = \<lparr>make_address = (\<lambda>s. if s = ''192.168.0.4'' then Some (AddressV4 0xC0A80004) else None),
     MacAddress = (\<lambda>s. if s = ''1c:34:da:1c:9f:00'' then Some [0x1C, 0x34, 0xDA, 0x1C, 0x9F, 0] else None),
     lexical_cast_u32 = (\<lambda>s. Some (of_nat (digits_value s))), tokenizer = (\<lambda>s. [s]),
     indeterminate = (\<lambda>s. (ProberSoftware, ConfigMuxMode))\<rparr>"

definition sample_database :: database where
  "sample_database = \<lparr>db_hget = (\<lambda>t k f. if f = ''mac'' then Some ''1c:34:da:1c:9f:00'' else None),
     db_keys = (\<lambda>t. []),
     db_content = (\<lambda>t. [(''Ethernet4'', ''SET'', [(''cable_type'', ''active-standby''), (''server_ipv4'', ''192.168.0.4/32'')]),
       (''Ethernet8'', ''SET'', [(''cable_type'', ''active-active''), (''server_ipv4'', ''192.168.0.4/32'')])])\<rparr>"

datatype daemon_action =
    ActRead start_read | ActNotify selectable "entry list" | ActPort string nat | ActDb nat

fun daemon_act :: "library \<Rightarrow> bool \<Rightarrow> database \<Rightarrow> daemon_action \<Rightarrow> mux_manager \<Rightarrow> mux_manager option" where
  "daemon_act lib w db (ActRead r) m = (case DbInterface_read lib db r m of Inl _ \<Rightarrow> None | Inr m' \<Rightarrow> Some m')"
| "daemon_act lib w db (ActNotify sel es) m = (case DbInterface_dispatch lib sel es m of Inl _ \<Rightarrow> None | Inr m' \<Rightarrow> Some m')"
| "daemon_act lib w db (ActPort n i) m =
     (case map_of (mPortMap m) n of
        None \<Rightarrow> None
      | Some p \<Rightarrow> if i < port_task_count p
                  then map_option (\<lambda>p'. finish_port_task w ''now'' n p p' m) (run_port i p) else None)"
| "daemon_act lib w db (ActDb i) m = (if i < length (db_tasks (mDbInterfacePtr m)) then run_db_task db i m else None)"

fun daemon_acts :: "library \<Rightarrow> bool \<Rightarrow> database \<Rightarrow> daemon_action list \<Rightarrow> mux_manager \<Rightarrow> mux_manager option" where
  "daemon_acts lib w db [] m = Some m"
| "daemon_acts lib w db (a # acts) m = Option.bind (daemon_act lib w db a m) (daemon_acts lib w db acts)"

definition sample_daemon :: "bool \<Rightarrow> daemon_action list \<Rightarrow> mux_manager option" where
  "sample_daemon w acts = daemon_acts sample_library w sample_database acts
     (MuxManager_startReconciliation w 0 (MuxManager_new (MuxLogger_new Notice) [0, 0, 0, 0, 0, 0] [0, 0, 0, 0, 0, 0]))"

lemma daemon_act_step: "daemon_act lib w db a m = Some m' \<Longrightarrow> daemon_step lib w m m'"
  by (cases a) (auto intro: daemon_step.intros split: sum.splits option.splits if_splits)

lemma daemon_acts_reachable: "daemon_acts lib w db acts m = Some m' \<Longrightarrow> daemon_reachable lib w m \<Longrightarrow> daemon_reachable lib w m'"
  by (induction acts arbitrary: m) (auto simp: bind_eq_Some_conv dest: daemon_act_step daemon_next)

lemma sample_daemon_reachable: "sample_daemon w acts = Some m \<Longrightarrow> daemon_reachable sample_library w m"
  unfolding sample_daemon_def by (rule daemon_acts_reachable [OF _ daemon_start])

definition sample_start :: "daemon_action list" where
  "sample_start = map ActRead [ReadTorMac, ReadVlan, ReadLoopback, ReadCableType, ReadProberType, ReadServerIp, ReadSoCIp]"

definition standby_port :: "string \<Rightarrow> (mux_manager \<Rightarrow> as_state \<Rightarrow> bool) \<Rightarrow> mux_manager \<Rightarrow> bool" where
  "standby_port n P m = (case map_of (mPortMap m) n of Some (StandbyPort s) \<Rightarrow> P m s | _ \<Rightarrow> False)"

lemma standby_portD: "standby_port n P m \<Longrightarrow> \<exists>s. map_of (mPortMap m) n = Some (StandbyPort s) \<and> P m s"
  by (auto simp: standby_port_def split: option.splits mux_port.splits)

section \<open>The ports of the daemon\<close>

fun port_bound :: "mux_port \<Rightarrow> bool" where
  "port_bound (StandbyPort s) \<longleftrightarrow> mLinkProberPtr s \<noteq> None"
| "port_bound (ActivePort s) \<longleftrightarrow> mLinkProberPtr s \<noteq> None"

lemma AS_reachable_runs:
  assumes "AS_reachable indet cfg s" and "mLinkProberPtr s \<noteq> None" and "i < length (tasks s)"
  shows "AS_run (tasks s ! i) (take_task i s) \<noteq> None"
proof -
  have "AS_state_inv True (post_tasks [tasks s ! i] (take_task i s))"
    using AS_reachable_inv_bound [OF assms(1,2)] assms(3) by (rule AS_state_inv_take_task)
  from ok_TrueD [OF AS_run_state_inv [OF this]] show ?thesis by auto
qed

lemma AA_reachable_runs:
  assumes "AA_reachable cfg s" and "mLinkProberPtr s \<noteq> None" and "i < length (tasks s)"
  shows "AA_run (tasks s ! i) (take_task i s) \<noteq> None"
proof -
  have "AA_state_inv True True (length (calls (take_task i s))) (post_tasks [tasks s ! i] (take_task i s))"
    using AA_reach_inv_take_task [OF AA_reachable_inv_bound [OF assms(1,2)] assms(3)] by simp
  from ok_TrueD [OF AA_run_state_inv [OF this]] show ?thesis by auto
qed

lemma port_runs:
  assumes "port_reached p" and "port_bound p" and "i < port_task_count p"
  shows "run_port i p \<noteq> None"
  using assms AS_reachable_runs AA_reachable_runs by (cases p) (auto simp: Let_def)

lemma named_label: "l \<noteq> MuxWait \<Longrightarrow> mux_state_name l \<noteq> None"
  by (cases l) (simp_all add: mux_state_name_def DbInterface_mMuxState_def)

lemma run_db_total:
  assumes "db_ok (mDbInterfacePtr m)" and "i < length (db_tasks (mDbInterfacePtr m))"
  shows "run_db_task db i m \<noteq> None"
proof -
  have "db_task_in_range (db_tasks (mDbInterfacePtr m) ! i)"
    using assms by (simp add: db_ok_def list_all_length)
  then show ?thesis
    by (cases "db_tasks (mDbInterfacePtr m) ! i")
      (auto simp: run_db_task_def Let_def DbInterface_handlePostMuxMetrics_def split: option.split dest!: named_label)
qed



section \<open>The directory\<close>

definition active_active_mac :: "mux_port \<Rightarrow> mac_address option" where
  "active_active_mac p = (case p of ActivePort s \<Rightarrow> Some (mWellKnownMacAddress (mMuxPortConfig s)) | StandbyPort _ \<Rightarrow> None)"

lemma generateServerMac_bytes:
  assumes "n < 1024"
  shows "generateServerMac_loop n (Suc (Suc (Suc (Suc (Suc (Suc 0)))))) KNOWN_MAC_START =
    [0x04, 0x27, 0x28, 0x7a, of_nat (n div 255), of_nat (n mod 255)]"
proof (cases "n = 0")
  case False
  have "n div 255 div 255 = 0" using assms by (simp flip: div_mult2_eq)
  with False show ?thesis by (simp add: KNOWN_MAC_START_def)
qed (simp add: KNOWN_MAC_START_def)

lemma generateServerMac_eq:
  assumes "generateServerMac sid = Inr a"
  shows "unat sid < 1024 \<and> a = [0x04, 0x27, 0x28, 0x7a, of_nat (unat sid div 255), of_nat (unat sid mod 255)]"
proof -
  have sid: "unat sid < 1024"
    using assms by (auto simp: generateServerMac_def KNOWN_MAC_COUNT_def split: if_splits)
  have last: "KNOWN_MAC_START ! 5 = 0" and len: "Suc (6 - 1) = Suc (Suc (Suc (Suc (Suc (Suc 0)))))"
    by (simp_all add: KNOWN_MAC_START_def)
  have "generateServerMac sid = Inr (generateServerMac_loop (unat sid) (Suc (6 - 1)) KNOWN_MAC_START)"
    using sid last by (simp add: generateServerMac_def KNOWN_MAC_COUNT_def Let_def del: generateServerMac_loop.simps)
  with assms sid show ?thesis unfolding len by (simp add: generateServerMac_bytes del: generateServerMac_loop.simps)
qed

lemma generateServerMac_inj:
  assumes "generateServerMac x = Inr a" and "generateServerMac y = Inr a"
  shows "x = y"
proof -
  from assms [THEN generateServerMac_eq]
  have *: "(of_nat (unat x div 255) :: u8) = of_nat (unat y div 255)" "(of_nat (unat x mod 255) :: u8) = of_nat (unat y mod 255)"
    and b: "unat x < 1024" "unat y < 1024" by auto
  have "unat x div 255 = unat y div 255"
    using * b by (simp add: word_of_nat_eq_iff take_bit_nat_eq_self)
  moreover have "unat x mod 255 = unat y mod 255"
    using *(2) by (simp add: word_of_nat_eq_iff take_bit_nat_eq_self)
  ultimately have "unat x = unat y" by (metis div_mult_mod_eq)
  then show ?thesis by (simp add: word_unat_eq_iff)
qed

text \<open>
  C37. The directory of the ports is well formed in every state of the daemon: no name occurs twice;
  a port is stored under its own name, refers to the shared configuration, has the server id its name ends in, and
  the kind of link manager its entry in the directory of the cables says, whatever was configured later; an
  active-active port has the well-known address of its server id, and two of them share the address
  only if they share the id; the statistics interval of the prober never falls below 50.
\<close>
theorem directory_well_formed:
  assumes "daemon_reachable lib isWarmStart m"
  shows "distinct (map fst (mPortMap m)) \<and>
    (\<forall>(n, p) \<in> set (mPortMap m). port_ok (mm_mMuxConfig m) (mPortCableTypeMap m) n p) \<and>
    (\<forall>(n, p) \<in> set (mPortMap m). \<forall>(n', p') \<in> set (mPortMap m).
       active_active_mac p \<noteq> None \<and> active_active_mac p = active_active_mac p' \<longrightarrow>
       mServerId (port_config p) = mServerId (port_config p')) \<and>
    50 \<le> mLinkProberStatUpdateIntervalCount (mm_mMuxConfig m)"
proof -
  have inv: "daemon_inv m" using assms by (rule daemon_reachable_inv)
  then have ok: "port_ok (mm_mMuxConfig m) (mPortCableTypeMap m) n p" if "(n, p) \<in> set (mPortMap m)" for n p
    using that by (auto simp: daemon_inv_def port_inv_def)
  have "mServerId (port_config p) = mServerId (port_config p')"
    if "(n, p) \<in> set (mPortMap m)" "(n', p') \<in> set (mPortMap m)" "active_active_mac p \<noteq> None"
      "active_active_mac p = active_active_mac p'" for n n' p p'
    using ok [OF that(1)] ok [OF that(2)] that(3,4) generateServerMac_inj
    by (auto simp: active_active_mac_def port_ok_def split: mux_port.splits)
  then have "\<forall>(n, p) \<in> set (mPortMap m). \<forall>(n', p') \<in> set (mPortMap m).
      active_active_mac p \<noteq> None \<and> active_active_mac p = active_active_mac p' \<longrightarrow>
      mServerId (port_config p) = mServerId (port_config p')" by fast
  with ok inv show ?thesis by (auto simp: daemon_inv_def config_ok_def)
qed

lemma directory_well_formed_witness:
  "\<exists>m p. sample_daemon False sample_start = Some m \<and> map_of (mPortMap m) ''Ethernet8'' = Some p \<and>
     mServerId (port_config p) = 8 \<and> active_active_mac p = Some [0x04, 0x27, 0x28, 0x7a, 0, 8] \<and>
     port_ok (mm_mMuxConfig m) (mPortCableTypeMap m) ''Ethernet8'' p"
proof -
  have "map_option (\<lambda>m. map_option (\<lambda>p. (mServerId (port_config p), active_active_mac p)) (map_of (mPortMap m) ''Ethernet8''))
      (sample_daemon False sample_start) = Some (Some (8, Some [0x04, 0x27, 0x28, 0x7a, 0, 8]))" by code_simp
  from run_result [OF this] obtain m p where m: "sample_daemon False sample_start = Some m" "map_of (mPortMap m) ''Ethernet8'' = Some p"
    "mServerId (port_config p) = 8" "active_active_mac p = Some [0x04, 0x27, 0x28, 0x7a, 0, 8]"
    by auto
  note facts = directory_well_formed [OF sample_daemon_reachable [OF m(1)]]
  from bspec [OF conjunct1 [OF conjunct2 [OF facts]] map_of_SomeD [OF m(2)]] m show ?thesis by auto
qed

lemma port_creation_lookup:
  "getMuxPortPtrOrThrow indet n m =
     (case map_of (mPortMap m) n of
        Some p \<Rightarrow> Inr (snd (getMuxPortCableType n m))
      | None \<Rightarrow> and_then (create_port indet (mm_mMuxConfig m) n (fst (getMuxPortCableType n m)))
          (\<lambda>p. Inr (snd (getMuxPortCableType n m)\<lparr>mPortMap := mPortMap m @ [(n, p)]\<rparr>)))"
  by (auto simp: getMuxPortPtrOrThrow_def getMuxPortCableType_def split: option.split)

lemma server_mac_errors:
  "generateServerMac sid = Inl e \<longleftrightarrow> 1024 \<le> unat sid \<and> e = RangeError ''Out of MAC address range''"
  "(\<exists>a. generateServerMac sid = Inr a) \<longleftrightarrow> unat sid < 1024"
  by (auto simp: generateServerMac_def KNOWN_MAC_COUNT_def Let_def simp del: generateServerMac_loop.simps)

lemma create_port_errors:
  "create_port indet c n t = Inl e \<longleftrightarrow>
     (2 ^ 31 \<le> digits_value (trailing_digits n) \<and> e = UndefinedBehaviour ''atoi'') \<or>
     (digits_value (trailing_digits n) < 2 ^ 31 \<and> t = CableActiveActive \<and>
      1024 \<le> digits_value (trailing_digits n) mod 2 ^ 16 \<and> e = RangeError ''Out of MAC address range'')"
proof (cases "digits_value (trailing_digits n) < 2 ^ 31")
  case True
  let ?sid = "of_nat (digits_value (trailing_digits n)) :: u16"
  have sid: "server_id_of n = Inr ?sid" "unat ?sid = digits_value (trailing_digits n) mod 2 ^ 16"
    using True by (simp_all add: server_id_of_def unat_of_nat)
  show ?thesis
  proof (cases "generateServerMac ?sid")
    case (Inl e')
    with sid True server_mac_errors(1) [of ?sid e'] show ?thesis by (auto simp: create_port_def Let_def)
  next
    case (Inr a)
    with sid True server_mac_errors(2) [of ?sid] show ?thesis by (auto simp: create_port_def Let_def)
  qed
qed (auto simp: create_port_def server_id_of_def)

text \<open>
  C38. A notification for a name that is not in the directory yet creates its port or fails, and the
  cause of a failure is the number at the end of the name alone: it is \<open>2 ^ 31\<close> or more, which \<open>atoi\<close> does not define, or,
  for an active-active cable, the number modulo \<open>2 ^ 16\<close> exceeds the 1024 well-known addresses. For
  a known name nothing fails. Without a failure the name is in the directory afterwards, and all
  other entries, and the entry of a known name, are what they were.
\<close>
theorem port_creation:
  "(getMuxPortPtrOrThrow indet n m = Inl e \<longleftrightarrow>
     map_of (mPortMap m) n = None \<and>
     (let number = digits_value (trailing_digits n) in
      if 2 ^ 31 \<le> number then e = UndefinedBehaviour ''atoi''
      else port_cable n m = CableActiveActive \<and> 1024 \<le> number mod 2 ^ 16 \<and>
        e = RangeError ''Out of MAC address range'')) \<and>
   (case getMuxPortPtrOrThrow indet n m of
      Inl _ \<Rightarrow> True
    | Inr m' \<Rightarrow> \<exists>p. map_of (mPortMap m') =
        (if map_of (mPortMap m) n = None then (map_of (mPortMap m))(n \<mapsto> p) else map_of (mPortMap m)) \<and>
        map_of (mPortCableTypeMap m') n = Some (port_cable n m))"
proof (cases "map_of (mPortMap m) n")
  case (Some p)
  then show ?thesis by (auto simp: port_creation_lookup getMuxPortCableType_def port_cable_def map_add_def split: option.split)
next
  case None
  have cable: "map_of (mPortCableTypeMap (snd (getMuxPortCableType n m))) n = Some (port_cable n m)"
    by (auto simp: getMuxPortCableType_def port_cable_def map_add_def split: option.split)
  have eq: "getMuxPortPtrOrThrow indet n m = and_then (create_port indet (mm_mMuxConfig m) n (port_cable n m))
      (\<lambda>p. Inr (snd (getMuxPortCableType n m)\<lparr>mPortMap := mPortMap m @ [(n, p)]\<rparr>))"
    using None by (simp add: port_creation_lookup port_cable_def)
  have new: "map_of (mPortMap m @ [(n, p)]) = (map_of (mPortMap m))(n \<mapsto> p)" for p
    using None by (auto simp: map_add_def fun_eq_iff split: option.split)
  show ?thesis
    using create_port_errors [of indet "mm_mMuxConfig m" n "port_cable n m"] None cable new unfolding eq Let_def
    by (cases "create_port indet (mm_mMuxConfig m) n (port_cable n m)") (auto simp del: map_of_append)
qed

end
