(* ===== verification/Warm_Restart.thy ===== *)
theory Warm_Restart
  imports Daemon_Properties
begin

text \<open>
  The reconciliation after a warm restart: as long as it is not done, either the timer is pending or
  its handler is queued, whatever the ports and the notifications do in the meantime.
\<close>

definition restart_inv :: "mux_manager \<Rightarrow> bool" where
  "restart_inv m \<longleftrightarrow> warm_start_reconciled m \<or>
     (tm_pending (mReconciliationTimer m) \<and> tm_expiry (mReconciliationTimer m) \<noteq> None) \<or>
     (\<exists>ec. ReconciliationTimeout ec \<in> set (manager_tasks m))"

lemma restart_inv_update [simp]:
  "restart_inv (m\<lparr>mPortMap := x1\<rparr>) = restart_inv m" "restart_inv (m\<lparr>mPortCableTypeMap := x2\<rparr>) = restart_inv m"
  "restart_inv (m\<lparr>mm_mMuxConfig := x3\<rparr>) = restart_inv m" "restart_inv (m\<lparr>mDbInterfacePtr := x4\<rparr>) = restart_inv m"
  "restart_inv (m\<lparr>mIpv4DefaultRouteState := x5\<rparr>) = restart_inv m" "restart_inv (m\<lparr>mIpv6DefaultRouteState := x5\<rparr>) = restart_inv m"
  "restart_inv (m\<lparr>mPortReconciliationCount := x6\<rparr>) = restart_inv m" "restart_inv (m\<lparr>manager_now_ms := x7\<rparr>) = restart_inv m"
  "restart_inv (m\<lparr>muxLogger := x9\<rparr>) = restart_inv m"
  "restart_inv (m\<lparr>mIoService_stopped := x8\<rparr>) = restart_inv m" "restart_inv (m\<lparr>warm_start_reconciled := True\<rparr>)"
  by (simp_all add: restart_inv_def)

lemma restart_inv_ops [simp]:
  "restart_inv (db_call g m) = restart_inv m" "restart_inv (set_shared_config f m) = restart_inv m"
  "restart_inv (notify n x m) = restart_inv m" "restart_inv (notify_all_ports x m) = restart_inv m"
  "restart_inv (set_port n p m) = restart_inv m" "restart_inv (snd (getMuxPortCableType n m)) = restart_inv m"
  by (simp_all add: db_call_def set_shared_config_def Let_def notify_def notify_all_ports_def set_port_def
      getMuxPortCableType_def split: option.split)

lemma restart_inv_post: "restart_inv m \<Longrightarrow> restart_inv (manager_post t m)"
  by (auto simp: restart_inv_def manager_post_def)

lemma returns_True [simp]: "returns (\<lambda>x. True) r"
  by (cases r) simp_all

interpretation restart: manager_operations restart_inv
  by unfold_locales
    (auto simp: port_creation_lookup MuxManager_updatePortCableType_def Let_def MuxManager_updateWarmRestartReconciliationCount_def
      intro!: returns_and_then restart_inv_post split: option.split elim!: returns_mono)

lemma restart_inv_calls: "restart_inv m \<Longrightarrow> restart_inv (fold (daemon_call w time cfg) cs m)"
  by (rule fold_keeps)
    (auto simp: daemon_call_def DbInterface_warmRestartReconciliation_def MuxManager_updateWarmRestartReconciliationCount_def
      intro: restart_inv_post)

lemma restart_inv_run_db: "run_db_task db i m = Some m' \<Longrightarrow> restart_inv m \<Longrightarrow> restart_inv m'"
  by (auto simp: run_db_task_def Let_def DbInterface_handleGetMuxState_def MuxManager_processGetMuxState_def
      split: db_task.splits option.splits)

lemma restart_inv_cancel: "restart_inv m \<Longrightarrow> restart_inv (reconciliation_timer_cancel m)"
  by (auto simp: restart_inv_def reconciliation_timer_cancel_def manager_post_def)

lemma restart_inv_run_manager:
  assumes "i < length (manager_tasks m)" and "restart_inv m"
  shows "restart_inv (run_manager_task db i m)"
proof (cases "manager_tasks m ! i")
  case (ReconciliationTimeout ec)
  then show ?thesis
    by (simp add: run_manager_task_def Let_def MuxManager_handleWarmRestartReconciliationTimeout_def)
next
  case (UpdateReconciliationCount k)
  have "set (manager_tasks m) = insert (manager_tasks m ! i) (set (take i (manager_tasks m) @ drop (Suc i) (manager_tasks m)))"
    using arg_cong [OF id_take_nth_drop [OF assms(1)], of set] by simp
  with assms(2) UpdateReconciliationCount
  have "restart_inv (m\<lparr>manager_tasks := take i (manager_tasks m) @ drop (Suc i) (manager_tasks m)\<rparr>)"
    by (auto simp: restart_inv_def)
  with UpdateReconciliationCount show ?thesis
    by (auto simp: run_manager_task_def Let_def MuxManager_handleUpdateReconciliationCount_def intro: restart_inv_cancel)
qed

lemma restart_inv_step:
  assumes "daemon_step lib w m m'" and "restart_inv m"
  shows "restart_inv m'"
  using assms(1)
proof (cases rule: daemon_step.cases)
  case (daemon_read db r)
  with restart.inv_read [OF assms(2), of lib db r] show ?thesis by simp
next
  case (daemon_notification sel es)
  with restart.inv_dispatch [OF assms(2), of lib sel es] show ?thesis by simp
next
  case (daemon_timer t)
  then show ?thesis by (auto simp: restart_inv_def fire_reconciliation_timer_def manager_post_def)
qed (use assms(2) in \<open>auto simp: MuxManager_enableFeatures_def finish_port_task_def daemon_clock_def
      MuxManager_handleSignal_def MuxManager_handleProcessTerminate_def
      intro!: restart.inv_neighbour restart_inv_calls restart_inv_run_manager intro: restart_inv_run_db\<close>)

lemma restart_reachable: "daemon_reachable lib w m \<Longrightarrow> w \<Longrightarrow> restart_inv m"
proof (induction rule: daemon_reachable.induct)
  case (daemon_start warmStartTimer log tor vlan)
  then show ?case
    by (simp add: MuxManager_startReconciliation_def MuxManager_startWarmRestartReconciliationTimer_def Let_def restart_inv_def)
qed (auto intro: restart_inv_step)

lemma queued_timeout_finishes:
  assumes "ReconciliationTimeout ec \<in> set (manager_tasks m)"
  shows "\<exists>m'. daemon_step lib w m m' \<and> warm_start_reconciled m'"
proof -
  obtain i where i: "i < length (manager_tasks m)" "manager_tasks m ! i = ReconciliationTimeout ec"
    using assms by (auto simp: in_set_conv_nth)
  then have "warm_start_reconciled (run_manager_task db i m)" for db
    by (simp add: run_manager_task_def Let_def MuxManager_handleWarmRestartReconciliationTimeout_def)
  with i(1) show ?thesis by (blast intro: daemon_manager)
qed



end
