(* ===== verification/Strand_Work.thy ===== *)
theory Strand_Work
  imports Active_Standby_Properties
begin

text \<open>
  The work of a strand: every handler is given a weight that exceeds the weights of all it posts, so
  the handlers that follow from what is queued come to an end, in whatever order they run.
\<close>

section \<open>Weights\<close>

fun weight :: "task \<Rightarrow> nat" where
  "weight (TaskTimer _ OperationAborted) = 1"
| "weight (TaskTimer _ Success) = 8"
| "weight (TaskProberChange _) = 8"
| "weight (TaskPeerChange _) = 8"
| "weight (TaskMuxChange _) = 8"
| "weight (TaskLinkChange _) = 8"
| "weight TaskSuspendTimerExpiry = 8"
| "weight TaskSwitchActiveCompletion = 8"
| "weight TaskSwitchActiveRequest = 8"
| "weight TaskMuxProbeRequest = 8"
| "weight (TaskMuxEvent _) = 9"
| "weight (TaskLinkEvent _) = 9"
| "weight _ = 12"

definition work :: "task list \<Rightarrow> nat" where
  "work ts = sum_list (map weight ts)"

lemma work_simps [simp]: "work [] = 0" "work (t # ts) = weight t + work ts" "work (ts @ us) = work ts + work us"
  by (simp_all add: work_def)

lemma weight_bounds: "1 \<le> weight t" "weight t \<le> 12"
  by (cases t rule: weight.cases; simp)+

lemma work_bound: "work ts \<le> 12 * length ts"
  using weight_bounds(2) by (induction ts) (auto simp: add_mono)

definition budget :: "nat \<Rightarrow> 'a lm_base_scheme \<Rightarrow> bool" where
  "budget b s \<longleftrightarrow> work (tasks s) \<le> b"

lemma budget_weaken: "budget b s \<Longrightarrow> budget (Suc b) s"
  by (simp add: budget_def)

lemma budget_mono: "budget b s \<Longrightarrow> b \<le> c \<Longrightarrow> budget c s"
  by (simp add: budget_def)

section \<open>Strands that come to an end\<close>

text \<open>A schedule: which of the queued tasks runs next, again and again.\<close>

fun schedule :: "(task \<Rightarrow> 'a lm_base_scheme \<Rightarrow> 'a lm_base_scheme option) \<Rightarrow> nat list \<Rightarrow>
    'a lm_base_scheme \<Rightarrow> 'a lm_base_scheme option" where
  "schedule run [] s = Some s"
| "schedule run (i # is) s =
     (if i < length (tasks s) then Option.bind (run (tasks s ! i) (take_task i s)) (schedule run is) else None)"

locale working_strand =
  fixes run :: "task \<Rightarrow> 'a lm_base_scheme \<Rightarrow> 'a lm_base_scheme option"
    and inv :: "'a lm_base_scheme \<Rightarrow> bool"
    and load :: "'a lm_base_scheme \<Rightarrow> nat"
  assumes works: "inv s \<Longrightarrow> i < length (tasks s) \<Longrightarrow>
    \<exists>s'. run (tasks s ! i) (take_task i s) = Some s' \<and> inv s' \<and> load s' < load s"
begin

lemma schedule_inv: "inv s \<Longrightarrow> schedule run is s = Some s' \<Longrightarrow> inv s' \<and> length is + load s' \<le> load s"
proof (induction "is" arbitrary: s)
  case (Cons i "is")
  then obtain s1 where s1: "i < length (tasks s)" "run (tasks s ! i) (take_task i s) = Some s1" "schedule run is s1 = Some s'"
    by (auto simp: bind_eq_Some_conv split: if_splits)
  with works [OF Cons.prems(1) s1(1)] have "inv s1" "load s1 < load s" by simp_all
  with Cons.IH [OF _ s1(3)] show ?case by fastforce
qed simp

lemma schedule_completes: "inv s \<Longrightarrow> \<exists>is s'. schedule run is s = Some s' \<and> tasks s' = [] \<and> inv s'"
proof (induction "load s" arbitrary: s rule: less_induct)
  case less
  show ?case
  proof (cases "tasks s")
    case Nil
    with less.prems show ?thesis by (intro exI [of _ "[]"]) simp
  next
    case (Cons t ts)
    then obtain s1 where s1: "run (tasks s ! 0) (take_task 0 s) = Some s1" "inv s1" "load s1 < load s"
      using works [OF less.prems, of 0] by auto
    with less.hyps [OF s1(3,2)] obtain "is" s' where "schedule run is s1 = Some s'" "tasks s' = []" "inv s'" by blast
    with s1(1) Cons show ?thesis by (intro exI [of _ "0 # is"] exI [of _ s']) simp
  qed
qed

end

lemma work_take:
  assumes "i < length (tasks s)"
  shows "work (tasks s) = work (tasks (take_task i s)) + weight (tasks s ! i)"
proof -
  have "work (tasks s) = work (take i (tasks s) @ tasks s ! i # drop (Suc i) (tasks s))"
    by (simp only: id_take_nth_drop [OF assms, symmetric])
  then show ?thesis by (simp add: take_task_def)
qed

section \<open>The budgets of the active-standby manager\<close>

lemma budget_base [simp]:
  "budget b (emit x s) = budget b s"
  "budget b (s\<lparr>now_ms := x1\<rparr>) = budget b s"
  "budget b (s\<lparr>mCompositeState := x2\<rparr>) = budget b s"
  "budget b (s\<lparr>mLinkProberStateMachinePtr := x3\<rparr>) = budget b s"
  "budget b (s\<lparr>mLinkProberPtr := x4\<rparr>) = budget b s"
  "budget b (s\<lparr>mMuxStateMachine := x5\<rparr>) = budget b s"
  "budget b (s\<lparr>mLinkStateMachine := x6\<rparr>) = budget b s"
  "budget b (s\<lparr>mLabel := x7\<rparr>) = budget b s"
  "budget b (s\<lparr>mComponentInitState := x8\<rparr>) = budget b s"
  "budget b (s\<lparr>mDefaultRouteState := x9\<rparr>) = budget b s"
  "budget b (s\<lparr>mMuxPortConfig := cfg\<rparr>) = budget b s"
  "budget b (setComponentInitState q s) = budget b s"
  by (simp_all add: budget_def setComponentInitState_def)

lemma budget_timers:
  assumes "budget b s"
  shows "budget (Suc b) (cancel_timer i s)" "budget (Suc b) (start_timer i d s)"
  using assms by (simp_all add: budget_def)

lemma as_budget_update [simp]:
  "budget b (s\<lparr>mPeerLinkState := x1\<rparr>) = budget b s"
  "budget b (s\<lparr>mOscillationTimerAlive := x2\<rparr>) = budget b s"
  "budget b (s\<lparr>mWaitActiveUpCount := x3\<rparr>) = budget b s"
  "budget b (s\<lparr>mActiveUnknownUpCount := x4\<rparr>) = budget b s"
  "budget b (s\<lparr>mStandbyUnknownUpCount := x5\<rparr>) = budget b s"
  "budget b (s\<lparr>mMuxUnknownBackoffFactor := x6\<rparr>) = budget b s"
  "budget b (s\<lparr>mWaitStandbyUpBackoffFactor := x7\<rparr>) = budget b s"
  "budget b (s\<lparr>mUnknownActiveUpBackoffFactor := x8\<rparr>) = budget b s"
  "budget b (s\<lparr>mPendingMuxModeChange := x9\<rparr>) = budget b s"
  "budget b (s\<lparr>mTargetMuxMode := x10\<rparr>) = budget b s"
  "budget b (s\<lparr>mLastSetMuxState := x11\<rparr>) = budget b s"
  "budget b (s\<lparr>as_mContinuousLinkProberUnknownEvent := x12\<rparr>) = budget b s"
  "budget b (s\<lparr>mSendSwitchActiveCommandCause := x13\<rparr>) = budget b s"
  by (simp_all add: budget_def)

lemma AS_budget_ops:
  assumes "budget b s"
  shows "budget (Suc b) (AS_startMuxProbeTimer f s)" "budget (Suc b) (AS_startMuxWaitTimer f s)"
    "budget (Suc b) (AS_startOscillationTimer s)" "budget (Suc b) (AS_tryCancelOscillationTimerIfAlive s)"
    "budget (Suc b) (fst (AS_enterMuxWaitState s d))"
  using assms by (simp_all add: AS_op_defs budget_timers budget_weaken)

lemma AS_budget_free [simp]:
  "budget b (AS_setWaitStateCause w s) = budget b s" "budget b (AS_setLabel h s) = budget b s"
  "budget b (fst (AS_enterLinkProberState l r s d)) = budget b s" "budget b (fst (AS_enterMuxState k s d)) = budget b s"
  "budget b (fst (AS_enterLinkState j s d)) = budget b s" "budget b (fst (AS_initLinkProberState r s d)) = budget b s"
  "budget b (AS_commit z) = budget b (fst z)"
  by (simp_all add: AS_op_defs split: mux_label.split)

lemma AS_budget_calls:
  assumes "budget b s"
  shows "ok False (budget b) (AS_updateMuxLinkmgrState s)"
    "ok False (budget b) (AS_shutdownOrRestartLinkProberOnDefaultRoute s)"
  using assms
  by (auto simp: AS_updateMuxLinkmgrState_def AS_shutdownOrRestartLinkProberOnDefaultRoute_def Let_def ok_rules prober_call_def)

lemma AS_budget_switch:
  "budget b s \<Longrightarrow> ok False (\<lambda>r. budget (Suc (Suc b)) (fst r)) (AS_switchMuxState cause l force s d)"
  by (auto simp: AS_switchMuxState_def Let_def ok_rules split_def prober_call_def budget_weaken AS_budget_ops budget_timers)

lemma AS_budget_transition:
  assumes "budget b s"
  shows "ok False (\<lambda>r. budget (Suc (Suc (Suc b))) (fst r)) (AS_transition s d)"
  unfolding AS_transition_def
  by (cases "(ps d, ms d, ls d)" rule: AS_mStateTransitionHandler.cases)
    (use assms in \<open>auto simp: AS_transition_defs AS_LinkProberUnknownMuxStandbyLinkUp_def Let_def ok_rules split_def
       prober_call_def AS_budget_ops budget_timers budget_weaken intro!: AS_budget_switch [where b = b, THEN ok_mono]\<close>)

lemma AS_budget_activate: "budget b s \<Longrightarrow> ok False (budget b) (AS_activateStateMachine s)"
  by (auto simp: AS_activateStateMachine_def Let_def ok_rules prober_call_def intro!: AS_budget_calls [where b = b, THEN ok_mono])

lemma AS_budget_config: "budget b s \<Longrightarrow> ok False (budget (Suc (Suc b))) (AS_handleMuxConfigNotification m s)"
  by (auto simp: AS_handleMuxConfigNotification_def Let_def ok_rules split_def prober_call_def AS_budget_ops budget_weaken
      intro!: AS_budget_calls [where b = "Suc (Suc b)", THEN ok_mono] AS_budget_switch [where b = b, THEN ok_mono])

lemma AS_budget_changes:
  assumes "budget b s"
  shows "ok False (budget (b + 4)) (AS_handleStateChange_prober l s)"
    "ok False (budget (b + 6)) (AS_handleStateChange_mux l' s)" "ok False (budget (b + 3)) (AS_handleStateChange_link k s)"
proof -
  show "ok False (budget (b + 4)) (AS_handleStateChange_prober l s)"
    using assms
    by (auto simp: AS_handleStateChange_prober_def Let_def ok_rules prober_call_def eval_nat_numeral AS_budget_ops budget_weaken
        intro!: AS_budget_transition [where b = "Suc b", THEN ok_mono] AS_budget_calls [where b = "Suc (Suc (Suc (Suc b)))", THEN ok_mono])
  show "ok False (budget (b + 6)) (AS_handleStateChange_mux l' s)"
    using assms
    by (auto simp: AS_handleStateChange_mux_def Let_def ok_rules eval_nat_numeral AS_budget_ops budget_weaken
        intro!: AS_budget_transition [where b = b, THEN ok_mono] AS_budget_config [where b = "Suc (Suc (Suc b))", THEN ok_mono]
          AS_budget_calls [where b = "Suc (Suc (Suc (Suc (Suc (Suc b)))))", THEN ok_mono])
  show "ok False (budget (b + 3)) (AS_handleStateChange_link k s)"
    using assms
    by (auto simp: AS_handleStateChange_link_def Let_def ok_rules split_def eval_nat_numeral AS_budget_ops budget_weaken
        intro!: AS_budget_transition [where b = b, THEN ok_mono] AS_budget_switch [where b = b, THEN ok_mono]
          AS_budget_calls [where b = "Suc (Suc (Suc b))", THEN ok_mono])
qed

lemma AS_budget_notifications:
  assumes "budget b s"
  shows "ok False (budget b) (AS_handleSwssBladeIpv4AddressUpdate a s)"
    "ok False (budget b) (AS_handleGetServerMacAddressNotification m s)"
    "ok False (budget (Suc (Suc b))) (AS_handleGetMuxStateNotification l s)"
    "ok False (budget (Suc (Suc b))) (AS_handlePeerLinkStateNotification k s)"
    "ok False (budget b) (AS_handleDefaultRouteStateNotification r s)"
  using assms
  by (auto simp: AS_handleSwssBladeIpv4AddressUpdate_def AS_handleGetServerMacAddressNotification_def
      AS_handleGetMuxStateNotification_def AS_handlePeerLinkStateNotification_def AS_handleDefaultRouteStateNotification_def
      Let_def ok_rules split_def prober_call_def budget_weaken
      intro!: AS_budget_calls [where b = b, THEN ok_mono] AS_budget_switch [where b = b, THEN ok_mono] AS_budget_activate)

lemma budget_event:
  assumes "budget b s"
  shows "budget (b + 9) (LinkManagerStateMachineBase_postMuxStateEvent l s)"
    "budget (b + 8) (process_mux_event e s)" "budget (b + 8) (process_link_event e' s)" "budget (b + 8) (AS_process_prober_event e'' s)"
proof -
  show "budget (b + 9) (LinkManagerStateMachineBase_postMuxStateEvent l s)"
    using assms by (auto simp: LinkManagerStateMachineBase_postMuxStateEvent_def budget_def split: mux_label.split)
  show "budget (b + 8) (process_mux_event e s)"
    using assms by (auto simp: process_mux_event_def MuxStateMachine_processEvent_def budget_def split: prod.split)
  show "budget (b + 8) (process_link_event e' s)"
    using assms by (auto simp: process_link_event_def LinkStateMachine_processEvent_def budget_def split: prod.split)
  show "budget (b + 8) (AS_process_prober_event e'' s)"
    using assms
    by (cases "(mMuxPortConfig s, e'', mLinkProberStateMachinePtr s)" rule: LinkProberStateMachineActiveStandby_processEvent.cases)
      (auto simp: AS_process_prober_event_def LinkProberStateMachineBase_processEvent_def budget_def split: prod.splits option.splits)
qed

lemma AS_budget_mux_state:
  assumes "budget b s"
  shows "ok False (budget (b + 10)) (AS_handleProbeMuxStateNotification l s)"
    "ok False (budget (b + 10)) (AS_handleMuxStateNotification l s)"
    "ok False (budget (b + 9)) (AS_handleSwssLinkStateNotification k s)"
proof -
  have c: "budget (Suc b) (cancel_timer WaitTimer s)" using assms by (rule budget_timers)
  have up: "budget (b + 10) s'" if "budget (Suc b) s'" for s' :: as_state using that by (rule budget_mono) simp
  have e: "budget (b + 10) (LinkManagerStateMachineBase_postMuxStateEvent l s')" if "budget (Suc b) s'" for s' :: as_state and l
    using budget_event(1) [OF that] by (simp add: eval_nat_numeral)
  show "ok False (budget (b + 10)) (AS_handleProbeMuxStateNotification l s)"
    using c by (auto simp: AS_handleProbeMuxStateNotification_def Let_def up e intro!: AS_budget_activate [where b = "Suc b", THEN ok_mono])
  show "ok False (budget (b + 10)) (AS_handleMuxStateNotification l s)"
    using c AS_budget_ops(5) [OF c] budget_mono [of "Suc (Suc b)" _ "b + 10"]
    by (auto simp: AS_handleMuxStateNotification_def Let_def ok_rules prober_call_def up e intro!: AS_budget_activate [where b = "Suc b", THEN ok_mono])
  show "ok False (budget (b + 9)) (AS_handleSwssLinkStateNotification k s)"
    using assms budget_mono [OF _ le_add1 [of b 9]]
    by (auto simp: AS_handleSwssLinkStateNotification_def budget_def [of _ "post_tasks _ _"] budget_def [of b s]
        intro!: AS_budget_activate [where b = b, THEN ok_mono] split: link_label.split)
qed

lemma AS_budget_requests:
  assumes "budget b s"
  shows "ok False (budget (Suc b)) (AS_handleSuspendTimerExpiry s)"
    "ok False (budget (Suc (Suc b))) (AS_handleSwitchActiveCommandCompletion s)"
    "ok False (budget (Suc (Suc b))) (AS_handleSwitchActiveRequestEvent s)"
    "ok False (budget b) (AS_handleMuxWaitTimeout ec s)"
    "ok False (budget (if ec = Success then Suc b else b)) (AS_handleMuxProbeTimeout ec s)"
    "ok False (budget (if ec = Success then Suc (Suc b) else b)) (AS_handleOscillationTimeout ec s)"
    "ok False (budget b) (AS_handlePostPckLossRatioNotification x y s)" "ok False (budget b) (AS_handleResetLinkProberPckLossCount s)"
    "ok False (budget b) (AS_handleResetSuspendTimer s)"
  using assms
  by (auto simp: AS_handlePostPckLossRatioNotification_def AS_handleResetLinkProberPckLossCount_def
      AS_handleResetSuspendTimer_def AS_handleSuspendTimerExpiry_def AS_handleSwitchActiveRequestEvent_def
      AS_handleSwitchActiveCommandCompletion_def AS_handleMuxProbeTimeout_def AS_handleMuxWaitTimeout_def
      AS_handleOscillationTimeout_def Let_def ok_rules split_def prober_call_def AS_budget_ops budget_weaken
      intro!: AS_budget_switch [where b = b, THEN ok_mono])

lemma weight_timer [simp]: "weight (TaskTimer i ec) = (if ec = Success then 8 else 1)"
  by (cases ec) simp_all

lemma AS_budget_run:
  assumes "budget b s"
  shows "ok False (\<lambda>s'. work (tasks s') < b + weight t) (AS_run t s)"
proof -
  have low: "ok False (\<lambda>s'. work (tasks s') < b + n) r" if "ok False (budget c) r" "c < b + n" for c n and r :: "as_state option"
    using that by (cases r) (auto simp: budget_def)
  have low1: "ok False (\<lambda>s'. work (tasks s') < Suc b) r" if "ok False (budget c) r" "c < Suc b" for c and r :: "as_state option"
    using low [of c r 1] that by simp
  have events: "work (tasks (process_mux_event e s)) < b + 9" "work (tasks (process_link_event e' s)) < b + 9"
    "work (tasks (AS_process_prober_event e'' s)) < b + 12" for e e' e''
    using budget_event(2-4) [OF assms] by (simp_all add: budget_def le_less_trans [of _ "b + 8"])
  have free: "ok False (\<lambda>s'. work (tasks s') < b + n) (LinkManagerStateMachineBase_handleSrcMacConfigNotification s)" 
    "ok False (\<lambda>s'. work (tasks s') < b + n) (LinkManagerStateMachineBase_noop_handler s)" if "0 < n" for n
    using that assms by (simp_all add: LinkManagerStateMachineBase_handleSrcMacConfigNotification_def prober_call_def
        LinkManagerStateMachineBase_noop_handler_def budget_def)
  show ?thesis
    by (cases "(t, s)" rule: AS_run.cases)
      (auto simp: events free
        intro: AS_budget_changes [OF assms, THEN low] AS_budget_notifications [OF assms, THEN low] AS_budget_requests [OF assms, THEN low]
          AS_budget_requests(4-6) [OF assms, THEN low1]
          AS_budget_mux_state [OF assms, THEN low] AS_budget_config [OF assms, THEN low])
qed


section \<open>Every queue is worked off\<close>

interpretation AS_work: working_strand AS_run "AS_state_inv True" "\<lambda>s. work (tasks s)"
proof
  fix s :: as_state and i assume inv: "AS_state_inv True s" and i: "i < length (tasks s)"
  from ok_TrueD [OF AS_run_state_inv [OF AS_state_inv_take_task [OF inv i]]]
  obtain s' where s': "AS_run (tasks s ! i) (take_task i s) = Some s'" "AS_state_inv True s'" by blast
  moreover have "work (tasks s') < work (tasks s)"
    using AS_budget_run [of "work (tasks (take_task i s))" "take_task i s" "tasks s ! i"] s'(1) work_take [OF i]
    by (simp add: budget_def)
  ultimately show "\<exists>s'. AS_run (tasks s ! i) (take_task i s) = Some s' \<and> AS_state_inv True s' \<and> work (tasks s') < work (tasks s)"
    by blast
qed

text \<open>
  C39. The strand of an active-standby port comes to rest: from every reachable state of a port with
  a prober, whichever queued handler runs next, no more than twelve handlers run for each one that is
  queued, unless something new is posted from outside; and every order of the handlers goes on, without an exception, until the queue is
  empty, where the composite state is that of the three machines.
\<close>
theorem AS_strand_comes_to_rest:
  assumes "AS_reachable indet cfg s" and "mLinkProberPtr s \<noteq> None" and "schedule AS_run is s = Some s'"
  shows "length is \<le> 12 * length (tasks s) \<and>
    (\<exists>js s''. schedule AS_run js s' = Some s'' \<and> tasks s'' = [] \<and> mCompositeState s'' = machine_labels s'')"
proof -
  have inv: "AS_state_inv True s'" "length is + work (tasks s') \<le> work (tasks s)"
    using AS_work.schedule_inv [OF AS_reachable_inv_bound [OF assms(1,2)] assms(3)] by simp_all
  from AS_work.schedule_completes [OF inv(1)] obtain js s'' where js: "schedule AS_run js s' = Some s''" "tasks s'' = []" "AS_state_inv True s''"
    by blast
  have "mCompositeState s'' = machine_labels s''"
    using js(2,3) by (simp add: AS_state_inv_def AS_inv_def synced_quiescent quiescent_def)
  with js(1,2) inv(2) work_bound [of "tasks s"] show ?thesis by force
qed

lemma AS_strand_comes_to_rest_witness:
  "\<exists>s s' js s''. AS_boot 5 ModeAuto MuxStandby (replicate 3 (TaskProberEvent (IcmpEvent IcmpUnknownEvent))) = Some s \<and>
     schedule AS_run [2, 1, 0] s = Some s' \<and> tasks s' = [TaskProberChange ProberUnknown] \<and>
     schedule AS_run js s' = Some s'' \<and> tasks s'' = [] \<and> mCompositeState s'' = machine_labels s''"
proof -
  let ?s = "AS_boot 5 ModeAuto MuxStandby (replicate 3 (TaskProberEvent (IcmpEvent IcmpUnknownEvent)))"
  have "map_option (\<lambda>s. (mLinkProberPtr s \<noteq> None, map_option tasks (schedule AS_run [2, 1, 0] s))) ?s =
    Some (True, Some [TaskProberChange ProberUnknown])" by code_simp
  from run_result [OF this] obtain s s' where s: "?s = Some s" "mLinkProberPtr s \<noteq> None"
    "schedule AS_run [2, 1, 0] s = Some s'" "tasks s' = [TaskProberChange ProberUnknown]" by auto
  have "AS_reachable ConfigMuxMode (sample_port_config CableActiveStandby) s"
    using AS_boot_reachable [OF s(1)] by simp
  from AS_strand_comes_to_rest [OF this s(2,3)] s(1,3,4) show ?thesis by blast
qed

end
