(* ===== verification/Incremental_Checksum.thy ===== *)
theory Incremental_Checksum
  imports Heartbeat_Properties
begin

text \<open>
  The ICMP checksum of a heartbeat is adjusted for the new sequence number instead of being computed
  again; both give the same packet.
\<close>

section \<open>The folded sum is determined modulo 0xFFFF\<close>

lemma mod_add_eqD:
  fixes u x y n :: nat
  assumes "(u + x) mod n = (u + y) mod n" and "x < n" and "y < n"
  shows "x = y"
proof -
  obtain q q' where "u + x + n * q = u + y + n * q'"
    using assms(1) by (auto simp: nat_mod_eq_iff)
  then have "x mod n = y mod n" by (auto simp: nat_mod_eq_iff)
  with assms(2,3) show ?thesis by simp
qed

lemma addChecksumCarryover_cong:
  assumes "unat s mod 65535 = unat t mod 65535" and "0 < unat s" and "0 < unat t"
  shows "addChecksumCarryover s = addChecksumCarryover t"
proof -
  define x where "x = unat (addChecksumCarryover s)"
  define y where "y = unat (addChecksumCarryover t)"
  have "unat (addChecksumCarryover w) < 65535" if "0 < unat w" for w
  proof -
    have "unat (addChecksumCarryover w) \<noteq> 65535"
      using addChecksumCarryover_mod [of w] addChecksumCarryover_0 [of w] that by fastforce
    then show ?thesis using unat_u16_less [of "addChecksumCarryover w"] by linarith
  qed
  with assms(2,3) have range: "x < 65535" "y < 65535" by (simp_all add: x_def y_def)
  have "(unat s + x) mod 65535 = (unat s + y) mod 65535"
    using addChecksumCarryover_mod [of s] addChecksumCarryover_mod [of t] mod_add_cong [OF assms(1) refl, of y]
    by (simp add: x_def y_def)
  then have "x = y" using range by (rule mod_add_eqD)
  then show ?thesis by (simp add: x_def y_def word_unat_eq_iff)
qed

section \<open>Equivalence\<close>

text \<open>
  C40. The incremental checksum is the recomputed one: for up to \<open>2 ^ 30\<close> steps after the
  initialisation, \<open>updateIcmpSequenceNo\<close>, which only adds one to a running sum, also where the sequence number comes
  round to zero, leaves byte for byte the packet that results from writing the new sequence number and computing
  the checksum of the whole message again.
\<close>
theorem incremental_checksum_is_full:
  assumes "prober_reachable cfg n s" and "n < 2 ^ 30"
  shows "mTxBuffer (updateIcmpSequenceNo s) =
    mTxBuffer (computeChecksum_icmp (sizeof_icmphdr + (mTxPacketSize s - mPacketHeaderSize))
      (on_tx (put16 icmp_echo_sequence (mTxSeqNo s + 1)) s))"
proof -
  let ?s' = "updateIcmpSequenceNo s" and ?m = "mTxPacketSize s - 34"
  define b where "b = put16 icmp_echo_sequence (mTxSeqNo s + 1) (mTxBuffer s)"
  have "prober_inv cfg [] (2 * n) s" using assms by (rule prober_reachable_inv)
  then have f: "frame_ok (mServerId cfg) (snd (generateGuid cfg)) [] (Suc (2 * n)) ?s'"
    using assms(2) by (intro updateIcmpSequenceNo_frame) (simp_all add: prober_inv_def)
  have size: "mTxPacketSize ?s' = mTxPacketSize s" and buf: "mTxBuffer ?s' = put16 36 (addChecksumCarryover (mIcmpChecksum ?s')) b"
    by (simp_all add: updateIcmpSequenceNo_def Let_def b_def)
  have m: "35 \<le> ?m" "?m \<le> MUX_MAX_ICMP_BUFFER_SIZE" "sizeof_icmphdr + (mTxPacketSize s - mPacketHeaderSize) = ?m"
    using f tlvs_ok_size [of "[]" "mTxPacketSize s" "mTxBuffer ?s'"] by (auto simp: frame_ok_def size layout_defs)
  have zero: "put16 36 0 (mTxBuffer ?s') = put16 36 0 b"
    by (simp add: buf put16_def fun_eq_iff)
  have sum: "word_sum (put16 36 0 b) 34 ?m mod 65535 = unat (mIcmpChecksum ?s') mod 65535" "0 < unat (mIcmpChecksum ?s')"
    using f by (simp_all add: frame_ok_def icmp_sum_ok_def size zero)
  have "b 34 \<noteq> 0" using f by (simp add: frame_ok_def header_ok_def buf put16_def)
  then have pos: "0 < word_sum (put16 36 0 b) 34 ?m" using m by (intro word_sum_pos) (simp_all add: put16_def)
  have full: "unat (calculateChecksum (put16 36 0 b) 34 ?m) = word_sum (put16 36 0 b) 34 ?m"
    using m by (intro unat_calculateChecksum)
  have "addChecksumCarryover (calculateChecksum (put16 36 0 b) 34 ?m) = addChecksumCarryover (mIcmpChecksum ?s')"
    using sum pos by (intro addChecksumCarryover_cong) (simp_all add: full)
  moreover have "put16 36 w (put16 36 0 b) = put16 36 w b" for w
    by (simp add: put16_def fun_eq_iff)
  ultimately show ?thesis
    by (simp add: computeChecksum_icmp_def Let_def on_tx_def m(3) buf b_def)
qed

lemma incremental_checksum_is_full_witness:
  "\<exists>s. prober_reachable (tor_config CableActiveActive 0x0AD44200) 0 s \<and> mTxSeqNo s = 0xffff \<and>
     mTxBuffer (updateIcmpSequenceNo s) =
     mTxBuffer (computeChecksum_icmp (sizeof_icmphdr + (mTxPacketSize s - mPacketHeaderSize)) (on_tx (put16 icmp_echo_sequence 0) s))"
proof -
  obtain s where s: "prober_reachable (tor_config CableActiveActive 0x0AD44200) 0 s" "mTxSeqNo s = 0xffff"
    by (rule prober_exists)
  have zero: "mTxSeqNo s + 1 = 0" by (simp add: s(2))
  from incremental_checksum_is_full [OF s(1)] s show ?thesis unfolding zero by auto
qed

end
