(* ===== verification/Link_Prober_Hw.thy ===== *)
theory Link_Prober_Hw
  imports Link_Prober_Sw Db_Interface
begin

text \<open>
  The hardware link prober, \<open>link_prober/LinkProberHw.cpp\<close>. The switch sends and checks the
  heartbeats; the prober asks for echo sessions through the data base interface, turns the state that
  the switch reports for them into events, and still receives the packets of the peer. The base
  class is the one of the software prober.

  The text of an IP address, \<open>boost::asio::ip::address::to_string\<close>, is the parameter \<open>ip_text\<close>. As for
  the software prober \<open>None\<close> is undefined behaviour.
\<close>

section \<open>State\<close>

definition mSessionCookie :: string where "mSessionCookie = ''0x58767e7a''"
definition mDefaultVrfName :: string where "mDefaultVrfName = ''default''"
definition mSessionTypeSelf :: string where "mSessionTypeSelf = ''NORMAL''"
definition mSessionTypePeer :: string where "mSessionTypePeer = ''RX''"
definition mKeySeparator :: string where "mKeySeparator = '':''"
definition mUpState :: string where "mUpState = ''Up''"
definition mDownState :: string where "mDownState = ''Down''"

lemmas session_names = mSessionCookie_def mDefaultVrfName_def mSessionTypeSelf_def mSessionTypePeer_def
  mKeySeparator_def mUpState_def mDownState_def

text \<open>
  The base object and the members of the subclass; \<open>mCancelSuspend\<close> is a member of the base that only
  this class uses. \<open>mDeadlineTimer\<close> and \<open>mSuspendTimer\<close> are the timers \<open>ProbeTimer\<close> and
  \<open>SuspendTimer\<close> of the base object. \<open>hw_tasks\<close> holds the waiting handlers of the two other timers:
  they are bound to a session type and take no error code. \<open>hw_db\<close> is the data base interface
  behind \<open>mMuxPortPtr\<close>, with the requests of this prober only.
\<close>

record hw_prober =
  hw_base :: link_prober
  mCancelSuspend :: bool
  mPositiveProbingTimer :: timer
  mPositiveProbingPeerTimer :: timer
  hw_tasks :: "string list"
  hw_db :: db_interface

definition LinkProberHw_new :: "buffer \<Rightarrow> buffer \<Rightarrow> nat \<Rightarrow> mux_port_config \<Rightarrow> hw_prober" where
  "LinkProberHw_new tx0 rx0 size0 cfg =
     \<lparr>hw_base = LinkProberSw_new tx0 rx0 size0 cfg, mCancelSuspend = False,
      mPositiveProbingTimer = \<lparr>tm_expiry = None, tm_pending = False\<rparr>,
      mPositiveProbingPeerTimer = \<lparr>tm_expiry = None, tm_pending = False\<rparr>,
      hw_tasks = [], hw_db = DbInterface_new\<rparr>"

definition on_base :: "(link_prober \<Rightarrow> link_prober) \<Rightarrow> hw_prober \<Rightarrow> hw_prober" where
  "on_base f s = s\<lparr>hw_base := f (hw_base s)\<rparr>"

definition on_db :: "(db_interface \<Rightarrow> db_interface) \<Rightarrow> hw_prober \<Rightarrow> hw_prober" where
  "on_db f s = s\<lparr>hw_db := f (hw_db s)\<rparr>"

definition hw_config :: "hw_prober \<Rightarrow> mux_port_config" where
  "hw_config s = lp_mMuxPortConfig (hw_base s)"

definition hw_post :: "prober_event \<Rightarrow> hw_prober \<Rightarrow> hw_prober" where
  "hw_post e = on_base (post_to_manager [PostEvent e])"

text \<open>Cancelling a timer queues its handler, whatever the error code is then ignored.\<close>

definition cancel_positive :: "hw_prober \<Rightarrow> hw_prober" where
  "cancel_positive s =
     (if tm_pending (mPositiveProbingTimer s)
      then s\<lparr>mPositiveProbingTimer := (mPositiveProbingTimer s)\<lparr>tm_pending := False\<rparr>,
             hw_tasks := hw_tasks s @ [mSessionTypeSelf]\<rparr>
      else s)"

definition cancel_positive_peer :: "hw_prober \<Rightarrow> hw_prober" where
  "cancel_positive_peer s =
     (if tm_pending (mPositiveProbingPeerTimer s)
      then s\<lparr>mPositiveProbingPeerTimer := (mPositiveProbingPeerTimer s)\<lparr>tm_pending := False\<rparr>,
             hw_tasks := hw_tasks s @ [mSessionTypePeer]\<rparr>
      else s)"

section \<open>Echo sessions\<close>

definition MuxPort_createIcmpEchoSession :: "string \<Rightarrow> field_values \<Rightarrow> db_interface \<Rightarrow> db_interface" where
  "MuxPort_createIcmpEchoSession key entries = DbInterface_createIcmpEchoSession key entries"

definition MuxPort_deleteIcmpEchoSession :: "string \<Rightarrow> db_interface \<Rightarrow> db_interface" where
  "MuxPort_deleteIcmpEchoSession key = DbInterface_deleteIcmpEchoSession key"

fun colon_join :: "string list \<Rightarrow> string" where
  "colon_join [] = []"
| "colon_join [x] = x"
| "colon_join (x # y # xs) = x @ '':'' @ colon_join (y # xs)"

definition etherMacArrayToString :: "mac_address \<Rightarrow> string" where
  "etherMacArrayToString a = colon_join (map (\<lambda>b. hex_digits 2 (unat b)) a)"

text \<open>The key of a session, built in the same way where it is created and where it is deleted.\<close>

definition session_key :: "string \<Rightarrow> string \<Rightarrow> string \<Rightarrow> string" where
  "session_key portName hwSessionType guid =
     mDefaultVrfName @ mKeySeparator @ portName @ mKeySeparator @ guid @ mKeySeparator @
     (if hwSessionType = mSessionTypeSelf then mSessionTypeSelf else mSessionTypePeer)"

definition session_entries :: "(ip_address \<Rightarrow> string) \<Rightarrow> mux_port_config \<Rightarrow> string \<Rightarrow> field_values" where
  "session_entries ip_text cfg guid =
     [(''tx_interval'', to_string (unat (getTimeoutIpv4_msec cfg))),
      (''rx_interval'', to_string (unat (getTimeoutIpv4_msec cfg * getNegativeStateChangeRetryCount cfg))),
      (''session_guid'', guid),
      (''session_cookie'', mSessionCookie),
      (''src_ip'', ip_text (mLoopbackIpv4Address (mMuxConfig cfg))),
      (''dst_ip'', ip_text (mBladeIpv4Address cfg)),
      (''src_mac'', etherMacArrayToString
         (if ifEnableUseTorMac cfg then mTorMacAddress (mMuxConfig cfg) else mVlanMacAddress (mMuxConfig cfg))),
      (''dst_mac'', etherMacArrayToString (mBladeMacAddress cfg))]"

definition LinkProberHw_createIcmpEchoSession ::
  "(ip_address \<Rightarrow> string) \<Rightarrow> string \<Rightarrow> string \<Rightarrow> hw_prober \<Rightarrow> hw_prober" where
  "LinkProberHw_createIcmpEchoSession ip_text hwSessionType guid s =
     on_db (MuxPort_createIcmpEchoSession (session_key (mPortName (hw_config s)) hwSessionType guid)
       (session_entries ip_text (hw_config s) guid)) s"

definition LinkProberHw_deleteIcmpEchoSession :: "string \<Rightarrow> string \<Rightarrow> hw_prober \<Rightarrow> hw_prober" where
  "LinkProberHw_deleteIcmpEchoSession hwSessionType guid s =
     on_db (MuxPort_deleteIcmpEchoSession (session_key (mPortName (hw_config s)) hwSessionType guid)) s"

definition create_own_session :: "(ip_address \<Rightarrow> string) \<Rightarrow> hw_prober \<Rightarrow> hw_prober" where
  "create_own_session ip_text s = LinkProberHw_createIcmpEchoSession ip_text mSessionTypeSelf (mSelfGuid (hw_base s)) s"

definition delete_own_session :: "hw_prober \<Rightarrow> hw_prober" where
  "delete_own_session s = LinkProberHw_deleteIcmpEchoSession mSessionTypeSelf (mSelfGuid (hw_base s)) s"

definition delete_peer_session :: "hw_prober \<Rightarrow> hw_prober" where
  "delete_peer_session s = LinkProberHw_deleteIcmpEchoSession mSessionTypePeer (mPeerGuid (hw_base s)) s"

section \<open>The peer's software heartbeats\<close>

definition LinkProberHw_reportHeartbeatReplyReceived :: "heartbeat_type \<Rightarrow> hw_prober \<Rightarrow> hw_prober" where
  "LinkProberHw_reportHeartbeatReplyReceived h s =
     (if h = HEARTBEAT_PEER then hw_post (IcmpEvent IcmpPeerActiveEvent) s else s)"

definition LinkProberHw_reportHeartbeatReplyNotReceived :: "heartbeat_type \<Rightarrow> hw_prober \<Rightarrow> hw_prober" where
  "LinkProberHw_reportHeartbeatReplyNotReceived h s = hw_post (IcmpEvent IcmpPeerUnknownEvent) s"

definition LinkProberHw_startTimer :: "hw_prober \<Rightarrow> hw_prober" where
  "LinkProberHw_startTimer s = on_base (prober_start_timer ProbeTimer (unat (getProbingInterval (hw_base s)))) s"

text \<open>The report of a lost software heartbeat at the end of an interval.\<close>

definition software_peer_timeout :: "hw_prober \<Rightarrow> hw_prober option" where
  "software_peer_timeout s =
     (let s = LinkProberHw_reportHeartbeatReplyNotReceived HEARTBEAT_PEER (on_base stream_cancel s);
          s = on_base (\<lambda>b. b\<lparr>mIcmpPacketCount := mIcmpPacketCount b + 1\<rparr>) s;
          n = ucast (getLinkProberStatUpdateIntervalCount (hw_config s)) :: u64
      in if n = 0 then None
         else Some (if mIcmpPacketCount (hw_base s) mod n = 0
                    then on_base (\<lambda>b. post_to_manager [PostPckLossRatioUpdate (mIcmpUnknownEventCount b) (mIcmpPacketCount b)] b) s
                    else s))"

definition LinkProberHw_handleTimeout :: "error_code \<Rightarrow> hw_prober \<Rightarrow> hw_prober option" where
  "LinkProberHw_handleTimeout ec s = do {
     s \<leftarrow> (case mPeerType (hw_base s) of
            SessionUnknown \<Rightarrow> Some s
          | SessionSoftware \<Rightarrow> software_peer_timeout s
          | SessionHardware \<Rightarrow> Some s);
     Some (LinkProberHw_startTimer (on_base startRecv s))
   }"

section \<open>The state of the sessions\<close>

text \<open>The product is one of \<open>uint32_t\<close>.\<close>

definition positive_interval :: "hw_prober \<Rightarrow> u32" where
  "positive_interval s = getProbingInterval (hw_base s) * getPositiveStateChangeRetryCount (hw_config s)"

definition armed_timer :: "hw_prober \<Rightarrow> timer" where
  "armed_timer s = \<lparr>tm_expiry = Some (prober_now (hw_base s) + unat (positive_interval s)), tm_pending = True\<rparr>"

definition LinkProberHw_startPositiveProbingTimer :: "string \<Rightarrow> hw_prober \<Rightarrow> hw_prober" where
  "LinkProberHw_startPositiveProbingTimer ty s =
     (if ty = mSessionTypeSelf then (cancel_positive s)\<lparr>mPositiveProbingTimer := armed_timer s\<rparr>
      else if ty = mSessionTypePeer then (cancel_positive_peer s)\<lparr>mPositiveProbingPeerTimer := armed_timer s\<rparr>
      else s)"

definition LinkProberHw_handlePositiveProbingTimeout :: "string \<Rightarrow> hw_prober \<Rightarrow> hw_prober" where
  "LinkProberHw_handlePositiveProbingTimeout ty s =
     (if ty = mSessionTypeSelf then hw_post (IcmpEvent IcmpHwSelfEvent) s
      else if ty = mSessionTypePeer then hw_post (IcmpEvent IcmpHwPeerActiveEvent) s
      else s)"

definition LinkProberHw_handleStateDbStateUpdate :: "string \<Rightarrow> string \<Rightarrow> hw_prober \<Rightarrow> hw_prober" where
  "LinkProberHw_handleStateDbStateUpdate session_state ty s =
     (if \<not> mSuspendTx (hw_base s) \<and> \<not> mShutdownTx (hw_base s)
      then (if ty = mSessionTypeSelf
            then (if session_state = mUpState then LinkProberHw_startPositiveProbingTimer ty s
                  else if session_state = mDownState
                  then hw_post (IcmpEvent IcmpHwUnknownEvent) (cancel_positive s)
                  else s)
            else if ty = mSessionTypePeer
            then (if session_state = mUpState then LinkProberHw_startPositiveProbingTimer ty s
                  else if session_state = mDownState
                  then hw_post (IcmpEvent IcmpHwPeerUnknownEvent) (cancel_positive_peer s)
                  else s)
            else s)
      else s)"

section \<open>Probing\<close>

definition LinkProberHw_initialize :: "(ip_address \<Rightarrow> string) \<Rightarrow> u16 \<Rightarrow> hw_prober \<Rightarrow> hw_prober option" where
  "LinkProberHw_initialize ip_text r s = do {
     b \<leftarrow> setupSocket r (hw_base s);
     Some (create_own_session ip_text (s\<lparr>hw_base := b\<rparr>))
   }"

definition LinkProberHw_startProbing :: "(ip_address \<Rightarrow> string) \<Rightarrow> hw_prober \<Rightarrow> hw_prober" where
  "LinkProberHw_startProbing ip_text s =
     (let s = on_base stream_cancel s;
          s = (if \<not> mSuspendTx (hw_base s) \<and> \<not> mShutdownTx (hw_base s) then create_own_session ip_text s else s)
      in on_base startRecv s)"

definition LinkProberHw_suspendTxProbes :: "u32 \<Rightarrow> hw_prober \<Rightarrow> hw_prober" where
  "LinkProberHw_suspendTxProbes t s =
     (let s = delete_own_session s;
          s = (on_base (\<lambda>b. b\<lparr>mSuspendTx := True\<rparr>) s)\<lparr>mCancelSuspend := False\<rparr>
      in on_base (prober_start_timer SuspendTimer (unat t)) s)"

definition LinkProberHw_resumeTxProbes :: "(ip_address \<Rightarrow> string) \<Rightarrow> hw_prober \<Rightarrow> hw_prober" where
  "LinkProberHw_resumeTxProbes ip_text s =
     LinkProberHw_startProbing ip_text ((on_base (prober_cancel_timer SuspendTimer) s)\<lparr>mCancelSuspend := True\<rparr>)"

definition LinkProberHw_shutdownTxProbes :: "hw_prober \<Rightarrow> hw_prober" where
  "LinkProberHw_shutdownTxProbes s = on_base (\<lambda>b. b\<lparr>mShutdownTx := True\<rparr>) (delete_own_session s)"

definition LinkProberHw_restartTxProbes :: "(ip_address \<Rightarrow> string) \<Rightarrow> hw_prober \<Rightarrow> hw_prober" where
  "LinkProberHw_restartTxProbes ip_text s =
     LinkProberHw_startProbing ip_text (on_base (\<lambda>b. b\<lparr>mShutdownTx := False\<rparr>) (delete_own_session s))"

definition LinkProberHw_handleSuspendTimeout :: "error_code \<Rightarrow> hw_prober \<Rightarrow> hw_prober" where
  "LinkProberHw_handleSuspendTimeout ec s =
     (let s = on_base (\<lambda>b. b\<lparr>mSuspendTx := False\<rparr>) s;
          s = (if ec = Success \<or> mCancelSuspend s then hw_post SuspendTimerExpiredEvent s else s)
      in s\<lparr>mCancelSuspend := False\<rparr>)"

definition LinkProberHw_updateEthernetFrame :: "(ip_address \<Rightarrow> string) \<Rightarrow> hw_prober \<Rightarrow> hw_prober" where
  "LinkProberHw_updateEthernetFrame ip_text s =
     on_base (prober_post_task DoUpdateFrame) (create_own_session ip_text (delete_own_session s))"

section \<open>Receiving\<close>

text \<open>A packet with the cookie of the hardware: the one of another GUID makes its session the peer's.\<close>

definition handle_hw_guid :: "(ip_address \<Rightarrow> string) \<Rightarrow> string \<Rightarrow> hw_prober \<Rightarrow> hw_prober" where
  "handle_hw_guid ip_text guid s =
     (if mSelfGuid (hw_base s) = guid then s
      else let s = (if mPeerType (hw_base s) = SessionHardware \<and> mPeerGuid (hw_base s) \<noteq> [] \<and>
                       mPeerGuid (hw_base s) \<noteq> guid
                    then hw_post (IcmpEvent IcmpPeerUnknownEvent) (cancel_positive_peer (delete_peer_session s))
                    else s);
               s = on_base (\<lambda>b. b\<lparr>mPeerType := SessionHardware, mPeerGuid := guid\<rparr>) s
           in LinkProberHw_createIcmpEchoSession ip_text mSessionTypePeer (mPeerGuid (hw_base s)) s)"

text \<open>A packet with the cookie of the software comes from the peer, or is an own TLV packet.\<close>

definition handle_sw_guid :: "nat \<Rightarrow> string \<Rightarrow> hw_prober \<Rightarrow> hw_prober" where
  "handle_sw_guid bytesTransferred guid s =
     (if guid = mSelfGuid (hw_base s) then on_base startRecv s
      else let rx = mRxBuffer (hw_base s);
               isTlvPkt = (getNextTLVPtr rx mTlvStartOffset bytesTransferred \<noteq> None \<and> rx mTlvStartOffset \<noteq> TLV_SENTINEL);
               s = (if \<not> isTlvPkt \<and> mPeerType (hw_base s) = SessionHardware
                    then on_base (\<lambda>b. b\<lparr>mPeerType := SessionSoftware\<rparr>)
                           (hw_post (IcmpEvent IcmpHwPeerUnknownEvent) (cancel_positive_peer (delete_peer_session s)))
                    else s)
           in if mPeerGuid (hw_base s) \<noteq> guid
              then (let s = cancel_positive_peer (on_base (\<lambda>b. b\<lparr>mPeerGuid := guid\<rparr>) s);
                        s = hw_post (IcmpEvent IcmpPeerUnknownEvent) (on_base (prober_cancel_timer ProbeTimer) s)
                    in LinkProberHw_startTimer (on_base startRecv s))
              else (let s = LinkProberHw_reportHeartbeatReplyReceived HEARTBEAT_PEER s
                    in on_base (startRecv \<circ> post_to_manager (map PostEvent (handleTlvRecv rx bytesTransferred False))) s))"

definition LinkProberHw_handleIcmpPayload :: "(ip_address \<Rightarrow> string) \<Rightarrow> nat \<Rightarrow> hw_prober \<Rightarrow> hw_prober" where
  "LinkProberHw_handleIcmpPayload ip_text bytesTransferred s =
     (let rx = mRxBuffer (hw_base s);
          guid = getGuidStr rx mPacketHeaderSize
      in if ntohl_at rx mPacketHeaderSize = mHardwareCookie
         then (if ntohl_at rx (mPacketHeaderSize + 4) \<le> payload_mVersion \<and> ntohs_at rx icmp_echo_id = 0 \<and> guid \<noteq> ''0x0''
               then on_base startRecv (handle_hw_guid ip_text guid s)
               else on_base startRecv s)
         else if ntohl_at rx mPacketHeaderSize = mSoftwareCookie
         then (if ntohl_at rx (mPacketHeaderSize + 4) \<le> payload_mVersion \<and>
                  ntohs_at rx icmp_echo_id = mServerId (hw_config s) \<and> guid \<noteq> ''0x0''
               then handle_sw_guid bytesTransferred guid s
               else on_base startRecv s)
         else on_base startRecv s)"

fun LinkProberHw_handleRecv :: "(ip_address \<Rightarrow> string) \<Rightarrow> io_result \<Rightarrow> hw_prober \<Rightarrow> hw_prober option" where
  "LinkProberHw_handleRecv ip_text (IoSuccess n) s =
     (if mLinkProberType (hw_config s) = ProberHardware
      then Some (LinkProberHw_handleIcmpPayload ip_text n s) else None)"
| "LinkProberHw_handleRecv ip_text _ s = Some s"

section \<open>The prober as the manager and the strand see it\<close>

definition lift_base :: "(link_prober \<Rightarrow> link_prober option) \<Rightarrow> hw_prober \<Rightarrow> hw_prober option" where
  "lift_base f s = map_option (\<lambda>b. s\<lparr>hw_base := b\<rparr>) (f (hw_base s))"

text \<open>The calls to functions that the class does not override end in an empty function of the base.\<close>

fun LinkProberHw_call :: "(ip_address \<Rightarrow> string) \<Rightarrow> u16 \<Rightarrow> call \<Rightarrow> hw_prober \<Rightarrow> hw_prober option" where
  "LinkProberHw_call ip_text r InitializeProber s = LinkProberHw_initialize ip_text r s"
| "LinkProberHw_call ip_text r StartProbing s = Some (LinkProberHw_startProbing ip_text s)"
| "LinkProberHw_call ip_text r UpdateEthernetFrame s = Some (LinkProberHw_updateEthernetFrame ip_text s)"
| "LinkProberHw_call ip_text r ProbePeerTor s = Some (on_base probePeerTor s)"
| "LinkProberHw_call ip_text r (SuspendTx t) s = Some (LinkProberHw_suspendTxProbes t s)"
| "LinkProberHw_call ip_text r ResumeTx s = Some (LinkProberHw_resumeTxProbes ip_text s)"
| "LinkProberHw_call ip_text r ShutdownTx s = Some (LinkProberHw_shutdownTxProbes s)"
| "LinkProberHw_call ip_text r RestartTx s = Some (LinkProberHw_restartTxProbes ip_text s)"
| "LinkProberHw_call ip_text r SendPeerSwitchCommand s = Some (on_base sendPeerSwitchCommand s)"
| "LinkProberHw_call ip_text r SendPeerProbeCommand s = Some (on_base sendPeerProbeCommand s)"
| "LinkProberHw_call ip_text r (HandleStateDbStateUpdate st ty) s = Some (LinkProberHw_handleStateDbStateUpdate st ty s)"
| "LinkProberHw_call ip_text r _ s = Some s"

text \<open>The task \<open>DoTimer SwitchoverTimer\<close> belongs to the software prober.\<close>

fun LinkProberHw_run :: "(ip_address \<Rightarrow> string) \<Rightarrow> u16 \<Rightarrow> prober_task \<Rightarrow> hw_prober \<Rightarrow> hw_prober option" where
  "LinkProberHw_run ip_text r DoUpdateFrame s = lift_base (initializeSendBuffer r) s"
| "LinkProberHw_run ip_text r (DoSendHeartbeat forceSend) s = Some (on_base (sendHeartbeat forceSend) s)"
| "LinkProberHw_run ip_text r DoSendSwitchCommand s = lift_base handleSendSwitchCommand s"
| "LinkProberHw_run ip_text r DoSendProbeCommand s = lift_base handleSendProbeCommand s"
| "LinkProberHw_run ip_text r (DoTimer ProbeTimer ec) s = LinkProberHw_handleTimeout ec s"
| "LinkProberHw_run ip_text r (DoTimer SuspendTimer ec) s = Some (LinkProberHw_handleSuspendTimeout ec s)"
| "LinkProberHw_run ip_text r (DoTimer SwitchoverTimer ec) s = Some s"
| "LinkProberHw_run ip_text r (DoInitRecv res) s = Some (on_base (LinkProberBase_handleInitRecv res) s)"
| "LinkProberHw_run ip_text r (DoRecv res) s = LinkProberHw_handleRecv ip_text res s"

definition take_hw_task :: "nat \<Rightarrow> hw_prober \<Rightarrow> hw_prober" where
  "take_hw_task i s = s\<lparr>hw_tasks := take i (hw_tasks s) @ drop (Suc i) (hw_tasks s)\<rparr>"

definition fire_positive :: "hw_prober \<Rightarrow> hw_prober" where
  "fire_positive s = s\<lparr>mPositiveProbingTimer := (mPositiveProbingTimer s)\<lparr>tm_pending := False\<rparr>,
     hw_tasks := hw_tasks s @ [mSessionTypeSelf]\<rparr>"

definition fire_positive_peer :: "hw_prober \<Rightarrow> hw_prober" where
  "fire_positive_peer s = s\<lparr>mPositiveProbingPeerTimer := (mPositiveProbingPeerTimer s)\<lparr>tm_pending := False\<rparr>,
     hw_tasks := hw_tasks s @ [mSessionTypePeer]\<rparr>"

definition timer_expired :: "nat \<Rightarrow> timer \<Rightarrow> bool" where
  "timer_expired t x \<longleftrightarrow> tm_pending x \<and> (case tm_expiry x of None \<Rightarrow> False | Some e \<Rightarrow> e \<le> t)"

text \<open>
  The steps of a prober, with labels; the manager may make calls before the one that initialises it. The configuration it shares with the manager may
  change but for the cable type, the server identifier and the name of the port.
\<close>

datatype hw_event =
    HwCall call | HwRun prober_task | HwRunPositive string | HwTimer prober_timer | HwPositive | HwPositivePeer
  | HwPacket "u8 list" | HwReadError | HwClock nat | HwConfig mux_port_config

inductive hw_step :: "(ip_address \<Rightarrow> string) \<Rightarrow> hw_event \<Rightarrow> hw_prober \<Rightarrow> hw_prober \<Rightarrow> bool" for ip_text where
  hw_call: "LinkProberHw_call ip_text r c s = Some s' \<Longrightarrow> hw_step ip_text (HwCall c) s s'"
| hw_run: "i < length (prober_tasks (hw_base s)) \<Longrightarrow> t = prober_tasks (hw_base s) ! i \<Longrightarrow>
    LinkProberHw_run ip_text r t (on_base (take_prober_task i) s) = Some s' \<Longrightarrow> hw_step ip_text (HwRun t) s s'"
| hw_run_positive: "i < length (hw_tasks s) \<Longrightarrow> ty = hw_tasks s ! i \<Longrightarrow>
    hw_step ip_text (HwRunPositive ty) s (LinkProberHw_handlePositiveProbingTimeout ty (take_hw_task i s))"
| hw_timer: "timer_expired (prober_now (hw_base s)) (prober_timers (hw_base s) i) \<Longrightarrow>
    hw_step ip_text (HwTimer i) s (on_base (fire_prober_timer i) s)"
| hw_positive: "timer_expired (prober_now (hw_base s)) (mPositiveProbingTimer s) \<Longrightarrow> hw_step ip_text HwPositive s (fire_positive s)"
| hw_positive_peer: "timer_expired (prober_now (hw_base s)) (mPositiveProbingPeerTimer s) \<Longrightarrow>
    hw_step ip_text HwPositivePeer s (fire_positive_peer s)"
| hw_packet: "length bytes \<le> MUX_MAX_ICMP_BUFFER_SIZE \<Longrightarrow>
    hw_step ip_text (HwPacket bytes) s (on_base (receive (IoSuccess (length bytes)) bytes) s)"
| hw_read_error: "hw_step ip_text HwReadError s (on_base (receive IoError []) s)"
| hw_clock: "hw_step ip_text (HwClock d) s (on_base (\<lambda>b. b\<lparr>prober_now := prober_now b + d\<rparr>) s)"
| hw_config: "mPortCableType cfg = mPortCableType (hw_config s) \<Longrightarrow> mServerId cfg = mServerId (hw_config s) \<Longrightarrow>
    mPortName cfg = mPortName (hw_config s) \<Longrightarrow>
    hw_step ip_text (HwConfig cfg) s (on_base (\<lambda>b. b\<lparr>lp_mMuxPortConfig := cfg\<rparr>) s)"

inductive_cases hw_stepE: "hw_step ip_text e s s'"

text \<open>The runs of a prober, with the labels of their steps, and the runs of a new one.\<close>

inductive hw_runs :: "(ip_address \<Rightarrow> string) \<Rightarrow> hw_event list \<Rightarrow> hw_prober \<Rightarrow> hw_prober \<Rightarrow> bool" for ip_text where
  hw_none: "hw_runs ip_text [] s s"
| hw_more: "hw_runs ip_text es s s' \<Longrightarrow> hw_step ip_text e s' s'' \<Longrightarrow> hw_runs ip_text (es @ [e]) s s''"

definition hw_reachable :: "(ip_address \<Rightarrow> string) \<Rightarrow> mux_port_config \<Rightarrow> hw_prober \<Rightarrow> bool" where
  "hw_reachable ip_text cfg s \<longleftrightarrow>
     (\<exists>tx0 rx0 size0 es. hw_runs ip_text es (LinkProberHw_new tx0 rx0 size0 cfg) s)"

lemmas hw_op_defs =
  on_base_def on_db_def hw_config_def hw_post_def cancel_positive_def cancel_positive_peer_def
  MuxPort_createIcmpEchoSession_def MuxPort_deleteIcmpEchoSession_def DbInterface_createIcmpEchoSession_def
  DbInterface_deleteIcmpEchoSession_def db_post_def LinkProberHw_createIcmpEchoSession_def
  LinkProberHw_deleteIcmpEchoSession_def create_own_session_def delete_own_session_def delete_peer_session_def
  LinkProberHw_startTimer_def LinkProberHw_startProbing_def LinkProberHw_suspendTxProbes_def
  LinkProberHw_resumeTxProbes_def LinkProberHw_shutdownTxProbes_def LinkProberHw_restartTxProbes_def
  LinkProberHw_handleSuspendTimeout_def LinkProberHw_updateEthernetFrame_def
  LinkProberHw_reportHeartbeatReplyReceived_def LinkProberHw_reportHeartbeatReplyNotReceived_def
  LinkProberHw_startPositiveProbingTimer_def LinkProberHw_handlePositiveProbingTimeout_def
  LinkProberHw_handleStateDbStateUpdate_def positive_interval_def armed_timer_def

end
