(* ===== verification/Link_Prober_Hw_Props.thy ===== *)
theory Link_Prober_Hw_Props
  imports Link_Prober_Hw
begin

text \<open>
  Facts of the hardware prober that hold for every step: the abstract state of its own session, the
  form of the requests it makes, and the number of timeout handlers of a software peer.
\<close>

section \<open>What the operations of the base leave alone\<close>

definition prober_id :: "link_prober \<Rightarrow> mux_port_config \<times> string \<times> string \<times> session_type \<times> bool \<times> bool" where
  "prober_id b = (lp_mMuxPortConfig b, mSelfGuid b, mPeerGuid b, mPeerType b, mSuspendTx b, mShutdownTx b)"

lemma prober_id_basic [simp]:
  "prober_id (prober_post_task t b) = prober_id b"
  "prober_id (post_to_manager es b) = prober_id b"
  "prober_id (prober_cancel_timer i b) = prober_id b"
  "prober_id (prober_start_timer i d b) = prober_id b"
  "prober_id (stream_cancel b) = prober_id b"
  "prober_id (startRecv b) = prober_id b"
  "prober_id (startInitRecv b) = prober_id b"
  "prober_id (sendHeartbeat f b) = prober_id b"
  "prober_id (receive res bytes b) = prober_id b"
  "prober_id (fire_prober_timer i b) = prober_id b"
  "prober_id (take_prober_task k b) = prober_id b"
  "prober_id (probePeerTor b) = prober_id b"
  "prober_id (sendPeerSwitchCommand b) = prober_id b"
  "prober_id (sendPeerProbeCommand b) = prober_id b"
  "prober_id (LinkProberBase_handleInitRecv res b) = prober_id b"
  "prober_id (b\<lparr>prober_now := n\<rparr>) = prober_id b"
  "prober_id (b\<lparr>mIcmpPacketCount := c\<rparr>) = prober_id b"
  by (simp_all add: prober_id_def prober_post_task_def post_to_manager_def prober_cancel_timer_def
      prober_start_timer_def stream_cancel_def startRecv_def startInitRecv_def sendHeartbeat_def
      updateIcmpSequenceNo_def receive_def fire_prober_timer_def take_prober_task_def probePeerTor_def
      sendPeerSwitchCommand_def sendPeerProbeCommand_def LinkProberBase_handleInitRecv_def Let_def
      split: list.split)

text \<open>Building a frame changes nothing but the buffer, its size and the checksums.\<close>

definition frame_rest :: "link_prober \<Rightarrow> link_prober" where
  "frame_rest b = b\<lparr>mTxBuffer := (\<lambda>_. 0), mTxPacketSize := 0, mIcmpChecksum := 0, mIpChecksum := 0\<rparr>"

lemma frame_rest_fields:
  assumes "frame_rest b' = frame_rest b"
  shows "prober_id b' = prober_id b" and "prober_timers b' = prober_timers b" and "prober_tasks b' = prober_tasks b"
proof -
  have f: "prober_id (frame_rest x) = prober_id x" "prober_timers (frame_rest x) = prober_timers x"
    "prober_tasks (frame_rest x) = prober_tasks x" for x
    by (simp_all add: frame_rest_def prober_id_def)
  show "prober_id b' = prober_id b" "prober_timers b' = prober_timers b" "prober_tasks b' = prober_tasks b"
    using f [of b] f [of b'] assms by metis+
qed

lemma frame_rest_basic [simp]:
  "frame_rest (on_tx f b) = frame_rest b" "frame_rest (computeChecksum_icmp n b) = frame_rest b"
  "frame_rest (computeChecksum_ip n b) = frame_rest b" "frame_rest (resetTxBufferTlv b) = frame_rest b"
  "frame_rest (calculateTxPacketChecksum b) = frame_rest b"
  by (simp_all add: frame_rest_def on_tx_def computeChecksum_icmp_def computeChecksum_ip_def
      resetTxBufferTlv_def calculateTxPacketChecksum_def Let_def)

lemma frame_rest_append:
  "appendTlvSentinel b = Some b' \<Longrightarrow> frame_rest b' = frame_rest b"
  "appendTlvCommand c b = Some b' \<Longrightarrow> frame_rest b' = frame_rest b"
  by (auto simp: appendTlvSentinel_def appendTlvCommand_def on_tx_def frame_rest_def split: if_splits)

lemma frame_rest_initTx:
  "initTxBufferTlvSentinel b = Some b' \<Longrightarrow> frame_rest b' = frame_rest b"
  "initTxBufferTlvSendProbe b = Some b' \<Longrightarrow> frame_rest b' = frame_rest b"
  "initTxBufferTlvSendSwitch b = Some b' \<Longrightarrow> frame_rest b' = frame_rest b"
  by (auto simp: initTxBufferTlvSentinel_def initTxBufferTlvSendProbe_def initTxBufferTlvSendSwitch_def
      bind_eq_Some_conv dest!: frame_rest_append)

lemma frame_rest_on_tx: "x = on_tx f b \<Longrightarrow> frame_rest x = frame_rest b" by simp

lemma frame_rest_initializeSendBuffer: "initializeSendBuffer r b = Some b' \<Longrightarrow> frame_rest b' = frame_rest b"
  unfolding initializeSendBuffer_def
  apply (elim Let_elim bind_Some_elim)
  apply (simp only: option.inject)
  apply (drule frame_rest_append frame_rest_on_tx)+
  by (metis frame_rest_basic)

lemmas frame_rest_build = frame_rest_initTx frame_rest_initializeSendBuffer

text \<open>What the tasks of the base class keep.\<close>

definition prober_core :: "link_prober \<Rightarrow> (mux_port_config \<times> string \<times> string \<times> session_type \<times> bool \<times> bool)
    \<times> (prober_timer \<Rightarrow> timer) \<times> prober_task list" where
  "prober_core b = (prober_id b, prober_timers b, prober_tasks b)"

lemma prober_core_frame: "frame_rest b' = frame_rest b \<Longrightarrow> prober_core b' = prober_core b"
  by (frule frame_rest_fields(1), frule frame_rest_fields(2), drule frame_rest_fields(3)) (simp add: prober_core_def)

lemma prober_core_basic [simp]:
  "prober_core (post_to_manager es b) = prober_core b"
  "prober_core (sendHeartbeat f b) = prober_core b"
  "prober_core (startInitRecv b) = prober_core b"
  "prober_core (startRecv b) = prober_core b"
  "prober_core (LinkProberBase_handleInitRecv res b) = prober_core b"
  "prober_core (b\<lparr>mIcmpPacketCount := c\<rparr>) = prober_core b"
  by (simp_all add: prober_core_def prober_id_def post_to_manager_def sendHeartbeat_def updateIcmpSequenceNo_def
      startInitRecv_def startRecv_def LinkProberBase_handleInitRecv_def Let_def)

lemma prober_core_attach [simp]: "prober_core (attachFilter b) = prober_core b"
  by (simp add: prober_core_def prober_id_def attachFilter_def)

lemma prober_core_run:
  "initializeSendBuffer r b = Some b' \<Longrightarrow> prober_core b' = prober_core b"
  "handleSendSwitchCommand b = Some b' \<Longrightarrow> prober_core b' = prober_core b"
  "handleSendProbeCommand b = Some b' \<Longrightarrow> prober_core b' = prober_core b"
  "setupSocket r b = Some b' \<Longrightarrow> prober_core b' = prober_core b"
  by (auto simp: handleSendSwitchCommand_def handleSendProbeCommand_def setupSocket_def bind_eq_Some_conv
      dest!: frame_rest_build prober_core_frame)

section \<open>The sessions of the prober\<close>

text \<open>
  The keys in the session table once the requests have been carried out in their order (the strand of
  the data base interface runs posted handlers in that order).
\<close>

fun session_effect :: "db_task \<Rightarrow> string set \<Rightarrow> string set" where
  "session_effect (HandleIcmpEchoSession key fvs) K = insert key K"
| "session_effect (HandleDeleteIcmpEchoSession key) K = K - {key}"
| "session_effect _ K = K"

definition live_sessions :: "hw_prober \<Rightarrow> string set" where
  "live_sessions s = fold session_effect (db_tasks (hw_db s)) {}"

definition own_key :: "hw_prober \<Rightarrow> string" where
  "own_key s = session_key (mPortName (hw_config s)) mSessionTypeSelf (mSelfGuid (hw_base s))"

text \<open>The abstract state: suspended, shut down, own session present.\<close>

type_synonym own_view = "bool \<times> bool \<times> bool"

definition own_view :: "hw_prober \<Rightarrow> own_view" where
  "own_view s = (mSuspendTx (hw_base s), mShutdownTx (hw_base s), own_key s \<in> live_sessions s)"

fun own_step :: "hw_event \<Rightarrow> own_view \<Rightarrow> own_view" where
  "own_step (HwCall (SuspendTx t)) (suspended, down, present) = (True, down, False)"
| "own_step (HwCall ShutdownTx) (suspended, down, present) = (suspended, True, False)"
| "own_step (HwCall RestartTx) (suspended, down, present) = (suspended, False, \<not> suspended)"
| "own_step (HwCall ResumeTx) (suspended, down, present) = (suspended, down, present \<or> \<not> suspended \<and> \<not> down)"
| "own_step (HwCall StartProbing) (suspended, down, present) = (suspended, down, present \<or> \<not> suspended \<and> \<not> down)"
| "own_step (HwCall UpdateEthernetFrame) (suspended, down, present) = (suspended, down, True)"
| "own_step (HwCall InitializeProber) (suspended, down, present) = (suspended, down, True)"
| "own_step (HwRun (DoTimer SuspendTimer ec)) (suspended, down, present) = (False, down, present)"
| "own_step _ v = v"

lemma live_sessions_simps [simp]:
  "live_sessions (on_base f s) = live_sessions s"
  "live_sessions (s\<lparr>hw_base := b\<rparr>) = live_sessions s"
  "live_sessions (s\<lparr>mCancelSuspend := x\<rparr>) = live_sessions s"
  "live_sessions (s\<lparr>mPositiveProbingTimer := t\<rparr>) = live_sessions s"
  "live_sessions (s\<lparr>mPositiveProbingPeerTimer := t\<rparr>) = live_sessions s"
  "live_sessions (s\<lparr>hw_tasks := ts\<rparr>) = live_sessions s"
  "live_sessions (cancel_positive s) = live_sessions s"
  "live_sessions (cancel_positive_peer s) = live_sessions s"
  "live_sessions (LinkProberHw_createIcmpEchoSession ip_text ty guid s) =
     insert (session_key (mPortName (hw_config s)) ty guid) (live_sessions s)"
  "live_sessions (LinkProberHw_deleteIcmpEchoSession ty guid s) =
     live_sessions s - {session_key (mPortName (hw_config s)) ty guid}"
  by (simp_all add: live_sessions_def hw_op_defs)

lemma session_key_type_neq [simp]:
  "session_key p mSessionTypeSelf g \<noteq> session_key q mSessionTypePeer h"
  "session_key q mSessionTypePeer h \<noteq> session_key p mSessionTypeSelf g"
proof -
  have "last (session_key p mSessionTypeSelf g) \<noteq> last (session_key q mSessionTypePeer h)"
    by (simp add: session_key_def session_names)
  then show "session_key p mSessionTypeSelf g \<noteq> session_key q mSessionTypePeer h"
    "session_key q mSessionTypePeer h \<noteq> session_key p mSessionTypeSelf g" by auto
qed

lemma own_view_on_base:
  "prober_id (f (hw_base s)) = prober_id (hw_base s) \<Longrightarrow> own_view (on_base f s) = own_view s"
  by (simp add: own_view_def own_key_def on_base_def hw_config_def prober_id_def)

lemma own_view_set_base:
  "prober_id b = prober_id (hw_base s) \<Longrightarrow> own_view (s\<lparr>hw_base := b\<rparr>) = own_view s"
  using own_view_on_base [of "\<lambda>_. b" s] by (simp add: on_base_def)

lemma own_view_simps [simp]:
  "own_view (s\<lparr>mCancelSuspend := x\<rparr>) = own_view s"
  "own_view (s\<lparr>mPositiveProbingTimer := t\<rparr>) = own_view s"
  "own_view (s\<lparr>mPositiveProbingPeerTimer := t\<rparr>) = own_view s"
  "own_view (s\<lparr>hw_tasks := ts\<rparr>) = own_view s"
  "own_view (hw_post e s) = own_view s"
  "own_view (cancel_positive s) = own_view s"
  "own_view (cancel_positive_peer s) = own_view s"
  "own_view (LinkProberHw_createIcmpEchoSession ip_text mSessionTypePeer guid s) = own_view s"
  "own_view (LinkProberHw_deleteIcmpEchoSession mSessionTypePeer guid s) = own_view s"
  "own_view (delete_peer_session s) = own_view s"
  by (simp_all add: own_view_def own_key_def live_sessions_def hw_op_defs post_to_manager_def)

lemma own_view_own_session:
  "own_view (create_own_session ip_text s) = (mSuspendTx (hw_base s), mShutdownTx (hw_base s), True)"
  "own_view (delete_own_session s) = (mSuspendTx (hw_base s), mShutdownTx (hw_base s), False)"
  by (simp_all add: own_view_def own_key_def live_sessions_def hw_op_defs)

lemma hw_base_simps [simp]:
  "hw_base (on_base f s) = f (hw_base s)"
  "hw_base (create_own_session ip_text s) = hw_base s"
  "hw_base (delete_own_session s) = hw_base s"
  "hw_base (delete_peer_session s) = hw_base s"
  "hw_base (LinkProberHw_createIcmpEchoSession ip_text ty guid s) = hw_base s"
  "hw_base (LinkProberHw_deleteIcmpEchoSession ty guid s) = hw_base s"
  "hw_base (cancel_positive s) = hw_base s"
  "hw_base (cancel_positive_peer s) = hw_base s"
  "hw_base (hw_post e s) = post_to_manager [PostEvent e] (hw_base s)"
  by (simp_all add: hw_op_defs)

lemma prober_id_flags:
  "prober_id b' = prober_id b \<Longrightarrow> mSuspendTx b' = mSuspendTx b"
  "prober_id b' = prober_id b \<Longrightarrow> mShutdownTx b' = mShutdownTx b"
  "prober_id b' = prober_id b \<Longrightarrow> mSelfGuid b' = mSelfGuid b"
  "prober_id b' = prober_id b \<Longrightarrow> mPeerGuid b' = mPeerGuid b"
  "prober_id b' = prober_id b \<Longrightarrow> mPeerType b' = mPeerType b"
  "prober_id b' = prober_id b \<Longrightarrow> lp_mMuxPortConfig b' = lp_mMuxPortConfig b"
  by (simp_all add: prober_id_def)

lemmas base_flags [simp] = prober_id_basic [THEN prober_id_flags(1)] prober_id_basic [THEN prober_id_flags(2)]
  prober_id_basic [THEN prober_id_flags(3)] prober_id_basic [THEN prober_id_flags(4)]
  prober_id_basic [THEN prober_id_flags(5)] prober_id_basic [THEN prober_id_flags(6)]

lemma own_view_flags [simp]:
  "own_view (on_base (\<lambda>b. b\<lparr>mSuspendTx := x\<rparr>) s) = (x, snd (own_view s))"
  "own_view (on_base (\<lambda>b. b\<lparr>mShutdownTx := x\<rparr>) s) = (fst (own_view s), x, snd (snd (own_view s)))"
  by (simp_all add: own_view_def own_key_def on_base_def hw_config_def live_sessions_def)

lemma own_view_startProbing:
  "own_view (LinkProberHw_startProbing ip_text s) = own_step (HwCall StartProbing) (own_view s)"
  by (auto simp: LinkProberHw_startProbing_def Let_def own_view_on_base own_view_own_session own_view_def [of s]
      split del: if_split split: if_split)

lemma initialize_core:
  assumes "LinkProberHw_initialize ip_text r s = Some s'"
  obtains b where "s' = create_own_session ip_text (s\<lparr>hw_base := b\<rparr>)" and "prober_core b = prober_core (hw_base s)"
  using assms prober_core_run(4) by (auto simp: LinkProberHw_initialize_def bind_eq_Some_conv)

lemma own_view_call:
  assumes "LinkProberHw_call ip_text r c s = Some s'"
  shows "own_view s' = own_step (HwCall c) (own_view s)"
proof (cases c)
  case InitializeProber
  with assms have "LinkProberHw_initialize ip_text r s = Some s'" by simp
  then obtain b where "s' = create_own_session ip_text (s\<lparr>hw_base := b\<rparr>)" "prober_core b = prober_core (hw_base s)"
    by (rule initialize_core)
  then show ?thesis using InitializeProber
    by (simp add: own_view_own_session own_view_def [of s] prober_core_def prober_id_def)
next
  case (HandleStateDbStateUpdate st ty)
  then show ?thesis using assms
    by (auto simp: LinkProberHw_handleStateDbStateUpdate_def LinkProberHw_startPositiveProbingTimer_def)
qed (use assms in \<open>auto simp: own_view_startProbing LinkProberHw_resumeTxProbes_def LinkProberHw_restartTxProbes_def
    LinkProberHw_suspendTxProbes_def LinkProberHw_shutdownTxProbes_def LinkProberHw_updateEthernetFrame_def
    own_view_on_base own_view_own_session own_view_def [of s] Let_def\<close>)

lemma own_view_peer [simp]:
  "own_view (on_base (\<lambda>b. b\<lparr>mPeerGuid := g\<rparr>) s) = own_view s"
  "own_view (on_base (\<lambda>b. b\<lparr>mPeerType := x\<rparr>) s) = own_view s"
  "own_view (on_base (\<lambda>b. b\<lparr>mPeerType := x, mPeerGuid := g\<rparr>) s) = own_view s"
  by (simp_all add: own_view_def own_key_def on_base_def hw_config_def live_sessions_def)

lemma own_view_startTimer [simp]: "own_view (LinkProberHw_startTimer s) = own_view s"
  by (simp add: LinkProberHw_startTimer_def own_view_on_base)

lemma own_view_timeout: "LinkProberHw_handleTimeout ec s = Some s' \<Longrightarrow> own_view s' = own_view s"
  by (auto simp: LinkProberHw_handleTimeout_def software_peer_timeout_def Let_def bind_eq_Some_conv own_view_on_base
      LinkProberHw_reportHeartbeatReplyNotReceived_def split: session_type.splits if_splits)

lemma own_view_packet: "own_view (LinkProberHw_handleIcmpPayload ip_text n s) = own_view s"
proof -
  have hw: "own_view (handle_hw_guid ip_text g s) = own_view s" for g
    by (simp add: handle_hw_guid_def Let_def)
  have sw: "own_view (handle_sw_guid n g s) = own_view s" for g
    by (simp add: handle_sw_guid_def Let_def own_view_on_base LinkProberHw_reportHeartbeatReplyReceived_def)
  show ?thesis by (simp add: LinkProberHw_handleIcmpPayload_def Let_def own_view_on_base hw sw)
qed

lemma own_view_suspendTimeout:
  "own_view (LinkProberHw_handleSuspendTimeout ec s) = own_step (HwRun (DoTimer SuspendTimer ec)) (own_view s)"
  by (cases "own_view s") (simp add: LinkProberHw_handleSuspendTimeout_def Let_def)

lemma own_view_lift:
  assumes "lift_base f s = Some s'" and "\<And>b'. f (hw_base s) = Some b' \<Longrightarrow> prober_core b' = prober_core (hw_base s)"
  shows "own_view s' = own_view s"
  using assms by (auto simp: lift_base_def prober_core_def own_view_set_base)

lemma own_view_run:
  assumes "LinkProberHw_run ip_text r t s = Some s'"
  shows "own_view s' = own_step (HwRun t) (own_view s)"
proof (cases t)
  case (DoTimer i ec)
  then show ?thesis using assms own_view_timeout by (cases i) (auto simp: own_view_suspendTimeout)
next
  case (DoRecv res)
  then show ?thesis using assms by (cases res) (auto simp: own_view_packet split: if_splits)
qed (use assms prober_core_run in \<open>auto simp: own_view_on_base elim!: own_view_lift\<close>)

lemma own_view_step:
  assumes "hw_step ip_text e s s'"
  shows "own_view s' = own_step e (own_view s)"
  using assms
proof cases
  case (hw_run i t)
  then show ?thesis using own_view_run [OF hw_run(4)] by (simp add: own_view_on_base)
next
  case (hw_config cfg)
  then show ?thesis
    by (simp add: own_view_def own_key_def on_base_def live_sessions_def) (simp add: hw_config_def)
qed (auto simp: own_view_call own_view_on_base LinkProberHw_handlePositiveProbingTimeout_def take_hw_task_def
    fire_positive_def fire_positive_peer_def)

section \<open>The requests of the prober\<close>

text \<open>
  A request names the port, and either the own session with the own GUID or a session of a peer with the
  GUID of another ToR; a creation carries that GUID and the cookie of the hardware.
\<close>

definition session_of :: "string \<Rightarrow> string \<Rightarrow> string \<Rightarrow> string \<Rightarrow> bool" where
  "session_of name self ty guid \<longleftrightarrow>
     guid \<in> range guid_string \<and> (ty = mSessionTypeSelf \<and> guid = self \<or> ty = mSessionTypePeer \<and> guid \<noteq> self)"

fun request_ok :: "string \<Rightarrow> string \<Rightarrow> db_task \<Rightarrow> bool" where
  "request_ok name self (HandleIcmpEchoSession key fvs) \<longleftrightarrow>
     (\<exists>ty guid. key = session_key name ty guid \<and> session_of name self ty guid \<and>
        map_of fvs ''session_guid'' = Some guid \<and>
        map_of fvs ''session_cookie'' = Some (''0x'' @ hex_digits 8 (unat mHardwareCookie)))"
| "request_ok name self (HandleDeleteIcmpEchoSession key) \<longleftrightarrow>
     (\<exists>ty guid. key = session_key name ty guid \<and> session_of name self ty guid)"
| "request_ok name self _ \<longleftrightarrow> False"

definition peer_ok :: "link_prober \<Rightarrow> bool" where
  "peer_ok b \<longleftrightarrow>
     (if mPeerGuid b = [] then mPeerType b \<noteq> SessionHardware
      else mPeerGuid b \<in> range guid_string \<and> mPeerGuid b \<noteq> mSelfGuid b)"

definition hw_inv :: "string \<Rightarrow> string \<Rightarrow> hw_prober \<Rightarrow> bool" where
  "hw_inv name self s \<longleftrightarrow>
     mPortName (hw_config s) = name \<and> mSelfGuid (hw_base s) = self \<and> self \<in> range guid_string \<and>
     peer_ok (hw_base s) \<and> list_all (request_ok name self) (db_tasks (hw_db s))"

lemma hardware_cookie_text: "''0x'' @ hex_digits 8 (unat mHardwareCookie) = mSessionCookie"
proof -
  have "unat mHardwareCookie = 1484160634" by (simp add: mHardwareCookie_def)
  moreover have "(8::nat) = Suc (Suc (Suc (Suc (Suc (Suc (Suc (Suc 0)))))))" by simp
  ultimately show ?thesis by (simp only: hex_digits.simps) (simp add: hex_digit_def mSessionCookie_def)
qed

lemma hw_inv_on_base:
  "prober_id (f (hw_base s)) = prober_id (hw_base s) \<Longrightarrow> hw_inv name self (on_base f s) = hw_inv name self s"
  by (simp add: hw_inv_def on_base_def hw_config_def prober_id_def peer_ok_def)

lemma hw_inv_set_base:
  "prober_id b = prober_id (hw_base s) \<Longrightarrow> hw_inv name self (s\<lparr>hw_base := b\<rparr>) = hw_inv name self s"
  using hw_inv_on_base [of "\<lambda>_. b" s] by (simp add: on_base_def)

lemma hw_inv_simps [simp]:
  "hw_inv name self (s\<lparr>mCancelSuspend := x\<rparr>) = hw_inv name self s"
  "hw_inv name self (s\<lparr>mPositiveProbingTimer := t\<rparr>) = hw_inv name self s"
  "hw_inv name self (s\<lparr>mPositiveProbingPeerTimer := t\<rparr>) = hw_inv name self s"
  "hw_inv name self (s\<lparr>hw_tasks := ts\<rparr>) = hw_inv name self s"
  "hw_inv name self (hw_post e s) = hw_inv name self s"
  "hw_inv name self (cancel_positive s) = hw_inv name self s"
  "hw_inv name self (cancel_positive_peer s) = hw_inv name self s"
  "hw_inv name self (on_base (\<lambda>b. b\<lparr>mSuspendTx := y\<rparr>) s) = hw_inv name self s"
  "hw_inv name self (on_base (\<lambda>b. b\<lparr>mShutdownTx := y\<rparr>) s) = hw_inv name self s"
  by (simp_all add: hw_inv_def hw_op_defs post_to_manager_def peer_ok_def)

lemma session_entries_guid [simp]:
  "map_of (session_entries ip_text cfg guid) ''session_guid'' = Some guid"
  "map_of (session_entries ip_text cfg guid) ''session_cookie'' = Some mSessionCookie"
  by (simp_all add: session_entries_def)

lemma request_ok_session:
  "session_of name self ty guid \<Longrightarrow>
   request_ok name self (HandleIcmpEchoSession (session_key name ty guid) (session_entries ip_text cfg guid))"
  "session_of name self ty guid \<Longrightarrow> request_ok name self (HandleDeleteIcmpEchoSession (session_key name ty guid))"
  by (simp_all only: request_ok.simps hardware_cookie_text session_entries_guid) blast+

lemma hw_inv_db:
  "hw_inv name self s \<Longrightarrow> request_ok name self t \<Longrightarrow> hw_inv name self (on_db (db_post t) s)"
  by (simp add: hw_inv_def on_db_def hw_config_def db_post_def)

lemma hw_inv_session:
  assumes "hw_inv name self s" and "session_of name self ty guid"
  shows "hw_inv name self (LinkProberHw_createIcmpEchoSession ip_text ty guid s)"
    and "hw_inv name self (LinkProberHw_deleteIcmpEchoSession ty guid s)"
proof -
  have n: "mPortName (hw_config s) = name" using assms(1) by (simp add: hw_inv_def)
  show "hw_inv name self (LinkProberHw_createIcmpEchoSession ip_text ty guid s)"
    unfolding LinkProberHw_createIcmpEchoSession_def MuxPort_createIcmpEchoSession_def
      DbInterface_createIcmpEchoSession_def n
    by (rule hw_inv_db [OF assms(1) request_ok_session(1) [OF assms(2)]])
  show "hw_inv name self (LinkProberHw_deleteIcmpEchoSession ty guid s)"
    unfolding LinkProberHw_deleteIcmpEchoSession_def MuxPort_deleteIcmpEchoSession_def
      DbInterface_deleteIcmpEchoSession_def n
    by (rule hw_inv_db [OF assms(1) request_ok_session(2) [OF assms(2)]])
qed

lemma hw_inv_own_session:
  "hw_inv name self s \<Longrightarrow> hw_inv name self (create_own_session ip_text s)"
  "hw_inv name self s \<Longrightarrow> hw_inv name self (delete_own_session s)"
proof -
  assume h: "hw_inv name self s"
  then have "session_of name self mSessionTypeSelf (mSelfGuid (hw_base s))"
    by (simp add: hw_inv_def session_of_def)
  with h show "hw_inv name self (create_own_session ip_text s)" "hw_inv name self (delete_own_session s)"
    by (simp_all add: create_own_session_def delete_own_session_def hw_inv_session)
qed

lemma hw_inv_delete_peer:
  assumes "hw_inv name self s" and "mPeerGuid (hw_base s) \<noteq> []"
  shows "hw_inv name self (delete_peer_session s)"
  unfolding delete_peer_session_def
  by (rule hw_inv_session(2) [OF assms(1)]) (use assms in \<open>auto simp: hw_inv_def session_of_def peer_ok_def\<close>)

lemma getGuidStr_range: "getGuidStr rx n \<noteq> ''0x0'' \<Longrightarrow> getGuidStr rx n \<in> range guid_string"
  by (auto simp: getGuidStr_def simp del: upt_rec_numeral split: if_splits)

lemma guid_string_nonempty [simp]: "guid_string g \<noteq> []" "[] \<noteq> guid_string g"
  by (simp_all add: guid_string_def)

lemma hw_inv_startProbing: "hw_inv name self s \<Longrightarrow> hw_inv name self (LinkProberHw_startProbing ip_text s)"
  by (simp add: LinkProberHw_startProbing_def Let_def hw_inv_on_base hw_inv_own_session)

lemma hw_inv_startTimer [simp]: "hw_inv name self (LinkProberHw_startTimer s) = hw_inv name self s"
  by (simp add: LinkProberHw_startTimer_def hw_inv_on_base)

lemma hw_inv_call:
  assumes "LinkProberHw_call ip_text r c s = Some s'" and "hw_inv name self s"
  shows "hw_inv name self s'"
proof (cases c)
  case InitializeProber
  with assms have "LinkProberHw_initialize ip_text r s = Some s'" by simp
  then obtain b where "s' = create_own_session ip_text (s\<lparr>hw_base := b\<rparr>)" "prober_core b = prober_core (hw_base s)"
    by (rule initialize_core)
  then show ?thesis using assms(2) by (simp add: hw_inv_own_session hw_inv_set_base prober_core_def)
next
  case (HandleStateDbStateUpdate st ty)
  then show ?thesis using assms
    by (auto simp: LinkProberHw_handleStateDbStateUpdate_def LinkProberHw_startPositiveProbingTimer_def)
qed (use assms in \<open>auto simp: hw_inv_startProbing LinkProberHw_resumeTxProbes_def LinkProberHw_restartTxProbes_def
    LinkProberHw_suspendTxProbes_def LinkProberHw_shutdownTxProbes_def LinkProberHw_updateEthernetFrame_def
    hw_inv_on_base hw_inv_own_session Let_def\<close>)

lemma hw_inv_peer:
  assumes "hw_inv name self s" and "guid \<in> range guid_string" and "guid \<noteq> mSelfGuid (hw_base s)"
  shows "hw_inv name self (on_base (\<lambda>b. b\<lparr>mPeerGuid := guid\<rparr>) s)"
    and "hw_inv name self (on_base (\<lambda>b. b\<lparr>mPeerType := ty, mPeerGuid := guid\<rparr>) s)"
  using assms by (auto simp: hw_inv_def on_base_def hw_config_def peer_ok_def)

lemma hw_inv_hw_guid:
  assumes "hw_inv name self s" and "guid \<in> range guid_string"
  shows "hw_inv name self (handle_hw_guid ip_text guid s)"
proof (cases "mSelfGuid (hw_base s) = guid")
  case False
  define s1 where "s1 = (if mPeerType (hw_base s) = SessionHardware \<and> mPeerGuid (hw_base s) \<noteq> [] \<and>
      mPeerGuid (hw_base s) \<noteq> guid
    then hw_post (IcmpEvent IcmpPeerUnknownEvent) (cancel_positive_peer (delete_peer_session s)) else s)"
  have "hw_inv name self s1" using assms(1) by (simp add: s1_def hw_inv_delete_peer)
  moreover have "mSelfGuid (hw_base s1) = mSelfGuid (hw_base s)" by (simp add: s1_def)
  ultimately have "hw_inv name self (on_base (\<lambda>b. b\<lparr>mPeerType := SessionHardware, mPeerGuid := guid\<rparr>) s1)"
    using False assms(2) by (intro hw_inv_peer) simp_all
  moreover have "session_of name self mSessionTypePeer guid"
    using assms False by (auto simp: session_of_def hw_inv_def)
  moreover have "handle_hw_guid ip_text guid s = LinkProberHw_createIcmpEchoSession ip_text mSessionTypePeer guid
      (on_base (\<lambda>b. b\<lparr>mPeerType := SessionHardware, mPeerGuid := guid\<rparr>) s1)"
    using False by (simp add: handle_hw_guid_def s1_def Let_def)
  ultimately show ?thesis by (simp add: hw_inv_session)
qed (use assms in \<open>simp add: handle_hw_guid_def\<close>)

lemma hw_inv_software:
  assumes "hw_inv name self s" and "mPeerType (hw_base s) = SessionHardware"
  shows "hw_inv name self (on_base (\<lambda>b. b\<lparr>mPeerType := SessionSoftware\<rparr>)
    (hw_post e (cancel_positive_peer (delete_peer_session s))))"
proof -
  have "mPeerGuid (hw_base s) \<noteq> []" using assms by (auto simp: hw_inv_def peer_ok_def)
  from hw_inv_delete_peer [OF assms(1) this] have "hw_inv name self (hw_post e (cancel_positive_peer (delete_peer_session s)))"
    by simp
  then show ?thesis by (auto simp: hw_inv_def on_base_def hw_config_def peer_ok_def split: if_splits)
qed

lemma hw_inv_sw_guid:
  assumes "hw_inv name self s" and "guid \<in> range guid_string"
  shows "hw_inv name self (handle_sw_guid n guid s)"
proof (cases "guid = mSelfGuid (hw_base s)")
  case False
  define t where "t = (getNextTLVPtr (mRxBuffer (hw_base s)) mTlvStartOffset n \<noteq> None \<and>
    mRxBuffer (hw_base s) mTlvStartOffset \<noteq> TLV_SENTINEL)"
  define s1 where "s1 = (if \<not> t \<and> mPeerType (hw_base s) = SessionHardware
    then on_base (\<lambda>b. b\<lparr>mPeerType := SessionSoftware\<rparr>)
      (hw_post (IcmpEvent IcmpHwPeerUnknownEvent) (cancel_positive_peer (delete_peer_session s))) else s)"
  have inv: "hw_inv name self s1" using assms(1) by (simp add: s1_def hw_inv_software)
  have self: "guid \<noteq> mSelfGuid (hw_base s1)" using False by (simp add: s1_def)
  show ?thesis
    unfolding handle_sw_guid_def Let_def t_def [symmetric] s1_def [symmetric]
    using False inv hw_inv_peer(1) [OF inv assms(2) self]
    by (simp add: hw_inv_on_base LinkProberHw_reportHeartbeatReplyReceived_def)
qed (use assms in \<open>simp add: handle_sw_guid_def hw_inv_on_base\<close>)

lemma hw_inv_if:
  "(c \<Longrightarrow> hw_inv name self x) \<Longrightarrow> (\<not> c \<Longrightarrow> hw_inv name self y) \<Longrightarrow> hw_inv name self (if c then x else y)"
  by simp

lemma hw_inv_packet:
  assumes "hw_inv name self s"
  shows "hw_inv name self (LinkProberHw_handleIcmpPayload ip_text n s)"
proof -
  have recv: "hw_inv name self (on_base startRecv x)" if "hw_inv name self x" for x
    using that by (simp add: hw_inv_on_base)
  show ?thesis
    unfolding LinkProberHw_handleIcmpPayload_def Let_def
    by (intro hw_inv_if recv assms hw_inv_hw_guid hw_inv_sw_guid getGuidStr_range; elim conjE; assumption)
qed

lemma hw_inv_timeout: "LinkProberHw_handleTimeout ec s = Some s' \<Longrightarrow> hw_inv name self s \<Longrightarrow> hw_inv name self s'"
  by (auto simp: LinkProberHw_handleTimeout_def software_peer_timeout_def Let_def bind_eq_Some_conv hw_inv_on_base
      LinkProberHw_reportHeartbeatReplyNotReceived_def split: session_type.splits if_splits)

lemma hw_inv_lift:
  assumes "lift_base f s = Some s'" and "\<And>b'. f (hw_base s) = Some b' \<Longrightarrow> prober_core b' = prober_core (hw_base s)"
  shows "hw_inv name self s' = hw_inv name self s"
  using assms by (auto simp: lift_base_def prober_core_def hw_inv_set_base)

lemma hw_inv_run:
  assumes "LinkProberHw_run ip_text r t s = Some s'" and "hw_inv name self s"
  shows "hw_inv name self s'"
proof (cases t)
  case (DoTimer i ec)
  then show ?thesis using assms hw_inv_timeout
    by (cases i) (auto simp: LinkProberHw_handleSuspendTimeout_def Let_def)
next
  case (DoRecv res)
  then show ?thesis using assms by (cases res) (auto simp: hw_inv_packet split: if_splits)
qed (use assms prober_core_run in \<open>auto simp: hw_inv_on_base hw_inv_lift\<close>)

lemma hw_inv_step:
  assumes "hw_step ip_text e s s'" and "hw_inv name self s"
  shows "hw_inv name self s'"
  using assms(1)
proof cases
  case (hw_run i t)
  then show ?thesis using hw_inv_run [OF hw_run(4)] assms(2) by (simp add: hw_inv_on_base)
next
  case (hw_config cfg)
  then show ?thesis using assms(2) by (auto simp: hw_inv_def on_base_def hw_config_def peer_ok_def split: if_splits)
qed (use assms(2) in \<open>auto simp: hw_inv_call hw_inv_on_base LinkProberHw_handlePositiveProbingTimeout_def take_hw_task_def
    fire_positive_def fire_positive_peer_def\<close>)

lemma hw_inv_new: "hw_inv (mPortName cfg) (fst (generateGuid cfg)) (LinkProberHw_new tx0 rx0 size0 cfg)"
  by (simp add: hw_inv_def LinkProberHw_new_def LinkProberSw_new_def hw_config_def peer_ok_def
      DbInterface_new_def generateGuid_def Let_def)

lemma hw_runs_inv: "hw_runs ip_text es s s' \<Longrightarrow> hw_inv name self s \<Longrightarrow> hw_inv name self s'"
  by (induction rule: hw_runs.induct) (auto intro: hw_inv_step)

lemma hw_runs_view: "hw_runs ip_text es s s' \<Longrightarrow> own_view s' = fold own_step es (own_view s)"
  by (induction rule: hw_runs.induct) (simp_all add: own_view_step)

lemma hw_reachable_inv: "hw_reachable ip_text cfg s \<Longrightarrow> hw_inv (mPortName cfg) (fst (generateGuid cfg)) s"
  by (auto simp: hw_reachable_def intro: hw_runs_inv hw_inv_new)

section \<open>The timeout of the software peer\<close>

text \<open>The pending waits of the deadline timer together with its handlers that wait on the strand.\<close>

fun is_timeout :: "prober_task \<Rightarrow> bool" where
  "is_timeout (DoTimer ProbeTimer ec) = True"
| "is_timeout _ = False"

definition probe_loops :: "link_prober \<Rightarrow> nat" where
  "probe_loops b = (if tm_pending (prober_timers b ProbeTimer) then 1 else 0) + length (filter is_timeout (prober_tasks b))"

definition timeout_loops :: "hw_prober \<Rightarrow> nat" where
  "timeout_loops s = probe_loops (hw_base s)"

lemma is_timeout_iff: "is_timeout t \<longleftrightarrow> (\<exists>ec. t = DoTimer ProbeTimer ec)"
  by (cases t rule: is_timeout.cases) auto

lemma probe_loops_core: "prober_core b' = prober_core b \<Longrightarrow> probe_loops b' = probe_loops b"
  by (simp add: prober_core_def probe_loops_def)

lemmas probe_loops_base [simp] = prober_core_basic [THEN probe_loops_core]

lemma not_timeout_read [simp]: "\<not> is_timeout (read_handler k res)"
  by (cases k) simp_all

lemma probe_loops_timer [simp]:
  "probe_loops (prober_cancel_timer i b) = probe_loops b"
  "probe_loops (prober_start_timer i d b) = probe_loops b + (if i = ProbeTimer then 1 else 0)"
proof -
  show c: "probe_loops (prober_cancel_timer i b) = probe_loops b" for b
    by (cases i) (simp_all add: probe_loops_def prober_cancel_timer_def prober_post_task_def)
  have "probe_loops (prober_start_timer i d b) = probe_loops (prober_cancel_timer i b) + (if i = ProbeTimer then 1 else 0)"
    by (cases i) (simp_all add: probe_loops_def prober_start_timer_def prober_cancel_timer_def prober_post_task_def Let_def)
  then show "probe_loops (prober_start_timer i d b) = probe_loops b + (if i = ProbeTimer then 1 else 0)" using c by simp
qed

lemma probe_loops_post_task [simp]:
  "probe_loops (prober_post_task t b) = probe_loops b + (if is_timeout t then 1 else 0)"
  by (simp add: probe_loops_def prober_post_task_def)

lemma probe_loops_fields [simp]:
  "probe_loops (b\<lparr>prober_now := n\<rparr>) = probe_loops b"
  "probe_loops (b\<lparr>lp_mMuxPortConfig := cfg\<rparr>) = probe_loops b"
  "probe_loops (b\<lparr>mSuspendTx := x\<rparr>) = probe_loops b"
  "probe_loops (b\<lparr>mShutdownTx := x\<rparr>) = probe_loops b"
  "probe_loops (b\<lparr>mPeerGuid := g\<rparr>) = probe_loops b"
  "probe_loops (b\<lparr>mPeerType := ty\<rparr>) = probe_loops b"
  "probe_loops (b\<lparr>mRxBuffer := rx, prober_reads := ks\<rparr>) = probe_loops b"
  by (simp_all add: probe_loops_def)

lemma probe_loops_ops [simp]:
  "probe_loops (receive res bytes b) = probe_loops b"
  "probe_loops (probePeerTor b) = probe_loops b"
  "probe_loops (sendPeerSwitchCommand b) = probe_loops b"
  "probe_loops (sendPeerProbeCommand b) = probe_loops b"
  by (simp_all add: receive_def probePeerTor_def sendPeerSwitchCommand_def sendPeerProbeCommand_def split: list.split)

lemma probe_loops_stream_cancel [simp]: "probe_loops (stream_cancel b) = probe_loops b"
  by (simp add: stream_cancel_def probe_loops_def filter_empty_conv)

lemma probe_loops_fire:
  "tm_pending (prober_timers b i) \<Longrightarrow> probe_loops (fire_prober_timer i b) = probe_loops b"
  by (cases i) (auto simp: probe_loops_def fire_prober_timer_def prober_post_task_def)

lemma probe_loops_take:
  assumes "i < length (prober_tasks b)"
  shows "probe_loops (take_prober_task i b) + (if is_timeout (prober_tasks b ! i) then 1 else 0) = probe_loops b"
proof -
  have "prober_tasks b = take i (prober_tasks b) @ prober_tasks b ! i # drop (Suc i) (prober_tasks b)"
    using assms by (simp add: id_take_nth_drop)
  then have "length (filter is_timeout (prober_tasks b)) = length (filter is_timeout
      (take i (prober_tasks b) @ prober_tasks b ! i # drop (Suc i) (prober_tasks b)))" by simp
  then show ?thesis by (simp add: probe_loops_def take_prober_task_def)
qed

lemma timeout_loops_simps [simp]:
  "timeout_loops (on_base f s) = probe_loops (f (hw_base s))"
  "timeout_loops (s\<lparr>hw_base := b\<rparr>) = probe_loops b"
  "timeout_loops (s\<lparr>mCancelSuspend := x\<rparr>) = timeout_loops s"
  "timeout_loops (s\<lparr>mPositiveProbingTimer := t\<rparr>) = timeout_loops s"
  "timeout_loops (s\<lparr>mPositiveProbingPeerTimer := t\<rparr>) = timeout_loops s"
  "timeout_loops (s\<lparr>hw_tasks := ts\<rparr>) = timeout_loops s"
  "timeout_loops (hw_post e s) = timeout_loops s"
  "timeout_loops (cancel_positive s) = timeout_loops s"
  "timeout_loops (cancel_positive_peer s) = timeout_loops s"
  "timeout_loops (LinkProberHw_createIcmpEchoSession ip_text ty guid s) = timeout_loops s"
  "timeout_loops (LinkProberHw_deleteIcmpEchoSession ty guid s) = timeout_loops s"
  "timeout_loops (create_own_session ip_text s) = timeout_loops s"
  "timeout_loops (delete_own_session s) = timeout_loops s"
  "timeout_loops (delete_peer_session s) = timeout_loops s"
  by (simp_all add: timeout_loops_def)

lemma timeout_loops_startTimer [simp]: "timeout_loops (LinkProberHw_startTimer s) = Suc (timeout_loops s)"
  by (simp add: LinkProberHw_startTimer_def) (simp add: timeout_loops_def)

lemma timeout_loops_startProbing [simp]: "timeout_loops (LinkProberHw_startProbing ip_text s) = timeout_loops s"
  by (simp add: LinkProberHw_startProbing_def Let_def) (simp add: timeout_loops_def)

lemma timeout_loops_call:
  assumes "LinkProberHw_call ip_text r c s = Some s'"
  shows "timeout_loops s' = timeout_loops s"
proof (cases c)
  case InitializeProber
  with assms have "LinkProberHw_initialize ip_text r s = Some s'" by simp
  then obtain b where b: "s' = create_own_session ip_text (s\<lparr>hw_base := b\<rparr>)" and c: "prober_core b = prober_core (hw_base s)"
    by (rule initialize_core)
  show ?thesis by (simp add: b probe_loops_core [OF c] timeout_loops_def [of s])
next
  case (HandleStateDbStateUpdate st ty)
  then show ?thesis using assms
    by (auto simp: LinkProberHw_handleStateDbStateUpdate_def LinkProberHw_startPositiveProbingTimer_def)
qed (use assms in \<open>auto simp: LinkProberHw_resumeTxProbes_def LinkProberHw_restartTxProbes_def
    LinkProberHw_suspendTxProbes_def LinkProberHw_shutdownTxProbes_def LinkProberHw_updateEthernetFrame_def
    Let_def timeout_loops_def [of s]\<close>)

lemma timeout_loops_timeout: "LinkProberHw_handleTimeout ec s = Some s' \<Longrightarrow> timeout_loops s' = Suc (timeout_loops s)"
  by (auto simp: LinkProberHw_handleTimeout_def software_peer_timeout_def Let_def bind_eq_Some_conv timeout_loops_def [of s]
      LinkProberHw_reportHeartbeatReplyNotReceived_def split: session_type.splits if_splits)

lemma timeout_loops_hw_guid [simp]: "timeout_loops (handle_hw_guid ip_text guid s) = timeout_loops s"
  by (simp add: handle_hw_guid_def Let_def) (simp add: timeout_loops_def)

lemma timeout_loops_sw_guid:
  "timeout_loops (handle_sw_guid n guid s) =
     timeout_loops s + (if guid \<noteq> mSelfGuid (hw_base s) \<and> guid \<noteq> mPeerGuid (hw_base s) then 1 else 0)"
  by (simp add: handle_sw_guid_def Let_def LinkProberHw_reportHeartbeatReplyReceived_def) (auto simp: timeout_loops_def)

lemma timeout_loops_packet: "timeout_loops s \<le> timeout_loops (LinkProberHw_handleIcmpPayload ip_text n s)"
proof -
  have "timeout_loops (on_base startRecv x) = timeout_loops x" for x by (simp add: timeout_loops_def)
  then show ?thesis by (simp add: LinkProberHw_handleIcmpPayload_def Let_def timeout_loops_sw_guid)
qed

lemma timeout_loops_lift:
  assumes "lift_base f s = Some s'" and "\<And>b'. f (hw_base s) = Some b' \<Longrightarrow> prober_core b' = prober_core (hw_base s)"
  shows "timeout_loops s' = timeout_loops s"
  using assms by (auto simp: lift_base_def timeout_loops_def intro: probe_loops_core)

lemma timeout_loops_run:
  assumes "LinkProberHw_run ip_text r t s = Some s'"
  shows "timeout_loops s + (if is_timeout t then 1 else 0) \<le> timeout_loops s'"
proof (cases t)
  case (DoTimer i ec)
  then show ?thesis using assms
    by (cases i) (auto simp: timeout_loops_timeout LinkProberHw_handleSuspendTimeout_def Let_def timeout_loops_def [of s])
next
  case (DoRecv res)
  then show ?thesis using assms timeout_loops_packet by (cases res) (auto split: if_splits)
qed (use assms prober_core_run in \<open>auto simp: timeout_loops_lift timeout_loops_def [of s]\<close>)

lemma timeout_loops_step:
  assumes "hw_step ip_text e s s'"
  shows "timeout_loops s \<le> timeout_loops s'"
  using assms
proof cases
  case (hw_run i t r)
  have "timeout_loops (on_base (take_prober_task i) s) + (if is_timeout t then 1 else 0) = timeout_loops s"
    using probe_loops_take [OF hw_run(2)] hw_run(3) by (simp add: timeout_loops_def)
  with timeout_loops_run [OF hw_run(4)] show ?thesis by simp
next
  case (hw_timer i)
  then show ?thesis by (simp add: timer_expired_def probe_loops_fire) (simp add: timeout_loops_def)
qed (auto simp: timeout_loops_call LinkProberHw_handlePositiveProbingTimeout_def take_hw_task_def
    fire_positive_def fire_positive_peer_def timeout_loops_def [of s])

lemma timeout_loops_runs: "hw_runs ip_text es s s' \<Longrightarrow> timeout_loops s \<le> timeout_loops s'"
  by (induction rule: hw_runs.induct) (auto dest: timeout_loops_step)

lemma timeout_handler_waits:
  assumes "2 \<le> timeout_loops s"
  shows "\<exists>ec. DoTimer ProbeTimer ec \<in> set (prober_tasks (hw_base s))"
proof -
  have "filter is_timeout (prober_tasks (hw_base s)) \<noteq> []"
    using assms by (auto simp: timeout_loops_def probe_loops_def split: if_splits)
  then show ?thesis by (auto simp: filter_empty_conv is_timeout_iff)
qed

end
