(* ===== verification/Hardware_Properties.thy ===== *)
theory Hardware_Properties
  imports Link_Prober_Hw_Props Link_Prober_Props Db_Notification
begin

text \<open>
  The properties of the hardware prober: its own session is where the calls of the manager put it
  (C27), its requests name sessions whose state finds the way back to the port (C25), what a change of
  the state of a session reports (C35), and what a second software peer does to the strand (C34).
\<close>

section \<open>The own session\<close>

definition own_silent :: "own_view \<Rightarrow> bool" where
  "own_silent v \<longleftrightarrow> (fst v \<or> fst (snd v) \<longrightarrow> \<not> snd (snd v))"

lemma own_step_silent:
  assumes "HwCall UpdateEthernetFrame \<notin> set es" and "HwCall InitializeProber \<notin> set es" and "own_silent v"
  shows "own_silent (fold own_step es v)"
  using assms
proof (induction es arbitrary: v)
  case (Cons e es)
  have "own_silent (own_step e v)"
    using Cons.prems by (cases "(e, v)" rule: own_step.cases) (auto simp: own_silent_def)
  then show ?case using Cons.IH [of "own_step e v"] Cons.prems by simp
qed simp

text \<open>
  C27. The hardware prober refines a machine of three flags: suspended, shut down, own session present.
  After any run the flags, and whether the session table holds the own
  session once the requests are carried out, are those that the three-flag machine computes from the
  labels of the steps. Therefore a prober that is suspended or shut down has no own session, and the
  switch sends no heartbeats, as long as neither a new Ethernet frame nor the initialisation is asked
  for: these two request the session whatever the flags are.
\<close>
theorem hardware_session_follows_calls:
  assumes "hw_runs ip_text es s s'"
  shows "own_view s' = fold own_step es (own_view s) \<and>
    (HwCall UpdateEthernetFrame \<notin> set es \<and> HwCall InitializeProber \<notin> set es \<and> own_silent (own_view s) \<and>
     (mSuspendTx (hw_base s') \<or> mShutdownTx (hw_base s')) \<longrightarrow> own_key s' \<notin> live_sessions s')"
proof -
  have view: "own_view s' = fold own_step es (own_view s)" by (rule hw_runs_view [OF assms])
  moreover have "own_key s' \<notin> live_sessions s'"
    if "HwCall UpdateEthernetFrame \<notin> set es" "HwCall InitializeProber \<notin> set es" "own_silent (own_view s)"
      "mSuspendTx (hw_base s') \<or> mShutdownTx (hw_base s')"
    using own_step_silent [OF that(1-3)] that(4) by (simp flip: view) (auto simp: own_view_def own_silent_def)
  ultimately show ?thesis by blast
qed

section \<open>The way of a session's state back to its port\<close>

text \<open>The separator of the keys in the state data base.\<close>

definition state_db_key :: "string \<Rightarrow> string" where
  "state_db_key key = map (\<lambda>c. if c = CHR '':'' then CHR ''|'' else c) key"

lemma split_at_append: "c \<notin> set xs \<Longrightarrow> split_at c (xs @ c # ys) = Some (xs, ys)"
  by (induction xs) auto

lemma state_db_key_plain: "CHR '':'' \<notin> set xs \<Longrightarrow> state_db_key xs = xs"
  unfolding state_db_key_def by (rule map_idI) auto

lemma hex_digits_plain: "set ''0123456789abcdef'' \<subseteq> A \<Longrightarrow> set (hex_digits k n) \<subseteq> A"
proof (induction k arbitrary: n)
  case (Suc k)
  have "hex_digit (n mod 16) \<in> set ''0123456789abcdef''"
    unfolding hex_digit_def by (rule nth_mem) simp
  with Suc.prems have "hex_digit (n mod 16) \<in> A" by (rule subsetD)
  with Suc.IH [OF Suc.prems] show ?case by simp
qed simp

lemma guid_plain:
  assumes "guid \<in> range guid_string"
  shows "CHR '':'' \<notin> set guid" and "CHR ''|'' \<notin> set guid"
proof -
  obtain g where "guid = guid_string g" using assms by blast
  then have g: "guid = ''0x'' @ hex_digits 8 (unat g)" by (simp only: guid_string_def)
  have "set (hex_digits 8 (unat g)) \<subseteq> - {CHR '':'', CHR ''|''}" by (rule hex_digits_plain) simp
  then show "CHR '':'' \<notin> set guid" "CHR ''|'' \<notin> set guid" unfolding g by (auto simp del: hex_digits.simps)
qed

lemma session_key_read_back:
  assumes "CHR '':'' \<notin> set name" and "CHR ''|'' \<notin> set name" and "session_of name self ty guid"
  shows "DbInterface_extractIfnameAndSessionType (state_db_key (session_key name ty guid)) = (name, ty)"
proof -
  have g: "CHR '':'' \<notin> set guid" "CHR ''|'' \<notin> set guid" and ty: "ty = mSessionTypeSelf \<or> ty = mSessionTypePeer"
    using assms(3) guid_plain [of guid] by (auto simp: session_of_def)
  have ty': "CHR '':'' \<notin> set ty" "(if ty = mSessionTypeSelf then mSessionTypeSelf else mSessionTypePeer) = ty"
    using ty by (auto simp: session_names)
  have "state_db_key (session_key name ty guid) =
      mDefaultVrfName @ CHR ''|'' # name @ CHR ''|'' # guid @ CHR ''|'' # ty"
    unfolding session_key_def ty'(2)
    using assms(1) g(1) ty'(1) state_db_key_plain [of name] state_db_key_plain [of guid] state_db_key_plain [of ty]
    by (simp add: state_db_key_def mKeySeparator_def mDefaultVrfName_def)
  moreover have "CHR ''|'' \<notin> set mDefaultVrfName" by (simp add: mDefaultVrfName_def)
  ultimately show ?thesis using assms(2) g(2) by (simp add: DbInterface_extractIfnameAndSessionType_def split_at_append)
qed

lemma for_entries_last: "and_then r (for_entries f []) = r"
  by (cases r) simp_all

text \<open>
  C25. Every session that the prober asks for is its own or one of a foreign GUID, carries that GUID, and
  its key leads back: a notification of the state data base for the same key, written with the
  separator used there, is handed to the port whose prober asked for the session, with the type of
  the session. The name of the port must not contain either separator.
\<close>
theorem session_notification_comes_back:
  assumes "hw_reachable ip_text cfg s" and "HandleIcmpEchoSession key fvs \<in> set (db_tasks (hw_db s))"
    and "CHR '':'' \<notin> set (mPortName cfg)" and "CHR ''|'' \<notin> set (mPortName cfg)"
  shows "\<exists>ty guid. session_of (mPortName cfg) (fst (generateGuid cfg)) ty guid \<and>
    map_of fvs ''session_guid'' = Some guid \<and>
    (\<forall>lib op st m. DbInterface_dispatch lib stateDbIcmpEchoSessionTable [(state_db_key key, op, [(''state'', st)])] m =
       MuxManager_updateLinkFailureDetectionState (indeterminate lib (mPortName cfg)) (mPortName cfg) st ty m)"
proof -
  have "request_ok (mPortName cfg) (fst (generateGuid cfg)) (HandleIcmpEchoSession key fvs)"
    using hw_reachable_inv [OF assms(1)] assms(2) by (auto simp only: hw_inv_def list_all_iff)
  then obtain ty guid where k: "key = session_key (mPortName cfg) ty guid"
    and t: "session_of (mPortName cfg) (fst (generateGuid cfg)) ty guid" and g: "map_of fvs ''session_guid'' = Some guid"
    by (simp only: request_ok.simps) blast
  have "DbInterface_dispatch lib stateDbIcmpEchoSessionTable [(state_db_key key, op, [(''state'', st)])] m =
      MuxManager_updateLinkFailureDetectionState (indeterminate lib (mPortName cfg)) (mPortName cfg) st ty m"
    for lib op st m
    using session_key_read_back [OF assms(3,4) t]
    by (simp add: k DbInterface_processIcmpEchoSessionStateNotification_def find_field_def for_entries_last)
  with t g show ?thesis by blast
qed

section \<open>Reports of a session\<close>

definition machine_after :: "mux_port_config \<Rightarrow> prober_event list \<Rightarrow> prober_sm \<Rightarrow> prober_sm" where
  "machine_after cfg es m = fold (\<lambda>e m. fst (LinkProberStateMachineActiveActive_processEvent cfg e m)) es m"

lemma hw_self_event_activates:
  assumes "own_label (psm_current m)"
  shows "psm_current (fst (LinkProberStateMachineActiveActive_processEvent cfg (IcmpEvent IcmpHwSelfEvent) m)) = ProberActive"
  using assms
  by (cases "psm_current m")
    (simp_all add: LinkProberStateMachineBase_processEvent_def LinkProberState_handleEvent_def split: prod.splits)

lemma hw_unknown_event_own:
  assumes "own_label (psm_current m)"
  shows "own_label (psm_current (fst (LinkProberStateMachineActiveActive_processEvent cfg (IcmpEvent IcmpHwUnknownEvent) m)))"
  using assms
  by (cases "psm_current m")
    (simp_all add: LinkProberStateMachineBase_processEvent_def LinkProberState_handleEvent_def split: prod.splits cable_type.splits)

lemma unknown_then_active:
  assumes "own_label (psm_current m)"
  shows "psm_current (machine_after cfg [IcmpEvent IcmpHwUnknownEvent, IcmpEvent IcmpHwSelfEvent] m) = ProberActive"
  unfolding machine_after_def fold.simps o_apply id_apply
  by (rule hw_self_event_activates [OF hw_unknown_event_own [OF assms]])

definition own_state_update :: "string \<Rightarrow> hw_prober \<Rightarrow> hw_prober" where
  "own_state_update st s = LinkProberHw_handleStateDbStateUpdate st mSessionTypeSelf s"

definition run_positive :: "hw_prober \<Rightarrow> hw_prober" where
  "run_positive s = LinkProberHw_handlePositiveProbingTimeout (hd (hw_tasks s)) (take_hw_task 0 s)"

definition after_up :: "nat \<Rightarrow> hw_prober \<Rightarrow> hw_prober" where
  "after_up d s = on_base (\<lambda>b. b\<lparr>prober_now := prober_now b + d\<rparr>) (own_state_update mUpState s)"

definition after_down :: "nat \<Rightarrow> hw_prober \<Rightarrow> hw_prober" where
  "after_down d s = own_state_update mDownState (after_up d s)"

lemma session_up_reports:
  assumes "\<not> mSuspendTx (hw_base s)" and "\<not> mShutdownTx (hw_base s)"
    and "\<not> tm_pending (mPositiveProbingTimer s)" and "hw_tasks s = []"
  shows "posted (hw_base (after_up d s)) = posted (hw_base s)"
    and "timer_expired (prober_now (hw_base (after_up d s))) (mPositiveProbingTimer (after_up d s)) \<longleftrightarrow>
      unat (positive_interval s) \<le> d"
    and "posted (hw_base (run_positive (fire_positive (after_up d s)))) =
      posted (hw_base s) @ [PostEvent (IcmpEvent IcmpHwSelfEvent)]"
  using assms by (simp_all add: after_up_def own_state_update_def run_positive_def fire_positive_def
      take_hw_task_def hw_op_defs post_to_manager_def timer_expired_def session_names)

lemma session_down_reports:
  assumes "\<not> mSuspendTx (hw_base s)" and "\<not> mShutdownTx (hw_base s)"
    and "\<not> tm_pending (mPositiveProbingTimer s)" and "hw_tasks s = []"
  shows "posted (hw_base (after_down d s)) = posted (hw_base s) @ [PostEvent (IcmpEvent IcmpHwUnknownEvent)]"
    and "posted (hw_base (run_positive (after_down d s))) = posted (hw_base s) @
      [PostEvent (IcmpEvent IcmpHwUnknownEvent), PostEvent (IcmpEvent IcmpHwSelfEvent)]"
  using assms by (simp_all add: after_down_def after_up_def own_state_update_def run_positive_def
      take_hw_task_def hw_op_defs post_to_manager_def session_names)

text \<open>
  C35. What the state of the own session reports: Up reports nothing and arms a timer for the probing
  interval times the positive retry count, whose expiry reports the active event; Down reports the
  unknown event at once. When Down follows Up before that timer has been handled, the cancelled handler reports the active
  event all the same, after the unknown one: the state machine of the prober ends in Active
  from any of its states although the session is down.
\<close>
theorem hardware_session_reports:
  assumes "\<not> mSuspendTx (hw_base s)" and "\<not> mShutdownTx (hw_base s)"
    and "\<not> tm_pending (mPositiveProbingTimer s)" and "hw_tasks s = []" and "own_label (psm_current m)"
  shows "posted (hw_base (after_up d s)) = posted (hw_base s) \<and>
    (timer_expired (prober_now (hw_base (after_up d s))) (mPositiveProbingTimer (after_up d s)) \<longleftrightarrow>
      unat (positive_interval s) \<le> d) \<and>
    posted (hw_base (run_positive (fire_positive (after_up d s)))) =
      posted (hw_base s) @ [PostEvent (IcmpEvent IcmpHwSelfEvent)] \<and>
    posted (hw_base (after_down d s)) = posted (hw_base s) @ [PostEvent (IcmpEvent IcmpHwUnknownEvent)] \<and>
    posted (hw_base (run_positive (after_down d s))) = posted (hw_base s) @
      [PostEvent (IcmpEvent IcmpHwUnknownEvent), PostEvent (IcmpEvent IcmpHwSelfEvent)] \<and>
    psm_current (machine_after cfg [IcmpEvent IcmpHwUnknownEvent, IcmpEvent IcmpHwSelfEvent] m) = ProberActive"
  using session_up_reports [OF assms(1-4)] session_down_reports [OF assms(1-4)] unknown_then_active [OF assms(5)]
  by blast

section \<open>The timeout of a software peer\<close>

text \<open>
  C34. A packet of a software peer with a new GUID restarts the timeout, and the handler of the wait that is
  cancelled restarts it again. Once this has happened while a timeout was under way, every state of every
  later run has such a handler queued: the strand of the prober never comes to rest.
\<close>
theorem software_peer_change_never_rests:
  assumes "1 \<le> timeout_loops s" and "guid \<noteq> mSelfGuid (hw_base s)" and "guid \<noteq> mPeerGuid (hw_base s)"
    and "hw_runs ip_text es (handle_sw_guid n guid s) s'"
  shows "\<exists>ec. DoTimer ProbeTimer ec \<in> set (prober_tasks (hw_base s'))"
  using timeout_loops_runs [OF assms(4)] assms(1-3) by (intro timeout_handler_waits) (simp add: timeout_loops_sw_guid)

section \<open>Consequences of single operations\<close>

text \<open>A new frame requests the own session, even of a suspended prober.\<close>

lemma frame_update_probes_while_suspended:
  "mSuspendTx (hw_base s) \<Longrightarrow> hw_step ip_text (HwCall UpdateEthernetFrame) s s' \<Longrightarrow>
   mSuspendTx (hw_base s') \<and> own_key s' \<in> live_sessions s'"
  using own_view_step [of ip_text "HwCall UpdateEthernetFrame" s s'] by (simp add: own_view_def)

lemma session_key_inject [simp]: "session_key name ty g = session_key name ty h \<longleftrightarrow> g = h"
  by (auto simp: session_key_def)

text \<open>
  A TLV packet with another GUID replaces the recorded GUID of a hardware peer without deleting its
  session, and the deletion at the next change of the peer names the wrong session.
\<close>

lemma peer_session_left_behind:
  assumes "mPeerType (hw_base s) = SessionHardware" and "mPeerGuid (hw_base s) = g1"
    and "session_key (mPortName (hw_config s)) mSessionTypePeer g1 \<in> live_sessions s"
    and "getNextTLVPtr (mRxBuffer (hw_base s)) mTlvStartOffset n \<noteq> None"
    and "mRxBuffer (hw_base s) mTlvStartOffset \<noteq> TLV_SENTINEL"
    and "mSelfGuid (hw_base s) \<notin> {g2, g3}" and "g1 \<noteq> g2"
  shows "{session_key (mPortName (hw_config s)) mSessionTypePeer g1, session_key (mPortName (hw_config s)) mSessionTypePeer g3}
    \<subseteq> live_sessions (handle_hw_guid ip_text g3 (handle_sw_guid n g2 s))"
proof -
  let ?t = "handle_sw_guid n g2 s"
  have t: "mPeerType (hw_base ?t) = SessionHardware" "mPeerGuid (hw_base ?t) = g2" "hw_config ?t = hw_config s"
      "mSelfGuid (hw_base ?t) = mSelfGuid (hw_base s)" and live: "live_sessions ?t = live_sessions s"
    using assms by (auto simp: handle_sw_guid_def Let_def LinkProberHw_startTimer_def hw_config_def live_sessions_def hw_post_def
        cancel_positive_peer_def) (simp_all add: on_base_def)
  then show ?thesis using assms
    by (auto simp: handle_hw_guid_def Let_def hw_config_def hw_post_def delete_peer_session_def)
qed

text \<open>
  Only a peer that was once seen with the cookie of the hardware becomes a software peer; until then
  the end of an interval reports nothing.
\<close>

lemma silent_software_peer_unreported:
  assumes "mPeerType (hw_base s) = SessionUnknown"
  shows "mPeerType (hw_base (handle_sw_guid n guid s)) = SessionUnknown"
    and "\<exists>s'. LinkProberHw_handleTimeout ec s = Some s' \<and> posted (hw_base s') = posted (hw_base s)"
proof -
  have p: "posted (prober_start_timer i d b) = posted b" "posted (startRecv b) = posted b" for i d b
    by (simp_all add: prober_start_timer_def prober_cancel_timer_def prober_post_task_def startRecv_def Let_def)
  show "mPeerType (hw_base (handle_sw_guid n guid s)) = SessionUnknown"
    using assms by (simp add: handle_sw_guid_def Let_def LinkProberHw_startTimer_def LinkProberHw_reportHeartbeatReplyReceived_def)
  show "\<exists>s'. LinkProberHw_handleTimeout ec s = Some s' \<and> posted (hw_base s') = posted (hw_base s)"
    using assms by (simp add: LinkProberHw_handleTimeout_def LinkProberHw_startTimer_def p)
qed

text \<open>The software prober never takes its peer for one with a software prober, so it never probes it on demand.\<close>

lemma peer_type_call:
  "LinkProberSw_call r c b = Some b' \<Longrightarrow> c \<noteq> InitializeProber \<Longrightarrow> mPeerType b' = mPeerType b"
  by (cases c) (auto simp: LinkProberSw_startProbing_def LinkProberSw_startTimer_def LinkProberSw_updateEthernetFrame_def
      LinkProberSw_detectLink_def LinkProberSw_suspendTxProbes_def LinkProberSw_resumeTxProbes_def
      LinkProberSw_shutdownTxProbes_def LinkProberSw_restartTxProbes_def LinkProberSw_resetIcmpPacketCounts_def
      LinkProberSw_decreaseProbeIntervalAfterSwitch_def LinkProberSw_revertProbeIntervalAfterSwitchComplete_def)

lemma peer_type_report [simp]:
  "mPeerType (reportHeartbeatReplyReceived h b) = mPeerType b"
  "mPeerType (reportHeartbeatReplyNotReceived h b) = mPeerType b"
  by (simp_all add: reportHeartbeatReplyReceived_def reportHeartbeatReplyNotReceived_def Let_def split: cable_type.splits)

lemma peer_type_timeout: "LinkProberSw_handleTimeout ec b = Some b' \<Longrightarrow> mPeerType b' = mPeerType b"
  by (auto simp: LinkProberSw_handleTimeout_def LinkProberSw_startProbing_def LinkProberSw_startTimer_def Let_def split: if_splits)

lemma peer_type_run:
  assumes "LinkProberSw_run r t b = Some b'" and "mPeerType b \<noteq> SessionSoftware"
  shows "mPeerType b' \<noteq> SessionSoftware"
proof (cases t)
  case (DoTimer i ec)
  then show ?thesis using assms peer_type_timeout
    by (cases i) (auto simp: LinkProberSw_handleSuspendTimeout_def LinkProberSw_handleSwitchoverTimeout_def Let_def split: if_splits)
next
  case (DoRecv res)
  then show ?thesis using assms
    by (cases res) (auto simp: LinkProberSw_handleIcmpPayload_def Let_def split: if_splits)
qed (use assms in \<open>auto dest!: prober_core_run simp: prober_core_def prober_id_def\<close>)

lemma software_prober_never_probes_peer:
  assumes "prober_reachable cfg n s"
  shows "mPeerType s \<noteq> SessionSoftware" and "probePeerTor s = s"
proof -
  show "mPeerType s \<noteq> SessionSoftware"
    using assms
  proof induction
    case (prober_start r tx0 rx0 size0 s)
    then have "prober_id s = prober_id (LinkProberSw_new tx0 rx0 size0 cfg)"
      using prober_core_run(4) by (simp add: LinkProberSw_initialize_def prober_core_def)
    then show ?case by (simp add: prober_id_def LinkProberSw_new_def)
  next
    case (prober_next n s s')
    from prober_next.hyps(2) show ?case
      by cases (use prober_next.IH in \<open>auto simp: peer_type_call dest: peer_type_run\<close>)
  qed
  then show "probePeerTor s = s" by (simp add: probePeerTor_def)
qed

section \<open>Witnesses\<close>

definition hw_config0 :: mux_port_config where
  "hw_config0 = MuxPortConfig_new ProberHardware (MuxConfig_new [2, 0, 0, 0, 0, 1] [2, 0, 0, 0, 0, 2])
     ''Ethernet0'' 1 CableActiveActive"

definition hw_prober0 :: hw_prober where
  "hw_prober0 = LinkProberHw_new (\<lambda>_. 0) (\<lambda>_. 0) 0 hw_config0"

lemma hw_initialize_ok:
  obtains s where "hw_runs ip_text [HwCall InitializeProber] (LinkProberHw_new tx0 rx0 size0 cfg) s"
    and "HandleIcmpEchoSession (own_key s) (session_entries ip_text cfg (fst (generateGuid cfg))) \<in> set (db_tasks (hw_db s))"
proof -
  let ?n = "LinkProberHw_new tx0 rx0 size0 cfg"
  have "length (mSelfUUID (attachFilter (hw_base ?n))) = 16" by (simp add: attachFilter_def LinkProberHw_new_def LinkProberSw_new_def generateGuid_def Let_def)
  then obtain b where "initializeSendBuffer 0 (attachFilter (hw_base ?n)) = Some b" using initializeSendBuffer_frame by blast
  then obtain b where b: "setupSocket 0 (hw_base ?n) = Some b" by (simp add: setupSocket_def)
  then have id: "prober_id b = prober_id (hw_base ?n)" using prober_core_run(4) by (simp add: prober_core_def)
  let ?s = "create_own_session ip_text (?n\<lparr>hw_base := b\<rparr>)"
  have "LinkProberHw_call ip_text 0 InitializeProber ?n = Some ?s" by (simp add: LinkProberHw_initialize_def b)
  from hw_more [OF hw_none hw_call [OF this]] have "hw_runs ip_text [HwCall InitializeProber] ?n ?s" by simp
  moreover have "lp_mMuxPortConfig b = cfg" "mSelfGuid b = fst (generateGuid cfg)"
    using id by (simp_all add: prober_id_def LinkProberHw_new_def LinkProberSw_new_def)
  then have "HandleIcmpEchoSession (own_key ?s) (session_entries ip_text cfg (fst (generateGuid cfg))) \<in> set (db_tasks (hw_db ?s))"
    by (simp add: hw_op_defs own_key_def)
  ultimately show ?thesis by (rule that)
qed

theorem hardware_session_follows_calls_witness:
  "\<exists>s. hw_runs (\<lambda>_. []) [HwCall InitializeProber, HwCall (SuspendTx 300), HwCall ResumeTx] hw_prober0 s \<and>
     own_view s = (True, False, False)"
proof -
  obtain s0 where i: "hw_runs (\<lambda>_. []) [HwCall InitializeProber] hw_prober0 s0"
    using hw_initialize_ok unfolding hw_prober0_def by blast
  let ?s1 = "LinkProberHw_suspendTxProbes 300 s0"
  let ?s2 = "LinkProberHw_resumeTxProbes (\<lambda>_. []) ?s1"
  have "hw_step (\<lambda>_. []) (HwCall (SuspendTx 300)) s0 ?s1" "hw_step (\<lambda>_. []) (HwCall ResumeTx) ?s1 ?s2"
    by (rule hw_call, simp)+
  from hw_more [OF hw_more [OF i this(1)] this(2)]
  have r: "hw_runs (\<lambda>_. []) [HwCall InitializeProber, HwCall (SuspendTx 300), HwCall ResumeTx] hw_prober0 ?s2" by simp
  have "own_view hw_prober0 = (False, False, False)"
    by (simp add: own_view_def hw_prober0_def LinkProberHw_new_def LinkProberSw_new_def live_sessions_def DbInterface_new_def)
  with hardware_session_follows_calls [OF r] r show ?thesis by auto
qed

theorem session_notification_comes_back_witness:
  "\<exists>s key fvs ty guid. hw_reachable (\<lambda>_. ''10.0.0.1'') hw_config0 s \<and>
     HandleIcmpEchoSession key fvs \<in> set (db_tasks (hw_db s)) \<and> map_of fvs ''session_guid'' = Some guid \<and>
     (\<forall>lib m. DbInterface_dispatch lib stateDbIcmpEchoSessionTable [(state_db_key key, ''SET'', [(''state'', ''Up'')])] m =
        MuxManager_updateLinkFailureDetectionState (indeterminate lib ''Ethernet0'') ''Ethernet0'' ''Up'' ty m)"
proof -
  obtain s key fvs where r: "hw_reachable (\<lambda>_. ''10.0.0.1'') hw_config0 s"
    and h: "HandleIcmpEchoSession key fvs \<in> set (db_tasks (hw_db s))"
    using hw_initialize_ok unfolding hw_reachable_def by metis
  have n: "mPortName hw_config0 = ''Ethernet0''" by (simp add: hw_config0_def MuxPortConfig_new_def)
  from session_notification_comes_back [OF r h] obtain ty guid where g: "map_of fvs ''session_guid'' = Some guid"
    and d: "\<And>lib op st m. DbInterface_dispatch lib stateDbIcmpEchoSessionTable [(state_db_key key, op, [(''state'', st)])] m =
      MuxManager_updateLinkFailureDetectionState (indeterminate lib ''Ethernet0'') ''Ethernet0'' st ty m"
    by (auto simp: n)
  from r h g d show ?thesis by blast
qed

theorem hardware_session_reports_witness:
  "posted (hw_base (run_positive (after_down 50 hw_prober0))) =
     [PostEvent (IcmpEvent IcmpHwUnknownEvent), PostEvent (IcmpEvent IcmpHwSelfEvent)] \<and>
   psm_current (machine_after hw_config0 [IcmpEvent IcmpHwUnknownEvent, IcmpEvent IcmpHwSelfEvent]
     (LinkProberStateMachineActiveActive_new ProberWait)) = ProberActive"
  using hardware_session_reports [of hw_prober0 "LinkProberStateMachineActiveActive_new ProberWait" 50 hw_config0]
  by (simp add: hw_prober0_def LinkProberHw_new_def LinkProberSw_new_def LinkProberStateMachineActiveActive_new_def)

theorem software_peer_change_never_rests_witness:
  "\<exists>ec s'. hw_runs (\<lambda>_. []) [HwRun (DoTimer ProbeTimer ec)]
      (handle_sw_guid 0 (guid_string 2) (handle_sw_guid 0 (guid_string 1) hw_prober0)) s' \<and>
     (\<exists>ec. DoTimer ProbeTimer ec \<in> set (prober_tasks (hw_base s')))"
proof -
  let ?s = "handle_sw_guid 0 (guid_string 1) hw_prober0"
  let ?s1 = "handle_sw_guid 0 (guid_string 2) ?s"
  have guids: "deterministicGuid hw_config0 \<noteq> 1" "deterministicGuid hw_config0 \<noteq> 2"
    by (simp_all add: deterministicGuid_def hw_config0_def MuxPortConfig_new_def MuxConfig_new_def)
  have self: "mSelfGuid (hw_base hw_prober0) = guid_string (deterministicGuid hw_config0)"
    by (simp add: hw_prober0_def LinkProberHw_new_def LinkProberSw_new_def generateGuid_def Let_def)
  have peer: "mPeerGuid (hw_base hw_prober0) = []" "mPeerType (hw_base hw_prober0) = SessionUnknown"
    by (simp_all add: hw_prober0_def LinkProberHw_new_def LinkProberSw_new_def)
  have s: "mSelfGuid (hw_base ?s) = guid_string (deterministicGuid hw_config0)" "mPeerGuid (hw_base ?s) = guid_string 1"
      "mPeerType (hw_base ?s) = SessionUnknown"
    using self peer guids
    by (simp_all add: handle_sw_guid_def Let_def LinkProberHw_startTimer_def)
  have one: "1 \<le> timeout_loops ?s" using self peer guids by (simp add: timeout_loops_sw_guid)
  then have "2 \<le> timeout_loops ?s1" using s guids by (simp add: timeout_loops_sw_guid)
  then obtain ec where "DoTimer ProbeTimer ec \<in> set (prober_tasks (hw_base ?s1))" using timeout_handler_waits by blast
  then obtain i where i: "i < length (prober_tasks (hw_base ?s1))" "DoTimer ProbeTimer ec = prober_tasks (hw_base ?s1) ! i"
    by (auto simp: in_set_conv_nth)
  have "mPeerType (hw_base ?s1) = SessionUnknown"
    using s guids by (simp add: handle_sw_guid_def Let_def LinkProberHw_startTimer_def)
  then have "LinkProberHw_run (\<lambda>_. []) 0 (DoTimer ProbeTimer ec) (on_base (take_prober_task i) ?s1) =
      Some (LinkProberHw_startTimer (on_base startRecv (on_base (take_prober_task i) ?s1)))"
    by (simp add: LinkProberHw_handleTimeout_def)
  from hw_more [OF hw_none hw_run [OF i this]] have run: "hw_runs (\<lambda>_. []) [HwRun (DoTimer ProbeTimer ec)] ?s1
      (LinkProberHw_startTimer (on_base startRecv (on_base (take_prober_task i) ?s1)))" by simp
  from software_peer_change_never_rests [OF one _ _ run] s guids run show ?thesis by auto
qed

end
