(* ===== verification/Hardware_Port.thy ===== *)
theory Hardware_Port
  imports Hardware_Properties Port_Footprint Sub_Machine_Properties "HOL-Library.Code_Target_Nat"
begin

text \<open>
  An active-active port together with its hardware prober. The manager creates the prober, calls it
  and shares its configuration with it; what the prober posts arrives on the strand of the port.
\<close>

section \<open>The composition\<close>

text \<open>What the prober posts becomes a task of the port: an event of the prober machine or a notification.\<close>

fun report_task :: "prober_post \<Rightarrow> task" where
  "report_task (PostEvent e) = TaskProberEvent e"
| "report_task (PostPckLossRatioUpdate n k) = TaskPckLossRatio n k"
| "report_task (PostMacUpdate a) = TaskServerMac a"

text \<open>The calls of one handler, in their order; the calls to the port object do not reach the prober.\<close>

fun deliver :: "(ip_address \<Rightarrow> string) \<Rightarrow> u16 \<Rightarrow> call list \<Rightarrow> hw_prober \<Rightarrow> hw_prober option" where
  "deliver ip_text r [] x = Some x"
| "deliver ip_text r (c # cs) x = Option.bind (LinkProberHw_call ip_text r c x) (deliver ip_text r cs)"

text \<open>The prober holds a reference to the configuration of the port, and they share the clock.\<close>

definition beside :: "aa_state \<Rightarrow> hw_prober \<Rightarrow> hw_prober" where
  "beside p = on_base (\<lambda>b. b\<lparr>lp_mMuxPortConfig := mMuxPortConfig p, prober_now := now_ms p\<rparr>)"

text \<open>
  The prober that the calls of a handler meet, with a flag that tells whether it was initialised: the
  present one, or a new one in the handler that creates it.
\<close>

fun met_prober :: "buffer \<times> buffer \<times> nat \<Rightarrow> aa_state \<Rightarrow> (hw_prober \<times> bool) option \<Rightarrow> hw_prober \<times> bool" where
  "met_prober m p (Some (x, b)) = (beside p x, b)"
| "met_prober (tx0, rx0, size0) p None = (beside p (LinkProberHw_new tx0 rx0 size0 (mMuxPortConfig p)), False)"

definition new_reports :: "hw_prober \<Rightarrow> hw_prober \<Rightarrow> task list" where
  "new_reports x x' = map report_task (drop (length (posted (hw_base x))) (posted (hw_base x')))"

definition fresh_calls :: "aa_state \<Rightarrow> aa_state \<Rightarrow> call list" where
  "fresh_calls p p' = drop (length (calls p)) (calls p')"

text \<open>
  The steps of the two strands. With \<open>env\<close> they include what comes from outside: notifications,
  changes of the shared configuration, packets and read errors.
\<close>

inductive port_work :: "bool \<Rightarrow> aa_state \<Rightarrow> aa_state \<Rightarrow> bool" where
  work_outside: "port_step AA_run p p' \<Longrightarrow> port_work True p p'"
| work_task: "i < length (tasks p) \<Longrightarrow> AA_run (tasks p ! i) (take_task i p) = Some p' \<Longrightarrow> port_work env p p'"
| work_timer: "timer_due i p \<Longrightarrow> port_work env p (fire_timer i p)"
| work_clock: "port_work env p (p\<lparr>now_ms := now_ms p + d\<rparr>)"

fun own_event :: "bool \<Rightarrow> hw_event \<Rightarrow> bool" where
  "own_event env (HwPacket bytes) = env"
| "own_event env HwReadError = env"
| "own_event env (HwCall c) = False"
| "own_event env (HwConfig cfg) = False"
| "own_event env (HwClock d) = False"
| "own_event env _ = True"

text \<open>
  A step of the port with the calls it makes, or a step of the prober on its own strand; a port whose cable
  gets the software prober takes no further step here.
\<close>

type_synonym hw_port = "aa_state \<times> (hw_prober \<times> bool) option"

inductive hw_port_step :: "(ip_address \<Rightarrow> string) \<Rightarrow> bool \<Rightarrow> hw_port \<Rightarrow> hw_port \<Rightarrow> bool" for ip_text env where
  port_without_prober: "port_work env p p' \<Longrightarrow> mLinkProberPtr p' = None \<Longrightarrow> hw_port_step ip_text env (p, None) (p', None)"
| port_with_prober: "port_work env p p' \<Longrightarrow> mLinkProberPtr p' = Some ProberHardware \<Longrightarrow>
    met_prober m p' h = (x, b) \<Longrightarrow> deliver ip_text r (fresh_calls p p') x = Some x' \<Longrightarrow>
    hw_port_step ip_text env (p, h)
      (post_tasks (new_reports x x') p', Some (x', b \<or> InitializeProber \<in> set (fresh_calls p p')))"
| prober_alone: "hw_step ip_text e x x' \<Longrightarrow> own_event env e \<Longrightarrow>
    hw_port_step ip_text env (p, Some (x, b)) (post_tasks (new_reports x x') p, Some (x', b))"

inductive hw_port_run :: "(ip_address \<Rightarrow> string) \<Rightarrow> bool \<Rightarrow> hw_port \<Rightarrow> hw_port \<Rightarrow> bool" for ip_text env where
  hw_port_stay: "hw_port_run ip_text env s s"
| hw_port_next: "hw_port_run ip_text env s s' \<Longrightarrow> hw_port_step ip_text env s' s'' \<Longrightarrow> hw_port_run ip_text env s s''"

definition hw_port_reachable :: "(ip_address \<Rightarrow> string) \<Rightarrow> mux_port_config \<Rightarrow> hw_port \<Rightarrow> bool" where
  "hw_port_reachable ip_text cfg = hw_port_run ip_text True (ActiveActiveStateMachine_new cfg, None)"

lemma port_work_step: "port_work env p p' \<Longrightarrow> port_step AA_run p p'"
  by (induction rule: port_work.induct) (auto intro: port_step.intros)

section \<open>A suspension in progress\<close>

text \<open>The suspend timer runs, or its handler is queued and will report the end of the suspension.\<close>

definition timer_armed :: "timer \<Rightarrow> bool" where
  "timer_armed t \<longleftrightarrow> tm_pending t \<and> tm_expiry t \<noteq> None"

definition end_is_coming :: "hw_prober \<Rightarrow> bool" where
  "end_is_coming x \<longleftrightarrow> timer_armed (prober_timers (hw_base x) SuspendTimer) \<or>
     DoTimer SuspendTimer Success \<in> set (prober_tasks (hw_base x)) \<or>
     mCancelSuspend x \<and> DoTimer SuspendTimer OperationAborted \<in> set (prober_tasks (hw_base x))"

text \<open>The report of the end is on its way through the strand of the port.\<close>

definition end_reported :: "aa_state \<Rightarrow> bool" where
  "end_reported p \<longleftrightarrow> TaskProberEvent SuspendTimerExpiredEvent \<in> set (tasks p) \<or> TaskSuspendTimerExpiry \<in> set (tasks p)"

definition own_absent :: "hw_prober \<Rightarrow> bool" where
  "own_absent x \<longleftrightarrow> \<not> mShutdownTx (hw_base x) \<and> own_key x \<notin> live_sessions x"

definition suspension_inv :: "bool \<Rightarrow> bool \<Rightarrow> hw_prober \<Rightarrow> bool" where
  "suspension_inv started reported x \<longleftrightarrow>
     (mSuspendTx (hw_base x) \<longrightarrow> end_is_coming x) \<and>
     (started \<and> own_absent x \<longrightarrow> end_is_coming x \<or> reported)"

lemma own_absent_view: "own_absent x \<longleftrightarrow> \<not> fst (snd (own_view x)) \<and> \<not> snd (snd (own_view x))"
  by (simp add: own_absent_def own_view_def)

lemma suspended_view: "mSuspendTx (hw_base x) = fst (own_view x)"
  by (simp add: own_view_def)

text \<open>What \<open>end_is_coming\<close> looks at.\<close>

definition suspend_handlers :: "link_prober \<Rightarrow> bool \<times> bool \<times> bool" where
  "suspend_handlers b = (timer_armed (prober_timers b SuspendTimer),
     DoTimer SuspendTimer Success \<in> set (prober_tasks b), DoTimer SuspendTimer OperationAborted \<in> set (prober_tasks b))"

definition suspend_status :: "hw_prober \<Rightarrow> bool \<times> bool \<times> bool \<times> bool" where
  "suspend_status x = (mCancelSuspend x, suspend_handlers (hw_base x))"

lemma end_is_coming_status: "suspend_status x' = suspend_status x \<Longrightarrow> end_is_coming x' = end_is_coming x"
  by (simp add: suspend_status_def suspend_handlers_def end_is_coming_def)

lemma suspend_handlers_core: "prober_core b' = prober_core b \<Longrightarrow> suspend_handlers b' = suspend_handlers b"
  by (simp add: prober_core_def suspend_handlers_def)

lemmas suspend_handlers_basic [simp] = prober_core_basic [THEN suspend_handlers_core]

fun is_suspend_handler :: "prober_task \<Rightarrow> bool" where
  "is_suspend_handler (DoTimer SuspendTimer ec) = True"
| "is_suspend_handler _ = False"

lemma suspend_handlers_post [simp]:
  "\<not> is_suspend_handler t \<Longrightarrow> suspend_handlers (prober_post_task t b) = suspend_handlers b"
  by (auto simp: suspend_handlers_def prober_post_task_def)

lemma not_suspend_read [simp]: "\<not> is_suspend_handler (read_handler k res)"
  by (cases k) simp_all

lemma suspend_handlers_timer [simp]:
  "suspend_handlers (prober_cancel_timer ProbeTimer b) = suspend_handlers b"
  "suspend_handlers (prober_start_timer ProbeTimer d b) = suspend_handlers b"
proof -
  show c: "suspend_handlers (prober_cancel_timer ProbeTimer b) = suspend_handlers b" for b
    by (simp add: prober_cancel_timer_def suspend_handlers_def prober_post_task_def)
  have "suspend_handlers (prober_start_timer ProbeTimer d b) = suspend_handlers (prober_cancel_timer ProbeTimer b)"
    by (simp add: prober_start_timer_def suspend_handlers_def Let_def)
  then show "suspend_handlers (prober_start_timer ProbeTimer d b) = suspend_handlers b" using c by simp
qed

lemma suspend_handlers_fields [simp]:
  "suspend_handlers (b\<lparr>prober_now := n\<rparr>) = suspend_handlers b"
  "suspend_handlers (b\<lparr>lp_mMuxPortConfig := cfg\<rparr>) = suspend_handlers b"
  "suspend_handlers (b\<lparr>mSuspendTx := y\<rparr>) = suspend_handlers b"
  "suspend_handlers (b\<lparr>mShutdownTx := y\<rparr>) = suspend_handlers b"
  "suspend_handlers (b\<lparr>mPeerGuid := g\<rparr>) = suspend_handlers b"
  "suspend_handlers (b\<lparr>mPeerType := ty\<rparr>) = suspend_handlers b"
  "suspend_handlers (b\<lparr>mPeerType := ty, mPeerGuid := g\<rparr>) = suspend_handlers b"
  "suspend_handlers (b\<lparr>mRxBuffer := rx, prober_reads := ks\<rparr>) = suspend_handlers b"
  by (simp_all add: suspend_handlers_def)

lemma suspend_handlers_stream_cancel [simp]: "suspend_handlers (stream_cancel b) = suspend_handlers b"
proof -
  have "DoTimer SuspendTimer ec \<noteq> read_handler k IoAborted" for ec k by (cases k) simp_all
  then show ?thesis by (auto simp: suspend_handlers_def stream_cancel_def)
qed

lemma suspend_handlers_ops [simp]:
  "suspend_handlers (receive res bytes b) = suspend_handlers b"
  "suspend_handlers (probePeerTor b) = suspend_handlers b"
  "suspend_handlers (sendPeerSwitchCommand b) = suspend_handlers b"
  "suspend_handlers (sendPeerProbeCommand b) = suspend_handlers b"
  by (simp_all add: receive_def probePeerTor_def sendPeerSwitchCommand_def sendPeerProbeCommand_def split: list.split)

lemma suspend_status_base:
  "suspend_handlers (f (hw_base x)) = suspend_handlers (hw_base x) \<Longrightarrow> suspend_status (on_base f x) = suspend_status x"
  by (simp add: suspend_status_def) (simp add: on_base_def)

lemma suspend_status_simps [simp]:
  "suspend_status (x\<lparr>mPositiveProbingTimer := t\<rparr>) = suspend_status x"
  "suspend_status (x\<lparr>mPositiveProbingPeerTimer := t\<rparr>) = suspend_status x"
  "suspend_status (x\<lparr>hw_tasks := ts\<rparr>) = suspend_status x"
  "suspend_status (hw_post e x) = suspend_status x"
  "suspend_status (cancel_positive x) = suspend_status x"
  "suspend_status (cancel_positive_peer x) = suspend_status x"
  "suspend_status (LinkProberHw_createIcmpEchoSession ip_text ty guid x) = suspend_status x"
  "suspend_status (LinkProberHw_deleteIcmpEchoSession ty guid x) = suspend_status x"
  "suspend_status (create_own_session ip_text x) = suspend_status x"
  "suspend_status (delete_own_session x) = suspend_status x"
  "suspend_status (delete_peer_session x) = suspend_status x"
  by (simp_all add: suspend_status_def) (simp_all add: hw_op_defs)

lemma suspend_status_startTimer [simp]: "suspend_status (LinkProberHw_startTimer x) = suspend_status x"
  by (simp add: LinkProberHw_startTimer_def suspend_status_base)

lemma suspend_status_startProbing [simp]: "suspend_status (LinkProberHw_startProbing ip_text x) = suspend_status x"
  by (simp add: LinkProberHw_startProbing_def Let_def suspend_status_base)

text \<open>The calls that neither start nor cancel the suspend timer.\<close>

fun suspend_call :: "call \<Rightarrow> bool" where
  "suspend_call (SuspendTx t) = True"
| "suspend_call ResumeTx = True"
| "suspend_call _ = False"

lemma suspend_status_call:
  assumes "LinkProberHw_call ip_text r c x = Some x'" and "\<not> suspend_call c"
  shows "suspend_status x' = suspend_status x"
proof (cases c)
  case InitializeProber
  with assms have "LinkProberHw_initialize ip_text r x = Some x'" by simp
  then obtain b where b: "x' = create_own_session ip_text (x\<lparr>hw_base := b\<rparr>)" and c: "prober_core b = prober_core (hw_base x)"
    by (rule initialize_core)
  show ?thesis using suspend_handlers_core [OF c] by (simp add: b) (simp add: suspend_status_def)
next
  case (HandleStateDbStateUpdate st ty)
  then show ?thesis using assms
    by (auto simp: LinkProberHw_handleStateDbStateUpdate_def LinkProberHw_startPositiveProbingTimer_def)
qed (use assms in \<open>auto simp: LinkProberHw_restartTxProbes_def LinkProberHw_shutdownTxProbes_def
    LinkProberHw_updateEthernetFrame_def suspend_status_base Let_def\<close>)

text \<open>Starting and cancelling it.\<close>

lemma suspendTxProbes_coming: "end_is_coming (LinkProberHw_suspendTxProbes t x)"
  by (simp add: end_is_coming_def timer_armed_def LinkProberHw_suspendTxProbes_def Let_def prober_start_timer_def)

lemma resumeTxProbes_coming:
  assumes "end_is_coming x"
  shows "end_is_coming (LinkProberHw_resumeTxProbes ip_text x)"
proof -
  let ?y = "(on_base (prober_cancel_timer SuspendTimer) x)\<lparr>mCancelSuspend := True\<rparr>"
  have "suspend_status (LinkProberHw_resumeTxProbes ip_text x) = suspend_status ?y"
    by (simp add: LinkProberHw_resumeTxProbes_def)
  from end_is_coming_status [OF this] have "end_is_coming (LinkProberHw_resumeTxProbes ip_text x) = end_is_coming ?y" .
  moreover have "end_is_coming ?y"
    using assms by (cases "tm_pending (prober_timers (hw_base x) SuspendTimer)")
      (auto simp: end_is_coming_def timer_armed_def on_base_def prober_cancel_timer_def prober_post_task_def)
  ultimately show ?thesis by blast
qed

lemma suspension_call:
  assumes "suspension_inv started reported x" and call: "LinkProberHw_call ip_text r c x = Some x'"
  shows "suspension_inv (started \<or> InitializeProber = c) (reported \<and> ResumeTx \<noteq> c) x'"
proof -
  have view: "own_view x' = own_step (HwCall c) (own_view x)" by (rule own_view_call [OF call])
  have old: "fst (own_view x) \<longrightarrow> end_is_coming x"
      "started \<and> \<not> fst (snd (own_view x)) \<and> \<not> snd (snd (own_view x)) \<longrightarrow> end_is_coming x \<or> reported"
    using assms(1) by (simp_all add: suspension_inv_def own_absent_view suspended_view)
  have "(fst (own_view x') \<longrightarrow> end_is_coming x') \<and>
      ((started \<or> InitializeProber = c) \<and> \<not> fst (snd (own_view x')) \<and> \<not> snd (snd (own_view x')) \<longrightarrow>
         end_is_coming x' \<or> reported \<and> ResumeTx \<noteq> c)"
  proof (cases "suspend_call c")
    case True
    then consider t where "c = SuspendTx t" | "c = ResumeTx" by (cases c) auto
    then show ?thesis
    proof cases
      case 1
      with call have "x' = LinkProberHw_suspendTxProbes t x" by simp
      then show ?thesis by (simp add: suspendTxProbes_coming)
    next
      case 2
      with call have "x' = LinkProberHw_resumeTxProbes ip_text x" by simp
      then show ?thesis using view old resumeTxProbes_coming [of x ip_text] 2
        by (cases "own_view x") auto
    qed
  next
    case False
    have e: "end_is_coming x' = end_is_coming x" by (rule end_is_coming_status [OF suspend_status_call [OF call False]])
    show ?thesis using view old e False by (cases c; cases "own_view x") auto
  qed
  then show ?thesis by (simp add: suspension_inv_def own_absent_view suspended_view)
qed

lemma suspension_deliver:
  assumes "suspension_inv started reported x" and "deliver ip_text r cs x = Some x'"
  shows "suspension_inv (started \<or> InitializeProber \<in> set cs) (reported \<and> ResumeTx \<notin> set cs) x'"
  using assms
proof (induction cs arbitrary: started reported x)
  case (Cons c cs)
  then obtain y where "LinkProberHw_call ip_text r c x = Some y" and "deliver ip_text r cs y = Some x'"
    by (auto simp: bind_eq_Some_conv)
  from Cons.IH [OF suspension_call [OF Cons.prems(1) this(1)] this(2)] show ?case by (auto simp: disj_assoc conj_assoc)
qed simp

text \<open>The tasks of the prober's strand.\<close>

lemma suspend_handlers_take:
  assumes "i < length (prober_tasks b)" and "\<not> is_suspend_handler (prober_tasks b ! i)"
  shows "suspend_handlers (take_prober_task i b) = suspend_handlers b"
proof -
  have "set (prober_tasks b) = set (take i (prober_tasks b) @ prober_tasks b ! i # drop (Suc i) (prober_tasks b))"
    by (rule arg_cong [OF id_take_nth_drop [OF assms(1)]])
  then have "set (prober_tasks b) = insert (prober_tasks b ! i) (set (take i (prober_tasks b) @ drop (Suc i) (prober_tasks b)))"
    by simp
  moreover have "prober_tasks b ! i \<noteq> DoTimer SuspendTimer ec" for ec using assms(2) by auto
  ultimately have "DoTimer SuspendTimer ec \<in> set (take i (prober_tasks b) @ drop (Suc i) (prober_tasks b)) \<longleftrightarrow>
      DoTimer SuspendTimer ec \<in> set (prober_tasks b)" for ec by (metis insert_iff)
  then show ?thesis by (simp add: suspend_handlers_def take_prober_task_def)
qed

lemma suspend_status_timeout: "LinkProberHw_handleTimeout ec x = Some x' \<Longrightarrow> suspend_status x' = suspend_status x"
  by (auto simp: LinkProberHw_handleTimeout_def software_peer_timeout_def Let_def bind_eq_Some_conv suspend_status_base
      LinkProberHw_reportHeartbeatReplyNotReceived_def split: session_type.splits if_splits)

lemma suspend_status_packet: "suspend_status (LinkProberHw_handleIcmpPayload ip_text n x) = suspend_status x"
proof -
  have hw: "suspend_status (handle_hw_guid ip_text g x) = suspend_status x" for g
    by (simp add: handle_hw_guid_def Let_def suspend_status_base)
  have sw: "suspend_status (handle_sw_guid n g x) = suspend_status x" for g
    by (simp add: handle_sw_guid_def Let_def suspend_status_base LinkProberHw_reportHeartbeatReplyReceived_def)
  show ?thesis by (simp add: LinkProberHw_handleIcmpPayload_def Let_def suspend_status_base hw sw)
qed

lemma suspend_status_lift:
  assumes "lift_base f x = Some x'" and "\<And>b'. f (hw_base x) = Some b' \<Longrightarrow> prober_core b' = prober_core (hw_base x)"
  shows "suspend_status x' = suspend_status x"
  using assms by (auto simp: lift_base_def suspend_status_def intro: suspend_handlers_core)

lemma suspend_status_run:
  assumes "LinkProberHw_run ip_text r t x = Some x'" and "\<not> is_suspend_handler t"
  shows "suspend_status x' = suspend_status x"
proof (cases t)
  case (DoTimer i ec)
  then show ?thesis using assms suspend_status_timeout by (cases i) auto
next
  case (DoRecv res)
  then show ?thesis using assms by (cases res) (auto simp: suspend_status_packet split: if_splits)
qed (use assms prober_core_run in \<open>auto simp: suspend_status_base suspend_status_lift\<close>)

lemma suspension_quiet:
  assumes "suspension_inv started reported x" and "suspend_status x' = suspend_status x" and "own_view x' = own_view x"
  shows "suspension_inv started reported x'"
  using assms(1) end_is_coming_status [OF assms(2)] assms(3)
  by (simp add: suspension_inv_def own_absent_view suspended_view)

lemma suspension_mono: "suspension_inv started reported x \<Longrightarrow> reported \<longrightarrow> reported' \<Longrightarrow> suspension_inv started reported' x"
  by (auto simp: suspension_inv_def)

text \<open>The handler of the suspend timer reports the end, or leaves a later end to come.\<close>

lemma expiry_reported:
  assumes "ec = Success \<or> mCancelSuspend x"
  shows "TaskProberEvent SuspendTimerExpiredEvent \<in> set (new_reports x (LinkProberHw_handleSuspendTimeout ec (on_base (take_prober_task i) x)))"
proof -
  have "posted (hw_base (LinkProberHw_handleSuspendTimeout ec (on_base (take_prober_task i) x))) =
      posted (hw_base x) @ [PostEvent SuspendTimerExpiredEvent]"
    using assms by (auto simp: LinkProberHw_handleSuspendTimeout_def Let_def hw_op_defs post_to_manager_def take_prober_task_def)
  then show ?thesis by (simp add: new_reports_def)
qed

lemma suspension_handler:
  assumes inv: "suspension_inv started reported x" and i: "i < length (prober_tasks (hw_base x))"
    and t: "prober_tasks (hw_base x) ! i = DoTimer SuspendTimer ec"
    and x': "x' = LinkProberHw_handleSuspendTimeout ec (on_base (take_prober_task i) x)"
  shows "suspension_inv started (reported \<or> TaskProberEvent SuspendTimerExpiredEvent \<in> set (new_reports x x')) x'"
proof (cases "ec = Success \<or> mCancelSuspend x")
  case True
  have "\<not> mSuspendTx (hw_base x')"
    by (simp add: x' LinkProberHw_handleSuspendTimeout_def Let_def hw_op_defs post_to_manager_def)
  then show ?thesis using expiry_reported [OF True, of i] by (simp add: suspension_inv_def x')
next
  case False
  then have ec: "ec = OperationAborted" and c: "\<not> mCancelSuspend x" by (cases ec, auto)+
  let ?ts = "prober_tasks (hw_base x)"
  have b: "hw_base x' = (take_prober_task i (hw_base x))\<lparr>mSuspendTx := False\<rparr>"
    using False by (simp add: x' LinkProberHw_handleSuspendTimeout_def Let_def on_base_def)
  have "set ?ts = set (take i ?ts @ ?ts ! i # drop (Suc i) ?ts)" by (rule arg_cong [OF id_take_nth_drop [OF i]])
  then have "DoTimer SuspendTimer Success \<in> set ?ts \<longrightarrow>
      DoTimer SuspendTimer Success \<in> set (take i ?ts @ drop (Suc i) ?ts)" using t ec by auto
  then have coming: "end_is_coming x \<longrightarrow> end_is_coming x'" using c by (auto simp: end_is_coming_def b take_prober_task_def)
  have "own_view x' = own_step (HwRun (DoTimer SuspendTimer ec)) (own_view x)"
    by (simp add: x' own_view_suspendTimeout own_view_on_base)
  then have "\<not> fst (own_view x')" "snd (own_view x') = snd (own_view x)" by (cases "own_view x"; simp)+
  with inv coming show ?thesis by (auto simp: suspension_inv_def own_absent_view suspended_view)
qed

lemma own_step_run: "\<not> is_suspend_handler t \<Longrightarrow> own_step (HwRun t) v = v"
  by (cases v; cases t) (auto elim!: is_suspend_handler.elims)

lemma suspend_handlers_fire: "i \<noteq> SuspendTimer \<Longrightarrow> suspend_handlers (fire_prober_timer i b) = suspend_handlers b"
  by (cases i) (simp_all add: fire_prober_timer_def suspend_handlers_def prober_post_task_def)

lemma fire_suspend_timer: "end_is_coming (on_base (fire_prober_timer SuspendTimer) x)"
  by (simp add: end_is_coming_def fire_prober_timer_def prober_post_task_def)

lemma suspension_step:
  assumes inv: "suspension_inv started reported x" and step: "hw_step ip_text e x x'" and "own_event env e"
  shows "suspension_inv started (reported \<or> TaskProberEvent SuspendTimerExpiredEvent \<in> set (new_reports x x')) x'"
proof -
  have quiet: ?thesis if "suspend_status x' = suspend_status x" and "own_view x' = own_view x"
    by (rule suspension_mono [OF suspension_quiet [OF inv that]]) simp
  from step show ?thesis
  proof cases
    case (hw_call c)
    with assms(3) show ?thesis by simp
  next
    case (hw_run i t r)
    show ?thesis
    proof (cases "is_suspend_handler t")
      case True
      then obtain ec where t: "t = DoTimer SuspendTimer ec" by (cases t rule: is_suspend_handler.cases) auto
      have t': "prober_tasks (hw_base x) ! i = DoTimer SuspendTimer ec" using t hw_run(3) by simp
      then have "x' = LinkProberHw_handleSuspendTimeout ec (on_base (take_prober_task i) x)" using hw_run(3,4) by simp
      then show ?thesis by (rule suspension_handler [OF inv hw_run(2) t'])
    next
      case False
      have "suspend_status x' = suspend_status (on_base (take_prober_task i) x)"
        by (rule suspend_status_run [OF hw_run(4) False])
      moreover have "suspend_status (on_base (take_prober_task i) x) = suspend_status x"
        using hw_run(2,3) False by (intro suspend_status_base suspend_handlers_take) simp_all
      moreover have "own_view x' = own_view x"
        using own_view_run [OF hw_run(4)] by (simp add: own_view_on_base own_step_run [OF False])
      ultimately show ?thesis by (intro quiet) simp_all
    qed
  next
    case (hw_timer i)
    show ?thesis
    proof (cases "i = SuspendTimer")
      case True
      then have "end_is_coming x'" using hw_timer by (simp add: fire_suspend_timer)
      then show ?thesis by (simp add: suspension_inv_def)
    next
      case False
      have "own_view x' = own_view x" using own_view_step [OF step] hw_timer(1) by (cases "own_view x") simp
      then show ?thesis using hw_timer(2) False by (intro quiet) (simp_all add: suspend_status_base suspend_handlers_fire)
    qed
  next
    case (hw_config cfg)
    with assms(3) show ?thesis by simp
  next
    case (hw_clock d)
    with assms(3) show ?thesis by simp
  qed (rule quiet; simp add: suspend_status_base own_view_on_base
      LinkProberHw_handlePositiveProbingTimeout_def take_hw_task_def fire_positive_def fire_positive_peer_def)+
qed

section \<open>The invariant of the composition\<close>

lemma port_step_frame:
  assumes "port_step AA_run p p'" and "list_all task_in_range (tasks p)"
  shows "mPortName (mMuxPortConfig p') = mPortName (mMuxPortConfig p) \<and> list_all task_in_range (tasks p') \<and>
    (\<exists>cs. calls p' = calls p @ cs)"
  using assms(1)
proof cases
  case (step_notify t)
  then show ?thesis using assms(2) external_in_range [of t] by (simp add: post_tasks_def)
next
  case (step_run i)
  have t: "task_in_range (tasks p ! i)" "list_all task_in_range (tasks (take_task i p))"
    using assms(2) step_run(1) by (auto simp: list_all_iff set_take_task)
  have "footprint (mMuxPortConfig p) (tasks (take_task i p)) (calls p) p'"
    using AA_footprint_run [OF footprint_start t(1), of "take_task i p"] step_run(2) by (simp add: ok_def)
  then show ?thesis using t(2) by (auto simp: footprint_def same_identity_def)
qed (use assms(2) in \<open>simp_all add: fire_timer_def post_tasks_def\<close>)

lemma reported_port_step:
  assumes "port_step AA_run p p'" and "list_all task_in_range (tasks p)" and "end_reported p"
  shows "end_reported p' \<or> ResumeTx \<in> set (fresh_calls p p')"
  using assms(1)
proof cases
  case (step_run i)
  have t: "task_in_range (tasks p ! i)" using assms(2) step_run(1) by (simp add: list_all_length)
  let ?q = "take_task i p"
  have taken: "tasks p ! i = u \<or> u \<in> set (tasks ?q)" if "u \<in> set (tasks p)" for u
    using that set_take_task [OF step_run(1)] by auto
  consider "tasks p ! i = TaskProberEvent SuspendTimerExpiredEvent" | "tasks p ! i = TaskSuspendTimerExpiry" | "end_reported ?q"
    using assms(3) taken [of "TaskProberEvent SuspendTimerExpiredEvent"] taken [of TaskSuspendTimerExpiry]
    unfolding end_reported_def by metis
  then show ?thesis
  proof cases
    case 1
    then show ?thesis using step_run(2)
      by (auto simp: AA_process_prober_event_def end_reported_def post_tasks_def)
  next
    case 2
    then show ?thesis using step_run(2)
      by (auto simp: AA_handleSuspendTimerExpiry_def prober_call_def fresh_calls_def emit_def split: if_splits)
  next
    case 3
    have "footprint (mMuxPortConfig p) (tasks ?q) (calls p) p'"
      using AA_footprint_run [OF footprint_start t(1), of ?q] step_run(2) by (simp add: ok_def)
    then show ?thesis using 3 by (auto simp: footprint_def end_reported_def)
  qed
qed (use assms(3) in \<open>auto simp: end_reported_def fire_timer_def post_tasks_def\<close>)

definition hw_port_inv :: "hw_port \<Rightarrow> bool" where
  "hw_port_inv s \<longleftrightarrow> (case s of (p, h) \<Rightarrow> list_all task_in_range (tasks p) \<and>
     (case h of None \<Rightarrow> True
      | Some (x, b) \<Rightarrow> mLinkProberPtr p = Some ProberHardware \<and> suspension_inv b (end_reported p) x \<and>
          (\<exists>self. hw_inv (mPortName (mMuxPortConfig p)) self x)))"

lemma reports_in_range [simp]: "list_all task_in_range (new_reports x x')"
proof -
  have "task_in_range (report_task q)" for q by (cases q) simp_all
  then show ?thesis by (simp add: new_reports_def list_all_iff)
qed

lemma end_reported_posts [simp]:
  "end_reported (post_tasks ts p) \<longleftrightarrow> end_reported p \<or>
     TaskProberEvent SuspendTimerExpiredEvent \<in> set ts \<or> TaskSuspendTimerExpiry \<in> set ts"
  by (auto simp: end_reported_def post_tasks_def)

lemma not_expiry_report: "TaskSuspendTimerExpiry \<notin> set (new_reports x x')"
proof -
  have "TaskSuspendTimerExpiry \<noteq> report_task q" for q by (cases q) simp_all
  then show ?thesis by (auto simp: new_reports_def)
qed

lemma hw_inv_beside: "hw_inv (mPortName (mMuxPortConfig p)) self x \<Longrightarrow> hw_inv (mPortName (mMuxPortConfig p)) self (beside p x)"
  by (auto simp: hw_inv_def beside_def on_base_def hw_config_def peer_ok_def)

lemma beside_view:
  assumes "hw_inv (mPortName (mMuxPortConfig p)) self x"
  shows "own_view (beside p x) = own_view x" and "suspend_status (beside p x) = suspend_status x"
  using assms by (simp_all add: hw_inv_def own_view_def own_key_def live_sessions_def beside_def hw_config_def on_base_def
      suspend_status_def suspend_handlers_def)

lemma hw_inv_deliver:
  "deliver ip_text r cs x = Some x' \<Longrightarrow> hw_inv name self x \<Longrightarrow> hw_inv name self x'"
  by (induction cs arbitrary: x) (auto simp: bind_eq_Some_conv dest: hw_inv_call)

lemma met_prober_inv:
  assumes inv: "hw_port_inv (p, h)" and name: "mPortName (mMuxPortConfig p') = mPortName (mMuxPortConfig p)"
    and met: "met_prober m p' h = (x, b)"
  shows "suspension_inv b (end_reported p) x" and "\<exists>self. hw_inv (mPortName (mMuxPortConfig p')) self x"
proof -
  have "suspension_inv b (end_reported p) x \<and> (\<exists>self. hw_inv (mPortName (mMuxPortConfig p')) self x)"
  proof (cases h)
    case None
    obtain tx0 rx0 size0 where "m = (tx0, rx0, size0)" by (cases m)
    with None met have x: "x = beside p' (LinkProberHw_new tx0 rx0 size0 (mMuxPortConfig p'))" "\<not> b" by auto
    note new = hw_inv_new [of "mMuxPortConfig p'" tx0 rx0 size0]
    have "\<not> mSuspendTx (hw_base x)"
      by (simp add: x beside_def on_base_def LinkProberHw_new_def LinkProberSw_new_def)
    then show ?thesis using x(2) hw_inv_beside [OF new] x(1) by (auto simp: suspension_inv_def)
  next
    case (Some xb)
    then obtain y where y: "h = Some (y, b)" "x = beside p' y" using met by (cases xb) auto
    with inv name obtain self where s: "suspension_inv b (end_reported p) y" "hw_inv (mPortName (mMuxPortConfig p')) self y"
      by (auto simp: hw_port_inv_def)
    from suspension_quiet [OF s(1) beside_view(2) [OF s(2)] beside_view(1) [OF s(2)]] hw_inv_beside [OF s(2)] y
    show ?thesis by blast
  qed
  then show "suspension_inv b (end_reported p) x" and "\<exists>self. hw_inv (mPortName (mMuxPortConfig p')) self x" by blast+
qed

lemma hw_port_inv_step:
  assumes step: "hw_port_step ip_text env s s'" and inv: "hw_port_inv s"
  shows "hw_port_inv s'"
  using step
proof cases
  case (port_without_prober p p')
  then show ?thesis using port_step_frame [OF port_work_step [OF port_without_prober(3)]] inv by (simp add: hw_port_inv_def)
next
  case (port_with_prober p p' m h x b r x')
  have range: "list_all task_in_range (tasks p)" using inv port_with_prober(1) by (simp add: hw_port_inv_def split: option.splits)
  note move = port_work_step [OF port_with_prober(3)]
  note frame = port_step_frame [OF move range]
  from inv port_with_prober(1) have inv: "hw_port_inv (p, h)" by simp
  note met = met_prober_inv [OF inv conjunct1 [OF frame] port_with_prober(5)]
  have "suspension_inv (b \<or> InitializeProber \<in> set (fresh_calls p p'))
      (end_reported p \<and> ResumeTx \<notin> set (fresh_calls p p')) x'"
    by (rule suspension_deliver [OF met(1) port_with_prober(6)])
  then have "suspension_inv (b \<or> InitializeProber \<in> set (fresh_calls p p')) (end_reported (post_tasks (new_reports x x') p')) x'"
    by (rule suspension_mono) (use reported_port_step [OF move range] in auto)
  moreover obtain self where "hw_inv (mPortName (mMuxPortConfig p')) self x'"
    using met(2) hw_inv_deliver [OF port_with_prober(6)] by blast
  ultimately show ?thesis using frame port_with_prober(2,4) by (auto simp: hw_port_inv_def post_tasks_def)
next
  case (prober_alone e x x' p b)
  with inv have old: "suspension_inv b (end_reported p) x" "list_all task_in_range (tasks p)"
      "mLinkProberPtr p = Some ProberHardware" "\<exists>self. hw_inv (mPortName (mMuxPortConfig p)) self x"
    by (simp_all add: hw_port_inv_def)
  have "suspension_inv b (end_reported (post_tasks (new_reports x x') p)) x'"
    using suspension_step [OF old(1) prober_alone(3,4)] by (simp add: not_expiry_report)
  then show ?thesis using old prober_alone(2) hw_inv_step [OF prober_alone(3)] by (auto simp: hw_port_inv_def post_tasks_def)
qed

lemma hw_port_inv_run: "hw_port_run ip_text env s s' \<Longrightarrow> hw_port_inv s \<Longrightarrow> hw_port_inv s'"
  by (induction rule: hw_port_run.induct) (auto intro: hw_port_inv_step)

lemma hw_port_reachable_inv: "hw_port_reachable ip_text cfg s \<Longrightarrow> hw_port_inv s"
  unfolding hw_port_reachable_def
  by (erule hw_port_inv_run) (simp add: hw_port_inv_def ActiveActiveStateMachine_new_def)

section \<open>The way back to a live session\<close>

lemma hw_port_run_trans: "hw_port_run ip_text env s' s'' \<Longrightarrow> hw_port_run ip_text env s s' \<Longrightarrow> hw_port_run ip_text env s s''"
  by (induction rule: hw_port_run.induct) (auto intro: hw_port_next)

lemma hw_port_run_step: "hw_port_step ip_text env s s' \<Longrightarrow> hw_port_run ip_text env s s'"
  by (rule hw_port_next [OF hw_port_stay])

lemma post_no_tasks [simp]: "post_tasks [] (p :: aa_state) = p"
  by (simp add: post_tasks_def)

lemma new_reports_same [simp]: "new_reports x x = []"
  by (simp add: new_reports_def)

text \<open>A step of the port that makes no call, and the handler that resumes.\<close>

lemma quiet_move:
  assumes "port_work env p p'" and "mLinkProberPtr p' = Some ProberHardware" and "calls p' = calls p"
  shows "hw_port_step ip_text env (p, Some (x, b)) (p', Some (beside p' x, b))"
  using port_with_prober [OF assms(1,2), of "(undefined, undefined, undefined)" "Some (x, b)" "beside p' x" b ip_text
      undefined "beside p' x"] assms(3)
  by (simp add: fresh_calls_def)

lemma suspend_handler_step:
  assumes t: "DoTimer SuspendTimer ec \<in> set (prober_tasks (hw_base x))" and ec: "ec = Success \<or> mCancelSuspend x"
  shows "\<exists>p' x'. hw_port_step ip_text env (p, Some (x, b)) (p', Some (x', b)) \<and> end_reported p' \<and>
    own_view x' = (False, snd (own_view x))"
proof -
  from t obtain i where i: "i < length (prober_tasks (hw_base x))" "prober_tasks (hw_base x) ! i = DoTimer SuspendTimer ec"
    by (auto simp: in_set_conv_nth)
  let ?x = "LinkProberHw_handleSuspendTimeout ec (on_base (take_prober_task i) x)"
  have step: "hw_step ip_text (HwRun (DoTimer SuspendTimer ec)) x ?x"
    by (rule hw_run [OF i(1) i(2) [symmetric], where r = undefined]) simp
  have "TaskProberEvent SuspendTimerExpiredEvent \<in> set (new_reports x ?x)" using ec by (simp add: expiry_reported)
  moreover have "own_view ?x = (False, snd (own_view x))" using own_view_step [OF step] by (cases "own_view x") simp
  moreover have "hw_port_step ip_text env (p, Some (x, b)) (post_tasks (new_reports x ?x) p, Some (?x, b))"
    by (rule prober_alone [OF step]) simp
  ultimately show ?thesis by (meson end_reported_posts)
qed

lemma suspension_ends_here:
  assumes inv: "hw_port_inv (p, Some (x, b))" and coming: "end_is_coming x"
  shows "\<exists>p' x'. hw_port_run ip_text env (p, Some (x, b)) (p', Some (x', b)) \<and> end_reported p' \<and>
    own_view x' = (False, snd (own_view x))"
proof -
  consider (handler) ec where "DoTimer SuspendTimer ec \<in> set (prober_tasks (hw_base x))" "ec = Success \<or> mCancelSuspend x"
    | (timer) e where "tm_pending (prober_timers (hw_base x) SuspendTimer)" "tm_expiry (prober_timers (hw_base x) SuspendTimer) = Some e"
    using coming by (auto simp: end_is_coming_def timer_armed_def)
  then show ?thesis
  proof cases
    case handler
    from suspend_handler_step [OF this, of ip_text env p b] show ?thesis using hw_port_run_step by blast
  next
    case timer
    let ?p = "p\<lparr>now_ms := now_ms p + e\<rparr>" and ?y = "beside (p\<lparr>now_ms := now_ms p + e\<rparr>) x"
    let ?z = "on_base (fire_prober_timer SuspendTimer) ?y"
    from inv obtain self where s: "mLinkProberPtr p = Some ProberHardware" "hw_inv (mPortName (mMuxPortConfig ?p)) self x"
      by (auto simp: hw_port_inv_def)
    have one: "hw_port_step ip_text env (p, Some (x, b)) (?p, Some (?y, b))" using s(1) by (intro quiet_move work_clock) simp_all
    have step: "hw_step ip_text (HwTimer SuspendTimer) ?y ?z"
      using timer by (intro hw_timer) (simp add: timer_expired_def beside_def on_base_def)
    have "new_reports ?y ?z = []" by (simp add: new_reports_def on_base_def fire_prober_timer_def prober_post_task_def)
    then have two: "hw_port_step ip_text env (?p, Some (?y, b)) (?p, Some (?z, b))"
      using prober_alone [OF step, of env ?p b] by simp
    have "own_view ?z = own_view x"
      using own_view_step [OF step] beside_view(1) [OF s(2)] by (cases "own_view x") simp
    moreover have "DoTimer SuspendTimer Success \<in> set (prober_tasks (hw_base ?z))"
      by (simp add: on_base_def fire_prober_timer_def prober_post_task_def)
    ultimately obtain p' x' where "hw_port_step ip_text env (?p, Some (?z, b)) (p', Some (x', b))" "end_reported p'"
        "own_view x' = (False, snd (own_view x))"
      using suspend_handler_step [of Success ?z ip_text env ?p b] by auto
    with one two show ?thesis by (meson hw_port_next hw_port_stay)
  qed
qed

lemma expiry_queued:
  assumes inv: "hw_port_inv (p, Some (x, b))" and "end_reported p"
  shows "\<exists>p' x'. hw_port_run ip_text env (p, Some (x, b)) (p', Some (x', b)) \<and> TaskSuspendTimerExpiry \<in> set (tasks p') \<and>
    own_view x' = own_view x"
proof (cases "TaskSuspendTimerExpiry \<in> set (tasks p)")
  case True
  then show ?thesis using hw_port_stay by blast
next
  case False
  with assms(2) obtain i where i: "i < length (tasks p)" "tasks p ! i = TaskProberEvent SuspendTimerExpiredEvent"
    by (auto simp: end_reported_def in_set_conv_nth)
  from inv obtain self where s: "mLinkProberPtr p = Some ProberHardware" "hw_inv (mPortName (mMuxPortConfig p)) self x"
    by (auto simp: hw_port_inv_def)
  let ?p = "AA_process_prober_event SuspendTimerExpiredEvent (take_task i p)"
  have f: "mLinkProberPtr ?p = mLinkProberPtr p" "calls ?p = calls p" "mMuxPortConfig ?p = mMuxPortConfig p"
      "TaskSuspendTimerExpiry \<in> set (tasks ?p)"
    by (simp_all add: AA_process_prober_event_def take_task_def post_tasks_def)
  have "port_work env p ?p" using i by (intro work_task [OF i(1)]) simp
  from quiet_move [OF this] f s beside_view(1) [of ?p self x] hw_port_run_step show ?thesis by metis
qed

lemma resumed_session:
  assumes inv: "hw_port_inv (p, Some (x, b))" and t: "TaskSuspendTimerExpiry \<in> set (tasks p)"
    and view: "own_view x = (False, False, y)"
  shows "\<exists>p' x'. hw_port_step ip_text env (p, Some (x, b)) (p', Some (x', b)) \<and> own_key x' \<in> live_sessions x'"
proof -
  from t obtain i where i: "i < length (tasks p)" "tasks p ! i = TaskSuspendTimerExpiry" by (auto simp: in_set_conv_nth)
  from inv obtain self where s: "mLinkProberPtr p = Some ProberHardware" "hw_inv (mPortName (mMuxPortConfig p)) self x"
    by (auto simp: hw_port_inv_def)
  let ?p = "emit ResumeTx (take_task i p)"
  have f: "mLinkProberPtr ?p = Some ProberHardware" "fresh_calls p ?p = [ResumeTx]" "mMuxPortConfig ?p = mMuxPortConfig p"
    using s(1) by (simp_all add: emit_def take_task_def fresh_calls_def)
  have work: "port_work env p ?p"
    using i s(1) by (intro work_task [OF i(1)]) (simp add: AA_handleSuspendTimerExpiry_def prober_call_def take_task_def)
  let ?x = "LinkProberHw_resumeTxProbes ip_text (beside ?p x)"
  have call: "LinkProberHw_call ip_text undefined ResumeTx (beside ?p x) = Some ?x" by simp
  have "own_view ?x = (False, False, True)"
    using own_view_call [OF call] beside_view(1) [of ?p self x] s(2) f(3) view by simp
  then have "own_key ?x \<in> live_sessions ?x" by (simp add: own_view_def)
  moreover have "hw_port_step ip_text env (p, Some (x, b)) (post_tasks (new_reports (beside ?p x) ?x) ?p, Some (?x, b))"
    using port_with_prober [OF work f(1), of "(undefined, undefined, undefined)" "Some (x, b)" "beside ?p x" b ip_text undefined ?x]
    by (simp add: f(2))
  ultimately show ?thesis by blast
qed

text \<open>
  C24. An active-active port with a hardware prober never stays silent for good: from every reachable state
  in which the prober is initialised and not shut down, timers and queued handlers alone lead to a state in
  which its echo session exists, without a further notification or packet.
\<close>
theorem heartbeats_come_back:
  assumes "hw_port_reachable ip_text cfg (p, Some (x, True))" and "\<not> mShutdownTx (hw_base x)"
  shows "\<exists>p' x'. hw_port_run ip_text False (p, Some (x, True)) (p', Some (x', True)) \<and> own_key x' \<in> live_sessions x'"
proof -
  note inv = hw_port_reachable_inv [OF assms(1)]
  have sus: "suspension_inv True (end_reported p) x" using inv by (simp add: hw_port_inv_def)
  show ?thesis
  proof (cases "own_key x \<in> live_sessions x \<and> \<not> end_is_coming x")
    case True
    then show ?thesis using hw_port_stay by blast
  next
    case False
    then have "end_is_coming x \<or> end_reported p \<and> \<not> mSuspendTx (hw_base x)"
      using sus assms(2) by (auto simp: suspension_inv_def own_absent_def)
    then obtain p1 x1 where one: "hw_port_run ip_text False (p, Some (x, True)) (p1, Some (x1, True))" "end_reported p1"
        "own_view x1 = (False, snd (own_view x))"
      using suspension_ends_here [OF inv] hw_port_stay [of ip_text False "(p, Some (x, True))"]
      by (metis own_view_def prod.sel(2))
    from expiry_queued [OF hw_port_inv_run [OF one(1) inv] one(2)] obtain p2 x2
      where two: "hw_port_run ip_text False (p1, Some (x1, True)) (p2, Some (x2, True))" "TaskSuspendTimerExpiry \<in> set (tasks p2)"
        "own_view x2 = own_view x1" by blast
    note run = hw_port_run_trans [OF two(1) one(1)]
    have "own_view x2 = (False, False, snd (snd (own_view x)))" using one(3) two(3) assms(2) by (simp add: own_view_def)
    from resumed_session [OF hw_port_inv_run [OF run inv] two(2) this] run show ?thesis by (meson hw_port_next)
  qed
qed

section \<open>A suspended port, for the witness\<close>

text \<open>The calls that a handler of the sample makes; the prober posts nothing for them.\<close>

fun quiet_call :: "call \<Rightarrow> bool" where
  "quiet_call (HandleStateDbStateUpdate st ty) = False"
| "quiet_call UpdateEthernetFrame = False"
| "quiet_call ProbePeerTor = False"
| "quiet_call SendPeerSwitchCommand = False"
| "quiet_call SendPeerProbeCommand = False"
| "quiet_call _ = True"

lemma posted_basic [simp]:
  "posted (prober_post_task t b) = posted b" "posted (prober_cancel_timer i b) = posted b"
  "posted (prober_start_timer i d b) = posted b" "posted (stream_cancel b) = posted b" "posted (startRecv b) = posted b"
  "posted (startInitRecv b) = posted b"
  by (simp_all add: prober_post_task_def prober_cancel_timer_def prober_start_timer_def stream_cancel_def startRecv_def
      startInitRecv_def Let_def)

lemma posted_frame: "frame_rest b' = frame_rest b \<Longrightarrow> posted b' = posted b"
  by (drule arg_cong [of _ _ posted]) (simp add: frame_rest_def)

lemma posted_setup:
  assumes "setupSocket r b = Some b'"
  shows "posted b' = posted b"
proof -
  from assms obtain b1 where b1: "initializeSendBuffer r (attachFilter b) = Some b1" and b': "b' = startInitRecv b1"
    unfolding setupSocket_def by (elim bind_Some_elim) simp
  show ?thesis using posted_frame [OF frame_rest_initializeSendBuffer [OF b1]] by (simp add: b' attachFilter_def)
qed

lemma posted_call:
  assumes "LinkProberHw_call ip_text r c x = Some x'" and "quiet_call c"
  shows "posted (hw_base x') = posted (hw_base x)"
proof (cases "c = InitializeProber")
  case True
  with assms obtain b where "setupSocket r (hw_base x) = Some b" "x' = create_own_session ip_text (x\<lparr>hw_base := b\<rparr>)"
    by (auto simp: LinkProberHw_initialize_def bind_eq_Some_conv)
  then show ?thesis using posted_setup by (simp add: hw_op_defs)
next
  case False
  then show ?thesis using assms by (cases c) (auto simp: hw_op_defs Let_def)
qed

lemma deliver_facts:
  assumes "deliver ip_text r cs x = Some x'" and "list_all quiet_call cs"
  shows "new_reports x x' = []" and "own_view x' = fold own_step (map HwCall cs) (own_view x)"
proof -
  have "posted (hw_base x') = posted (hw_base x) \<and> own_view x' = fold own_step (map HwCall cs) (own_view x)"
    using assms
    by (induction cs arbitrary: x) (auto simp: bind_eq_Some_conv posted_call own_view_call)
  then show "new_reports x x' = []" and "own_view x' = fold own_step (map HwCall cs) (own_view x)"
    by (simp_all add: new_reports_def)
qed

lemma deliver_total:
  assumes "InitializeProber \<notin> set cs" and "list_all quiet_call cs"
  shows "\<exists>x'. deliver ip_text r cs x = Some x'"
  using assms
proof (induction cs arbitrary: x)
  case (Cons c cs)
  then have "\<exists>y. LinkProberHw_call ip_text r c x = Some y" by (cases c) auto
  with Cons show ?case by auto
qed simp

text \<open>An executable driver: the queue is emptied, the calls are quiet and the prober is as expected.\<close>

fun settle :: "link_prober_type option \<Rightarrow> nat \<Rightarrow> aa_state \<Rightarrow> (aa_state \<times> call list) option" where
  "settle q 0 p = Some (p, [])"
| "settle q (Suc n) p =
     (case tasks p of
        [] \<Rightarrow> Some (p, [])
      | t # ts \<Rightarrow> Option.bind (AA_run t (p\<lparr>tasks := ts\<rparr>)) (\<lambda>p1.
          let cs = fresh_calls p p1
          in if mLinkProberPtr p1 = q \<and> list_all quiet_call cs \<and> InitializeProber \<notin> set cs
             then map_option (\<lambda>(p2, ds). (p2, cs @ ds)) (settle q n p1) else None))"

lemma settle_step:
  assumes "settle q (Suc n) p = Some (p', cs)" and "tasks p \<noteq> []"
  obtains p1 cs1 cs2 where "port_work True p p1" "mLinkProberPtr p1 = q" "fresh_calls p p1 = cs1"
    "list_all quiet_call cs1" "InitializeProber \<notin> set cs1" "settle q n p1 = Some (p', cs2)" "cs = cs1 @ cs2"
proof -
  from assms obtain t ts p1 cs2 where t: "tasks p = t # ts" "AA_run t (p\<lparr>tasks := ts\<rparr>) = Some p1"
      "mLinkProberPtr p1 = q" "list_all quiet_call (fresh_calls p p1)" "InitializeProber \<notin> set (fresh_calls p p1)"
      "settle q n p1 = Some (p', cs2)" "cs = fresh_calls p p1 @ cs2"
    by (cases "tasks p") (auto simp: bind_eq_Some_conv Let_def split: if_splits)
  have "port_work True p p1" by (rule work_task [of 0]) (use t in \<open>simp_all add: take_task_def\<close>)
  with t that show ?thesis by blast
qed

lemma settle_without:
  "settle None n p = Some (p', cs) \<Longrightarrow> hw_port_run ip_text True (p, None) (p', None)"
proof (induction n arbitrary: p cs)
  case (Suc n)
  show ?case
  proof (cases "tasks p = []")
    case False
    from Suc.prems False obtain p1 cs2 where "port_work True p p1" "mLinkProberPtr p1 = None" "settle None n p1 = Some (p', cs2)"
      by (rule settle_step)
    then show ?thesis using Suc.IH hw_port_run_trans hw_port_run_step port_without_prober by blast
  qed (use Suc.prems in \<open>simp add: hw_port_stay\<close>)
qed (simp add: hw_port_stay)

lemma settle_with:
  "settle (Some ProberHardware) n p = Some (p', cs) \<Longrightarrow> hw_port_inv (p, Some (x, b)) \<Longrightarrow>
   \<exists>x'. hw_port_run ip_text True (p, Some (x, b)) (p', Some (x', b)) \<and> own_view x' = fold own_step (map HwCall cs) (own_view x)"
proof (induction n arbitrary: p cs x)
  case (Suc n)
  show ?case
  proof (cases "tasks p = []")
    case True
    then show ?thesis using Suc.prems(1) hw_port_stay by fastforce
  next
    case False
    from Suc.prems(1) False obtain p1 cs1 cs2 where w: "port_work True p p1" "mLinkProberPtr p1 = Some ProberHardware"
        "fresh_calls p p1 = cs1" "list_all quiet_call cs1" "InitializeProber \<notin> set cs1"
        "settle (Some ProberHardware) n p1 = Some (p', cs2)" "cs = cs1 @ cs2" by (rule settle_step)
    from deliver_total [OF w(5,4)] obtain y where y: "deliver ip_text undefined cs1 (beside p1 x) = Some y" by blast
    note d = deliver_facts [OF y w(4)]
    have step: "hw_port_step ip_text True (p, Some (x, b)) (p1, Some (y, b))"
      using port_with_prober [OF w(1,2), of "(undefined, undefined, undefined)" "Some (x, b)" "beside p1 x" b ip_text undefined y]
        w(3,5) y d(1) by simp
    from Suc.prems(2) obtain self where self: "hw_inv (mPortName (mMuxPortConfig p)) self x"
        "list_all task_in_range (tasks p)" by (auto simp: hw_port_inv_def)
    have "own_view (beside p1 x) = own_view x"
      using beside_view(1) [of p1 self x] self port_step_frame [OF port_work_step [OF w(1)]] by simp
    moreover from Suc.IH [OF w(6) hw_port_inv_step [OF step Suc.prems(2)]] obtain x' where
      "hw_port_run ip_text True (p1, Some (y, b)) (p', Some (x', b))" "own_view x' = fold own_step (map HwCall cs2) (own_view y)"
      by blast
    ultimately show ?thesis using hw_port_run_trans [OF _ hw_port_run_step [OF step]] d(2) w(7) by auto
  qed
qed (use hw_port_stay in fastforce)

lemma posts_without:
  "list_all external_task ts \<Longrightarrow> mLinkProberPtr p = None \<Longrightarrow> hw_port_run ip_text True (p, None) (post_tasks ts p, None)"
proof (induction ts rule: rev_induct)
  case (snoc t ts)
  have "port_work True (post_tasks ts p) (post_tasks [t] (post_tasks ts p))"
    using snoc.prems by (intro work_outside step_notify) simp
  moreover have "post_tasks [t] (post_tasks ts p) = post_tasks (ts @ [t]) p" by (simp add: post_tasks_def)
  ultimately have "port_work True (post_tasks ts p) (post_tasks (ts @ [t]) p)" by simp
  from port_without_prober [OF this] snoc.prems
  have step: "hw_port_step ip_text True (post_tasks ts p, None) (post_tasks (ts @ [t]) p, None)" by (simp add: post_tasks_def)
  show ?case by (rule hw_port_next [OF snoc.IH step]) (use snoc.prems in simp_all)
qed (simp add: hw_port_stay)

lemma posts_with:
  "list_all external_task ts \<Longrightarrow> hw_port_inv (p, Some (x, b)) \<Longrightarrow>
   \<exists>x'. hw_port_run ip_text True (p, Some (x, b)) (post_tasks ts p, Some (x', b)) \<and> own_view x' = own_view x"
proof (induction ts rule: rev_induct)
  case (snoc t ts)
  then obtain y where y: "hw_port_run ip_text True (p, Some (x, b)) (post_tasks ts p, Some (y, b))" "own_view y = own_view x" by auto
  let ?p = "post_tasks (ts @ [t]) p"
  obtain self where inv: "mLinkProberPtr p = Some ProberHardware" "hw_inv (mPortName (mMuxPortConfig p)) self y"
    using hw_port_inv_run [OF y(1) snoc.prems(2)] by (auto simp: hw_port_inv_def post_tasks_def)
  have "port_work True (post_tasks ts p) (post_tasks [t] (post_tasks ts p))"
    using snoc.prems by (intro work_outside step_notify) simp
  moreover have "post_tasks [t] (post_tasks ts p) = ?p" by (simp add: post_tasks_def)
  ultimately have "port_work True (post_tasks ts p) ?p" by simp
  then have step: "hw_port_step ip_text True (post_tasks ts p, Some (y, b)) (?p, Some (beside ?p y, b))"
    by (rule quiet_move) (use inv in \<open>simp_all add: post_tasks_def\<close>)
  have "own_view (beside ?p y) = own_view y" using inv by (intro beside_view(1) [of _ self]) (simp add: post_tasks_def)
  with y(2) hw_port_next [OF y(1) step] show ?case by auto
qed (use hw_port_stay in fastforce)

definition sample_boot :: "(aa_state \<times> call list) option" where
  "sample_boot = settle None 20 (post_tasks [TaskDefaultRoute RouteOK, TaskMuxState MuxActive, TaskLinkState LinkUp]
     (ActiveActiveStateMachine_new hw_config0))"

definition sample_loss :: "aa_state \<Rightarrow> (aa_state \<times> call list) option" where
  "sample_loss p = settle (Some ProberHardware) 20
     (post_tasks [TaskMuxConfig ModeAuto, TaskProberEvent (IcmpEvent IcmpHwUnknownEvent)] p)"

lemma sample_suspends:
  obtains p1 p2 p3 cs where "sample_boot = Some (p1, cs)" "tasks p1 = []" "mLinkProberPtr p1 = None" "AA_run (TaskSoCIpv4 5) p1 = Some p2"
    "mLinkProberPtr p2 = Some ProberHardware" "fresh_calls p1 p2 = [InitializeProber, StartProbing, SetMuxLinkmgrState Healthy]"
    "sample_loss p2 = Some (p3, [RestartTx, PostLinkProberMetricsEvent LinkProberUnknownStart, SuspendTx 400,
      PostMetricsEvent SwitchingStart MuxStandby, SetMuxState MuxStandby, SetMuxLinkmgrState Unhealthy])"
proof -
  have "Option.bind sample_boot (\<lambda>(p1, cs). Option.bind (AA_run (TaskSoCIpv4 5) p1) (\<lambda>p2.
      map_option (\<lambda>(p3, ds). (tasks p1, mLinkProberPtr p1, mLinkProberPtr p2, fresh_calls p1 p2, ds)) (sample_loss p2))) =
    Some ([], None, Some ProberHardware, [InitializeProber, StartProbing, SetMuxLinkmgrState Healthy],
      [RestartTx, PostLinkProberMetricsEvent LinkProberUnknownStart, SuspendTx 400,
       PostMetricsEvent SwitchingStart MuxStandby, SetMuxState MuxStandby, SetMuxLinkmgrState Unhealthy])" by code_simp
  then show ?thesis using that by (auto simp: bind_eq_Some_conv)
qed

lemma new_prober_initialised:
  assumes "fresh_calls p p' = InitializeProber # cs" and "InitializeProber \<notin> set cs" and "list_all quiet_call cs"
    and "port_work True p p'" and "mLinkProberPtr p' = Some ProberHardware"
  shows "\<exists>x. hw_port_step ip_text True (p, None) (p', Some (x, True)) \<and>
    own_view x = fold own_step (map HwCall cs) (False, False, True)"
proof -
  let ?n = "LinkProberHw_new (\<lambda>_. 0) (\<lambda>_. 0) 0 (mMuxPortConfig p')"
  let ?x = "beside p' ?n"
  have "length (mSelfUUID (attachFilter (hw_base ?x))) = 16"
    by (simp add: attachFilter_def beside_def on_base_def LinkProberHw_new_def LinkProberSw_new_def generateGuid_def Let_def)
  then obtain b where "initializeSendBuffer 0 (attachFilter (hw_base ?x)) = Some b" using initializeSendBuffer_frame by blast
  then obtain y where y: "LinkProberHw_call ip_text 0 InitializeProber ?x = Some y"
    by (simp add: LinkProberHw_initialize_def setupSocket_def)
  obtain x where x: "deliver ip_text 0 cs y = Some x" using deliver_total [OF assms(2,3)] by blast
  with y assms(1) have all: "deliver ip_text 0 (fresh_calls p p') ?x = Some x" by simp
  note d = deliver_facts [OF all, unfolded assms(1)]
  have "own_view ?n = (False, False, False)"
    by (simp add: own_view_def LinkProberHw_new_def LinkProberSw_new_def live_sessions_def DbInterface_new_def)
  with beside_view(1) [OF hw_inv_new [of "mMuxPortConfig p'" "\<lambda>_. 0" "\<lambda>_. 0" 0]]
  have "own_view ?x = (False, False, False)" by simp
  with d(2) assms(3) have "own_view x = fold own_step (map HwCall cs) (False, False, True)" by simp
  moreover have "hw_port_step ip_text True (p, None) (p', Some (x, True))"
    using port_with_prober [OF assms(4,5), of "(\<lambda>_. 0, \<lambda>_. 0, 0)" None ?x False ip_text 0 x] all d(1) assms(1,3) by simp
  ultimately show ?thesis by blast
qed

lemma suspended_port:
  obtains p x where "hw_port_reachable ip_text hw_config0 (p, Some (x, True))" and "own_view x = (True, False, False)"
proof -
  obtain p1 p2 p3 cs where s: "sample_boot = Some (p1, cs)" "tasks p1 = []" "mLinkProberPtr p1 = None" "AA_run (TaskSoCIpv4 5) p1 = Some p2"
    "mLinkProberPtr p2 = Some ProberHardware" "fresh_calls p1 p2 = [InitializeProber, StartProbing, SetMuxLinkmgrState Healthy]"
    "sample_loss p2 = Some (p3, [RestartTx, PostLinkProberMetricsEvent LinkProberUnknownStart, SuspendTx 400,
      PostMetricsEvent SwitchingStart MuxStandby, SetMuxState MuxStandby, SetMuxLinkmgrState Unhealthy])" by (rule sample_suspends)
  let ?s = "(ActiveActiveStateMachine_new hw_config0, None)" and ?q = "post_tasks [TaskSoCIpv4 5] p1"
  have 1: "hw_port_run ip_text True ?s (p1, None)"
    using settle_without [OF s(1) [unfolded sample_boot_def]]
    by (rule hw_port_run_trans) (rule posts_without, simp_all add: ActiveActiveStateMachine_new_def)
  have 2: "hw_port_run ip_text True ?s (?q, None)"
    using posts_without [of "[TaskSoCIpv4 5]" p1 ip_text] s(3) by (intro hw_port_run_trans [OF _ 1]) simp
  have "take_task 0 ?q = p1" using s(2) by (cases p1) (simp add: take_task_def post_tasks_def)
  then have work: "port_work True ?q p2" using s(2,4) by (intro work_task [of 0]) (simp_all add: post_tasks_def)
  have "fresh_calls ?q p2 = [InitializeProber, StartProbing, SetMuxLinkmgrState Healthy]"
    using s(6) by (simp add: fresh_calls_def post_tasks_def)
  from new_prober_initialised [OF this _ _ work s(5), of ip_text] obtain x2
    where x2: "hw_port_step ip_text True (?q, None) (p2, Some (x2, True))" "own_view x2 = (False, False, True)" by auto
  note 3 = hw_port_next [OF 2 x2(1)]
  have inv: "hw_port_inv s" if "hw_port_run ip_text True ?s s" for s
    by (rule hw_port_reachable_inv [of ip_text hw_config0]) (simp add: hw_port_reachable_def that)
  let ?ts = "[TaskMuxConfig ModeAuto, TaskProberEvent (IcmpEvent IcmpHwUnknownEvent)]"
  obtain x3 where x3: "hw_port_run ip_text True (p2, Some (x2, True)) (post_tasks ?ts p2, Some (x3, True))" "own_view x3 = own_view x2"
    using posts_with [OF _ inv [OF 3], of ?ts] by auto
  note 4 = hw_port_run_trans [OF x3(1) 3]
  obtain x4 where x4: "hw_port_run ip_text True (post_tasks ?ts p2, Some (x3, True)) (p3, Some (x4, True))" "own_view x4 = (True, False, False)"
    using settle_with [OF s(7) [unfolded sample_loss_def] inv [OF 4]] x3(2) x2(2) by auto
  from hw_port_run_trans [OF x4(1) 4] x4(2) that show ?thesis by (simp add: hw_port_reachable_def)
qed

lemma heartbeats_come_back_witness:
  "\<exists>p x p' x'. hw_port_reachable (\<lambda>_. []) hw_config0 (p, Some (x, True)) \<and> mSuspendTx (hw_base x) \<and> own_key x \<notin> live_sessions x \<and>
     hw_port_run (\<lambda>_. []) False (p, Some (x, True)) (p', Some (x', True)) \<and> own_key x' \<in> live_sessions x'"
proof -
  obtain p x where r: "hw_port_reachable (\<lambda>_. []) hw_config0 (p, Some (x, True))" "own_view x = (True, False, False)"
    by (rule suspended_port)
  then have "mSuspendTx (hw_base x)" "\<not> mShutdownTx (hw_base x)" "own_key x \<notin> live_sessions x" by (simp_all add: own_view_def)
  with heartbeats_come_back [OF r(1)] r(1) show ?thesis by blast
qed

end
