(* ===== verification/Filter_Properties.thy ===== *)
theory Filter_Properties
  imports Heartbeat_Properties Link_Prober_Hw_Props
begin

text \<open>
  The filter of the prober's socket beside the frames that the prober sends: what reaches the prober (C23),
  and what no longer does when the address of the server has changed.
\<close>

section \<open>The destination of a frame\<close>

definition frame_destination :: "link_prober \<Rightarrow> u32" where
  "frame_destination s = ntohl_at (mTxBuffer s) 30"

lemma frame_destination_basic [simp]:
  "frame_destination (computeChecksum_icmp n s) = frame_destination s"
  "frame_destination (computeChecksum_ip n s) = frame_destination s"
  "frame_destination (on_tx (put16 40 x \<circ> (put16 38 y \<circ> put_bytes 34 [8, 0])) s) = frame_destination s"
  "frame_destination (on_tx (put32 30 a \<circ> f) s) = a"
  by (simp_all add: frame_destination_def computeChecksum_icmp_def computeChecksum_ip_def on_tx_def Let_def layout_defs)
    (simp_all add: ntohl_at_def ntohs_at_def)

text \<open>A new frame goes to the current address of the server, and leaves the filter alone.\<close>

lemma initializeSendBuffer_address:
  assumes "initializeSendBuffer r s = Some s'"
  shows "frame_destination s' = mBladeIpv4Address (lp_mMuxPortConfig s)" and "mSockFilterPtr s' = mSockFilterPtr s"
proof -
  show "frame_destination s' = mBladeIpv4Address (lp_mMuxPortConfig s)"
    using assms unfolding initializeSendBuffer_def
    by (elim Let_elim bind_Some_elim) (clarsimp simp only: option.inject comp_assoc layout_defs frame_destination_basic)
  show "mSockFilterPtr s' = mSockFilterPtr s"
    using arg_cong [OF frame_rest_initializeSendBuffer [OF assms], of mSockFilterPtr] by (simp add: frame_rest_def)
qed

section \<open>What reaches the prober\<close>

lemma reachable_filter:
  assumes "prober_reachable cfg k s" and "k < 2 ^ 30"
  shows "filter_passes (mSockFilterPtr s) rx n \<longleftrightarrow> echo_reply_from (mBladeIpv4Address cfg) rx n"
proof -
  have "mSockFilterPtr s = filter_address (mBladeIpv4Address cfg) mIcmpFilter"
    using prober_reachable_inv [OF assms] by (simp add: prober_inv_def identity_ok_def)
  then show ?thesis using icmp_filter_meaning [of "mBladeIpv4Address cfg" rx n]
    by (simp add: filter_passes_def filter_address_def)
qed


text \<open>
  The filter keeps that address when the address of the server changes: then the heartbeats go to the new
  address and the replies to them are dropped.
\<close>
lemma new_address_is_not_heard:
  assumes "prober_reachable cfg k s" and "k < 2 ^ 30"
    and "mBladeIpv4Address (lp_mMuxPortConfig s) \<noteq> mBladeIpv4Address cfg"
    and "LinkProberSw_run r DoUpdateFrame s = Some s'" and "ntohl_at rx 26 = frame_destination s'"
  shows "\<not> filter_passes (mSockFilterPtr s') rx n"
  using initializeSendBuffer_address [of r s s'] assms(3-) reachable_filter [OF assms(1,2), of rx n]
  by (simp add: echo_reply_from_def)

definition sample_reply :: buffer where
  "sample_reply = put_bytes 12 [0x08, 0x00, 0x45, 0, 0, 28, 0, 0, 0, 0, 64, 1, 0, 0, 0xC0, 0xA8, 0, 2, 10, 0xD4, 0x40, 0, 0, 0] (\<lambda>_. 0)"


end
