(* ===== verification/Strand_Work_Active.thy ===== *)
theory Strand_Work_Active
  imports Strand_Work Active_Active_Properties
begin

text \<open>
  The work of an active-active strand. Its handlers are weighed as those of the other manager, but for two
  things: a mode that arrives before the activation waits and is posted again, and the handler of the periodic
  probe starts its own timer again whatever the error code, so the strand comes to rest only because
  there is never more than one of it.
\<close>

section \<open>The periodic probe\<close>

fun is_resync :: "task \<Rightarrow> bool" where
  "is_resync (TaskTimer ResyncTimer ec) = True"
| "is_resync _ = False"

text \<open>Whether the port is activated, whether its periodic timer runs, and the handlers of that timer in the queue.\<close>

definition resync_view :: "aa_state \<Rightarrow> bool \<times> bool \<times> task list" where
  "resync_view s = (component_all s, tm_pending (timers s ResyncTimer), filter is_resync (tasks s))"

text \<open>At any time there is none before the activation and exactly one, running or queued, afterwards.\<close>

definition resync_ok :: "aa_state \<Rightarrow> bool" where
  "resync_ok s \<longleftrightarrow> resync_view s \<in> {(False, False, []), (True, True, []), (True, False, [TaskTimer ResyncTimer Success])}"

lemma resync_view_base [simp]:
  "filter is_resync ts = [] \<Longrightarrow> resync_view (post_tasks ts s) = resync_view s"
  "resync_view (emit x s) = resync_view s"
  "i \<noteq> ResyncTimer \<Longrightarrow> resync_view (cancel_timer i s) = resync_view s"
  "i \<noteq> ResyncTimer \<Longrightarrow> resync_view (start_timer i d s) = resync_view s"
  "resync_view (s\<lparr>now_ms := x1\<rparr>) = resync_view s"
  "resync_view (s\<lparr>mCompositeState := x2\<rparr>) = resync_view s"
  "resync_view (s\<lparr>mLinkProberStateMachinePtr := x3\<rparr>) = resync_view s"
  "resync_view (s\<lparr>mLinkProberPtr := x4\<rparr>) = resync_view s"
  "resync_view (s\<lparr>mMuxStateMachine := x5\<rparr>) = resync_view s"
  "resync_view (s\<lparr>mLinkStateMachine := x6\<rparr>) = resync_view s"
  "resync_view (s\<lparr>mLabel := x7\<rparr>) = resync_view s"
  "resync_view (s\<lparr>mDefaultRouteState := x8\<rparr>) = resync_view s"
  "resync_view (s\<lparr>mMuxPortConfig := cfg\<rparr>) = resync_view s"
proof -
  show c: "resync_view (cancel_timer i s) = resync_view s" if "i \<noteq> ResyncTimer" for i s
    using that by (cases i) (simp_all add: resync_view_def cancel_timer_def post_tasks_def component_all_def)
  show "resync_view (start_timer i d s) = resync_view s" if "i \<noteq> ResyncTimer"
  proof -
    have "resync_view (start_timer i d s) = resync_view (cancel_timer i s)"
      using that by (simp add: resync_view_def start_timer_def Let_def component_all_def)
    then show ?thesis using c [OF that] by simp
  qed
qed (simp_all add: resync_view_def post_tasks_def component_all_def emit_def)

lemma resync_view_update [simp]:
  "resync_view (s\<lparr>mPeerLinkProberState := x1\<rparr>) = resync_view s"
  "resync_view (s\<lparr>mPeerMuxState := x2\<rparr>) = resync_view s"
  "resync_view (s\<lparr>mLastSetPeerMuxState := x3\<rparr>) = resync_view s"
  "resync_view (s\<lparr>mLastMuxStateNotification := x4\<rparr>) = resync_view s"
  "resync_view (s\<lparr>mLastMuxProbeNotification := x5\<rparr>) = resync_view s"
  "resync_view (s\<lparr>mLastMuxNotificationType := x6\<rparr>) = resync_view s"
  "resync_view (s\<lparr>mMuxProbeBackoffFactor := x7\<rparr>) = resync_view s"
  "resync_view (s\<lparr>mWaitMux := x8\<rparr>) = resync_view s"
  "resync_view (s\<lparr>mWaitStateMachineInit := x9\<rparr>) = resync_view s"
  "resync_view (s\<lparr>aa_mContinuousLinkProberUnknownEvent := x10\<rparr>) = resync_view s"
  by (simp_all add: resync_view_def component_all_def)

lemma resync_view_ops [simp]:
  "resync_view (AA_probeMuxState s) = resync_view s" "resync_view (AA_startMuxProbeTimer s) = resync_view s"
  "resync_view (AA_startMuxWaitTimer f s) = resync_view s" "resync_view (AA_stopWaitMux s) = resync_view s"
  "resync_view (AA_setWaitStateCause w s) = resync_view s" "resync_view (AA_updateMuxLinkmgrState s) = resync_view s"
  "resync_view (AA_enterPeerMuxState l s) = resync_view s" "resync_view (AA_enterPeerLinkProberState l' s) = resync_view s"
  "resync_view (AA_initPeerLinkProberState s) = resync_view s" "resync_view (AA_switchPeerMuxState l s) = resync_view s"
  "resync_view (fst (AA_enterLinkProberState k s d)) = resync_view s" "resync_view (fst (AA_enterMuxState l s d)) = resync_view s"
  "resync_view (fst (AA_enterLinkState j s d)) = resync_view s" "resync_view (fst (AA_initLinkProberState s d)) = resync_view s"
  "resync_view (AA_notify_all s) = resync_view s" "resync_view (AA_commit r) = resync_view (fst r)"
  by (simp_all add: AA_probeMuxState_def AA_startMuxProbeTimer_def AA_startMuxWaitTimer_def AA_startWaitMux_def AA_stopWaitMux_def
      AA_setWaitStateCause_def Let_def AA_setLabel_def AA_updateMuxLinkmgrState_def AA_enterPeerMuxState_def
      AA_enterPeerLinkProberState_def AA_initPeerLinkProberState_def AA_switchPeerMuxState_def
      AA_enterLinkProberState_def AA_enterMuxState_def AA_enterLinkState_def AA_initLinkProberState_def
      AA_notify_all_def AA_startPeerMuxWaitTimer_def AA_commit_def filter_empty_conv split: mux_label.splits)

abbreviation resync_kept :: "bool \<times> bool \<times> task list \<Rightarrow> aa_state \<Rightarrow> bool" where
  "resync_kept v s \<equiv> resync_view s = v"

lemma resync_prober_call: "resync_kept v s \<Longrightarrow> ok False (resync_kept v) (prober_call x s)"
  by (simp add: prober_call_def)

lemma resync_shutdown: "resync_kept v s \<Longrightarrow> ok False (resync_kept v) (AA_shutdownOrRestartLinkProberOnDefaultRoute s)"
  by (simp add: AA_shutdownOrRestartLinkProberOnDefaultRoute_def prober_call_def)

lemma resync_switch: "resync_kept v s \<Longrightarrow> ok False (\<lambda>r. resync_kept v (fst r)) (AA_switchMuxState l force s d)"
  by (auto simp: AA_switchMuxState_def Let_def ok_rules split_def prober_call_def)

lemma resync_transition:
  assumes "resync_kept v s"
  shows "ok False (\<lambda>r. resync_kept v (fst r)) (AA_transition s d)"
  unfolding AA_transition_def
  by (cases "(ps d, ms d, ls d)" rule: AA_mStateTransitionHandler.cases)
    (use assms in \<open>auto simp: AA_transition_defs intro!: resync_switch [THEN ok_mono]\<close>)

lemmas resync_okI =
  resync_prober_call [THEN ok_mono] resync_shutdown [THEN ok_mono] resync_switch [THEN ok_mono] resync_transition [THEN ok_mono]

lemma resync_config: "resync_kept v s \<Longrightarrow> ok False (resync_kept v) (AA_handleMuxConfigNotification m s)"
  by (auto simp: AA_handleMuxConfigNotification_def Let_def ok_rules split_def intro!: resync_okI [where v = v])

lemma resync_changes:
  assumes "resync_kept v s"
  shows "ok False (resync_kept v) (AA_handleStateChange_prober l s)"
    "ok False (resync_kept v) (AA_handleStateChange_mux l' s)" "ok False (resync_kept v) (AA_handleStateChange_link k s)"
    "ok False (resync_kept v) (AA_handlePeerStateChange l s)"
  using assms
  by (auto simp: AA_handleStateChange_prober_def AA_handleStateChange_mux_def AA_handleStateChange_link_def
      AA_handlePeerStateChange_def Let_def
      ok_rules split_def intro!: resync_okI [where v = v] split: prober_label.splits)

lemma resync_requests:
  assumes "resync_kept v s"
  shows "ok False (resync_kept v) (AA_handleGetServerMacAddressNotification a s)"
    "ok False (resync_kept v) (AA_handleUseWellKnownMacAddressNotification s)"
    "ok False (resync_kept v) (LinkManagerStateMachineBase_handleSrcMacConfigNotification s)"
    "ok False (resync_kept v) (AA_handlePeerMuxStateNotification l s)"
    "ok False (resync_kept v) (AA_handleProbeMuxFailure s)"
    "ok False (resync_kept v) (AA_handleDefaultRouteStateNotification r s)"
    "ok False (resync_kept v) (AA_handlePostPckLossRatioNotification x y s)"
    "ok False (resync_kept v) (AA_handleResetLinkProberPckLossCount s)"
    "ok False (resync_kept v) (AA_updateLinkFailureDetectionState st ty s)"
    "ok False (resync_kept v) (AA_handleSuspendTimerExpiry s)"
    "ok False (resync_kept v) (AA_handleMuxProbeRequestEvent s)"
    "ok False (resync_kept v) (AA_handleMuxProbeTimeout ec s)"
    "ok False (resync_kept v) (AA_handleMuxWaitTimeout ec s)"
    "ok False (resync_kept v) (AA_handlePeerMuxWaitTimeout ec s)"
    "ok False (resync_kept v) (LinkManagerStateMachineBase_noop_handler s)"
  using assms
  by (auto simp: AA_handleGetServerMacAddressNotification_def AA_handleUseWellKnownMacAddressNotification_def
      LinkManagerStateMachineBase_handleSrcMacConfigNotification_def LinkManagerStateMachineBase_noop_handler_def
      AA_handlePeerMuxStateNotification_def AA_handleProbeMuxFailure_def AA_handleDefaultRouteStateNotification_def
      AA_handlePostPckLossRatioNotification_def AA_handleResetLinkProberPckLossCount_def
      AA_updateLinkFailureDetectionState_def AA_handleSuspendTimerExpiry_def AA_handleMuxProbeRequestEvent_def
      AA_handleMuxProbeTimeout_def AA_handleMuxWaitTimeout_def AA_handlePeerMuxWaitTimeout_def Let_def ok_rules split_def
      intro!: resync_okI [where v = v])

lemma resync_view_events [simp]:
  "resync_view (LinkManagerStateMachineBase_postMuxStateEvent l s) = resync_view s"
  "resync_view (process_mux_event e s) = resync_view s" "resync_view (process_link_event e' s) = resync_view s"
  "resync_view (AA_process_prober_event e'' s) = resync_view s"
proof -
  have "filter is_resync (snd (LinkProberStateMachineActiveActive_processEvent cfg e m)) = []" for cfg e m
    by (cases "(cfg, e, m)" rule: LinkProberStateMachineActiveActive_processEvent.cases)
      (auto simp: filter_empty_conv split: prod.splits)
  then show "resync_view (AA_process_prober_event e'' s) = resync_view s"
    by (simp add: AA_process_prober_event_def split_def)
qed (auto simp: LinkManagerStateMachineBase_postMuxStateEvent_def process_mux_event_def process_link_event_def filter_empty_conv
    split: mux_label.split prod.split)

text \<open>The activation starts the timer; it happens in the handler that sets the last component.\<close>

lemma resync_start:
  "resync_view s = (b, False, []) \<Longrightarrow> resync_view (AA_startAdminForwardingStateSyncUpTimer s) = (b, True, [])"
  by (simp add: resync_view_def AA_startAdminForwardingStateSyncUpTimer_def start_timer_def cancel_timer_def component_all_def Let_def)

lemma resync_activate:
  assumes "resync_view s = (b, False, [])"
  shows "ok False resync_ok (AA_activateStateMachine s)"
proof -
  have b: "component_all s = b" using assms by (simp add: resync_view_def)
  show ?thesis
    using assms b resync_start
    by (auto simp: AA_activateStateMachine_def Let_def ok_rules resync_ok_def
        intro!: resync_okI [where v = "(True, False, [])"])
qed

lemma component_all_update [simp]:
  "component_all (s\<lparr>mLastMuxStateNotification := x1\<rparr>) = component_all s"
  "component_all (s\<lparr>mLastMuxProbeNotification := x2\<rparr>) = component_all s"
  "component_all (s\<lparr>mLastMuxNotificationType := x3\<rparr>) = component_all s"
  "component_all (s\<lparr>mMuxProbeBackoffFactor := x7\<rparr>) = component_all s"
  by (simp_all add: component_all_def)

lemma resync_component:
  "resync_view s = (False, False, []) \<Longrightarrow> \<exists>b. resync_view (setComponentInitState q s) = (b, False, [])"
  by (simp add: resync_view_def setComponentInitState_def)

lemma resync_components:
  assumes "resync_ok s"
  shows "ok False resync_ok (AA_handleSwssSoCIpv4AddressUpdate a s)"
    "ok False resync_ok (AA_handleMuxStateNotification l s)"
    "ok False resync_ok (AA_handleProbeMuxStateNotification l s)"
    "ok False resync_ok (AA_handleSwssLinkStateNotification k s)"
proof -
  have act: "ok False resync_ok (AA_activateStateMachine (setComponentInitState q s'))"
    if "resync_view s' = resync_view s" "\<not> component_all s" for q s'
  proof -
    have "resync_view s' = (False, False, [])" using that assms by (auto simp: resync_ok_def resync_view_def)
    then show ?thesis using resync_component resync_activate by blast
  qed
  have same: "resync_ok s'" if "resync_view s' = resync_view s" for s' using assms that by (simp add: resync_ok_def)
  have call: "ok False resync_ok (prober_call x s')" if "resync_view s' = resync_view s" for x s'
    using same that by (simp add: prober_call_def)
  show "ok False resync_ok (AA_handleSwssSoCIpv4AddressUpdate a s)"
    using same by (auto simp: AA_handleSwssSoCIpv4AddressUpdate_def component_test_def component_all_def intro!: act call)
  show "ok False resync_ok (AA_handleMuxStateNotification l s)"
    using same by (auto simp: AA_handleMuxStateNotification_def AA_init_mux_component_def Let_def ok_rules prober_call_def intro!: act)
  show "ok False resync_ok (AA_handleProbeMuxStateNotification l s)"
    using same by (auto simp: AA_handleProbeMuxStateNotification_def AA_init_mux_component_def Let_def intro!: act)
  show "ok False resync_ok (AA_handleSwssLinkStateNotification k s)"
    using same by (auto simp: AA_handleSwssLinkStateNotification_def split: link_label.split intro!: act)
qed

text \<open>A handler keeps it, but for that of the timer, which turns the one handler into the one running timer.\<close>

lemma resync_run:
  assumes "resync_ok s" and "\<not> is_resync t"
  shows "ok False resync_ok (AA_run t s)"
proof -
  have same: "resync_ok s'" if "resync_view s' = resync_view s" for s' using assms(1) that by (simp add: resync_ok_def)
  have keep: "ok False resync_ok r" if "ok False (resync_kept (resync_view s)) r" for r
    using that assms(1) by (cases r) (auto simp: resync_ok_def)
  show ?thesis
    using assms(2)
    by (cases "(t, s)" rule: AA_run.cases)
      (auto intro: resync_components [OF assms(1)] resync_config [OF refl, THEN keep] resync_changes [OF refl, THEN keep]
        resync_requests [OF refl, THEN keep] same)
qed

lemma resync_view_take:
  assumes "i < length (tasks s)"
  shows "\<not> is_resync (tasks s ! i) \<Longrightarrow> resync_view (take_task i s) = resync_view s"
    and "is_resync (tasks s ! i) \<Longrightarrow> resync_ok s \<Longrightarrow>
      tasks s ! i = TaskTimer ResyncTimer Success \<and> resync_view (take_task i s) = (True, False, [])"
proof -
  have "filter is_resync (tasks s) = filter is_resync (take i (tasks s) @ tasks s ! i # drop (Suc i) (tasks s))"
    by (simp only: id_take_nth_drop [OF assms, symmetric])
  then have f: "filter is_resync (tasks s) = filter is_resync (take i (tasks s)) @
      (if is_resync (tasks s ! i) then [tasks s ! i] else []) @ filter is_resync (drop (Suc i) (tasks s))" by simp
  show "\<not> is_resync (tasks s ! i) \<Longrightarrow> resync_view (take_task i s) = resync_view s"
    using f by (simp add: resync_view_def take_task_def component_all_def)
  show "is_resync (tasks s ! i) \<Longrightarrow> resync_ok s \<Longrightarrow>
      tasks s ! i = TaskTimer ResyncTimer Success \<and> resync_view (take_task i s) = (True, False, [])"
    using f by (auto simp: resync_ok_def resync_view_def take_task_def component_all_def append_eq_Cons_conv)
qed

lemma resync_ok_run:
  assumes "resync_ok s" and "i < length (tasks s)" and "AA_run (tasks s ! i) (take_task i s) = Some s'"
  shows "resync_ok s'"
proof (cases "is_resync (tasks s ! i)")
  case True
  note t = resync_view_take(2) [OF assms(2) True assms(1)]
  then have "resync_view s' = (True, True, [])"
    using assms(3) resync_start [of _ True] by (auto simp: AA_handleAdminForwardingStateSyncUp_def Let_def)
  then show ?thesis by (simp add: resync_ok_def)
next
  case False
  have "resync_ok (take_task i s)" using assms(1) resync_view_take(1) [OF assms(2) False] by (simp add: resync_ok_def)
  from resync_run [OF this False] assms(3) show ?thesis by simp
qed

lemma resync_ok_step: "port_step AA_run s s' \<Longrightarrow> resync_ok s \<Longrightarrow> resync_ok s'"
proof (induction rule: port_step.induct)
  case (step_notify t s)
  then have "filter is_resync [t] = []" by (cases t rule: is_resync.cases) auto
  with step_notify show ?case by (simp add: resync_ok_def)
next
  case (step_run i s s')
  from resync_ok_run [OF step_run(3,1,2)] show ?case .
next
  case (step_timer i s)
  then show ?case
    by (cases "i = ResyncTimer"; cases i)
      (auto simp: resync_ok_def resync_view_def timer_due_def fire_timer_def post_tasks_def component_all_def)
qed (simp_all add: resync_ok_def)

lemma AA_reachable_resync: "AA_reachable cfg s \<Longrightarrow> resync_ok s"
proof (induction rule: port_reachable.induct)
  case reach_start
  show ?case by (simp add: resync_ok_def resync_view_def ActiveActiveStateMachine_new_def component_all_def)
next
  case (reach_step s s')
  then show ?case using resync_ok_step by blast
qed

section \<open>The load of a strand\<close>

fun is_config :: "task \<Rightarrow> bool" where
  "is_config (TaskMuxConfig m) = True"
| "is_config _ = False"

text \<open>A mode that waits for the activation weighs more than its task then, and less than its task before.\<close>

definition AA_load :: "aa_state \<Rightarrow> nat" where
  "AA_load s = work (tasks s) + (if component_all s then 0 else 14 * length (filter is_config (tasks s))) +
     13 * length (mWaitStateMachineInit s)"

definition AA_budget :: "nat \<Rightarrow> aa_state \<Rightarrow> bool" where
  "AA_budget b s \<longleftrightarrow> AA_load s \<le> b"

lemma AA_budget_weaken: "AA_budget b s \<Longrightarrow> AA_budget (Suc b) s"
  by (simp add: AA_budget_def)

lemma AA_budget_mono: "AA_budget b s \<Longrightarrow> b \<le> c \<Longrightarrow> AA_budget c s"
  by (simp add: AA_budget_def)

lemma AA_load_post: "filter is_config ts = [] \<Longrightarrow> AA_load (post_tasks ts s) = AA_load s + work ts"
  by (simp add: AA_load_def post_tasks_def component_all_def)

lemma AA_budget_base [simp]:
  "AA_budget b (emit x s) = AA_budget b s"
  "AA_budget b (s\<lparr>now_ms := x1\<rparr>) = AA_budget b s"
  "AA_budget b (s\<lparr>mCompositeState := x2\<rparr>) = AA_budget b s"
  "AA_budget b (s\<lparr>mLinkProberStateMachinePtr := x3\<rparr>) = AA_budget b s"
  "AA_budget b (s\<lparr>mLinkProberPtr := x4\<rparr>) = AA_budget b s"
  "AA_budget b (s\<lparr>mMuxStateMachine := x5\<rparr>) = AA_budget b s"
  "AA_budget b (s\<lparr>mLinkStateMachine := x6\<rparr>) = AA_budget b s"
  "AA_budget b (s\<lparr>mLabel := x7\<rparr>) = AA_budget b s"
  "AA_budget b (s\<lparr>mDefaultRouteState := x9\<rparr>) = AA_budget b s"
  "AA_budget b (s\<lparr>mMuxPortConfig := cfg\<rparr>) = AA_budget b s"
  "AA_budget b (s\<lparr>timers := y\<rparr>) = AA_budget b s"
  by (simp_all add: AA_budget_def AA_load_def component_all_def emit_def)

lemma AA_budget_update [simp]:
  "AA_budget b (s\<lparr>mPeerLinkProberState := x1\<rparr>) = AA_budget b s"
  "AA_budget b (s\<lparr>mPeerMuxState := x2\<rparr>) = AA_budget b s"
  "AA_budget b (s\<lparr>mLastSetPeerMuxState := x3\<rparr>) = AA_budget b s"
  "AA_budget b (s\<lparr>mLastMuxStateNotification := x4\<rparr>) = AA_budget b s"
  "AA_budget b (s\<lparr>mLastMuxProbeNotification := x5\<rparr>) = AA_budget b s"
  "AA_budget b (s\<lparr>mLastMuxNotificationType := x6\<rparr>) = AA_budget b s"
  "AA_budget b (s\<lparr>mMuxProbeBackoffFactor := x7\<rparr>) = AA_budget b s"
  "AA_budget b (s\<lparr>mWaitMux := x8\<rparr>) = AA_budget b s"
  "AA_budget b (s\<lparr>aa_mContinuousLinkProberUnknownEvent := x10\<rparr>) = AA_budget b s"
  by (simp_all add: AA_budget_def AA_load_def component_all_def)

lemma AA_budget_timers:
  assumes "AA_budget b s"
  shows "AA_budget (Suc b) (cancel_timer i s)" "AA_budget (Suc b) (start_timer i d s)"
proof -
  show c: "AA_budget (Suc b) (cancel_timer i s)"
    using assms by (auto simp: cancel_timer_def AA_budget_def AA_load_post) (auto simp: AA_load_def component_all_def split: if_splits)
  then show "AA_budget (Suc b) (start_timer i d s)" by (simp add: start_timer_def Let_def)
qed

lemma AA_budget_component: "AA_budget b s \<Longrightarrow> AA_budget b (setComponentInitState q s)"
  by (auto simp: AA_budget_def AA_load_def setComponentInitState_def component_all_def)

lemma AA_budget_notify: "AA_budget b s \<Longrightarrow> component_all s \<Longrightarrow> AA_budget b (AA_notify_all s)"
proof -
  have "work (map TaskMuxConfig ms) = 12 * length ms" for ms by (induction ms) simp_all
  then show "AA_budget b s \<Longrightarrow> component_all s \<Longrightarrow> AA_budget b (AA_notify_all s)"
    by (simp add: AA_notify_all_def AA_budget_def AA_load_def post_tasks_def component_all_def)
qed

lemma AA_budget_ops:
  assumes "AA_budget b s"
  shows "AA_budget (Suc b) (AA_probeMuxState s)" "AA_budget (Suc (Suc b)) (AA_startMuxProbeTimer s)"
    "AA_budget (Suc b) (AA_startMuxWaitTimer f s)" "AA_budget (Suc b) (AA_startAdminForwardingStateSyncUpTimer s)"
    "AA_budget (Suc b) (AA_switchPeerMuxState l s)"
proof -
  show p: "AA_budget (Suc b) (AA_probeMuxState s)" "AA_budget (Suc b) (AA_startMuxWaitTimer f s)"
    "AA_budget (Suc b) (AA_startAdminForwardingStateSyncUpTimer s)" "AA_budget (Suc b) (AA_switchPeerMuxState l s)"
    using assms by (simp_all add: AA_probeMuxState_def AA_startMuxWaitTimer_def AA_startWaitMux_def AA_setWaitStateCause_def
        AA_startAdminForwardingStateSyncUpTimer_def AA_switchPeerMuxState_def AA_startPeerMuxWaitTimer_def AA_enterPeerMuxState_def
        AA_budget_timers AA_budget_weaken)
  show "AA_budget (Suc (Suc b)) (AA_startMuxProbeTimer s)"
    using p(1) by (simp add: AA_startMuxProbeTimer_def AA_startWaitMux_def Let_def AA_budget_timers)
qed

lemma AA_budget_free [simp]:
  "AA_budget b (AA_stopWaitMux s) = AA_budget b s" "AA_budget b (AA_setWaitStateCause w s) = AA_budget b s"
  "AA_budget b (AA_updateMuxLinkmgrState s) = AA_budget b s" "AA_budget b (AA_enterPeerMuxState l s) = AA_budget b s"
  "AA_budget b (AA_enterPeerLinkProberState l' s) = AA_budget b s" "AA_budget b (AA_initPeerLinkProberState s) = AA_budget b s"
  "AA_budget b (fst (AA_enterLinkProberState k s d)) = AA_budget b s" "AA_budget b (fst (AA_enterMuxState l s d)) = AA_budget b s"
  "AA_budget b (fst (AA_enterLinkState j s d)) = AA_budget b s" "AA_budget b (fst (AA_initLinkProberState s d)) = AA_budget b s"
  "AA_budget b (AA_commit r) = AA_budget b (fst r)"
  by (simp_all add: AA_stopWaitMux_def AA_setWaitStateCause_def AA_setLabel_def AA_updateMuxLinkmgrState_def AA_enterPeerMuxState_def
      AA_enterPeerLinkProberState_def AA_initPeerLinkProberState_def AA_enterLinkProberState_def AA_enterMuxState_def AA_enterLinkState_def
      AA_initLinkProberState_def AA_commit_def Let_def split: mux_label.splits)

lemma AA_budget_switch: "AA_budget b s \<Longrightarrow> ok False (\<lambda>r. AA_budget (Suc (Suc b)) (fst r)) (AA_switchMuxState l force s d)"
  by (auto simp: AA_switchMuxState_def Let_def ok_rules split_def prober_call_def AA_budget_weaken AA_budget_ops AA_budget_timers)

lemma AA_budget_shutdown: "AA_budget b s \<Longrightarrow> ok False (AA_budget b) (AA_shutdownOrRestartLinkProberOnDefaultRoute s)"
  by (simp add: AA_shutdownOrRestartLinkProberOnDefaultRoute_def prober_call_def)

lemma AA_budget_transition:
  assumes "AA_budget b s"
  shows "ok False (\<lambda>r. AA_budget (Suc (Suc (Suc b))) (fst r)) (AA_transition s d)"
  unfolding AA_transition_def
  by (cases "(ps d, ms d, ls d)" rule: AA_mStateTransitionHandler.cases)
    (use assms in \<open>auto simp: AA_transition_defs AA_budget_ops AA_budget_weaken intro!: AA_budget_switch [where b = b, THEN ok_mono]\<close>)

lemma AA_budget_activate: "AA_budget b s \<Longrightarrow> ok False (AA_budget (Suc b)) (AA_activateStateMachine s)"
proof -
  have n: "AA_budget (Suc b) (AA_notify_all (AA_startAdminForwardingStateSyncUpTimer s'))"
    if "AA_budget b s'" "component_all s'" for s'
    using that by (intro AA_budget_notify AA_budget_ops) (simp_all add: AA_startAdminForwardingStateSyncUpTimer_def)
  assume b: "AA_budget b s"
  have all: "component_all (AA_commit (AA_initLinkProberState s d)) = component_all s" for d
    by (simp add: AA_commit_def AA_initLinkProberState_def AA_enterLinkProberState_def split: mux_label.split)
  have label: "component_all (AA_updateMuxLinkmgrState s') = component_all s'" for s'
    by (simp add: AA_updateMuxLinkmgrState_def AA_setLabel_def Let_def)
  show "ok False (AA_budget (Suc b)) (AA_activateStateMachine s)"
    using b by (auto simp: AA_activateStateMachine_def Let_def ok_rules prober_call_def
        AA_shutdownOrRestartLinkProberOnDefaultRoute_def all label AA_budget_weaken intro!: n)
qed

lemma AA_budget_init_mux: "AA_budget b s \<Longrightarrow> ok False (AA_budget (Suc (Suc b))) (AA_init_mux_component l s)"
  using AA_budget_ops(1) [of b s] AA_budget_weaken [of b s]
  by (auto simp: AA_init_mux_component_def Let_def intro!: AA_budget_activate AA_budget_component)

lemma AA_budget_changes:
  assumes "AA_budget b s"
  shows "ok False (AA_budget (b + 3)) (AA_handleStateChange_prober l s)"
    "ok False (AA_budget (b + 3)) (AA_handleStateChange_mux l' s)" "ok False (AA_budget (b + 3)) (AA_handleStateChange_link k s)"
    "ok False (AA_budget (b + 3)) (AA_handlePeerStateChange l s)"
  using assms
  by (auto simp: AA_handleStateChange_prober_def AA_handleStateChange_mux_def AA_handleStateChange_link_def
      AA_handlePeerStateChange_def Let_def eval_nat_numeral
      ok_rules split_def AA_budget_weaken AA_budget_ops intro!: AA_budget_transition [where b = b, THEN ok_mono]
      AA_budget_switch [where b = b, THEN ok_mono] split: prober_label.splits)

lemma AA_budget_config:
  assumes "AA_budget b s" and "component_all s"
  shows "ok False (AA_budget (b + 3)) (AA_handleMuxConfigNotification m s)"
  using assms
  by (auto simp: AA_handleMuxConfigNotification_def Let_def ok_rules split_def eval_nat_numeral AA_budget_weaken AA_budget_ops
      intro!: AA_budget_shutdown AA_budget_transition [where b = b, THEN ok_mono] AA_budget_switch [where b = b, THEN ok_mono])

lemma AA_load_waiting:
  assumes "\<not> component_all s" and "AA_handleMuxConfigNotification m s = Some s'"
  shows "AA_load s' = AA_load s + 13"
  using assms by (simp add: AA_handleMuxConfigNotification_def AA_shutdownOrRestartLinkProberOnDefaultRoute_def Let_def)
    (auto simp: AA_load_def component_all_def)

lemma AA_budget_event:
  assumes "AA_budget b s"
  shows "AA_budget (b + 9) (LinkManagerStateMachineBase_postMuxStateEvent l s)"
    "AA_budget (b + 8) (process_mux_event e s)" "AA_budget (b + 8) (process_link_event e' s)" "AA_budget (b + 8) (AA_process_prober_event e'' s)"
proof -
  have post: "AA_budget (b + k) (post_tasks ts s')" if "AA_budget b s'" "filter is_config ts = []" "work ts \<le> k" for k ts s'
    using that by (simp add: AA_budget_def AA_load_post)
  show "AA_budget (b + 9) (LinkManagerStateMachineBase_postMuxStateEvent l s)"
    using assms AA_budget_mono [OF assms, of "b + 9"]
    by (auto simp: LinkManagerStateMachineBase_postMuxStateEvent_def split: mux_label.split intro!: post)
  show "AA_budget (b + 8) (process_mux_event e s)"
    using assms by (auto simp: process_mux_event_def MuxStateMachine_processEvent_def split: prod.split intro!: post)
  show "AA_budget (b + 8) (process_link_event e' s)"
    using assms by (auto simp: process_link_event_def LinkStateMachine_processEvent_def split: prod.split intro!: post)
  have "filter is_config (snd (LinkProberStateMachineActiveActive_processEvent cfg e m)) = [] \<and>
      work (snd (LinkProberStateMachineActiveActive_processEvent cfg e m)) \<le> 8" for cfg e m
    by (cases "(cfg, e, m)" rule: LinkProberStateMachineActiveActive_processEvent.cases)
      (auto simp: LinkProberStateMachineBase_processEvent_def LinkProberStateMachineActiveActive_processPeerEvent_def
        split: prod.splits option.splits)
  then show "AA_budget (b + 8) (AA_process_prober_event e'' s)"
    using assms by (auto simp: AA_process_prober_event_def split_def intro!: post)
qed

lemma AA_budget_notifications:
  assumes "AA_budget b s"
  shows "ok False (AA_budget (Suc b)) (AA_handleSwssSoCIpv4AddressUpdate a s)"
    "ok False (AA_budget (b + 10)) (AA_handleMuxStateNotification l s)"
    "ok False (AA_budget (b + 11)) (AA_handleProbeMuxStateNotification l s)"
    "ok False (AA_budget (b + 9)) (AA_handleSwssLinkStateNotification k s)"
    "ok False (AA_budget (b + 2)) (AA_handleDefaultRouteStateNotification r s)"
proof -
  have c: "AA_budget (Suc b) (cancel_timer WaitTimer s)" using assms by (rule AA_budget_timers)
  have two: "AA_budget (Suc (Suc b)) (cancel_timer DeadlineTimer s')" if "AA_budget (Suc b) s'" for s'
    using that by (rule AA_budget_timers)
  have up: "AA_budget (b + 11) s'" if "AA_budget (Suc (Suc b)) s'" for s' using that by (rule AA_budget_mono) simp
  have e: "AA_budget (b + 10) (LinkManagerStateMachineBase_postMuxStateEvent l s')" if "AA_budget (Suc b) s'" for s' l
    using AA_budget_event(1) [OF that] by (simp add: eval_nat_numeral)
  have e2: "AA_budget (b + 11) (LinkManagerStateMachineBase_postMuxStateEvent l s')" if "AA_budget (Suc (Suc b)) s'" for s' l
    using AA_budget_event(1) [OF that] by (simp add: eval_nat_numeral)
  have init: "ok False (AA_budget (b + 10)) (AA_init_mux_component l s')" if "AA_budget (Suc b) s'" for s' l
    using AA_budget_init_mux [OF that] by (rule ok_mono) (erule AA_budget_mono, simp)
  have init2: "ok False (AA_budget (b + 11)) (AA_init_mux_component l s')" if "AA_budget (Suc (Suc b)) s'" for s' l
    using AA_budget_init_mux [OF that] by (rule ok_mono) (erule AA_budget_mono, simp)
  show "ok False (AA_budget (Suc b)) (AA_handleSwssSoCIpv4AddressUpdate a s)"
    using assms AA_budget_weaken [OF assms]
    by (auto simp: AA_handleSwssSoCIpv4AddressUpdate_def prober_call_def intro!: AA_budget_activate AA_budget_component)
  show "ok False (AA_budget (b + 10)) (AA_handleMuxStateNotification l s)"
    using c by (auto simp: AA_handleMuxStateNotification_def Let_def ok_rules prober_call_def e intro!: init)
  show "ok False (AA_budget (b + 11)) (AA_handleProbeMuxStateNotification l s)"
    using c AA_budget_weaken [OF assms] AA_budget_weaken [OF c] AA_budget_timers(1) [of b _ WaitTimer] assms
    by (auto simp: AA_handleProbeMuxStateNotification_def Let_def e2 two AA_budget_weaken intro!: init2)
  show "ok False (AA_budget (b + 9)) (AA_handleSwssLinkStateNotification k s)"
    using assms AA_budget_activate [THEN ok_mono, OF _ AA_budget_mono [OF _, of "Suc b" _ "b + 9"]]
    by (auto simp: AA_handleSwssLinkStateNotification_def AA_budget_def [of _ "post_tasks _ _"] AA_load_post AA_budget_def [of b s]
        intro!: AA_budget_activate [THEN ok_mono, OF AA_budget_component] AA_budget_mono [of "Suc b" _ "b + 9"] split: link_label.split)
  show "ok False (AA_budget (b + 2)) (AA_handleDefaultRouteStateNotification r s)"
    using assms by (auto simp: AA_handleDefaultRouteStateNotification_def AA_shutdownOrRestartLinkProberOnDefaultRoute_def
        Let_def ok_rules prober_call_def eval_nat_numeral AA_budget_weaken intro!: AA_budget_switch [where b = b, THEN ok_mono])
qed

lemma AA_budget_requests:
  assumes "AA_budget b s"
  shows "ok False (AA_budget b) (AA_handleGetServerMacAddressNotification a s)"
    "ok False (AA_budget b) (AA_handleUseWellKnownMacAddressNotification s)"
    "ok False (AA_budget b) (LinkManagerStateMachineBase_handleSrcMacConfigNotification s)"
    "ok False (AA_budget (Suc b)) (AA_handlePeerMuxStateNotification l s)"
    "ok False (AA_budget (Suc b)) (AA_handleProbeMuxFailure s)"
    "ok False (AA_budget b) (AA_handlePostPckLossRatioNotification x y s)"
    "ok False (AA_budget b) (AA_handleResetLinkProberPckLossCount s)"
    "ok False (AA_budget b) (AA_updateLinkFailureDetectionState st ty s)"
    "ok False (AA_budget b) (AA_handleSuspendTimerExpiry s)"
    "ok False (AA_budget (Suc b)) (AA_handleMuxProbeRequestEvent s)"
    "ok False (AA_budget (if ec = Success then Suc (Suc b) else b)) (AA_handleMuxProbeTimeout ec s)"
    "ok False (AA_budget b) (AA_handleMuxWaitTimeout ec s)"
    "ok False (AA_budget b) (AA_handlePeerMuxWaitTimeout ec s)"
    "ok False (AA_budget (Suc (Suc b))) (AA_handleAdminForwardingStateSyncUp ec s)"
    "ok False (AA_budget b) (LinkManagerStateMachineBase_noop_handler s)"
  using assms
  by (auto simp: AA_handleGetServerMacAddressNotification_def AA_handleUseWellKnownMacAddressNotification_def
      LinkManagerStateMachineBase_handleSrcMacConfigNotification_def LinkManagerStateMachineBase_noop_handler_def
      AA_handlePeerMuxStateNotification_def AA_handleProbeMuxFailure_def
      AA_handlePostPckLossRatioNotification_def AA_handleResetLinkProberPckLossCount_def
      AA_updateLinkFailureDetectionState_def AA_handleSuspendTimerExpiry_def AA_handleMuxProbeRequestEvent_def
      AA_handleMuxProbeTimeout_def AA_handleMuxWaitTimeout_def AA_handlePeerMuxWaitTimeout_def AA_handleAdminForwardingStateSyncUp_def
      Let_def ok_rules prober_call_def AA_budget_timers AA_budget_ops AA_budget_weaken)

text \<open>The handlers but for that of a waiting mode and that of a cancelled periodic timer.\<close>

lemma AA_budget_run:
  assumes "AA_budget b s" and "t \<noteq> TaskTimer ResyncTimer OperationAborted" and "is_config t \<Longrightarrow> component_all s"
  shows "ok False (\<lambda>s'. AA_load s' < b + weight t) (AA_run t s)"
proof -
  have low: "ok False (\<lambda>s'. AA_load s' < b + n) r" if "ok False (AA_budget c) r" "c < b + n" for c n r
    using that by (cases r) (auto simp: AA_budget_def)
  have low1: "ok False (\<lambda>s'. AA_load s' < Suc b) r" if "ok False (AA_budget c) r" "c < Suc b" for c r
    using low [of c r 1] that by simp
  have events: "AA_load (process_mux_event e s) < b + 9" "AA_load (process_link_event e' s) < b + 9"
    "AA_load (AA_process_prober_event e'' s) < b + 12" for e e' e''
    using AA_budget_event(2-4) [OF assms(1)] by (simp_all add: AA_budget_def le_less_trans [of _ "b + 8"])
  have config: "ok False (\<lambda>s'. AA_load s' < b + 12) (AA_handleMuxConfigNotification m s)" if "component_all s" for m
    by (rule low [OF AA_budget_config [OF assms(1) that]]) simp
  have ec: "ec \<noteq> OperationAborted \<longleftrightarrow> ec = Success" for ec by (cases ec) simp_all
  show ?thesis
    using assms(2,3)
    by (cases "(t, s)" rule: AA_run.cases)
      (auto simp: events config ec
        intro: AA_budget_changes [OF assms(1), THEN low] AA_budget_notifications [OF assms(1), THEN low]
          AA_budget_requests [OF assms(1), THEN low] AA_budget_requests [OF assms(1), THEN low1])
qed

lemma AA_load_take:
  assumes "i < length (tasks s)"
  shows "AA_load s = AA_load (take_task i s) + weight (tasks s ! i) + (if is_config (tasks s ! i) \<and> \<not> component_all s then 14 else 0)"
proof -
  have "filter is_config (tasks s) = filter is_config (take i (tasks s) @ tasks s ! i # drop (Suc i) (tasks s))"
    by (simp only: id_take_nth_drop [OF assms, symmetric])
  then have "length (filter is_config (tasks s)) =
      length (filter is_config (tasks (take_task i s))) + (if is_config (tasks s ! i) then 1 else 0)"
    by (simp add: take_task_def)
  then show ?thesis using work_take [OF assms] by (simp add: AA_load_def)
qed

lemma AA_load_run:
  assumes "resync_ok s" and i: "i < length (tasks s)" and run: "AA_run (tasks s ! i) (take_task i s) = Some s'"
  shows "AA_load s' < AA_load s"
proof (cases "is_config (tasks s ! i) \<and> \<not> component_all s")
  case True
  then obtain m where "tasks s ! i = TaskMuxConfig m" by (cases "tasks s ! i") auto
  then show ?thesis using AA_load_waiting [of "take_task i s" m s'] run True AA_load_take [OF i] by simp
next
  case False
  have "tasks s ! i \<noteq> TaskTimer ResyncTimer OperationAborted"
    using resync_view_take(2) [OF i _ assms(1)] by (cases "is_resync (tasks s ! i)") auto
  from AA_budget_run [of "AA_load (take_task i s)" "take_task i s", OF _ this] False run AA_load_take [OF i]
  show ?thesis by (simp add: AA_budget_def)
qed

section \<open>Every queue is worked off\<close>

interpretation AA_work: working_strand AA_run "\<lambda>s. AA_reach_inv True s \<and> resync_ok s" AA_load
proof
  fix s :: aa_state and i assume inv: "AA_reach_inv True s \<and> resync_ok s" and i: "i < length (tasks s)"
  from inv obtain s' where s': "AA_run (tasks s ! i) (take_task i s) = Some s'"
      "AA_state_inv True True (length (calls (take_task i s))) s'"
    using ok_TrueD [OF AA_run_state_inv [of True "take_task i s" "tasks s ! i"]] AA_reach_inv_take_task [OF _ i, of True] by auto
  with AA_load_run [OF _ i s'(1)] resync_ok_run [OF _ i s'(1)] inv
  show "\<exists>s'. AA_run (tasks s ! i) (take_task i s) = Some s' \<and> (AA_reach_inv True s' \<and> resync_ok s') \<and> AA_load s' < AA_load s"
    using AA_state_inv_reach by blast
qed

lemma AA_load_bound: "AA_load s \<le> 26 * length (tasks s) + 13 * length (mWaitStateMachineInit s)"
proof -
  have "14 * length (filter is_config (tasks s)) \<le> 14 * length (tasks s)" by (intro mult_le_mono2 length_filter_le)
  then show ?thesis using work_bound [of "tasks s"] unfolding AA_load_def by (cases "component_all s"; simp only: if_True if_False; linarith)
qed

text \<open>
  C9. The strand of an active-active port comes to rest: from every reachable state of a port with a prober, whichever
  queued handler runs next, no more handlers run than 26 for each one queued and 13 for each mode that waits for the
  activation, unless something new is posted from outside; and every order of the handlers goes on, without an exception,
  until the queue is empty, where the composite state is that of the three machines.
\<close>
theorem AA_strand_comes_to_rest:
  assumes "AA_reachable cfg s" and "mLinkProberPtr s \<noteq> None" and "schedule AA_run is s = Some s'"
  shows "length is \<le> 26 * length (tasks s) + 13 * length (mWaitStateMachineInit s) \<and>
    (\<exists>js s''. schedule AA_run js s' = Some s'' \<and> tasks s'' = [] \<and> mCompositeState s'' = machine_labels s'')"
proof -
  have inv: "AA_reach_inv True s'" "resync_ok s'" "length is + AA_load s' \<le> AA_load s"
    using AA_work.schedule_inv [OF _ assms(3)] AA_reachable_inv_bound [OF assms(1,2)] AA_reachable_resync [OF assms(1)] by simp_all
  from AA_work.schedule_completes [of s'] inv(1,2) obtain js s''
    where js: "schedule AA_run js s' = Some s''" "tasks s'' = []" "AA_reach_inv True s''" by blast
  have "mCompositeState s'' = machine_labels s''"
    using js(2,3) by (simp add: AA_reach_inv_def AA_state_inv_def AA_inv_def synced_quiescent quiescent_def)
  with js(1,2) inv(3) AA_load_bound [of s] show ?thesis by force
qed

lemma AA_strand_comes_to_rest_witness:
  "\<exists>s s' js s''. AA_boot 5 ModeAuto MuxActive (replicate 3 (TaskProberEvent (IcmpEvent IcmpUnknownEvent))) = Some s \<and>
     schedule AA_run [2, 1, 0] s = Some s' \<and> tasks s' = [TaskProberChange ProberUnknown] \<and>
     schedule AA_run js s' = Some s'' \<and> tasks s'' = [] \<and> mCompositeState s'' = machine_labels s''"
proof -
  let ?s = "AA_boot 5 ModeAuto MuxActive (replicate 3 (TaskProberEvent (IcmpEvent IcmpUnknownEvent)))"
  have "map_option (\<lambda>s. (mLinkProberPtr s \<noteq> None, map_option tasks (schedule AA_run [2, 1, 0] s))) ?s =
    Some (True, Some [TaskProberChange ProberUnknown])" by code_simp
  from run_result [OF this] obtain s s' where s: "?s = Some s" "mLinkProberPtr s \<noteq> None"
    "schedule AA_run [2, 1, 0] s = Some s'" "tasks s' = [TaskProberChange ProberUnknown]" by auto
  have "AA_reachable (sample_port_config CableActiveActive) s" using AA_boot_reachable [OF s(1)] by simp
  from AA_strand_comes_to_rest [OF this s(2,3)] s(1,3,4) show ?thesis by blast
qed

end
