(* ===== verification/Linkmgrd_Main.thy ===== *)
theory Linkmgrd_Main
  imports Daemon
begin

text \<open>
  The main program, \<open>LinkMgrdMain.cpp\<close>: from the command line to the running manager. The parser of
  Boost.Program_options is a parameter, as are the answer of the warm start library and what the libraries of the
  log do.
\<close>

section \<open>The command line\<close>

record program_options =
  opt_help :: bool
  opt_level :: severity_level
  opt_extraLogFile :: bool
  opt_measureSwitchover :: bool
  opt_defaultRoute :: bool
  opt_linkToSwssLogger :: bool

datatype parse_result = CommandLineSyntaxError | CommandLineError | Parsed program_options

text \<open>\<open>EXIT_SUCCESS\<close> and \<open>EXIT_FAILURE\<close>; asking for help ends in the latter.\<close>

fun parse_status :: "parse_result \<Rightarrow> program_options option" where
  "parse_status CommandLineSyntaxError = None"
| "parse_status CommandLineError = None"
| "parse_status (Parsed opts) = (if opt_help opts then None else Some opts)"

section \<open>The start\<close>

text \<open>The name behind the last slash, the whole name if there is none.\<close>

definition program_name :: "string \<Rightarrow> string" where
  "program_name execName = rev (takeWhile (\<lambda>c. c \<noteq> CHR ''/'') (rev execName))"

definition InitializeLogger ::
  "(log_sink \<Rightarrow> bool) \<Rightarrow> (string \<Rightarrow> syslog_level option) \<Rightarrow> (string \<Rightarrow> string list) \<Rightarrow> string \<Rightarrow> severity_level \<Rightarrow>
     bool \<Rightarrow> bool \<Rightarrow> mux_logger \<Rightarrow> mux_logger option" where
  "InitializeLogger fails prio_of linked execName level extraLogFile linkToSwssLogger =
     MuxLogger_initialize fails prio_of linked (''/var/log/mux/'' @ program_name execName @ ''.log'') level extraLogFile
       linkToSwssLogger"

text \<open>
  How the program goes on: it ends at once, it dies from the exception of the logger, or it enters the loop of the
  manager, with the warm start state set to initialised or not. What happens in the loop are the steps of the daemon.
\<close>

datatype program = Exit_Failure | Logger_Exception | Run bool mux_manager

definition linkmgrd_main ::
  "(log_sink \<Rightarrow> bool) \<Rightarrow> (string \<Rightarrow> syslog_level option) \<Rightarrow> (string \<Rightarrow> string list) \<Rightarrow> bool \<Rightarrow> u32 \<Rightarrow> mac_address \<Rightarrow> mac_address \<Rightarrow>
     parse_result \<Rightarrow> string \<Rightarrow> mux_logger \<Rightarrow> program" where
  "linkmgrd_main fails prio_of linked isWarmStart warmStartTimer tor vlan parsed execName log =
     (case parse_status parsed of
        None \<Rightarrow> Exit_Failure
      | Some opts \<Rightarrow>
          (case InitializeLogger fails prio_of linked execName (opt_level opts) (opt_extraLogFile opts)
                  (opt_linkToSwssLogger opts) log of
             None \<Rightarrow> Logger_Exception
           | Some log \<Rightarrow> Run isWarmStart
               (MuxManager_initialize isWarmStart warmStartTimer (opt_measureSwitchover opts) (opt_defaultRoute opts)
                 (MuxManager_new log tor vlan))))"

section \<open>What is started\<close>

text \<open>The program fails exactly for a bad command line, for help, and where a log cannot be opened.\<close>

lemma main_runs:
  "(\<exists>w m. linkmgrd_main fails prio_of linked isWarmStart t tor vlan parsed execName log = Run w m) \<longleftrightarrow>
   (\<exists>opts. parsed = Parsed opts \<and> \<not> opt_help opts \<and>
      \<not> fails (if opt_linkToSwssLogger opts then SwssSink else SyslogSink) \<and>
      \<not> (opt_extraLogFile opts \<and> fails (FileSink (''/var/log/mux/'' @ program_name execName @ ''.log''))))"
  by (cases parsed)
    (auto simp: linkmgrd_main_def InitializeLogger_def MuxLogger_initialize_def addSyslogSink_def addSwssSyslogSink_def
      addExtraLogFileSink_def add_sink_def Let_def)

text \<open>What it starts is a state of the daemon, with the features that the command line asks for and without a port.\<close>

lemma main_starts_daemon:
  assumes "linkmgrd_main fails prio_of linked isWarmStart t tor vlan (Parsed opts) execName log = Run w m"
  shows "daemon_reachable lib isWarmStart m" and "w = isWarmStart" and "mPortMap m = []"
    and "mEnableDefaultRouteFeature (mm_mMuxConfig m) = opt_defaultRoute opts"
    and "mEnableSwitchoverMeasurement (mm_mMuxConfig m) = opt_measureSwitchover opts"
proof -
  obtain log' where m: "w = isWarmStart" "m = MuxManager_enableFeatures (opt_measureSwitchover opts) (opt_defaultRoute opts)
      (MuxManager_startReconciliation isWarmStart t (MuxManager_new log' tor vlan))"
    using assms by (auto simp: linkmgrd_main_def MuxManager_initialize_def split: option.splits if_splits)
  show "daemon_reachable lib isWarmStart m"
    unfolding m(2) by (rule daemon_next [OF daemon_start daemon_features])
  show "w = isWarmStart" using m(1) .
  show "mPortMap m = []" "mEnableDefaultRouteFeature (mm_mMuxConfig m) = opt_defaultRoute opts"
    "mEnableSwitchoverMeasurement (mm_mMuxConfig m) = opt_measureSwitchover opts"
    unfolding m(2)
    by (simp_all add: MuxManager_enableFeatures_def MuxManager_startReconciliation_def
        MuxManager_startWarmRestartReconciliationTimer_def reconciliation_timer_cancel_def manager_post_def
        set_shared_config_def MuxManager_new_def Let_def)
qed

end
