(* ===== verification/Spec2Isabelle.thy ===== *)
theory Spec2Isabelle
  imports Active_Standby_Properties Active_Active_Properties Mux_Port Heartbeat_Properties Daemon_Properties Warm_Restart Strand_Work Incremental_Checksum Hardware_Properties Hardware_Port Filter_Properties Strand_Work_Active Linkmgrd_Main
begin

text \<open>
  This development models linkmgrd, the daemon that decides for every dual-ToR port of a SONiC
  switch which of the two top-of-rack switches (ToRs) forwards the traffic of a server, and proves
  what makes these decisions correct. Paths below are relative to \<open>src/src/\<close>.

  \<^bold>\<open>The program.\<close> The port manager (\<open>MuxManager\<close>) keeps a directory of ports. A thread of the data
  base interface (\<open>DbInterface\<close>) reads the configuration and the notifications of the subscribed
  tables and hands them to the manager, which creates a port when its name is first used and passes
  the notification on. A port (\<open>MuxPort\<close>) owns one link manager, a composite state machine of
  three sub-machines: the link prober (are the heartbeats of this ToR and of its peer heard?),
  the MUX (which ToR does the cable serve?) and the physical link. Every notification, timer and event is posted to the strand of the port and runs there to its
  end, one after another. A sub-machine counts consecutive events, changes its state when a retry
  count is reached and posts the new label to the manager, which looks the resulting composite
  state up in its transition table. Active-standby cables and active-active cables have managers
  of their own. The heartbeats are ICMP packets that the link prober of the port sends, receives and
  interprets; its events drive the first sub-machine. What a link manager wants written to the data bases goes back to
  \<open>DbInterface\<close>, whose own strand performs the writes.

  \<^bold>\<open>Theories, in the order of their imports.\<close>

  \<^item> \<open>Linkmgr_Prelude\<close>: machine words, the retry test and the capped doubling of backoff factors, the
    \<open>ok\<close> calculus for operations that may throw, and the interfaces \<open>retry_counter\<close>,
    \<open>event_machine\<close> and \<open>debounce\<close> of the sub-machines.

  \<^item> \<open>Port_Types\<close>: the enumerations (\<open>*/...State.h\<close>, \<open>link_manager/*.h\<close>), the tasks of the strand
    and the calls that leave it. \<open>Port_Config\<close>: \<open>common/MuxConfig.h\<close>, \<open>common/MuxPortConfig.*\<close>.

  \<^item> \<open>Link_State\<close>, \<open>Mux_State\<close>, \<open>Link_Prober_State\<close>, \<open>Link_Prober_Machine\<close>: the sub-machines of
    \<open>link_state/\<close>, \<open>mux_state/\<close> and \<open>link_prober/\<close>. Every state object keeps its counters in a
    record; \<open>handleEvent\<close> returns the next state and the changed counters, \<open>processEvent\<close> the
    machine and the labels it posts.

  \<^item> \<open>Link_Manager_Base\<close>: \<open>link_manager/LinkManagerStateMachineBase.*\<close>, with the strand. The record
    \<open>lm_base\<close> has the fields of the class and four more: \<open>tasks\<close>, the handlers posted and not yet
    run, \<open>timers\<close> and \<open>now_ms\<close>, the deadline timers and the clock, and \<open>calls\<close>, the trace of
    everything the manager asked of the data bases and of the prober. The inductive relation
    \<open>port_step\<close> gives the behaviour: a notification arrives, time passes, a due timer expires, or
    any one queued task runs; \<open>port_reachable\<close> is its closure. The locale \<open>strand_invariant\<close> turns preservation by the single tasks into invariance.

  \<^item> \<open>Active_Standby\<close>, \<open>Active_Standby_Handlers\<close>: \<open>LinkManagerStateMachineActiveStandby.*\<close>, one definition
    per method, prefixed \<open>AS_\<close>, and \<open>AS_run\<close>, which gives every task its handler.
    \<open>Active_Active\<close>, \<open>Active_Active_Handlers\<close>: the same for \<open>LinkManagerStateMachineActiveActive.*\<close>,
    prefixed \<open>AA_\<close>.

  \<^item> \<open>Port_Sync\<close>: what it means that labels are on their way between machine and manager.
    \<open>Active_Standby_Props\<close>, \<open>Active_Active_Props\<close>: the invariants of the managers, kept by every
    operation and handler, and the interpretations of \<open>strand_invariant\<close>.

  \<^item> \<open>Mux_Port\<close>: the notifications of \<open>MuxPort.cpp\<close> and the state tables of \<open>DbInterface.cpp\<close>.

  \<^item> \<open>Link_Prober_Packet\<close>: \<open>link_prober/IcmpPayload.*\<close> and the parts of \<open>LinkProberBase.cpp\<close> that lay packets
    out: checksums, TLV records, GUIDs. \<open>Socket_Filter\<close>: the BPF program of the raw socket and the machine that runs
    it. \<open>Link_Prober_Sw\<close>: the software prober, \<open>LinkProberBase.*\<close> and \<open>LinkProberSw.*\<close>,
    with its record \<open>link_prober\<close>, its strand and its timers; a read behind the receive buffer is a value of
    its own. \<open>Link_Prober_Props\<close>: its invariant. \<open>Link_Prober_Hw\<close>: the hardware prober, \<open>LinkProberHw.*\<close>, whose record holds a
    \<open>link_prober\<close> as the object of the base class and the requests it makes to the data bases; \<open>Link_Prober_Hw_Props\<close>: what
    its steps keep. \<open>Hardware_Port\<close>: an active-active port together with its hardware prober, one step relation in which the
    calls of the manager reach the prober and the reports of the prober are posted to the strand of the port. \<open>Incremental_Checksum\<close>: the checksum of a heartbeat, adjusted and computed again.

  \<^item> \<open>Strand_Work\<close>: weights of the handlers, and the locale \<open>working_strand\<close>: a strand whose handlers post less work than
    they do comes to rest; interpreted here on the active-standby manager and in \<open>Strand_Work_Active\<close> on the
    active-active manager, where the handler of the periodic probe, which starts its own timer again, needs an invariant. \<open>Port_Footprint\<close>: what no handler of a port touches or asks for.

  \<^item> \<open>Db_Interface\<close>, \<open>Db_Notification\<close>: \<open>DbInterface.*\<close> and \<open>NetMsgInterface.*\<close>, the outbound and the inbound half.
    Every request is posted to the strand of the interface and becomes a list of writes; every notification is a function from the entries
    read to an operation of the manager. \<open>Mux_Manager\<close>: \<open>MuxManager.*\<close>, with the record
    \<open>mux_manager\<close>; an operation that may throw returns a sum, with the exception on the left.

  \<^item> \<open>Mux_Logger\<close>: the level, the filter and the sinks of the log, \<open>common/MuxLogger.*\<close> and \<open>common/SwssLogBackend.*\<close>.
    \<open>Linkmgrd_Main\<close>: \<open>LinkMgrdMain.cpp\<close>, from the command line to the manager that runs.

  \<^item> \<open>Daemon\<close>: the manager, its ports, their strands and timers and the notification thread as one step relation,
    \<open>daemon_step\<close>. \<open>Daemon_Contract\<close>: the locale \<open>manager_operations\<close>, the contract between the notification thread
    and the manager; its lemmas lift an invariant from the primitive operations of the manager to every
    notification. \<open>Daemon_Props\<close> interprets it on the invariant of the directory, \<open>Warm_Restart\<close> on that of the
    reconciliation.

  \<^item> \<open>Sub_Machine_Properties\<close> (C20 to C22), \<open>Active_Standby_Properties\<close> (C1 to C8), \<open>Strand_Work_Active\<close> (C9),
    \<open>Active_Active_Properties\<close> (C10 to C19), \<open>Filter_Properties\<close> (C23), \<open>Hardware_Port\<close> (C24), \<open>Heartbeat_Properties\<close> (C28 to C33), \<open>Hardware_Properties\<close> (C25, C27, C34, C35), \<open>Daemon_Properties\<close> (C36 to C38),
    \<open>Warm_Restart\<close> (C26), \<open>Strand_Work\<close> (C39), and \<open>Incremental_Checksum\<close> (C40) state the properties.

  \<^bold>\<open>Exceptions and function pointers.\<close> The managers call the prober through \<open>boost::function\<close>
  objects that are bound together when the prober is created; calling an unbound one throws. So an
  operation that makes such a call returns an option, \<open>None\<close> is the exception, and \<open>mLinkProberPtr\<close> says
  whether the pointers are bound. C2 and C11 show that nothing throws once they are.

  \<^bold>\<open>Order.\<close> A step may run any queued task, not only the first, and a due timer may expire
  before or after any task; therefore an invariant of \<open>port_reachable\<close> holds for every order the strand
  can choose. Restarting or cancelling a timer queues its handler with the error code aborted, as
  boost does. Other threads may replace the shared configuration and the type of the prober between any two
  tasks; the other fields of a port's configuration are written by its own handlers only.

  \<^bold>\<open>Numbers.\<close> Counters have 8 bits, factors, retry counts and intervals 32 bits, as in the code.
  C7 and C19 bound the factors, \<open>large_retry_count_never_fires\<close> and \<open>timer_wait_modulo\<close> show where the widths matter.

  \<^bold>\<open>Fuel.\<close> The filter machine of \<open>Socket_Filter\<close> gets the length of the program as fuel, which is enough because the
  jumps of BPF only go forward; C23 holds of its total result. Otherwise only witnesses use fuel: \<open>settle n\<close> in
  \<open>Hardware_Port\<close> runs at most \<open>n\<close> handlers of a port, \<open>AS_boot n\<close> and \<open>AA_boot n\<close> post the start-up
  notifications of a port and run at most \<open>n\<close> queued tasks in order; the numbers chosen stop at the
  point of interest or, with 20, when the queue is empty. The results stated there show that the
  fuel was enough. C28 speaks of probers reached in fewer than \<open>2 ^ 30\<close> steps, because the running sum of the ICMP checksum
  has 32 bits and is never folded in place; at ten packets a second these are more than three years.

  \<^bold>\<open>Libraries.\<close> The tables of swss, the parsers of boost (\<open>make_address\<close>, \<open>lexical_cast\<close>,
  \<open>tokenizer\<close>), the text of an address, \<open>MacAddress\<close>, the warm start state and the neighbour messages of the kernel are parameters: the records \<open>database\<close> and
  \<open>library\<close> and arguments of the operations. No property assumes anything of them.

  \<^bold>\<open>Not modelled.\<close> The switch chip behind the hardware prober: what it reports for a session is a notification like any other. Opening and binding the raw socket of the
  prober (its filter is modelled) and opening the netlink socket; what is logged where, beyond the level and the sinks of the log; the
  parser of the command line; the texts of the exceptions.
\<close>

section \<open>The port and its data bases\<close>

text \<open>
  What is written can be read back: a MUX state written to the application data base, for
  the own or the peer's ToR, is one of active, standby and unknown, and the reader of the MUX
  state and the reader of probe answers decode it to the label that was set; the labels Error and
  Wait are never written.
\<close>
lemma written_mux_state_reads_back:
  "(case DbInterface_handleSetMuxState l of
      Some st \<Rightarrow> mux_state_of st = l \<and> probe_state_of st = l
    | None \<Rightarrow> l = MuxError \<or> l = MuxWait) \<and>
   DbInterface_handleSetPeerMuxState l = DbInterface_handleSetMuxState l"
  by (cases l) (simp_all add: db_name_defs mux_state_of_def probe_state_of_def)

text \<open>
  Every notification of the data bases is a step of the port: each handler of \<open>MuxPort\<close>
  posts one notification to the strand, so it never runs manager code itself, and an
  active-standby port ignores the detach mode.
\<close>
lemma port_notifications_are_steps:
  shows "port_step run p (MuxPort_handleBladeIpv4AddressUpdate a p) \<and>
    port_step run p (MuxPort_handleSoCIpv4AddressUpdate a p) \<and>
    port_step run p (MuxPort_updateLinkFailureDetectionState st ty p) \<and>
    port_step run p (MuxPort_handleLinkState st p) \<and> port_step run p (MuxPort_handlePeerLinkState st p) \<and>
    port_step run p (MuxPort_handleGetServerMacAddress m p) \<and>
    port_step run p (MuxPort_handleUseWellKnownMacAddress p) \<and> port_step run p (MuxPort_handleSrcMacAddressUpdate p) \<and>
    port_step run p (MuxPort_handleGetMuxState st p) \<and> port_step run p (MuxPort_handleProbeMuxState st p) \<and>
    port_step run p (MuxPort_handleMuxState st p) \<and> port_step run p (MuxPort_handlePeerMuxState st p) \<and>
    port_step run p (MuxPort_handleDefaultRouteState st p) \<and> port_step run p (MuxPort_resetPckLossCount p) \<and>
    port_step run p (MuxPort_handleTsaEnable b p) \<and> port_step run p (MuxPort_handleResetSuspendTimer p) \<and>
    (if st = ''detach'' \<and> mPortCableType (mMuxPortConfig p) = CableActiveStandby
     then MuxPort_handleMuxConfig st p = p
     else port_step run p (MuxPort_handleMuxConfig st p))"
  by (intro conjI) (simp_all add: MuxPort_defs step_notify)

text \<open>
  The waits of the probe and wait timers and of the suspension of heartbeats are products
  taken modulo \<open>2^32\<close> of the backoff factor, the retry count and the heartbeat interval; the
  configured suspend timeout has no influence on the suspension.
\<close>
lemma timer_wait_modulo:
  shows "unat (mux_timeout_msec f cfg) =
      (unat f * unat (getNegativeStateChangeRetryCount cfg) * unat (getTimeoutIpv4_msec cfg)) mod 2 ^ 32 \<and>
    unat (getLinkWaitTimeout_msec cfg) =
      ((unat (getNegativeStateChangeRetryCount cfg) + 1) * unat (getTimeoutIpv4_msec cfg)) mod 2 ^ 32 \<and>
    (getLinkWaitTimeout_msec (cfg\<lparr>mMuxConfig := setSuspendTimeout_msec t (mMuxConfig cfg)\<rparr>) = getLinkWaitTimeout_msec cfg)"
  by (simp add: mux_timeout_msec_def getLinkWaitTimeout_msec_def getSuspendTimeout_msec_def
      setSuspendTimeout_msec_def unat_word_ariths getNegativeStateChangeRetryCount_def getTimeoutIpv4_msec_def
      mod_mult_left_eq mod_mult_right_eq mod_simps)

end
